(* ===== verification/Hpke_Prelude.thy ===== *)
theory Hpke_Prelude
  imports Main "HOL-Library.Word"
begin

text \<open>
  Shared vocabulary of the development: machine words and byte strings, the outcome of a
  fallible Rust function, the slice operations of the standard library that the crate uses,
  big-endian encodings, and the lemmas about them that every component needs.

  A Rust function that returns \<open>Result<T, E>\<close> becomes a function into
  \<open>('t, 'e) outcome\<close>: \<open>Ok\<close> and \<open>Err\<close> are the two variants of
  \<open>Result\<close>, and \<open>Panic\<close> is an execution that panics (an index out of range, a
  length mismatch in \<open>copy_from_slice\<close>, a failed \<open>expect\<close>), so that
  "never panics" is a statement of the model and not an assumption of it.
\<close>

unbundle bit_operations_syntax

section \<open>Collections of facts\<close>

named_theorems outcome_simps \<open>unfolding of the error-handling combinators\<close>
named_theorems slice_simps \<open>lengths and parts of byte slices\<close>
named_theorems const_simps \<open>constants of the registered algorithms\<close>

section \<open>Words and byte strings\<close>

type_synonym u8 = "8 word"
type_synonym u16 = "16 word"
type_synonym u64 = "64 word"
type_synonym bytes = "u8 list"

text \<open>A byte-string literal \<open>b"..."\<close>.\<close>

definition ascii :: "string \<Rightarrow> bytes" where
  "ascii s = map of_char s"

lemma length_ascii [simp]: "length (ascii s) = length s"
  by (simp add: ascii_def)

section \<open>Outcomes of fallible functions\<close>

datatype ('a, 'e) outcome = Ok 'a | Err 'e | Panic

text \<open>The \<open>?\<close> operator: continue with the value, or leave with the failure.\<close>

fun try_bind :: "('a, 'e) outcome \<Rightarrow> ('a \<Rightarrow> ('b, 'e) outcome) \<Rightarrow> ('b, 'e) outcome" where
  "try_bind (Ok x) k = k x"
| "try_bind (Err e) k = Err e"
| "try_bind Panic k = Panic"

text \<open>\<open>Result::map\<close>, and \<open>.ok_or(e)\<close> / \<open>.map_err(|_| e)\<close> on a library result.\<close>

fun map_ok :: "('a \<Rightarrow> 'b) \<Rightarrow> ('a, 'e) outcome \<Rightarrow> ('b, 'e) outcome" where
  "map_ok f (Ok x) = Ok (f x)"
| "map_ok f (Err e) = Err e"
| "map_ok f Panic = Panic"

fun ok_or :: "'e \<Rightarrow> 'a option \<Rightarrow> ('a, 'e) outcome" where
  "ok_or e None = Err e"
| "ok_or e (Some x) = Ok x"

text \<open>\<open>.expect(..)\<close> on a library result.\<close>

fun expect :: "'a option \<Rightarrow> ('a, 'e) outcome" where
  "expect None = Panic"
| "expect (Some x) = Ok x"

definition is_ok :: "('a, 'e) outcome \<Rightarrow> bool" where
  "is_ok r = (case r of Ok _ \<Rightarrow> True | _ \<Rightarrow> False)"

lemma is_ok_simps [simp]: "is_ok (Ok x)" "\<not> is_ok (Err e)" "\<not> is_ok Panic"
  by (simp_all add: is_ok_def)

lemma is_ok_iff: "is_ok r \<longleftrightarrow> (\<exists>x. r = Ok x)"
  by (cases r) simp_all

lemma try_bind_Ok_iff [outcome_simps]:
  "try_bind m k = Ok y \<longleftrightarrow> (\<exists>x. m = Ok x \<and> k x = Ok y)"
  by (cases m) simp_all

lemma try_bind_Err_iff [outcome_simps]:
  "try_bind m k = Err e \<longleftrightarrow> m = Err e \<or> (\<exists>x. m = Ok x \<and> k x = Err e)"
  by (cases m) simp_all

lemma try_bind_Panic_iff [outcome_simps]:
  "try_bind m k = Panic \<longleftrightarrow> m = Panic \<or> (\<exists>x. m = Ok x \<and> k x = Panic)"
  by (cases m) simp_all

lemma map_ok_Ok_iff [outcome_simps]: "map_ok f m = Ok y \<longleftrightarrow> (\<exists>x. m = Ok x \<and> y = f x)"
  by (cases m) auto

lemma map_ok_Err_iff [outcome_simps]: "map_ok f m = Err e \<longleftrightarrow> m = Err e"
  by (cases m) auto

lemma map_ok_Panic_iff [outcome_simps]: "map_ok f m = Panic \<longleftrightarrow> m = Panic"
  by (cases m) auto

lemma ok_or_Ok_iff [outcome_simps]: "ok_or e r = Ok x \<longleftrightarrow> r = Some x"
  by (cases r) auto

lemma ok_or_Err_iff [outcome_simps]: "ok_or e r = Err e' \<longleftrightarrow> r = None \<and> e' = e"
  by (cases r) auto

lemma ok_or_not_Panic [simp]: "ok_or e r \<noteq> Panic"
  by (cases r) auto

lemma expect_Ok_iff [outcome_simps]: "expect r = Ok x \<longleftrightarrow> r = Some x"
  by (cases r) auto

lemma expect_Panic_iff [outcome_simps]: "expect r = Panic \<longleftrightarrow> r = None"
  by (cases r) auto

lemma try_bind_assoc: "try_bind (try_bind m f) g = try_bind m (\<lambda>x. try_bind (f x) g)"
  by (cases m) simp_all

lemma map_ok_conv_try_bind: "map_ok f m = try_bind m (\<lambda>x. Ok (f x))"
  by (cases m) simp_all

section \<open>Slices and fixed-size arrays\<close>

text \<open>
  \<open>dst[i..i + src.len()].copy_from_slice(src)\<close> where both ranges are known at
  compile time to fit: the bytes of \<open>src\<close> replace those of \<open>dst\<close> from index
  \<open>i\<close> on.
\<close>

definition splice :: "nat \<Rightarrow> 'a list \<Rightarrow> 'a list \<Rightarrow> 'a list" where
  "splice i src dst = take i dst @ src @ drop (i + length src) dst"

lemma length_splice [slice_simps]:
  "i + length src \<le> length dst \<Longrightarrow> length (splice i src dst) = length dst"
  by (simp add: splice_def)

text \<open>
  \<open>dst[i..j].copy_from_slice(src)\<close> with a range or a source of run-time length: the
  slice index panics unless \<open>i \<le> j \<le> dst.len()\<close>, and
  \<open>copy_from_slice\<close> panics unless the two lengths agree.
\<close>

definition copy_into :: "nat \<Rightarrow> nat \<Rightarrow> 'a list \<Rightarrow> 'a list \<Rightarrow> ('a list, 'e) outcome" where
  "copy_into i j src dst =
     (if i \<le> j \<and> j \<le> length dst \<and> length src = j - i then Ok (splice i src dst) else Panic)"

lemma copy_into_full [simp]:
  "copy_into 0 n src (replicate n x) = (if length src = n then Ok src else Panic)"
  by (simp add: copy_into_def splice_def)

text \<open>\<open>xs[i] = f(xs[i])\<close>: an index out of range panics.\<close>

definition modify_at :: "nat \<Rightarrow> ('a \<Rightarrow> 'a) \<Rightarrow> 'a list \<Rightarrow> ('a list, 'e) outcome" where
  "modify_at i f xs = (if i < length xs then Ok (xs[i := f (xs ! i)]) else Panic)"

text \<open>\<open>for (dst, &b) in window.iter_mut().zip(bs) { *dst ^= b; }\<close>\<close>

definition xor_bytes :: "bytes \<Rightarrow> bytes \<Rightarrow> bytes" where
  "xor_bytes xs ys = map2 (XOR) xs ys"

lemma length_xor_bytes [slice_simps]: "length (xor_bytes xs ys) = min (length xs) (length ys)"
  by (simp add: xor_bytes_def)

lemma xor_bytes_inj:
  "length xs = length ys \<Longrightarrow> length xs = length zs \<Longrightarrow>
   xor_bytes xs ys = xor_bytes xs zs \<longleftrightarrow> ys = zs"
proof (induction xs ys arbitrary: zs rule: list_induct2)
  case Nil
  then show ?case by (simp add: xor_bytes_def)
next
  case (Cons x xs y ys)
  then obtain w ws where zs: "zs = w # ws" and len: "length xs = length ws"
    by (cases zs) auto
  have "x XOR y = x XOR w \<longleftrightarrow> y = w"
    by (metis bit.xor_left_self)
  with Cons.IH [OF len] zs show ?case
    by (simp add: xor_bytes_def)
qed

lemma replicate_update_same [simp]: "(replicate n x)[i := x] = replicate n x"
  by (cases "i < n") (simp_all add: list_update_same_conv list_update_beyond)

section \<open>Big-endian encodings\<close>

text \<open>\<open>to_be_bytes\<close> of an unsigned integer of any width that is a multiple of eight.\<close>

definition to_be_bytes :: "'a::len word \<Rightarrow> bytes" where
  "to_be_bytes w =
     map (\<lambda>i. ucast (drop_bit (8 * i) w)) (rev [0..<LENGTH('a) div 8])"

lemma length_to_be_bytes [slice_simps]:
  "length (to_be_bytes (w :: 'a::len word)) = LENGTH('a) div 8"
  by (simp add: to_be_bytes_def)

lemma to_be_bytes_inj:
  fixes v w :: "'a::len word"
  assumes "8 dvd LENGTH('a)"
  shows "to_be_bytes v = to_be_bytes w \<longleftrightarrow> v = w"
proof
  assume eq: "to_be_bytes v = to_be_bytes w"
  have byte: "(ucast (drop_bit (8 * i) v) :: u8) = ucast (drop_bit (8 * i) w)"
    if "i < LENGTH('a) div 8" for i
    using eq that by (auto simp: to_be_bytes_def)
  show "v = w"
  proof (rule bit_word_eqI)
    fix n assume n: "n < LENGTH('a)"
    with assms have "n div 8 < LENGTH('a) div 8" by auto
    then have "bit (ucast (drop_bit (8 * (n div 8)) v) :: u8) (n mod 8)
             = bit (ucast (drop_bit (8 * (n div 8)) w) :: u8) (n mod 8)"
      by (simp only: byte)
    then show "bit v n = bit w n"
      by (simp add: bit_simps)
  qed
qed simp

lemma length_u16_be [simp]: "length (to_be_bytes (w :: u16)) = 2"
  by (simp add: slice_simps)

lemma length_u64_be [simp]: "length (to_be_bytes (w :: u64)) = 8"
  by (simp add: slice_simps)

lemma u16_be_inj [simp]: "to_be_bytes (v :: u16) = to_be_bytes w \<longleftrightarrow> v = w"
  by (rule to_be_bytes_inj) simp

lemma u64_be_inj [simp]: "to_be_bytes (v :: u64) = to_be_bytes w \<longleftrightarrow> v = w"
  by (rule to_be_bytes_inj) simp

text \<open>\<open>u16::try_from(n)\<close> and \<open>n.try_into()\<close> on a \<open>usize\<close>.\<close>

definition u16_try_from :: "nat \<Rightarrow> u16 option" where
  "u16_try_from n = (if n < 65536 then Some (word_of_nat n) else None)"

lemma unat_word_of_nat_u16: "n < 65536 \<Longrightarrow> unat (word_of_nat n :: u16) = n"
  by (simp add: unsigned_of_nat take_bit_nat_eq_self)

lemma word_of_nat_u64_inj:
  assumes "i < 2 ^ 64" and "j < 2 ^ 64"
  shows "(word_of_nat i :: u64) = word_of_nat j \<longleftrightarrow> i = j"
proof -
  have "unat (word_of_nat k :: u64) = k" if "k < 2 ^ 64" for k
    using that by (simp add: unsigned_of_nat take_bit_nat_eq_self)
  with assms show ?thesis by metis
qed

text \<open>A property of every element and its position, across the append of one element.\<close>

lemma all_nth_snocI:
  "\<forall>i < length xs. P i (xs ! i) \<Longrightarrow> P (length xs) x \<Longrightarrow>
   \<forall>i < length (xs @ [x]). P i ((xs @ [x]) ! i)"
  by (auto simp: nth_append less_Suc_eq)

lemma u16_try_from_inj:
  "u16_try_from m = Some w \<Longrightarrow> u16_try_from n = Some w \<Longrightarrow> m = n"
  by (auto simp: u16_try_from_def split: if_splits) (metis unat_word_of_nat_u16)

text \<open>\<open>u64::MAX\<close>, and the increment below it.\<close>

definition u64_MAX :: u64 where
  "u64_MAX = 0xFFFFFFFFFFFFFFFF"

lemma unat_u64_MAX: "unat u64_MAX = 2 ^ 64 - 1"
  by (simp add: u64_MAX_def)

lemma u64_MAX_eq: "u64_MAX = - 1"
  by (simp add: u64_MAX_def)

lemma u64_succ: "s \<noteq> u64_MAX \<Longrightarrow> unat (s + 1) = Suc (unat s)"
  by (metis add.commute add.right_inverse add_left_cancel u64_MAX_eq unatSuc)

end
