(* ===== verification/Hpke_Error.thy ===== *)
theory Hpke_Error
  imports Hpke_Prelude
begin

text \<open>
  \<open>src/error.rs\<close>: the single error type of the crate and its rendering. Every fallible
  operation of the model returns a value of type \<open>'a res\<close>.
\<close>

datatype HpkeError =
    OpenError
  | SealError
  | AeadInitError
  | EncapError
  | DecapError
  | InvalidPublicKey
  | InvalidPrivateKey
  | InvalidEncappedKey
  | InconsistentPsk
  | MissingPsk
  | InsecurePsk
  | ExportLengthExceeded
  | MessageLimitReached
  | DeriveKeyPairError

type_synonym 'a res = "('a, HpkeError) outcome"

text \<open>\<open>impl fmt::Display for HpkeError\<close>: the string handed to the formatter.\<close>

fun HpkeError_fmt :: "HpkeError \<Rightarrow> string" where
  "HpkeError_fmt OpenError = ''AEAD open failed''"
| "HpkeError_fmt SealError = ''AEAD seal failed''"
| "HpkeError_fmt AeadInitError = ''AEAD cipher init failed''"
| "HpkeError_fmt EncapError = ''KEM encapsulation failed''"
| "HpkeError_fmt DecapError = ''KEM decapsulation failed''"
| "HpkeError_fmt InvalidPublicKey = ''invalid public key''"
| "HpkeError_fmt InvalidPrivateKey = ''invalid private key''"
| "HpkeError_fmt InvalidEncappedKey = ''invalid encapsulated key''"
| "HpkeError_fmt InconsistentPsk = ''PSK and PSK ID must both be empty or both non-empty''"
| "HpkeError_fmt MissingPsk = ''PSK is required by this mode''"
| "HpkeError_fmt InsecurePsk = ''PSK shorter than 32 bytes''"
| "HpkeError_fmt ExportLengthExceeded = ''requested length exceeds HKDF-Expand maximum''"
| "HpkeError_fmt MessageLimitReached = ''AEAD message limit reached''"
| "HpkeError_fmt DeriveKeyPairError = ''DeriveKeyPair rejection sampling exhausted''"

text \<open>Two errors never render alike, so a log line identifies the variant.\<close>

lemma HpkeError_fmt_inj: "HpkeError_fmt e = HpkeError_fmt e' \<Longrightarrow> e = e'"
  by (cases e; cases e') simp_all

end
