(* ===== verification/Hpke_Kdf.thy ===== *)
theory Hpke_Kdf
  imports Hpke_Error
begin

text \<open>
  \<open>src/kdf.rs\<close>: the \<open>Kdf\<close> trait, its three HKDF implementations and the labelled
  derivations of RFC 9180, section 4.

  A Rust trait is a record of its constants and functions (the dictionary a generic function
  receives); \<open>impl Kdf for HkdfSha256\<close> is the record \<open>HkdfSha256 L\<close>, where
  \<open>L\<close> is the interface of the third-party crates \<open>hkdf\<close> and \<open>sha2\<close>.
  What the crate relies on in them is the predicate \<open>hkdf_lib_ok\<close>; the contract that
  callers of the trait rely on is the locale \<open>kdf_contract\<close>.
\<close>

section \<open>The trait\<close>

record kdf =
  f_ID :: u16
  f_HASH_LEN :: nat
  f_extract :: "bytes \<Rightarrow> bytes list \<Rightarrow> bytes"
  f_expand :: "bytes \<Rightarrow> bytes list \<Rightarrow> nat \<Rightarrow> bytes res"

section \<open>The third-party HKDF\<close>

text \<open>
  \<open>HkdfExtract::new(Some(salt))\<close>, \<open>input_ikm\<close>, \<open>finalize\<close> (the PRK),
  \<open>Hkdf::from_prk\<close> and \<open>expand_multi_info\<close>, which fills a buffer of the given
  length. The types of the two states stay abstract.
\<close>

record ('x, 'h) hkdf_lib =
  hx_new :: "bytes \<Rightarrow> 'x"
  hx_input_ikm :: "'x \<Rightarrow> bytes \<Rightarrow> 'x"
  hx_finalize :: "'x \<Rightarrow> bytes"
  hk_from_prk :: "bytes \<Rightarrow> 'h option"
  hk_expand_multi_info :: "'h \<Rightarrow> bytes list \<Rightarrow> nat \<Rightarrow> bytes option"

text \<open>
  Documented behaviour of the \<open>hkdf\<close> crate for a hash of \<open>nh\<close> bytes: extraction
  is streaming (only the concatenation of the pieces matters) and returns \<open>nh\<close> bytes;
  \<open>from_prk\<close> rejects exactly the keys shorter than the hash; expansion depends on the
  concatenation of the info pieces and fails exactly when more than \<open>255 * nh\<close> bytes
  are requested.
\<close>

definition hkdf_lib_ok :: "('x, 'h) hkdf_lib \<Rightarrow> nat \<Rightarrow> bool" where
  "hkdf_lib_ok L nh \<longleftrightarrow>
     (\<forall>salt ps. hx_finalize L (foldl (hx_input_ikm L) (hx_new L salt) ps)
              = hx_finalize L (hx_input_ikm L (hx_new L salt) (concat ps)))
   \<and> (\<forall>salt ps. length (hx_finalize L (foldl (hx_input_ikm L) (hx_new L salt) ps)) = nh)
   \<and> (\<forall>prk. hk_from_prk L prk = None \<longleftrightarrow> length prk < nh)
   \<and> (\<forall>h infos n. hk_expand_multi_info L h infos n = hk_expand_multi_info L h [concat infos] n)
   \<and> (\<forall>h infos n. hk_expand_multi_info L h infos n = None \<longleftrightarrow> 255 * nh < n)
   \<and> (\<forall>h infos n out. hk_expand_multi_info L h infos n = Some out \<longrightarrow> length out = n)"

section \<open>The three implementations (macro \<open>hkdf_impl!\<close>)\<close>

definition hkdf_extract :: "('x, 'h) hkdf_lib \<Rightarrow> bytes \<Rightarrow> bytes list \<Rightarrow> bytes" where
  "hkdf_extract L salt ikm_pieces =
     hx_finalize L (foldl (\<lambda>ext piece. hx_input_ikm L ext piece) (hx_new L salt) ikm_pieces)"

definition hkdf_expand ::
    "('x, 'h) hkdf_lib \<Rightarrow> nat \<Rightarrow> bytes \<Rightarrow> bytes list \<Rightarrow> nat \<Rightarrow> bytes res" where
  "hkdf_expand L hash_len prk info_pieces out_len =
     (if out_len > 255 * hash_len then Err ExportLengthExceeded
      else try_bind (ok_or DeriveKeyPairError (hk_from_prk L prk)) (\<lambda>hk.
           ok_or ExportLengthExceeded (hk_expand_multi_info L hk info_pieces out_len)))"

definition hkdf_impl :: "('x, 'h) hkdf_lib \<Rightarrow> u16 \<Rightarrow> nat \<Rightarrow> kdf" where
  "hkdf_impl L kdf_id hash_len =
     \<lparr> f_ID = kdf_id, f_HASH_LEN = hash_len,
       f_extract = hkdf_extract L, f_expand = hkdf_expand L hash_len \<rparr>"

definition HkdfSha256 :: "('x, 'h) hkdf_lib \<Rightarrow> kdf" where
  "HkdfSha256 L = hkdf_impl L 0x0001 32"

definition HkdfSha384 :: "('x, 'h) hkdf_lib \<Rightarrow> kdf" where
  "HkdfSha384 L = hkdf_impl L 0x0002 48"

definition HkdfSha512 :: "('x, 'h) hkdf_lib \<Rightarrow> kdf" where
  "HkdfSha512 L = hkdf_impl L 0x0003 64"

lemma HkdfSha_consts [const_simps]:
  "f_ID (HkdfSha256 L) = 1" "f_HASH_LEN (HkdfSha256 L) = 32"
  "f_ID (HkdfSha384 L) = 2" "f_HASH_LEN (HkdfSha384 L) = 48"
  "f_ID (HkdfSha512 L) = 3" "f_HASH_LEN (HkdfSha512 L) = 64"
  by (simp_all add: HkdfSha256_def HkdfSha384_def HkdfSha512_def hkdf_impl_def)

section \<open>Labelled extraction and expansion\<close>

definition HPKE_v1 :: bytes where
  "HPKE_v1 = ascii ''HPKE-v1''"

definition labeled_extract :: "kdf \<Rightarrow> bytes \<Rightarrow> bytes \<Rightarrow> bytes \<Rightarrow> bytes \<Rightarrow> bytes" where
  "labeled_extract F salt suite_id label ikm =
     f_extract F salt [HPKE_v1, suite_id, label, ikm]"

definition MAX_EXTRACT_PIECES :: nat where "MAX_EXTRACT_PIECES = 8"
definition MAX_EXPAND_PIECES :: nat where "MAX_EXPAND_PIECES = 16"

text \<open>
  \<open>for (i, p) in pieces.iter().enumerate() { all[base + i] = p; }\<close>: one bounds-checked
  store per piece.
\<close>

fun fill_slots :: "nat \<Rightarrow> bytes list \<Rightarrow> bytes list \<Rightarrow> bytes list res" where
  "fill_slots i [] slots = Ok slots"
| "fill_slots i (p # ps) slots =
     (if i < length slots then fill_slots (Suc i) ps (slots[i := p]) else Panic)"

text \<open>\<open>&all[..n]\<close>: panics if the array is shorter.\<close>

definition slice_to :: "nat \<Rightarrow> 'a list \<Rightarrow> 'a list res" where
  "slice_to n xs = (if n \<le> length xs then Ok (take n xs) else Panic)"

definition labeled_extract_pieces ::
    "kdf \<Rightarrow> bytes \<Rightarrow> bytes \<Rightarrow> bytes \<Rightarrow> bytes list \<Rightarrow> bytes res" where
  "labeled_extract_pieces F salt suite_id label ikm_pieces =
     (let all0 = replicate MAX_EXTRACT_PIECES [];
          all3 = all0[0 := HPKE_v1, 1 := suite_id, 2 := label];
          n = length ikm_pieces
      in try_bind (fill_slots 3 ikm_pieces all3) (\<lambda>all.
         try_bind (slice_to (3 + n) all) (\<lambda>pieces. Ok (f_extract F salt pieces))))"

definition labeled_expand ::
    "kdf \<Rightarrow> bytes \<Rightarrow> bytes \<Rightarrow> bytes \<Rightarrow> bytes \<Rightarrow> nat \<Rightarrow> bytes res" where
  "labeled_expand F prk suite_id label info out_len =
     try_bind (ok_or ExportLengthExceeded (u16_try_from out_len)) (\<lambda>l_u16.
       f_expand F prk [to_be_bytes l_u16, HPKE_v1, suite_id, label, info] out_len)"

definition labeled_expand_pieces ::
    "kdf \<Rightarrow> bytes \<Rightarrow> bytes \<Rightarrow> bytes \<Rightarrow> bytes list \<Rightarrow> nat \<Rightarrow> bytes res" where
  "labeled_expand_pieces F prk suite_id label info_pieces out_len =
     try_bind (ok_or ExportLengthExceeded (u16_try_from out_len)) (\<lambda>l_u16.
     (let all0 = replicate MAX_EXPAND_PIECES [];
          all4 = all0[0 := to_be_bytes l_u16, 1 := HPKE_v1, 2 := suite_id, 3 := label];
          n = length info_pieces
      in try_bind (fill_slots 4 info_pieces all4) (\<lambda>all.
         try_bind (slice_to (4 + n) all) (\<lambda>pieces. f_expand F prk pieces out_len))))"

section \<open>The slot arrays hold exactly the pieces\<close>

lemma fill_slots_Ok:
  "i + length ps \<le> length slots \<Longrightarrow> fill_slots i ps slots = Ok (splice i ps slots)"
proof (induction ps arbitrary: i slots)
  case Nil
  then show ?case by (simp add: splice_def)
next
  case (Cons p ps)
  then have "fill_slots (Suc i) ps (slots[i := p]) = Ok (splice (Suc i) ps (slots[i := p]))"
    by simp
  moreover have "splice (Suc i) ps (slots[i := p]) = splice i (p # ps) slots"
    using Cons.prems by (simp add: splice_def take_Suc_conv_app_nth)
  ultimately show ?case
    using Cons.prems by simp
qed

lemma fill_slots_Panic:
  "i \<le> length slots \<Longrightarrow> length slots < i + length ps \<Longrightarrow> fill_slots i ps slots = Panic"
  by (induction ps arbitrary: i slots) auto

lemma labeled_extract_pieces_eq:
  "labeled_extract_pieces F salt suite_id label ps =
     (if length ps \<le> 5 then Ok (f_extract F salt ([HPKE_v1, suite_id, label] @ ps)) else Panic)"
  by (simp add: labeled_extract_pieces_def MAX_EXTRACT_PIECES_def Let_def slice_to_def
      fill_slots_Ok fill_slots_Panic splice_def numeral_eq_Suc)

lemma labeled_expand_pieces_eq:
  "labeled_expand_pieces F prk suite_id label ps n =
     try_bind (ok_or ExportLengthExceeded (u16_try_from n)) (\<lambda>l.
       if length ps \<le> 12
       then f_expand F prk ([to_be_bytes l, HPKE_v1, suite_id, label] @ ps) n else Panic)"
  by (cases "u16_try_from n")
     (simp_all add: labeled_expand_pieces_def MAX_EXPAND_PIECES_def Let_def slice_to_def
      fill_slots_Ok fill_slots_Panic splice_def numeral_eq_Suc)

section \<open>The contract of the trait\<close>

text \<open>
  What callers of \<open>Kdf\<close> rely on. The parameter \<open>lawful\<close> is the hypothesis under
  which the laws hold: for the implementations of the crate it is \<open>hkdf_lib_ok\<close> of the
  third-party library they wrap.
\<close>

locale kdf_contract =
  fixes F :: kdf and lawful :: bool
  assumes hash_len_ge: "32 \<le> f_HASH_LEN F"
    and hash_len_le: "f_HASH_LEN F \<le> 64"
    and extract_concat: "lawful \<Longrightarrow> f_extract F salt ps = f_extract F salt [concat ps]"
    and extract_length: "lawful \<Longrightarrow> length (f_extract F salt ps) = f_HASH_LEN F"
    and expand_concat: "lawful \<Longrightarrow> f_expand F prk ps n = f_expand F prk [concat ps] n"
    and expand_too_long: "255 * f_HASH_LEN F < n \<Longrightarrow>
          f_expand F prk ps n = Err ExportLengthExceeded"
    and expand_short_prk: "lawful \<Longrightarrow> n \<le> 255 * f_HASH_LEN F \<Longrightarrow>
          length prk < f_HASH_LEN F \<Longrightarrow> f_expand F prk ps n = Err DeriveKeyPairError"
    and expand_ok: "lawful \<Longrightarrow> n \<le> 255 * f_HASH_LEN F \<Longrightarrow> f_HASH_LEN F \<le> length prk \<Longrightarrow>
          \<exists>out. f_expand F prk ps n = Ok out \<and> length out = n"
begin

lemma u16_fits: "n \<le> 255 * f_HASH_LEN F \<Longrightarrow> u16_try_from n = Some (word_of_nat n)"
  using hash_len_le by (simp add: u16_try_from_def)

lemma labeled_extract_length:
  "lawful \<Longrightarrow> length (labeled_extract F salt suite_id label ikm) = f_HASH_LEN F"
  by (simp add: labeled_extract_def extract_length)

lemma labeled_extract_eq:
  assumes "lawful"
  shows "labeled_extract F salt suite_id label ikm =
         f_extract F salt [HPKE_v1 @ suite_id @ label @ ikm]"
  unfolding labeled_extract_def
  by (subst extract_concat [OF assms]) simp

text \<open>Feeding the key material in pieces gives the extraction of their concatenation.\<close>

lemma labeled_extract_pieces_concat:
  assumes "lawful" and "length ps \<le> 5"
  shows "labeled_extract_pieces F salt suite_id label ps =
         Ok (labeled_extract F salt suite_id label (concat ps))"
  using assms(2)
  by (simp add: labeled_extract_pieces_eq labeled_extract_eq [OF assms(1)])
     (subst extract_concat [OF assms(1)], simp)

lemma labeled_expand_eq:
  assumes "lawful" and "n \<le> 255 * f_HASH_LEN F"
  shows "labeled_expand F prk suite_id label info n =
         f_expand F prk [to_be_bytes (word_of_nat n :: u16) @ HPKE_v1 @ suite_id @ label @ info] n"
  by (simp add: labeled_expand_def u16_fits [OF assms(2)])
     (subst expand_concat [OF assms(1)], simp)

lemma labeled_expand_too_long:
  assumes "255 * f_HASH_LEN F < n"
  shows "labeled_expand F prk suite_id label info n = Err ExportLengthExceeded"
  using assms by (cases "u16_try_from n") (simp_all add: labeled_expand_def expand_too_long)

lemma labeled_expand_ok:
  assumes "lawful" and "n \<le> 255 * f_HASH_LEN F" and "f_HASH_LEN F \<le> length prk"
  shows "\<exists>out. labeled_expand F prk suite_id label info n = Ok out \<and> length out = n"
  using expand_ok [OF assms] by (simp add: labeled_expand_def u16_fits [OF assms(2)])

text \<open>Expanding a freshly extracted key never fails for the lengths the crate asks for.\<close>

lemma expand_of_extract:
  assumes "lawful" and "n \<le> 255 * 32"
  shows "\<exists>out. labeled_expand F (labeled_extract F salt suite label ikm) suite' label' info n = Ok out
     \<and> length out = n"
  using assms hash_len_ge by (intro labeled_expand_ok) (simp_all add: labeled_extract_length)

lemma labeled_expand_pieces_concat:
  assumes "lawful" and "length ps \<le> 12"
  shows "labeled_expand_pieces F prk suite_id label ps n =
         labeled_expand F prk suite_id label (concat ps) n"
proof (cases "u16_try_from n")
  case None
  then show ?thesis by (simp add: labeled_expand_pieces_eq labeled_expand_def)
next
  case (Some l)
  have "f_expand F prk ([to_be_bytes l, HPKE_v1, suite_id, label] @ ps) n
      = f_expand F prk [to_be_bytes l, HPKE_v1, suite_id, label, concat ps] n"
    by (subst (1 2) expand_concat [OF assms(1)]) simp
  with Some assms(2) show ?thesis
    by (simp add: labeled_expand_pieces_eq labeled_expand_def)
qed

lemma labeled_expand_pieces_ok:
  assumes "lawful" and "length ps \<le> 12" and "n \<le> 255 * f_HASH_LEN F"
    and "f_HASH_LEN F \<le> length prk"
  shows "\<exists>out. labeled_expand_pieces F prk suite_id label ps n = Ok out \<and> length out = n"
  using labeled_expand_ok [OF assms(1,3,4)] by (simp add: labeled_expand_pieces_concat assms)

lemma labeled_expand_cases:
  assumes "lawful" and "f_HASH_LEN F \<le> length prk"
  shows "labeled_expand F prk suite_id label info n =
           (if 255 * f_HASH_LEN F < n then Err ExportLengthExceeded
            else f_expand F prk
              [to_be_bytes (word_of_nat n :: u16) @ HPKE_v1 @ suite_id @ label @ info] n)"
  by (simp add: labeled_expand_too_long labeled_expand_eq [OF assms(1)] not_less)

end

lemma kdf_contract_mono:
  "kdf_contract F l \<Longrightarrow> (l' \<Longrightarrow> l) \<Longrightarrow> kdf_contract F l'"
  unfolding kdf_contract_def by blast

lemma hkdf_lib_okD:
  assumes "hkdf_lib_ok L nh"
  shows "hx_finalize L (foldl (hx_input_ikm L) (hx_new L salt) ps)
           = hx_finalize L (hx_input_ikm L (hx_new L salt) (concat ps))"
    and "length (hx_finalize L (foldl (hx_input_ikm L) (hx_new L salt) ps)) = nh"
    and "hk_from_prk L prk = None \<longleftrightarrow> length prk < nh"
    and "hk_expand_multi_info L h infos n = hk_expand_multi_info L h [concat infos] n"
    and "hk_expand_multi_info L h infos n = None \<longleftrightarrow> 255 * nh < n"
    and "hk_expand_multi_info L h infos n = Some out \<Longrightarrow> length out = n"
  using assms unfolding hkdf_lib_ok_def by blast+

lemma hkdf_expand_concat:
  assumes "hkdf_lib_ok L nh"
  shows "hkdf_expand L nh prk ps n = hkdf_expand L nh prk [concat ps] n"
  using hkdf_lib_okD(4) [OF assms, of _ ps n]
  by (cases "hk_from_prk L prk") (simp_all add: hkdf_expand_def)

lemma hkdf_expand_ok:
  assumes "hkdf_lib_ok L nh" and "n \<le> 255 * nh" and "nh \<le> length prk"
  shows "\<exists>out. hkdf_expand L nh prk ps n = Ok out \<and> length out = n"
proof -
  obtain hk where hk: "hk_from_prk L prk = Some hk"
    using hkdf_lib_okD(3) [OF assms(1), of prk] assms(3) by auto
  obtain out where out: "hk_expand_multi_info L hk ps n = Some out"
    using hkdf_lib_okD(5) [OF assms(1), of hk ps n] assms(2) by auto
  with hk assms(2) hkdf_lib_okD(6) [OF assms(1) out] show ?thesis
    by (simp add: hkdf_expand_def)
qed

lemma hkdf_impl_contract:
  assumes "32 \<le> nh" and "nh \<le> 64"
  shows "kdf_contract (hkdf_impl L kdf_id nh) (hkdf_lib_ok L nh)"
proof (unfold_locales)
  fix salt ps prk and n :: nat
  let ?F = "hkdf_impl L kdf_id nh"
  show "32 \<le> f_HASH_LEN ?F" and "f_HASH_LEN ?F \<le> 64"
    using assms by (simp_all add: hkdf_impl_def)
  show "255 * f_HASH_LEN ?F < n \<Longrightarrow> f_expand ?F prk ps n = Err ExportLengthExceeded"
    by (simp add: hkdf_impl_def hkdf_expand_def)
  assume ok: "hkdf_lib_ok L nh"
  show "f_extract ?F salt ps = f_extract ?F salt [concat ps]"
    using hkdf_lib_okD(1) [OF ok, of salt ps] by (simp add: hkdf_impl_def hkdf_extract_def)
  show "length (f_extract ?F salt ps) = f_HASH_LEN ?F"
    using hkdf_lib_okD(2) [OF ok, of salt ps] by (simp add: hkdf_impl_def hkdf_extract_def)
  show "f_expand ?F prk ps n = f_expand ?F prk [concat ps] n"
    using hkdf_expand_concat [OF ok, of prk ps n] by (simp add: hkdf_impl_def)
  show "n \<le> 255 * f_HASH_LEN ?F \<Longrightarrow> length prk < f_HASH_LEN ?F \<Longrightarrow>
        f_expand ?F prk ps n = Err DeriveKeyPairError"
    using hkdf_lib_okD(3) [OF ok, of prk] by (simp add: hkdf_impl_def hkdf_expand_def)
  show "n \<le> 255 * f_HASH_LEN ?F \<Longrightarrow> f_HASH_LEN ?F \<le> length prk \<Longrightarrow>
        \<exists>out. f_expand ?F prk ps n = Ok out \<and> length out = n"
    using hkdf_expand_ok [OF ok, of n prk ps] by (simp add: hkdf_impl_def)
qed

interpretation sha256: kdf_contract "HkdfSha256 L" "hkdf_lib_ok L 32"
  unfolding HkdfSha256_def by (rule hkdf_impl_contract) simp_all

interpretation sha384: kdf_contract "HkdfSha384 L" "hkdf_lib_ok L 48"
  unfolding HkdfSha384_def by (rule hkdf_impl_contract) simp_all

interpretation sha512: kdf_contract "HkdfSha512 L" "hkdf_lib_ok L 64"
  unfolding HkdfSha512_def by (rule hkdf_impl_contract) simp_all

end
