(* ===== verification/Hpke_Aead.thy ===== *)
theory Hpke_Aead
  imports Hpke_Error
begin

text \<open>
  \<open>src/aead.rs\<close>: the \<open>Aead\<close> trait, its subtrait \<open>SealingAead\<close>, the three
  ciphers and the export-only marker.

  \<open>SealingAead: Aead\<close> is the record \<open>sealing_aead\<close> extending the record
  \<open>aead\<close>: a function over \<open>aead\<close> accepts every algorithm, a function that needs
  \<open>a_seal\<close> only accepts an extension. \<open>ExportOnly\<close> is a plain \<open>aead\<close>, so sealing
  under it is a type error of the model as it is a compile error of the crate.
\<close>

section \<open>The traits\<close>

record 'c aead =
  a_ID :: u16
  a_KEY_LEN :: nat
  a_NONCE_LEN :: nat
  a_TAG_LEN :: nat
  a_init :: "bytes \<Rightarrow> 'c res"

record 'c sealing_aead = "'c aead" +
  a_seal :: "'c \<Rightarrow> bytes \<Rightarrow> bytes \<Rightarrow> bytes \<Rightarrow> bytes res"
  a_open :: "'c \<Rightarrow> bytes \<Rightarrow> bytes \<Rightarrow> bytes \<Rightarrow> bytes res"

section \<open>The third-party ciphers\<close>

text \<open>
  The part of the \<open>aead\<close>, \<open>aes-gcm\<close> and \<open>chacha20poly1305\<close> crates that is
  called: \<open>KeyInit::new_from_slice\<close>, the conversion of a slice to the nonce type, and
  \<open>Aead::encrypt\<close> / \<open>Aead::decrypt\<close> on a \<open>Payload\<close>.
\<close>

record payload =
  msg :: bytes
  aad_of :: bytes

record ('c, 'n) aead_lib =
  al_new_from_slice :: "bytes \<Rightarrow> 'c option"
  al_nonce_try_from :: "bytes \<Rightarrow> 'n option"
  al_encrypt :: "'c \<Rightarrow> 'n \<Rightarrow> payload \<Rightarrow> bytes option"
  al_decrypt :: "'c \<Rightarrow> 'n \<Rightarrow> payload \<Rightarrow> bytes option"

text \<open>
  Documented behaviour for a key of \<open>nk\<close> bytes and a message limit of \<open>p_max\<close> bytes:
  keys and nonces are accepted exactly at their length, a message and associated data within
  the limit are encrypted to a ciphertext sixteen bytes longer, and decryption inverts
  encryption.
\<close>

definition aead_lib_ok :: "('c, 'n) aead_lib \<Rightarrow> nat \<Rightarrow> nat \<Rightarrow> bool" where
  "aead_lib_ok L nk p_max \<longleftrightarrow>
     (\<forall>key. al_new_from_slice L key = None \<longleftrightarrow> length key \<noteq> nk)
   \<and> (\<forall>b. al_nonce_try_from L b = None \<longleftrightarrow> length b \<noteq> 12)
   \<and> (\<forall>c n p. length (msg p) \<le> p_max \<longrightarrow> length (aad_of p) \<le> p_max \<longrightarrow>
        al_encrypt L c n p \<noteq> None)
   \<and> (\<forall>c n m a ct. al_encrypt L c n \<lparr> msg = m, aad_of = a \<rparr> = Some ct \<longrightarrow>
        length ct = length m + 16 \<and> al_decrypt L c n \<lparr> msg = ct, aad_of = a \<rparr> = Some m)"

section \<open>The implementations\<close>

subsection \<open>\<open>ChaCha20Poly1305\<close> (crate \<open>chacha20poly1305\<close>)\<close>

definition ChaCha20Poly1305_init :: "('c, 'n) aead_lib \<Rightarrow> bytes \<Rightarrow> 'c res" where
  "ChaCha20Poly1305_init L key = ok_or AeadInitError (al_new_from_slice L key)"

definition ChaCha20Poly1305_seal ::
    "('c, 'n) aead_lib \<Rightarrow> 'c \<Rightarrow> bytes \<Rightarrow> bytes \<Rightarrow> bytes \<Rightarrow> bytes res" where
  "ChaCha20Poly1305_seal L cipher nonce aad pt =
     try_bind (ok_or SealError (al_nonce_try_from L nonce)) (\<lambda>nonce.
       ok_or SealError (al_encrypt L cipher nonce \<lparr> msg = pt, aad_of = aad \<rparr>))"

definition ChaCha20Poly1305_open ::
    "('c, 'n) aead_lib \<Rightarrow> 'c \<Rightarrow> bytes \<Rightarrow> bytes \<Rightarrow> bytes \<Rightarrow> bytes res" where
  "ChaCha20Poly1305_open L cipher nonce aad ct =
     try_bind (ok_or OpenError (al_nonce_try_from L nonce)) (\<lambda>nonce.
       ok_or OpenError (al_decrypt L cipher nonce \<lparr> msg = ct, aad_of = aad \<rparr>))"

definition ChaCha20Poly1305 :: "('c, 'n) aead_lib \<Rightarrow> 'c sealing_aead" where
  "ChaCha20Poly1305 L =
     \<lparr> a_ID = 0x0003, a_KEY_LEN = 32, a_NONCE_LEN = 12, a_TAG_LEN = 16,
       a_init = ChaCha20Poly1305_init L,
       a_seal = ChaCha20Poly1305_seal L, a_open = ChaCha20Poly1305_open L \<rparr>"

subsection \<open>\<open>Aes128Gcm\<close> (crate \<open>aes_gcm\<close>)\<close>

definition Aes128Gcm_init :: "('c, 'n) aead_lib \<Rightarrow> bytes \<Rightarrow> 'c res" where
  "Aes128Gcm_init L key = ok_or AeadInitError (al_new_from_slice L key)"

definition Aes128Gcm_seal ::
    "('c, 'n) aead_lib \<Rightarrow> 'c \<Rightarrow> bytes \<Rightarrow> bytes \<Rightarrow> bytes \<Rightarrow> bytes res" where
  "Aes128Gcm_seal L cipher nonce aad pt =
     try_bind (ok_or SealError (al_nonce_try_from L nonce)) (\<lambda>nonce.
       ok_or SealError (al_encrypt L cipher nonce \<lparr> msg = pt, aad_of = aad \<rparr>))"

definition Aes128Gcm_open ::
    "('c, 'n) aead_lib \<Rightarrow> 'c \<Rightarrow> bytes \<Rightarrow> bytes \<Rightarrow> bytes \<Rightarrow> bytes res" where
  "Aes128Gcm_open L cipher nonce aad ct =
     try_bind (ok_or OpenError (al_nonce_try_from L nonce)) (\<lambda>nonce.
       ok_or OpenError (al_decrypt L cipher nonce \<lparr> msg = ct, aad_of = aad \<rparr>))"

definition Aes128Gcm :: "('c, 'n) aead_lib \<Rightarrow> 'c sealing_aead" where
  "Aes128Gcm L =
     \<lparr> a_ID = 0x0001, a_KEY_LEN = 16, a_NONCE_LEN = 12, a_TAG_LEN = 16,
       a_init = Aes128Gcm_init L,
       a_seal = Aes128Gcm_seal L, a_open = Aes128Gcm_open L \<rparr>"

subsection \<open>\<open>Aes256Gcm\<close> (crate \<open>aes_gcm\<close>)\<close>

definition Aes256Gcm_init :: "('c, 'n) aead_lib \<Rightarrow> bytes \<Rightarrow> 'c res" where
  "Aes256Gcm_init L key = ok_or AeadInitError (al_new_from_slice L key)"

definition Aes256Gcm_seal ::
    "('c, 'n) aead_lib \<Rightarrow> 'c \<Rightarrow> bytes \<Rightarrow> bytes \<Rightarrow> bytes \<Rightarrow> bytes res" where
  "Aes256Gcm_seal L cipher nonce aad pt =
     try_bind (ok_or SealError (al_nonce_try_from L nonce)) (\<lambda>nonce.
       ok_or SealError (al_encrypt L cipher nonce \<lparr> msg = pt, aad_of = aad \<rparr>))"

definition Aes256Gcm_open ::
    "('c, 'n) aead_lib \<Rightarrow> 'c \<Rightarrow> bytes \<Rightarrow> bytes \<Rightarrow> bytes \<Rightarrow> bytes res" where
  "Aes256Gcm_open L cipher nonce aad ct =
     try_bind (ok_or OpenError (al_nonce_try_from L nonce)) (\<lambda>nonce.
       ok_or OpenError (al_decrypt L cipher nonce \<lparr> msg = ct, aad_of = aad \<rparr>))"

definition Aes256Gcm :: "('c, 'n) aead_lib \<Rightarrow> 'c sealing_aead" where
  "Aes256Gcm L =
     \<lparr> a_ID = 0x0002, a_KEY_LEN = 32, a_NONCE_LEN = 12, a_TAG_LEN = 16,
       a_init = Aes256Gcm_init L,
       a_seal = Aes256Gcm_seal L, a_open = Aes256Gcm_open L \<rparr>"

subsection \<open>\<open>ExportOnly\<close>\<close>

definition ExportOnly_init :: "bytes \<Rightarrow> unit res" where
  "ExportOnly_init key = Ok ()"

definition ExportOnly :: "unit aead" where
  "ExportOnly =
     \<lparr> a_ID = 0xFFFF, a_KEY_LEN = 0, a_NONCE_LEN = 0, a_TAG_LEN = 0,
       a_init = ExportOnly_init \<rparr>"

lemma aead_consts [const_simps]:
  "a_ID (ChaCha20Poly1305 L) = 3" "a_KEY_LEN (ChaCha20Poly1305 L) = 32"
  "a_NONCE_LEN (ChaCha20Poly1305 L) = 12" "a_TAG_LEN (ChaCha20Poly1305 L) = 16"
  "a_ID (Aes128Gcm L) = 1" "a_KEY_LEN (Aes128Gcm L) = 16"
  "a_NONCE_LEN (Aes128Gcm L) = 12" "a_TAG_LEN (Aes128Gcm L) = 16"
  "a_ID (Aes256Gcm L) = 2" "a_KEY_LEN (Aes256Gcm L) = 32"
  "a_NONCE_LEN (Aes256Gcm L) = 12" "a_TAG_LEN (Aes256Gcm L) = 16"
  "a_ID ExportOnly = 0xFFFF" "a_KEY_LEN ExportOnly = 0"
  "a_NONCE_LEN ExportOnly = 0" "a_TAG_LEN ExportOnly = 0"
  by (simp_all add: ChaCha20Poly1305_def Aes128Gcm_def Aes256Gcm_def ExportOnly_def)

section \<open>The contracts of the traits\<close>

text \<open>What the key schedule relies on: a key of the advertised length initialises the cipher.\<close>

locale aead_contract =
  fixes A :: "('c, 'z) aead_scheme" and lawful :: bool
  assumes key_len_le: "a_KEY_LEN A \<le> 32"
    and nonce_len_le: "a_NONCE_LEN A \<le> 12"
    and init_ok: "lawful \<Longrightarrow> length key = a_KEY_LEN A \<Longrightarrow> \<exists>c. a_init A key = Ok c"
    and init_err: "a_init A key = Err e \<Longrightarrow> e = AeadInitError"
    and init_no_panic: "a_init A key \<noteq> Panic"

text \<open>What a context relies on when it seals and opens.\<close>

locale sealing_aead_contract =
  aead_contract A lawful
  for A :: "('c, ('c, 'z) sealing_aead_ext) aead_scheme" and lawful :: bool +
  fixes p_max :: nat
  assumes nonce_len_ge: "8 \<le> a_NONCE_LEN A"
    and seal_ok: "lawful \<Longrightarrow> length nonce = a_NONCE_LEN A \<Longrightarrow>
          length pt \<le> p_max \<Longrightarrow> length aad \<le> p_max \<Longrightarrow> \<exists>ct. a_seal A c nonce aad pt = Ok ct"
    and seal_length: "lawful \<Longrightarrow> a_seal A c nonce aad pt = Ok ct \<Longrightarrow>
          length ct = length pt + a_TAG_LEN A"
    and open_seal: "lawful \<Longrightarrow> a_seal A c nonce aad pt = Ok ct \<Longrightarrow>
          a_open A c nonce aad ct = Ok pt"
    and seal_err: "a_seal A c nonce aad pt = Err e \<Longrightarrow> e = SealError"
    and open_err: "a_open A c nonce aad ct = Err e \<Longrightarrow> e = OpenError"
    and seal_no_panic: "a_seal A c nonce aad pt \<noteq> Panic"
    and open_no_panic: "a_open A c nonce aad ct \<noteq> Panic"
begin

lemma open_cases:
  obtains pt where "a_open A c nonce aad ct = Ok pt" | "a_open A c nonce aad ct = Err OpenError"
  using open_err open_no_panic by (cases "a_open A c nonce aad ct") auto

lemma seal_cases:
  obtains ct where "a_seal A c nonce aad pt = Ok ct" | "a_seal A c nonce aad pt = Err SealError"
  using seal_err seal_no_panic by (cases "a_seal A c nonce aad pt") auto

end

text \<open>
  The three ciphers share their bodies up to the crate they call; the laws are proved once
  for the common shape.
\<close>

lemma aead_lib_okD:
  assumes "aead_lib_ok L nk p_max"
  shows "al_new_from_slice L key = None \<longleftrightarrow> length key \<noteq> nk"
    and "al_nonce_try_from L b = None \<longleftrightarrow> length b \<noteq> 12"
    and "al_encrypt L c n \<lparr> msg = m, aad_of = a \<rparr> = Some ct \<Longrightarrow> length ct = length m + 16"
    and "al_encrypt L c n \<lparr> msg = m, aad_of = a \<rparr> = Some ct \<Longrightarrow>
         al_decrypt L c n \<lparr> msg = ct, aad_of = a \<rparr> = Some m"
  using assms unfolding aead_lib_ok_def by blast+

lemma aead_lib_ok_encrypt:
  assumes "aead_lib_ok L nk p_max" and "length m \<le> p_max" and "length a \<le> p_max"
  shows "\<exists>ct. al_encrypt L c n \<lparr> msg = m, aad_of = a \<rparr> = Some ct"
proof -
  have "\<forall>c n p. length (msg p) \<le> p_max \<longrightarrow> length (aad_of p) \<le> p_max \<longrightarrow>
        al_encrypt L c n p \<noteq> None"
    using assms(1) unfolding aead_lib_ok_def by blast
  from this [rule_format, of "\<lparr> msg = m, aad_of = a \<rparr>" c n] assms(2,3)
  show ?thesis by auto
qed

lemma rustcrypto_contract:
  fixes A :: "'c sealing_aead" and L :: "('c, 'n) aead_lib"
  assumes params: "a_KEY_LEN A = nk" "nk \<le> 32" "a_NONCE_LEN A = 12" "a_TAG_LEN A = 16"
    and init: "\<And>key. a_init A key = ok_or AeadInitError (al_new_from_slice L key)"
    and seal: "\<And>c n a m. a_seal A c n a m = try_bind (ok_or SealError (al_nonce_try_from L n))
                 (\<lambda>n. ok_or SealError (al_encrypt L c n \<lparr> msg = m, aad_of = a \<rparr>))"
    and opn: "\<And>c n a m. a_open A c n a m = try_bind (ok_or OpenError (al_nonce_try_from L n))
                 (\<lambda>n. ok_or OpenError (al_decrypt L c n \<lparr> msg = m, aad_of = a \<rparr>))"
  shows "sealing_aead_contract A (aead_lib_ok L nk p_max) p_max"
proof (unfold_locales)
  fix key nonce aad pt ct :: bytes and e c
  show "a_KEY_LEN A \<le> 32" "a_NONCE_LEN A \<le> 12" "8 \<le> a_NONCE_LEN A"
    using params by simp_all
  show "a_init A key = Err e \<Longrightarrow> e = AeadInitError" "a_init A key \<noteq> Panic"
    by (auto simp: init outcome_simps)
  show "a_seal A c nonce aad pt = Err e \<Longrightarrow> e = SealError" "a_seal A c nonce aad pt \<noteq> Panic"
    by (auto simp: seal outcome_simps)
  show "a_open A c nonce aad ct = Err e \<Longrightarrow> e = OpenError" "a_open A c nonce aad ct \<noteq> Panic"
    by (auto simp: opn outcome_simps)
  assume ok: "aead_lib_ok L nk p_max"
  show "length key = a_KEY_LEN A \<Longrightarrow> \<exists>c. a_init A key = Ok c"
    using aead_lib_okD(1) [OF ok, of key] params by (auto simp: init outcome_simps)
  show "a_seal A c nonce aad pt = Ok ct \<Longrightarrow> length ct = length pt + a_TAG_LEN A"
    using aead_lib_okD(3) [OF ok] params by (auto simp: seal outcome_simps)
  show "a_seal A c nonce aad pt = Ok ct \<Longrightarrow> a_open A c nonce aad ct = Ok pt"
    using aead_lib_okD(4) [OF ok] by (auto simp: seal opn outcome_simps)
  assume "length nonce = a_NONCE_LEN A" and len: "length pt \<le> p_max" "length aad \<le> p_max"
  then obtain n where "al_nonce_try_from L nonce = Some n"
    using aead_lib_okD(2) [OF ok, of nonce] params by auto
  with aead_lib_ok_encrypt [OF ok len] show "\<exists>ct. a_seal A c nonce aad pt = Ok ct"
    by (auto simp: seal outcome_simps)
qed

interpretation chacha: sealing_aead_contract "ChaCha20Poly1305 L" "aead_lib_ok L 32 p_max" p_max
  by (rule rustcrypto_contract) (simp_all add: ChaCha20Poly1305_def ChaCha20Poly1305_init_def
    ChaCha20Poly1305_seal_def ChaCha20Poly1305_open_def)

interpretation aes128: sealing_aead_contract "Aes128Gcm L" "aead_lib_ok L 16 p_max" p_max
  by (rule rustcrypto_contract) (simp_all add: Aes128Gcm_def Aes128Gcm_init_def
    Aes128Gcm_seal_def Aes128Gcm_open_def)

interpretation aes256: sealing_aead_contract "Aes256Gcm L" "aead_lib_ok L 32 p_max" p_max
  by (rule rustcrypto_contract) (simp_all add: Aes256Gcm_def Aes256Gcm_init_def
    Aes256Gcm_seal_def Aes256Gcm_open_def)

interpretation export_only: aead_contract ExportOnly True
  by unfold_locales (simp_all add: ExportOnly_def ExportOnly_init_def)

end
