(* ===== verification/Hpke_Kem.thy ===== *)
theory Hpke_Kem
  imports Hpke_Error
begin

text \<open>
  \<open>src/kem/mod.rs\<close>: the \<open>Kem\<close> and \<open>AuthKem\<close> traits and the KEM suite
  identifier, with the contracts that the modes of HPKE rely on.

  The record \<open>kem\<close> holds the constants and functions of the trait; the \<open>AsRef<[u8]>\<close>
  and \<open>Zeroize\<close> bounds on its associated types are fields too. A function that takes
  \<open>&mut R\<close> takes the generator state and returns the new one beside its outcome, since
  the generator advances on the failing paths as well.
\<close>

section \<open>Suite identifier\<close>

definition kem_suite_id :: "u16 \<Rightarrow> bytes" where
  "kem_suite_id kem_id =
     (let s = replicate 5 0;
          s = splice 0 (ascii ''KEM'') s
      in splice 3 (to_be_bytes kem_id) s)"

lemma kem_suite_id_eq: "kem_suite_id kem_id = ascii ''KEM'' @ to_be_bytes kem_id"
  by (simp add: kem_suite_id_def splice_def)

lemma length_kem_suite_id [simp]: "length (kem_suite_id kem_id) = 5"
  by (simp add: kem_suite_id_eq)

lemma kem_suite_id_inj: "kem_suite_id i = kem_suite_id j \<longleftrightarrow> i = j"
  by (simp add: kem_suite_id_eq)

section \<open>The caller's generator (\<open>R: CryptoRng\<close>)\<close>

text \<open>\<open>fill_bytes\<close> overwrites a buffer of the given length.\<close>

record 'r rng =
  fill_bytes :: "'r \<Rightarrow> nat \<Rightarrow> bytes \<times> 'r"

definition rng_ok :: "'r rng \<Rightarrow> bool" where
  "rng_ok R \<longleftrightarrow> (\<forall>r n. length (fst (fill_bytes R r n)) = n)"

section \<open>The traits\<close>

record ('r, 'pk, 'sk, 'enc, 'ss) kem =
  k_ID :: u16
  k_ENCAPPED_KEY_LEN :: nat
  k_PUBLIC_KEY_LEN :: nat
  k_PRIVATE_KEY_LEN :: nat
  k_SHARED_SECRET_LEN :: nat
  k_pk_as_ref :: "'pk \<Rightarrow> bytes"
  k_enc_as_ref :: "'enc \<Rightarrow> bytes"
  k_ss_as_ref :: "'ss \<Rightarrow> bytes"
  k_sk_zeroize :: "'sk \<Rightarrow> 'sk res"
  k_generate :: "'r \<Rightarrow> ('sk \<times> 'pk) res \<times> 'r"
  k_derive_key_pair :: "bytes \<Rightarrow> ('sk \<times> 'pk) res"
  k_encap :: "'r \<Rightarrow> 'pk \<Rightarrow> ('ss \<times> 'enc) res \<times> 'r"
  k_decap :: "'enc \<Rightarrow> 'sk \<Rightarrow> 'ss res"
  k_pk_from_bytes :: "bytes \<Rightarrow> 'pk res"
  k_sk_from_bytes :: "bytes \<Rightarrow> 'sk res"
  k_enc_from_bytes :: "bytes \<Rightarrow> 'enc res"
  k_pk_to_bytes :: "'pk \<Rightarrow> bytes"
  k_sk_to_bytes :: "'sk \<Rightarrow> bytes"

record ('r, 'pk, 'sk, 'enc, 'ss) auth_kem = "('r, 'pk, 'sk, 'enc, 'ss) kem" +
  k_auth_encap :: "'r \<Rightarrow> 'pk \<Rightarrow> 'sk \<Rightarrow> ('ss \<times> 'enc) res \<times> 'r"
  k_auth_decap :: "'enc \<Rightarrow> 'sk \<Rightarrow> 'pk \<Rightarrow> 'ss res"

section \<open>The contracts\<close>

text \<open>
  \<open>pair sk pk\<close> says that the two halves belong together. The laws of a KEM: key generation
  and derivation return matching halves, the holder of the private half recovers the shared
  secret that encapsulation returned, and an encapsulated key survives its wire form.
\<close>

locale kem_contract =
  fixes K :: "('r, 'pk, 'sk, 'enc, 'ss, 'z) kem_scheme"
    and pair :: "'sk \<Rightarrow> 'pk \<Rightarrow> bool" and lawful :: bool
  assumes generate_pair: "lawful \<Longrightarrow> k_generate K r = (Ok (sk, pk), r') \<Longrightarrow> pair sk pk"
    and derive_pair: "lawful \<Longrightarrow> k_derive_key_pair K ikm = Ok (sk, pk) \<Longrightarrow> pair sk pk"
    and decap_encap: "lawful \<Longrightarrow> pair sk pk \<Longrightarrow> k_encap K r pk = (Ok (ss, enc), r') \<Longrightarrow>
          k_decap K enc sk = Ok ss"
    and enc_wire: "lawful \<Longrightarrow> pair sk pk \<Longrightarrow> k_encap K r pk = (Ok (ss, enc), r') \<Longrightarrow>
          k_enc_from_bytes K (k_enc_as_ref K enc) = Ok enc"
    and encap_no_panic: "lawful \<Longrightarrow> fst (k_encap K r pk) \<noteq> Panic"
    and decap_no_panic: "lawful \<Longrightarrow> k_decap K enc sk \<noteq> Panic"

text \<open>The authenticated variant: the sender proves possession of \<open>sk_s\<close>.\<close>

locale auth_kem_contract =
  kem_contract K pair lawful
  for K :: "('r, 'pk, 'sk, 'enc, 'ss, ('r, 'pk, 'sk, 'enc, 'ss, 'z) auth_kem_ext) kem_scheme"
    and pair :: "'sk \<Rightarrow> 'pk \<Rightarrow> bool" and lawful :: bool +
  assumes auth_decap_encap: "lawful \<Longrightarrow> pair sk_r pk_r \<Longrightarrow> pair sk_s pk_s \<Longrightarrow>
          k_auth_encap K r pk_r sk_s = (Ok (ss, enc), r') \<Longrightarrow>
          k_auth_decap K enc sk_r pk_s = Ok ss"
    and auth_enc_wire: "lawful \<Longrightarrow> k_auth_encap K r pk_r sk_s = (Ok (ss, enc), r') \<Longrightarrow>
          k_enc_from_bytes K (k_enc_as_ref K enc) = Ok enc"
    and auth_encap_no_panic: "lawful \<Longrightarrow> fst (k_auth_encap K r pk_r sk_s) \<noteq> Panic"
    and auth_decap_no_panic: "lawful \<Longrightarrow> k_auth_decap K enc sk_r pk_s \<noteq> Panic"

end
