(* ===== verification/Hpke_Context.thy ===== *)
theory Hpke_Context
  imports Hpke_Kdf Hpke_Aead Hpke_Kem
begin

text \<open>
  \<open>ciphersuite\<close> of \<open>src/lib.rs\<close> and the whole of \<open>src/context.rs\<close>: the
  encryption context with its sequence counter, sealing, opening and exporting, and the two
  one-directional wrappers.

  \<open>Context<K, F, A>\<close> is the record of the same name; its type parameters only select the
  algorithms, so the operations take the dictionaries as arguments. An operation on
  \<open>&mut self\<close> returns its outcome and the context after it.
\<close>

section \<open>The ciphersuite identifier\<close>

definition ciphersuite ::
    "('r, 'pk, 'sk, 'enc, 'ss, 'z) kem_scheme \<Rightarrow> kdf \<Rightarrow> ('c, 'y) aead_scheme \<Rightarrow> bytes" where
  "ciphersuite K F A =
     (let s = replicate 10 0;
          s = splice 0 (ascii ''HPKE'') s;
          s = splice 4 (to_be_bytes (k_ID K)) s;
          s = splice 6 (to_be_bytes (f_ID F)) s
      in splice 8 (to_be_bytes (a_ID A)) s)"

lemma ciphersuite_eq:
  "ciphersuite K F A =
     ascii ''HPKE'' @ to_be_bytes (k_ID K) @ to_be_bytes (f_ID F) @ to_be_bytes (a_ID A)"
  by (simp add: ciphersuite_def splice_def Let_def numeral_eq_Suc)

lemma length_ciphersuite [simp]: "length (ciphersuite K F A) = 10"
  by (simp add: ciphersuite_eq)

section \<open>State and construction\<close>

definition SEQ_LEN :: nat where "SEQ_LEN = 8"
definition MAX_NONCE_LEN :: nat where "MAX_NONCE_LEN = 12"

text \<open>
  \<open>raw_key\<close> is the copy of the AEAD key that only the test and interoperability builds
  carry; no operation reads it.
\<close>

record 'c Context =
  cipher :: 'c
  base_nonce :: bytes
  exporter_secret :: bytes
  seq :: u64
  raw_key :: bytes

text \<open>
  \<open>AssertNonceRange::<A>::CHECK\<close>: evaluated when sealing or opening is instantiated for
  an algorithm. An algorithm that fails it does not build, which the model renders as a panic.
\<close>

definition assert_nonce_range :: "('c, 'y) aead_scheme \<Rightarrow> bool" where
  "assert_nonce_range A \<longleftrightarrow> SEQ_LEN \<le> a_NONCE_LEN A \<and> a_NONCE_LEN A \<le> MAX_NONCE_LEN"

definition Context_new ::
    "('c, 'y) aead_scheme \<Rightarrow> bytes \<Rightarrow> bytes \<Rightarrow> bytes \<Rightarrow> 'c Context res" where
  "Context_new A key nonce_bytes exp_secret =
     try_bind (a_init A key) (\<lambda>ciph.
     try_bind (copy_into 0 (a_NONCE_LEN A) nonce_bytes (replicate MAX_NONCE_LEN 0)) (\<lambda>nonce.
       Ok \<lparr> cipher = ciph, base_nonce = nonce, exporter_secret = exp_secret, seq = 0,
            raw_key = key \<rparr>))"

section \<open>Operations\<close>

definition Context_export ::
    "('r, 'pk, 'sk, 'enc, 'ss, 'z) kem_scheme \<Rightarrow> kdf \<Rightarrow> ('c, 'y) aead_scheme \<Rightarrow>
     'c Context \<Rightarrow> bytes \<Rightarrow> nat \<Rightarrow> bytes res" where
  "Context_export K F A ctx exporter_context len =
     labeled_expand F (exporter_secret ctx) (ciphersuite K F A) (ascii ''sec'')
       exporter_context len"

definition compute_nonce :: "('c, 'y) aead_scheme \<Rightarrow> 'c Context \<Rightarrow> bytes res" where
  "compute_nonce A ctx =
     (if \<not> assert_nonce_range A then Panic
      else let len = a_NONCE_LEN A in
        try_bind (slice_to len (base_nonce ctx)) (\<lambda>bn.
        try_bind (copy_into 0 len bn (replicate MAX_NONCE_LEN 0)) (\<lambda>nonce.
          let seq_be = to_be_bytes (seq ctx);
              window = take SEQ_LEN (drop (len - SEQ_LEN) nonce)
          in Ok (splice (len - SEQ_LEN) (xor_bytes window seq_be) nonce))))"

definition Context_seal ::
    "('c, ('c, 'y) sealing_aead_ext) aead_scheme \<Rightarrow> 'c Context \<Rightarrow> bytes \<Rightarrow> bytes \<Rightarrow>
     bytes res \<times> 'c Context" where
  "Context_seal A ctx aad pt =
     (if seq ctx = u64_MAX then (Err MessageLimitReached, ctx)
      else case try_bind (compute_nonce A ctx) (\<lambda>nonce.
                  a_seal A (cipher ctx) (take (a_NONCE_LEN A) nonce) aad pt) of
        Ok ct \<Rightarrow> (Ok ct, ctx\<lparr>seq := seq ctx + 1\<rparr>)
      | Err e \<Rightarrow> (Err e, ctx)
      | Panic \<Rightarrow> (Panic, ctx))"

definition Context_open ::
    "('c, ('c, 'y) sealing_aead_ext) aead_scheme \<Rightarrow> 'c Context \<Rightarrow> bytes \<Rightarrow> bytes \<Rightarrow>
     bytes res \<times> 'c Context" where
  "Context_open A ctx aad ct =
     (if seq ctx = u64_MAX then (Err MessageLimitReached, ctx)
      else case try_bind (compute_nonce A ctx) (\<lambda>nonce.
                  a_open A (cipher ctx) (take (a_NONCE_LEN A) nonce) aad ct) of
        Ok pt \<Rightarrow> (Ok pt, ctx\<lparr>seq := seq ctx + 1\<rparr>)
      | Err e \<Rightarrow> (Err e, ctx)
      | Panic \<Rightarrow> (Panic, ctx))"

text \<open>The accessors of the interoperability builds.\<close>

definition Context_nonce :: "('c, 'y) aead_scheme \<Rightarrow> 'c Context \<Rightarrow> bytes" where
  "Context_nonce A ctx = take (a_NONCE_LEN A) (base_nonce ctx)"

definition Context_key :: "'c Context \<Rightarrow> bytes" where
  "Context_key ctx = raw_key ctx"

definition Context_exporter_secret :: "'c Context \<Rightarrow> bytes" where
  "Context_exporter_secret ctx = exporter_secret ctx"

definition Context_sequence_number :: "'c Context \<Rightarrow> u64" where
  "Context_sequence_number ctx = seq ctx"

definition set_seq_for_test :: "'c Context \<Rightarrow> u64 \<Rightarrow> 'c Context" where
  "set_seq_for_test ctx s = ctx\<lparr>seq := s\<rparr>"

section \<open>Sender and receiver\<close>

datatype 'c SenderContext = SenderContext (sender_inner: "'c Context")
datatype 'c ReceiverContext = ReceiverContext (receiver_inner: "'c Context")

fun Sender_export ::
    "('r, 'pk, 'sk, 'enc, 'ss, 'z) kem_scheme \<Rightarrow> kdf \<Rightarrow> ('c, 'y) aead_scheme \<Rightarrow>
     'c SenderContext \<Rightarrow> bytes \<Rightarrow> nat \<Rightarrow> bytes res" where
  "Sender_export K F A (SenderContext ctx) exporter_context len =
     Context_export K F A ctx exporter_context len"

fun Sender_seal ::
    "('c, ('c, 'y) sealing_aead_ext) aead_scheme \<Rightarrow> 'c SenderContext \<Rightarrow> bytes \<Rightarrow> bytes \<Rightarrow>
     bytes res \<times> 'c SenderContext" where
  "Sender_seal A (SenderContext ctx) aad pt =
     (case Context_seal A ctx aad pt of (res, ctx') \<Rightarrow> (res, SenderContext ctx'))"

fun Receiver_export ::
    "('r, 'pk, 'sk, 'enc, 'ss, 'z) kem_scheme \<Rightarrow> kdf \<Rightarrow> ('c, 'y) aead_scheme \<Rightarrow>
     'c ReceiverContext \<Rightarrow> bytes \<Rightarrow> nat \<Rightarrow> bytes res" where
  "Receiver_export K F A (ReceiverContext ctx) exporter_context len =
     Context_export K F A ctx exporter_context len"

fun Receiver_open ::
    "('c, ('c, 'y) sealing_aead_ext) aead_scheme \<Rightarrow> 'c ReceiverContext \<Rightarrow> bytes \<Rightarrow> bytes \<Rightarrow>
     bytes res \<times> 'c ReceiverContext" where
  "Receiver_open A (ReceiverContext ctx) aad ct =
     (case Context_open A ctx aad ct of (res, ctx') \<Rightarrow> (res, ReceiverContext ctx'))"

text \<open>
  \<open>from_context\<close> of the sender and the accessors of both wrappers, in the same builds.
\<close>

definition Sender_from_context :: "'c Context \<Rightarrow> 'c SenderContext" where
  "Sender_from_context inner = SenderContext inner"

definition Receiver_key :: "'c ReceiverContext \<Rightarrow> bytes" where
  "Receiver_key c = Context_key (receiver_inner c)"

definition Receiver_nonce :: "('c, 'y) aead_scheme \<Rightarrow> 'c ReceiverContext \<Rightarrow> bytes" where
  "Receiver_nonce A c = Context_nonce A (receiver_inner c)"

definition Receiver_exporter_secret :: "'c ReceiverContext \<Rightarrow> bytes" where
  "Receiver_exporter_secret c = Context_exporter_secret (receiver_inner c)"

definition Receiver_sequence_number :: "'c ReceiverContext \<Rightarrow> u64" where
  "Receiver_sequence_number c = Context_sequence_number (receiver_inner c)"

section \<open>The type invariant\<close>

text \<open>\<open>base_nonce\<close> is the array type \<open>[u8; MAX_NONCE_LEN]\<close>.\<close>

definition context_wf :: "'c Context \<Rightarrow> bool" where
  "context_wf ctx \<longleftrightarrow> length (base_nonce ctx) = MAX_NONCE_LEN"

lemma Context_new_Ok_iff:
  assumes "a_NONCE_LEN A \<le> 12"
  shows "Context_new A key bn es = Ok ctx \<longleftrightarrow>
     (\<exists>c. a_init A key = Ok c \<and> length bn = a_NONCE_LEN A \<and>
        ctx = \<lparr> cipher = c, base_nonce = bn @ replicate (12 - a_NONCE_LEN A) 0,
                exporter_secret = es, seq = 0, raw_key = key \<rparr>)"
  using assms by (auto simp: Context_new_def outcome_simps copy_into_def MAX_NONCE_LEN_def splice_def)

lemma Context_seal_wf: "Context_seal A ctx aad pt = (r, ctx') \<Longrightarrow> context_wf ctx \<Longrightarrow> context_wf ctx'"
  by (auto simp: Context_seal_def context_wf_def split: if_splits outcome.splits)

lemma Context_open_wf: "Context_open A ctx aad ct = (r, ctx') \<Longrightarrow> context_wf ctx \<Longrightarrow> context_wf ctx'"
  by (auto simp: Context_open_def context_wf_def split: if_splits outcome.splits)

section \<open>The nonce\<close>

text \<open>The nonce the code uses for the current message, as a closed expression.\<close>

definition nonce_at :: "('c, 'y) aead_scheme \<Rightarrow> bytes \<Rightarrow> u64 \<Rightarrow> bytes" where
  "nonce_at A bn s =
     (let n = a_NONCE_LEN A in
      take (n - 8) bn @ xor_bytes (take 8 (drop (n - 8) bn)) (to_be_bytes s))"

lemma compute_nonce_eq:
  assumes "assert_nonce_range A" and "context_wf ctx"
  shows "\<exists>nonce. compute_nonce A ctx = Ok nonce \<and>
     take (a_NONCE_LEN A) nonce = nonce_at A (base_nonce ctx) (seq ctx)"
proof -
  define k where "k = a_NONCE_LEN A - 8"
  have k: "a_NONCE_LEN A = k + 8" "k \<le> 4"
    using assms(1) by (auto simp: k_def assert_nonce_range_def SEQ_LEN_def MAX_NONCE_LEN_def)
  from assms(2) have len: "length (base_nonce ctx) = 12"
    by (simp add: context_wf_def MAX_NONCE_LEN_def)
  have "take 8 (drop k (take (k + 8) (base_nonce ctx))) = take 8 (drop k (base_nonce ctx))"
    by (simp add: drop_take)
  with k len assms(1) show ?thesis
    by (simp add: compute_nonce_def nonce_at_def Let_def slice_to_def copy_into_def
        MAX_NONCE_LEN_def SEQ_LEN_def splice_def slice_simps min_def)
qed

lemma length_nonce_at:
  assumes "assert_nonce_range A" and "length bn = 12"
  shows "length (nonce_at A bn s) = a_NONCE_LEN A"
  using assms by (auto simp: nonce_at_def Let_def slice_simps assert_nonce_range_def
      SEQ_LEN_def MAX_NONCE_LEN_def min_def)

lemma nonce_at_inj:
  assumes "assert_nonce_range A" and "length bn = 12"
  shows "nonce_at A bn s = nonce_at A bn t \<longleftrightarrow> s = t"
proof -
  have "length (take 8 (drop (a_NONCE_LEN A - 8) bn)) = 8"
    using assms by (auto simp: min_def assert_nonce_range_def SEQ_LEN_def MAX_NONCE_LEN_def)
  then show ?thesis
    by (simp add: nonce_at_def Let_def xor_bytes_inj)
qed

section \<open>One step of sealing and opening\<close>

text \<open>The functional behaviour of both operations on a well-formed context.\<close>

lemma Context_seal_eq:
  assumes "assert_nonce_range A" and "context_wf ctx"
  shows "Context_seal A ctx aad pt =
    (if seq ctx = u64_MAX then (Err MessageLimitReached, ctx)
     else case a_seal A (cipher ctx) (nonce_at A (base_nonce ctx) (seq ctx)) aad pt of
       Ok ct \<Rightarrow> (Ok ct, ctx\<lparr>seq := seq ctx + 1\<rparr>)
     | Err e \<Rightarrow> (Err e, ctx) | Panic \<Rightarrow> (Panic, ctx))"
  using compute_nonce_eq [OF assms] by (auto simp: Context_seal_def)

lemma Context_open_eq:
  assumes "assert_nonce_range A" and "context_wf ctx"
  shows "Context_open A ctx aad ct =
    (if seq ctx = u64_MAX then (Err MessageLimitReached, ctx)
     else case a_open A (cipher ctx) (nonce_at A (base_nonce ctx) (seq ctx)) aad ct of
       Ok pt \<Rightarrow> (Ok pt, ctx\<lparr>seq := seq ctx + 1\<rparr>)
     | Err e \<Rightarrow> (Err e, ctx) | Panic \<Rightarrow> (Panic, ctx))"
  using compute_nonce_eq [OF assms] by (auto simp: Context_open_def)

text \<open>
  The counter moves on success and only then: the frame shared by every fact about runs of
  operations.
\<close>

lemma Context_seal_frame:
  assumes "Context_seal A ctx aad pt = (r, ctx')"
  shows "cipher ctx' = cipher ctx" and "base_nonce ctx' = base_nonce ctx"
    and "exporter_secret ctx' = exporter_secret ctx"
    and "is_ok r \<Longrightarrow> unat (seq ctx') = Suc (unat (seq ctx))"
    and "\<not> is_ok r \<Longrightarrow> ctx' = ctx"
  using assms by (auto simp: Context_seal_def u64_succ is_ok_def split: if_splits outcome.splits)

lemma Context_open_frame:
  assumes "Context_open A ctx aad ct = (r, ctx')"
  shows "cipher ctx' = cipher ctx" and "base_nonce ctx' = base_nonce ctx"
    and "exporter_secret ctx' = exporter_secret ctx"
    and "is_ok r \<Longrightarrow> unat (seq ctx') = Suc (unat (seq ctx))"
    and "\<not> is_ok r \<Longrightarrow> ctx' = ctx"
  using assms by (auto simp: Context_open_def u64_succ is_ok_def split: if_splits outcome.splits)

end
