(* ===== verification/Hpke_Psk.thy ===== *)
theory Hpke_Psk
  imports Hpke_Error
begin

text \<open>
  \<open>src/psk.rs\<close>: the validated pre-shared key. The fields of \<open>Psk\<close> are private and
  \<open>Psk::new\<close> is its only constructor, so the invariant \<open>psk_valid\<close> that
  \<open>Psk_new\<close> establishes is the type invariant of every \<open>Psk\<close> in the program.
\<close>

definition MIN_PSK_LEN :: nat where
  "MIN_PSK_LEN = 32"

record Psk =
  psk_secret :: bytes
  psk_id :: bytes

definition Psk_new :: "bytes \<Rightarrow> bytes \<Rightarrow> Psk res" where
  "Psk_new secret pid =
     (if (secret = []) \<noteq> (pid = []) then Err InconsistentPsk
      else if secret = [] then Err MissingPsk
      else if length secret < MIN_PSK_LEN then Err InsecurePsk
      else Ok \<lparr> psk_secret = secret, psk_id = pid \<rparr>)"

text \<open>The accessors \<open>Psk::secret\<close> and \<open>Psk::id\<close>.\<close>

definition Psk_secret :: "Psk \<Rightarrow> bytes" where
  "Psk_secret p = psk_secret p"

definition Psk_id :: "Psk \<Rightarrow> bytes" where
  "Psk_id p = psk_id p"

text \<open>\<open>impl PartialEq for Psk\<close>; \<open>ct_eq\<close> is the comparison of the \<open>subtle\<close> crate.\<close>

definition Psk_eq :: "(bytes \<Rightarrow> bytes \<Rightarrow> bool) \<Rightarrow> Psk \<Rightarrow> Psk \<Rightarrow> bool" where
  "Psk_eq ct_eq p q \<longleftrightarrow> psk_id p = psk_id q \<and> ct_eq (psk_secret p) (psk_secret q)"

text \<open>
  \<open>impl fmt::Debug for Psk\<close>, in the compact form that \<open>{:?}\<close> produces: decimal
  numbers, a struct with its fields, a byte slice as a list.
\<close>

fun show_nat :: "nat \<Rightarrow> string" where
  "show_nat n = (if n < 10 then [char_of (48 + n)] else show_nat (n div 10) @ [char_of (48 + n mod 10)])"

declare show_nat.simps [simp del]

fun show_commas :: "string list \<Rightarrow> string" where
  "show_commas [] = ''''"
| "show_commas [s] = s"
| "show_commas (s # ss) = s @ '', '' @ show_commas ss"

definition show_bytes :: "bytes \<Rightarrow> string" where
  "show_bytes bs = ''['' @ show_commas (map (\<lambda>b. show_nat (unat b)) bs) @ '']''"

definition redacted :: "nat \<Rightarrow> string" where
  "redacted n = ''<'' @ show_nat n @ '' bytes>''"

definition Psk_fmt :: "Psk \<Rightarrow> string" where
  "Psk_fmt p = ''Psk { secret: '' @ redacted (length (psk_secret p)) @
     '', id: '' @ show_bytes (psk_id p) @ '' }''"

section \<open>The type invariant\<close>

definition psk_valid :: "Psk \<Rightarrow> bool" where
  "psk_valid p \<longleftrightarrow> MIN_PSK_LEN \<le> length (psk_secret p) \<and> psk_id p \<noteq> []"

lemma Psk_new_Ok_iff:
  "Psk_new secret pid = Ok p \<longleftrightarrow>
     p = \<lparr> psk_secret = secret, psk_id = pid \<rparr> \<and> psk_valid p"
  by (auto simp: Psk_new_def psk_valid_def MIN_PSK_LEN_def)

text \<open>What was validated is what the accessors return.\<close>

lemma Psk_new_accessors: "Psk_new secret pid = Ok p \<Longrightarrow> Psk_secret p = secret \<and> Psk_id p = pid"
  by (auto simp: Psk_new_Ok_iff Psk_secret_def Psk_id_def)

lemma Psk_new_not_Panic: "Psk_new secret pid \<noteq> Panic"
  by (simp add: Psk_new_def)

lemma Psk_new_valid: "Psk_new secret pid = Ok p \<Longrightarrow> psk_valid p"
  by (auto simp: Psk_new_Ok_iff)

lemma Psk_fmt_redacts:
  "length (psk_secret p) = length (psk_secret q) \<Longrightarrow> psk_id p = psk_id q \<Longrightarrow>
   Psk_fmt p = Psk_fmt q"
  by (simp add: Psk_fmt_def)

lemma Psk_eq_iff:
  "(\<And>a b. ct_eq a b \<longleftrightarrow> a = b) \<Longrightarrow> Psk_eq ct_eq p q \<longleftrightarrow> p = q"
  by (cases p; cases q) (auto simp: Psk_eq_def)

end
