(* ===== verification/Hpke_Key_Schedule.thy ===== *)
theory Hpke_Key_Schedule
  imports Hpke_Context Hpke_Psk
begin

text \<open>
  The modes and the key schedule of \<open>src/lib.rs\<close> (RFC 9180, section 5.1).

  The crate specialises the key schedule at the type level: \<open>key_schedule_psk_free\<close> takes
  a \<open>PskFreeMode\<close> tag and \<open>key_schedule_psk\<close> a \<open>PskMode\<close> tag. The two marker traits
  are two datatypes here, so that routing a mode through the wrong schedule is a type error
  of the model as well.
\<close>

section \<open>Modes\<close>

definition mode_BASE :: u8 where "mode_BASE = 0x00"
definition mode_PSK :: u8 where "mode_PSK = 0x01"
definition mode_AUTH :: u8 where "mode_AUTH = 0x02"
definition mode_AUTH_PSK :: u8 where "mode_AUTH_PSK = 0x03"

datatype PskFreeMode = BaseModeTag | AuthModeTag
datatype PskMode = PskModeTag | AuthPskModeTag

fun psk_free_mode_byte :: "PskFreeMode \<Rightarrow> u8" where
  "psk_free_mode_byte BaseModeTag = mode_BASE"
| "psk_free_mode_byte AuthModeTag = mode_AUTH"

fun psk_mode_byte :: "PskMode \<Rightarrow> u8" where
  "psk_mode_byte PskModeTag = mode_PSK"
| "psk_mode_byte AuthPskModeTag = mode_AUTH_PSK"

lemmas mode_defs = mode_BASE_def mode_PSK_def mode_AUTH_def mode_AUTH_PSK_def

text \<open>The four mode bytes are distinct, within and across the two families.\<close>

lemma mode_bytes_distinct:
  "psk_free_mode_byte m = psk_free_mode_byte m' \<longleftrightarrow> m = m'"
  "psk_mode_byte n = psk_mode_byte n' \<longleftrightarrow> n = n'"
  "psk_free_mode_byte m \<noteq> psk_mode_byte n"
  by (cases m; cases m'; cases n; cases n'; simp add: mode_defs)+

section \<open>The two key schedules\<close>

definition key_schedule_psk_free ::
    "PskFreeMode \<Rightarrow> ('r, 'pk, 'sk, 'enc, 'ss, 'z) kem_scheme \<Rightarrow> kdf \<Rightarrow> ('c, 'y) aead_scheme \<Rightarrow>
     bytes \<Rightarrow> bytes \<Rightarrow> 'c Context res" where
  "key_schedule_psk_free M K F A shared_secret info =
     (let suite = ciphersuite K F A;
          psk_id_hash = labeled_extract F [] suite (ascii ''psk_id_hash'') [];
          info_hash = labeled_extract F [] suite (ascii ''info_hash'') info;
          mode_arr = [psk_free_mode_byte M];
          ks_pieces = [mode_arr, psk_id_hash, info_hash];
          secret = labeled_extract F shared_secret suite (ascii ''secret'') []
      in try_bind (labeled_expand_pieces F secret suite (ascii ''key'') ks_pieces (a_KEY_LEN A))
           (\<lambda>key.
         try_bind (labeled_expand_pieces F secret suite (ascii ''base_nonce'') ks_pieces
             (a_NONCE_LEN A)) (\<lambda>nonce.
         try_bind (labeled_expand_pieces F secret suite (ascii ''exp'') ks_pieces
             (f_HASH_LEN F)) (\<lambda>exp_secret.
           Context_new A key nonce exp_secret))))"

definition key_schedule_psk ::
    "PskMode \<Rightarrow> ('r, 'pk, 'sk, 'enc, 'ss, 'z) kem_scheme \<Rightarrow> kdf \<Rightarrow> ('c, 'y) aead_scheme \<Rightarrow>
     bytes \<Rightarrow> bytes \<Rightarrow> Psk \<Rightarrow> 'c Context res" where
  "key_schedule_psk M K F A shared_secret info psk =
     (let suite = ciphersuite K F A;
          psk_id_hash = labeled_extract F [] suite (ascii ''psk_id_hash'') (psk_id psk);
          info_hash = labeled_extract F [] suite (ascii ''info_hash'') info;
          mode_arr = [psk_mode_byte M];
          ks_pieces = [mode_arr, psk_id_hash, info_hash];
          secret = labeled_extract F shared_secret suite (ascii ''secret'') (psk_secret psk)
      in try_bind (labeled_expand_pieces F secret suite (ascii ''key'') ks_pieces (a_KEY_LEN A))
           (\<lambda>key.
         try_bind (labeled_expand_pieces F secret suite (ascii ''base_nonce'') ks_pieces
             (a_NONCE_LEN A)) (\<lambda>nonce.
         try_bind (labeled_expand_pieces F secret suite (ascii ''exp'') ks_pieces
             (f_HASH_LEN F)) (\<lambda>exp_secret.
           Context_new A key nonce exp_secret))))"

section \<open>Shape of the derived context\<close>

text \<open>The part the two schedules share, as a function of what differs between them.\<close>

definition derive_context ::
    "u8 \<Rightarrow> ('r, 'pk, 'sk, 'enc, 'ss, 'z) kem_scheme \<Rightarrow> kdf \<Rightarrow> ('c, 'y) aead_scheme \<Rightarrow>
     bytes \<Rightarrow> bytes \<Rightarrow> bytes \<Rightarrow> bytes \<Rightarrow> 'c Context res" where
  "derive_context mode K F A shared_secret info psk pid =
     (let suite = ciphersuite K F A;
          ks = [[mode], labeled_extract F [] suite (ascii ''psk_id_hash'') pid,
                labeled_extract F [] suite (ascii ''info_hash'') info];
          secret = labeled_extract F shared_secret suite (ascii ''secret'') psk
      in try_bind (labeled_expand_pieces F secret suite (ascii ''key'') ks (a_KEY_LEN A)) (\<lambda>key.
         try_bind (labeled_expand_pieces F secret suite (ascii ''base_nonce'') ks (a_NONCE_LEN A))
           (\<lambda>nonce.
         try_bind (labeled_expand_pieces F secret suite (ascii ''exp'') ks (f_HASH_LEN F))
           (\<lambda>exp_secret. Context_new A key nonce exp_secret))))"

lemma key_schedule_psk_free_eq:
  "key_schedule_psk_free M K F A ss info =
   derive_context (psk_free_mode_byte M) K F A ss info [] []"
  by (simp add: key_schedule_psk_free_def derive_context_def Let_def)

lemma key_schedule_psk_eq:
  "key_schedule_psk M K F A ss info psk =
   derive_context (psk_mode_byte M) K F A ss info (psk_secret psk) (psk_id psk)"
  by (simp add: key_schedule_psk_def derive_context_def Let_def)

section \<open>The schedule always succeeds\<close>

text \<open>
  A KDF and an AEAD that keep their contracts, with one hypothesis for both libraries. The
  key schedule is their client: none of its early returns is taken and the context it builds
  has the advertised sizes.
\<close>

locale key_schedule_suite =
  kdf: kdf_contract F lawful + aead: aead_contract A lawful
  for F :: kdf and A :: "('c, 'y) aead_scheme" and lawful :: bool
begin

lemma expand_total:
  assumes "lawful" and "n \<le> 64" and "length ps \<le> 12"
  shows "\<exists>out. labeled_expand_pieces F (labeled_extract F salt suite label ikm) suite' label' ps n
               = Ok out \<and> length out = n"
  using assms kdf.hash_len_ge
  by (intro kdf.labeled_expand_pieces_ok) (simp_all add: kdf.labeled_extract_length)

lemma derive_context_total:
  assumes "lawful"
  shows "\<exists>ctx. derive_context mode K F A ss info psk pid = Ok ctx \<and> context_wf ctx \<and> seq ctx = 0
     \<and> length (raw_key ctx) = a_KEY_LEN A
     \<and> length (Context_nonce A ctx) = a_NONCE_LEN A
     \<and> length (exporter_secret ctx) = f_HASH_LEN F"
proof -
  define suite where "suite = ciphersuite K F A"
  define secret where "secret = labeled_extract F ss suite (ascii ''secret'') psk"
  define ks where "ks = [[mode], labeled_extract F [] suite (ascii ''psk_id_hash'') pid,
                labeled_extract F [] suite (ascii ''info_hash'') info]"
  have expand: "\<exists>out. labeled_expand_pieces F secret suite label ks n = Ok out \<and> length out = n"
    if "n \<le> 64" for label n
    unfolding secret_def using assms that by (rule expand_total) (simp add: ks_def)
  obtain key where key: "labeled_expand_pieces F secret suite (ascii ''key'') ks (a_KEY_LEN A) = Ok key"
      "length key = a_KEY_LEN A"
    using expand [of "a_KEY_LEN A"] aead.key_len_le by auto
  obtain bn where bn: "labeled_expand_pieces F secret suite (ascii ''base_nonce'') ks (a_NONCE_LEN A)
      = Ok bn" "length bn = a_NONCE_LEN A"
    using expand [of "a_NONCE_LEN A"] aead.nonce_len_le by auto
  obtain es where es: "labeled_expand_pieces F secret suite (ascii ''exp'') ks (f_HASH_LEN F) = Ok es"
      "length es = f_HASH_LEN F"
    using expand [of "f_HASH_LEN F"] kdf.hash_len_le by auto
  obtain c where "a_init A key = Ok c"
    using aead.init_ok [OF assms key(2)] by auto
  with key bn es aead.nonce_len_le show ?thesis
    by (simp add: derive_context_def suite_def [symmetric] secret_def [symmetric]
        ks_def [symmetric] Let_def Context_new_def copy_into_def MAX_NONCE_LEN_def splice_def
        context_wf_def Context_nonce_def)
qed

lemma key_schedule_psk_free_total:
  "lawful \<Longrightarrow> \<exists>ctx. key_schedule_psk_free M K F A ss info = Ok ctx \<and> context_wf ctx \<and> seq ctx = 0
     \<and> length (raw_key ctx) = a_KEY_LEN A \<and> length (Context_nonce A ctx) = a_NONCE_LEN A
     \<and> length (exporter_secret ctx) = f_HASH_LEN F"
  unfolding key_schedule_psk_free_eq by (rule derive_context_total)

lemma key_schedule_psk_total:
  "lawful \<Longrightarrow> \<exists>ctx. key_schedule_psk M K F A ss info psk = Ok ctx \<and> context_wf ctx \<and> seq ctx = 0
     \<and> length (raw_key ctx) = a_KEY_LEN A \<and> length (Context_nonce A ctx) = a_NONCE_LEN A
     \<and> length (exporter_secret ctx) = f_HASH_LEN F"
  unfolding key_schedule_psk_eq by (rule derive_context_total)

text \<open>\<open>Context.Export\<close> on a context whose exporter secret has the length of the hash.\<close>

lemma export_cases:
  assumes "lawful" and "length (exporter_secret ctx) = f_HASH_LEN F"
  shows "255 * f_HASH_LEN F < n \<Longrightarrow> Context_export K F A ctx ectx n = Err ExportLengthExceeded"
    and "n \<le> 255 * f_HASH_LEN F \<Longrightarrow>
         \<exists>out. Context_export K F A ctx ectx n = Ok out \<and> length out = n"
  using kdf.labeled_expand_too_long kdf.labeled_expand_ok [OF assms(1)] assms(2)
  by (simp_all add: Context_export_def)

end

section \<open>Every registered KDF with every registered AEAD\<close>

lemma aead_contract_mono:
  "aead_contract A l \<Longrightarrow> (l' \<Longrightarrow> l) \<Longrightarrow> aead_contract A l'"
  unfolding aead_contract_def by blast

lemma sealing_aead_contract_mono:
  "sealing_aead_contract A l p_max \<Longrightarrow> (l' \<Longrightarrow> l) \<Longrightarrow> sealing_aead_contract A l' p_max"
  unfolding sealing_aead_contract_def sealing_aead_contract_axioms_def
  using aead_contract_mono [of A l l'] by (cases l') auto

lemma key_schedule_suite_intro:
  "kdf_contract F l \<Longrightarrow> aead_contract A l' \<Longrightarrow> key_schedule_suite F A (l \<and> l')"
  by (simp add: key_schedule_suite_def kdf_contract_mono aead_contract_mono)

interpretation ks_sha256_chacha: key_schedule_suite "HkdfSha256 H" "ChaCha20Poly1305 C"
  "hkdf_lib_ok H 32 \<and> aead_lib_ok C 32 p_max"
  by (rule key_schedule_suite_intro) (rule sha256.kdf_contract_axioms chacha.aead_contract_axioms)+

interpretation ks_sha256_aes128: key_schedule_suite "HkdfSha256 H" "Aes128Gcm C"
  "hkdf_lib_ok H 32 \<and> aead_lib_ok C 16 p_max"
  by (rule key_schedule_suite_intro) (rule sha256.kdf_contract_axioms aes128.aead_contract_axioms)+

interpretation ks_sha256_aes256: key_schedule_suite "HkdfSha256 H" "Aes256Gcm C"
  "hkdf_lib_ok H 32 \<and> aead_lib_ok C 32 p_max"
  by (rule key_schedule_suite_intro) (rule sha256.kdf_contract_axioms aes256.aead_contract_axioms)+

interpretation ks_sha256_export_only: key_schedule_suite "HkdfSha256 H" "ExportOnly"
  "hkdf_lib_ok H 32 \<and> True"
  by (rule key_schedule_suite_intro) (rule sha256.kdf_contract_axioms export_only.aead_contract_axioms)+

interpretation ks_sha384_chacha: key_schedule_suite "HkdfSha384 H" "ChaCha20Poly1305 C"
  "hkdf_lib_ok H 48 \<and> aead_lib_ok C 32 p_max"
  by (rule key_schedule_suite_intro) (rule sha384.kdf_contract_axioms chacha.aead_contract_axioms)+

interpretation ks_sha384_aes128: key_schedule_suite "HkdfSha384 H" "Aes128Gcm C"
  "hkdf_lib_ok H 48 \<and> aead_lib_ok C 16 p_max"
  by (rule key_schedule_suite_intro) (rule sha384.kdf_contract_axioms aes128.aead_contract_axioms)+

interpretation ks_sha384_aes256: key_schedule_suite "HkdfSha384 H" "Aes256Gcm C"
  "hkdf_lib_ok H 48 \<and> aead_lib_ok C 32 p_max"
  by (rule key_schedule_suite_intro) (rule sha384.kdf_contract_axioms aes256.aead_contract_axioms)+

interpretation ks_sha384_export_only: key_schedule_suite "HkdfSha384 H" "ExportOnly"
  "hkdf_lib_ok H 48 \<and> True"
  by (rule key_schedule_suite_intro) (rule sha384.kdf_contract_axioms export_only.aead_contract_axioms)+

interpretation ks_sha512_chacha: key_schedule_suite "HkdfSha512 H" "ChaCha20Poly1305 C"
  "hkdf_lib_ok H 64 \<and> aead_lib_ok C 32 p_max"
  by (rule key_schedule_suite_intro) (rule sha512.kdf_contract_axioms chacha.aead_contract_axioms)+

interpretation ks_sha512_aes128: key_schedule_suite "HkdfSha512 H" "Aes128Gcm C"
  "hkdf_lib_ok H 64 \<and> aead_lib_ok C 16 p_max"
  by (rule key_schedule_suite_intro) (rule sha512.kdf_contract_axioms aes128.aead_contract_axioms)+

interpretation ks_sha512_aes256: key_schedule_suite "HkdfSha512 H" "Aes256Gcm C"
  "hkdf_lib_ok H 64 \<and> aead_lib_ok C 32 p_max"
  by (rule key_schedule_suite_intro) (rule sha512.kdf_contract_axioms aes256.aead_contract_axioms)+

interpretation ks_sha512_export_only: key_schedule_suite "HkdfSha512 H" "ExportOnly"
  "hkdf_lib_ok H 64 \<and> True"
  by (rule key_schedule_suite_intro) (rule sha512.kdf_contract_axioms export_only.aead_contract_axioms)+

end
