(* ===== verification/Hpke_Channel.thy ===== *)
theory Hpke_Channel
  imports Hpke_Context
begin

text \<open>
  A sender context and a receiver context that start from the same key schedule, used over
  time: agreement of one step, streams of messages, and the step relation of a session in
  which the network delivers whatever it likes. The operations are those of
  \<open>src/context.rs\<close>; the contract they rest on is \<open>sealing_aead_contract\<close>.
\<close>

section \<open>Runs\<close>

text \<open>A caller that seals a list of messages, and one that opens a list of deliveries.\<close>

fun seal_run ::
    "('c, ('c, 'y) sealing_aead_ext) aead_scheme \<Rightarrow> 'c SenderContext \<Rightarrow> (bytes \<times> bytes) list \<Rightarrow>
     bytes res list \<times> 'c SenderContext" where
  "seal_run A tx [] = ([], tx)"
| "seal_run A tx ((aad, pt) # ms) =
     (case Sender_seal A tx aad pt of (r, tx1) \<Rightarrow>
      case seal_run A tx1 ms of (rs, tx2) \<Rightarrow> (r # rs, tx2))"

fun open_run ::
    "('c, ('c, 'y) sealing_aead_ext) aead_scheme \<Rightarrow> 'c ReceiverContext \<Rightarrow> (bytes \<times> bytes) list \<Rightarrow>
     bytes res list \<times> 'c ReceiverContext" where
  "open_run A rx [] = ([], rx)"
| "open_run A rx ((aad, ct) # ds) =
     (case Receiver_open A rx aad ct of (r, rx1) \<Rightarrow>
      case open_run A rx1 ds of (rs, rx2) \<Rightarrow> (r # rs, rx2))"

section \<open>One message\<close>

text \<open>The nonce that \<open>Context::seal\<close> hands to the cipher for the current message.\<close>

definition current_nonce :: "('c, 'y) aead_scheme \<Rightarrow> 'c Context \<Rightarrow> bytes" where
  "current_nonce A ctx =
     (case compute_nonce A ctx of Ok nonce \<Rightarrow> take (a_NONCE_LEN A) nonce | _ \<Rightarrow> [])"

lemma current_nonce_eq:
  "assert_nonce_range A \<Longrightarrow> context_wf ctx \<Longrightarrow>
   current_nonce A ctx = nonce_at A (base_nonce ctx) (seq ctx)"
  using compute_nonce_eq [of A ctx] by (auto simp: current_nonce_def)

text \<open>What a successful call says about the cipher, whichever side it is on.\<close>

lemma Context_seal_OkD:
  assumes "Context_seal A ctx aad pt = (Ok ct, ctx')" and "context_wf ctx" and "assert_nonce_range A"
  shows "a_seal A (cipher ctx) (nonce_at A (base_nonce ctx) (seq ctx)) aad pt = Ok ct"
    and "seq ctx \<noteq> u64_MAX" and "ctx' = ctx\<lparr>seq := seq ctx + 1\<rparr>"
  using assms(1) by (auto simp: Context_seal_eq [OF assms(3,2)] split: if_splits outcome.splits)

lemma Context_open_OkD:
  assumes "Context_open A ctx aad ct = (Ok pt, ctx')" and "context_wf ctx" and "assert_nonce_range A"
  shows "a_open A (cipher ctx) (nonce_at A (base_nonce ctx) (seq ctx)) aad ct = Ok pt"
    and "seq ctx \<noteq> u64_MAX" and "ctx' = ctx\<lparr>seq := seq ctx + 1\<rparr>"
  using assms(1) by (auto simp: Context_open_eq [OF assms(3,2)] split: if_splits outcome.splits)

context sealing_aead_contract
begin

lemma nonce_range: "assert_nonce_range A"
  using nonce_len_ge nonce_len_le by (simp add: assert_nonce_range_def SEQ_LEN_def MAX_NONCE_LEN_def)

lemma open_after_seal:
  assumes "lawful" and "context_wf ctx" and "Context_seal A ctx aad pt = (Ok ct, ctx')"
  shows "Context_open A ctx aad ct = (Ok pt, ctx')"
  using Context_seal_OkD [OF assms(3,2) nonce_range] open_seal [OF assms(1)]
  by (simp add: Context_open_eq [OF nonce_range assms(2)])

text \<open>Every way a call can end.\<close>

lemma seal_outcomes:
  assumes "context_wf ctx"
  shows "fst (Context_seal A ctx aad pt) =
    (if seq ctx = u64_MAX then Err MessageLimitReached
     else a_seal A (cipher ctx) (nonce_at A (base_nonce ctx) (seq ctx)) aad pt)"
  by (simp add: Context_seal_eq [OF nonce_range assms] split: outcome.splits)

lemma open_outcomes:
  assumes "context_wf ctx"
  shows "fst (Context_open A ctx aad ct) =
    (if seq ctx = u64_MAX then Err MessageLimitReached
     else a_open A (cipher ctx) (nonce_at A (base_nonce ctx) (seq ctx)) aad ct)"
  by (simp add: Context_open_eq [OF nonce_range assms] split: outcome.splits)

lemma seal_succeeds:
  assumes "lawful" and "context_wf ctx" and "seq ctx \<noteq> u64_MAX"
    and "length pt \<le> p_max" and "length aad \<le> p_max"
  shows "\<exists>ct. Context_seal A ctx aad pt = (Ok ct, ctx\<lparr>seq := seq ctx + 1\<rparr>)
            \<and> length ct = length pt + a_TAG_LEN A"
proof -
  have "length (nonce_at A (base_nonce ctx) (seq ctx)) = a_NONCE_LEN A"
    using assms(2) by (intro length_nonce_at nonce_range) (simp add: context_wf_def MAX_NONCE_LEN_def)
  from seal_ok [OF assms(1) this assms(4,5)] obtain ct
    where "a_seal A (cipher ctx) (nonce_at A (base_nonce ctx) (seq ctx)) aad pt = Ok ct" by blast
  with assms(3) seal_length [OF assms(1)] show ?thesis
    by (simp add: Context_seal_eq [OF nonce_range assms(2)])
qed

section \<open>Streams\<close>

text \<open>The successful results of a run of sealing, with their associated data.\<close>

lemma stream:
  assumes "lawful" and "context_wf ctx"
    and "seal_run A (SenderContext ctx) ms = (map Ok cts, SenderContext ctx')"
  shows "open_run A (ReceiverContext ctx) (zip (map fst ms) cts)
           = (map (Ok \<circ> snd) ms, ReceiverContext ctx')"
  using assms(2,3)
proof (induction ms arbitrary: ctx cts)
  case Nil
  then show ?case by simp
next
  case (Cons m ms)
  obtain aad pt where m: "m = (aad, pt)" by (cases m)
  obtain r ctx1 where seal: "Context_seal A ctx aad pt = (r, ctx1)" by (cases "Context_seal A ctx aad pt")
  with Cons.prems(2) m obtain ct cts' where cts: "cts = ct # cts'" and r: "r = Ok ct"
      and run: "seal_run A (SenderContext ctx1) ms = (map Ok cts', SenderContext ctx')"
    by (cases cts) (auto split: prod.splits)
  have "open_run A (ReceiverContext ctx1) (zip (map fst ms) cts')
      = (map (Ok \<circ> snd) ms, ReceiverContext ctx')"
    using Context_seal_wf [OF seal Cons.prems(1)] run by (rule Cons.IH)
  with open_after_seal [OF assms(1) Cons.prems(1)] seal show ?case
    by (simp add: m cts r)
qed

text \<open>Within the limits of the cipher and of the counter every message of a stream is sealed.\<close>

lemma stream_total:
  assumes "lawful" and "context_wf ctx"
    and "\<And>aad pt. (aad, pt) \<in> set ms \<Longrightarrow> length aad \<le> p_max \<and> length pt \<le> p_max"
    and "unat (seq ctx) + length ms < 2 ^ 64"
  shows "\<exists>cts ctx'. seal_run A (SenderContext ctx) ms = (map Ok cts, SenderContext ctx')
            \<and> unat (seq ctx') = unat (seq ctx) + length ms"
  using assms(2-4)
proof (induction ms arbitrary: ctx)
  case Nil
  then show ?case by (intro exI [of _ "[]"]) simp
next
  case (Cons m ms)
  obtain aad pt where m: "m = (aad, pt)" by (cases m)
  have neq: "seq ctx \<noteq> u64_MAX" using Cons.prems(3) by (auto simp: unat_u64_MAX)
  obtain ct where ct: "Context_seal A ctx aad pt = (Ok ct, ctx\<lparr>seq := seq ctx + 1\<rparr>)"
    using seal_succeeds [OF assms(1) Cons.prems(1) neq] Cons.prems(2) [of aad pt] m by auto
  have "unat (seq ctx + 1) = Suc (unat (seq ctx))" using neq by (rule u64_succ)
  with Cons.prems Cons.IH [of "ctx\<lparr>seq := seq ctx + 1\<rparr>"] obtain cts ctx'
    where "seal_run A (SenderContext (ctx\<lparr>seq := seq ctx + 1\<rparr>)) ms = (map Ok cts, SenderContext ctx')"
      and "unat (seq ctx') = unat (seq ctx) + length (m # ms)"
    by (auto simp: context_wf_def)
  with ct show ?case by (intro exI [of _ "ct # cts"]) (simp add: m)
qed

end

section \<open>Deliveries with noise\<close>

text \<open>
  \<open>noisy A rx gs ds\<close>: the deliveries \<open>ds\<close> are the genuine messages \<open>gs\<close> in
  order, with any number of deliveries in between that the receiver rejects when they arrive.
\<close>

inductive noisy ::
    "('c, ('c, 'y) sealing_aead_ext) aead_scheme \<Rightarrow> 'c ReceiverContext \<Rightarrow> (bytes \<times> bytes) list \<Rightarrow>
     (bytes \<times> bytes) list \<Rightarrow> bool" for A where
  noisy_end: "noisy A rx [] []"
| noisy_genuine: "Receiver_open A rx aad ct = (Ok pt, rx') \<Longrightarrow> noisy A rx' gs ds \<Longrightarrow>
     noisy A rx ((aad, ct) # gs) ((aad, ct) # ds)"
| noisy_rejected: "Receiver_open A rx aad ct = (Err e, rx') \<Longrightarrow> noisy A rx gs ds \<Longrightarrow>
     noisy A rx gs ((aad, ct) # ds)"

definition delivered :: "'a res list \<Rightarrow> 'a res list" where
  "delivered rs = filter is_ok rs"

lemma delivered_simps [simp]:
  "delivered [] = []" "delivered (Ok x # rs) = Ok x # delivered rs"
  "delivered (Err e # rs) = delivered rs" "delivered (Panic # rs) = delivered rs"
  by (simp_all add: delivered_def)

text \<open>The counter moves on success and only then, on either side of the channel.\<close>

lemma Receiver_open_frame:
  "Receiver_open A rx aad ct = (r, rx') \<Longrightarrow> \<not> is_ok r \<Longrightarrow> rx' = rx"
  by (cases rx) (auto split: prod.splits dest: Context_open_frame(5))

lemma Sender_seal_frame:
  "Sender_seal A tx aad pt = (r, tx') \<Longrightarrow> \<not> is_ok r \<Longrightarrow> tx' = tx"
  by (cases tx) (auto split: prod.splits dest: Context_seal_frame(5))

text \<open>Rejected deliveries do not disturb the genuine ones.\<close>

lemma noisy_delivers:
  "noisy A rx gs ds \<Longrightarrow>
   delivered (fst (open_run A rx ds)) = fst (open_run A rx gs)
   \<and> snd (open_run A rx ds) = snd (open_run A rx gs)"
proof (induction rule: noisy.induct)
  case (noisy_rejected rx aad ct e rx' gs ds)
  then show ?case
    using Receiver_open_frame [OF noisy_rejected(1)] by (cases "open_run A rx ds") simp
qed (auto split: prod.splits)

section \<open>Sessions\<close>

text \<open>
  A session: the two contexts, the messages the sender has produced so far (with the nonce of
  the counter at the call) and the deliveries the receiver has accepted so far. The nonce is
  recorded beside the call; \<open>session_inv_sealed\<close> below shows that it is the one the cipher was
  given.
\<close>

record sent_message =
  s_nonce :: bytes
  s_aad :: bytes
  s_pt :: bytes
  s_ct :: bytes

record received_message =
  r_aad :: bytes
  r_ct :: bytes
  r_pt :: bytes

record 'c session =
  tx_side :: "'c SenderContext"
  rx_side :: "'c ReceiverContext"
  sent :: "sent_message list"
  received :: "received_message list"

text \<open>
  One call by either party: the sender seals any message, the receiver opens any bytes the
  network hands it, and either call may fail.
\<close>

inductive session_step ::
    "('c, ('c, 'y) sealing_aead_ext) aead_scheme \<Rightarrow> 'c session \<Rightarrow> 'c session \<Rightarrow> bool" for A where
  step_seal: "Sender_seal A (tx_side s) aad pt = (Ok ct, tx') \<Longrightarrow>
     session_step A s (s\<lparr>tx_side := tx', sent := sent s @
       [\<lparr> s_nonce = current_nonce A (sender_inner (tx_side s)), s_aad = aad, s_pt = pt, s_ct = ct \<rparr>]\<rparr>)"
| step_seal_fails: "Sender_seal A (tx_side s) aad pt = (r, tx') \<Longrightarrow> \<not> is_ok r \<Longrightarrow>
     session_step A s (s\<lparr>tx_side := tx'\<rparr>)"
| step_open: "Receiver_open A (rx_side s) aad ct = (Ok pt, rx') \<Longrightarrow>
     session_step A s (s\<lparr>rx_side := rx', received := received s @
       [\<lparr> r_aad = aad, r_ct = ct, r_pt = pt \<rparr>]\<rparr>)"
| step_open_fails: "Receiver_open A (rx_side s) aad ct = (r, rx') \<Longrightarrow> \<not> is_ok r \<Longrightarrow>
     session_step A s (s\<lparr>rx_side := rx'\<rparr>)"

definition session_start :: "'c Context \<Rightarrow> 'c session" where
  "session_start ctx =
     \<lparr> tx_side = SenderContext ctx, rx_side = ReceiverContext ctx, sent = [], received = [] \<rparr>"

definition session_reachable ::
    "('c, ('c, 'y) sealing_aead_ext) aead_scheme \<Rightarrow> 'c Context \<Rightarrow> 'c session \<Rightarrow> bool" where
  "session_reachable A ctx = (session_step A)\<^sup>*\<^sup>* (session_start ctx)"

text \<open>
  The invariant: each side is its starting context with the counter moved, and the message
  with number \<open>i\<close> went through the cipher under the nonce of that number.
\<close>

definition sent_ok ::
    "('c, ('c, 'y) sealing_aead_ext) aead_scheme \<Rightarrow> 'c Context \<Rightarrow> nat \<Rightarrow> sent_message \<Rightarrow> bool" where
  "sent_ok A c0 i m \<longleftrightarrow>
     s_nonce m = nonce_at A (base_nonce c0) (word_of_nat i)
     \<and> a_seal A (cipher c0) (s_nonce m) (s_aad m) (s_pt m) = Ok (s_ct m)"

definition received_ok ::
    "('c, ('c, 'y) sealing_aead_ext) aead_scheme \<Rightarrow> 'c Context \<Rightarrow> nat \<Rightarrow> received_message \<Rightarrow> bool" where
  "received_ok A c0 i m \<longleftrightarrow>
     a_open A (cipher c0) (nonce_at A (base_nonce c0) (word_of_nat i)) (r_aad m) (r_ct m)
       = Ok (r_pt m)"

definition session_inv ::
    "('c, ('c, 'y) sealing_aead_ext) aead_scheme \<Rightarrow> 'c Context \<Rightarrow> 'c session \<Rightarrow> bool" where
  "session_inv A c0 s \<longleftrightarrow>
     (\<exists>n. tx_side s = SenderContext (c0\<lparr>seq := n\<rparr>) \<and> unat n = length (sent s))
   \<and> (\<exists>n. rx_side s = ReceiverContext (c0\<lparr>seq := n\<rparr>) \<and> unat n = length (received s))
   \<and> (\<forall>i < length (sent s). sent_ok A c0 i (sent s ! i))
   \<and> (\<forall>i < length (received s). received_ok A c0 i (received s ! i))"

lemma session_invD:
  assumes "session_inv A c0 s"
  obtains n m where "tx_side s = SenderContext (c0\<lparr>seq := n\<rparr>)" "unat n = length (sent s)"
    and "rx_side s = ReceiverContext (c0\<lparr>seq := m\<rparr>)" "unat m = length (received s)"
  using assms unfolding session_inv_def by blast

lemma session_inv_start: "seq c0 = 0 \<Longrightarrow> session_inv A c0 (session_start c0)"
  by (auto simp: session_inv_def session_start_def intro!: exI [of _ 0])

lemma session_inv_seal:
  assumes inv: "session_inv A c0 s" and n: "unat n = Suc (length (sent s))"
    and m: "sent_ok A c0 (length (sent s)) m"
  shows "session_inv A c0 (s\<lparr>tx_side := SenderContext (c0\<lparr>seq := n\<rparr>), sent := sent s @ [m]\<rparr>)"
proof -
  have "\<forall>i < length (sent s @ [m]). sent_ok A c0 i ((sent s @ [m]) ! i)"
    using inv m by (intro all_nth_snocI) (simp_all add: session_inv_def)
  moreover have "\<exists>k. SenderContext (c0\<lparr>seq := n\<rparr>) = SenderContext (c0\<lparr>seq := k\<rparr>)
      \<and> unat k = length (sent s @ [m])"
    using n by (intro exI [of _ n]) simp
  ultimately show ?thesis
    using inv unfolding session_inv_def by simp
qed

lemma session_inv_open:
  assumes inv: "session_inv A c0 s" and n: "unat n = Suc (length (received s))"
    and m: "received_ok A c0 (length (received s)) m"
  shows "session_inv A c0 (s\<lparr>rx_side := ReceiverContext (c0\<lparr>seq := n\<rparr>), received := received s @ [m]\<rparr>)"
proof -
  have "\<forall>i < length (received s @ [m]). received_ok A c0 i ((received s @ [m]) ! i)"
    using inv m by (intro all_nth_snocI) (simp_all add: session_inv_def)
  moreover have "\<exists>k. ReceiverContext (c0\<lparr>seq := n\<rparr>) = ReceiverContext (c0\<lparr>seq := k\<rparr>)
      \<and> unat k = length (received s @ [m])"
    using n by (intro exI [of _ n]) simp
  ultimately show ?thesis
    using inv unfolding session_inv_def by simp
qed

lemma session_inv_step:
  assumes "assert_nonce_range A" and "context_wf c0"
    and "session_step A s s'" and "session_inv A c0 s"
  shows "session_inv A c0 s'"
proof -
  from assms(4) obtain n m where tx: "tx_side s = SenderContext (c0\<lparr>seq := n\<rparr>)" "unat n = length (sent s)"
    and rx: "rx_side s = ReceiverContext (c0\<lparr>seq := m\<rparr>)" "unat m = length (received s)"
    by (rule session_invD)
  have wf: "context_wf (c0\<lparr>seq := k\<rparr>)" for k using assms(2) by (simp add: context_wf_def)
  have n: "word_of_nat (length (sent s)) = n" and m: "word_of_nat (length (received s)) = m"
    using tx(2) rx(2) by (metis of_nat_unat ucast_id)+
  from assms(3) show ?thesis
  proof cases
    case (step_seal aad pt ct tx')
    then obtain ctx' where seal: "Context_seal A (c0\<lparr>seq := n\<rparr>) aad pt = (Ok ct, ctx')"
        and tx': "tx' = SenderContext ctx'"
      by (auto simp: tx split: prod.splits)
    note d = Context_seal_OkD [OF seal wf assms(1)]
    have u: "unat (n + 1) = Suc (length (sent s))" using d(2) tx(2) u64_succ [of n] by simp
    have t: "tx' = SenderContext (c0\<lparr>seq := n + 1\<rparr>)" using d(3) tx' by simp
    have "sent_ok A c0 (length (sent s)) \<lparr> s_nonce = current_nonce A (sender_inner (tx_side s)),
        s_aad = aad, s_pt = pt, s_ct = ct \<rparr>"
      using d(1) by (simp add: sent_ok_def tx(1) n current_nonce_eq [OF assms(1) wf])
    with assms(4) u show ?thesis unfolding step_seal(1) t by (rule session_inv_seal)
  next
    case (step_seal_fails aad pt r tx')
    from Sender_seal_frame [OF step_seal_fails(2,3)] have "s' = s" by (simp add: step_seal_fails(1))
    with assms(4) show ?thesis by simp
  next
    case (step_open aad ct pt rx')
    then obtain ctx' where opn: "Context_open A (c0\<lparr>seq := m\<rparr>) aad ct = (Ok pt, ctx')"
        and rx': "rx' = ReceiverContext ctx'"
      by (auto simp: rx split: prod.splits)
    note d = Context_open_OkD [OF opn wf assms(1)]
    have u: "unat (m + 1) = Suc (length (received s))" using d(2) rx(2) u64_succ [of m] by simp
    have t: "rx' = ReceiverContext (c0\<lparr>seq := m + 1\<rparr>)" using d(3) rx' by simp
    have "received_ok A c0 (length (received s)) \<lparr> r_aad = aad, r_ct = ct, r_pt = pt \<rparr>"
      using d(1) by (simp add: received_ok_def m)
    with assms(4) u show ?thesis unfolding step_open(1) t by (rule session_inv_open)
  next
    case (step_open_fails aad ct r rx')
    from Receiver_open_frame [OF step_open_fails(2,3)] have "s' = s" by (simp add: step_open_fails(1))
    with assms(4) show ?thesis by simp
  qed
qed

lemma session_inv_reachable:
  assumes "assert_nonce_range A" and "context_wf c0" and "seq c0 = 0" and "session_reachable A c0 s"
  shows "session_inv A c0 s"
  using assms(4) unfolding session_reachable_def
proof (induction rule: rtranclp_induct)
  case base
  show ?case using assms(3) by (rule session_inv_start)
next
  case (step s s')
  then show ?case using session_inv_step [OF assms(1,2)] by blast
qed

text \<open>What the invariant says of the messages.\<close>

lemma session_inv_limits:
  assumes "session_inv A c0 s"
  shows "length (sent s) < 2 ^ 64" and "length (received s) < 2 ^ 64"
proof -
  have "unat (k :: u64) < 2 ^ 64" for k
    using unsigned_less [of k, where ?'a = nat] by simp
  then show "length (sent s) < 2 ^ 64" "length (received s) < 2 ^ 64"
    using assms by (metis session_invD)+
qed

text \<open>
  Every ciphertext is what the cipher returns, under the key of the context, for the recorded nonce.
\<close>

lemma session_inv_sealed:
  assumes "session_inv A c0 s" and "m \<in> set (sent s)"
  shows "a_seal A (cipher c0) (s_nonce m) (s_aad m) (s_pt m) = Ok (s_ct m)"
  using assms by (auto simp: session_inv_def sent_ok_def in_set_conv_nth)

lemma session_inv_nonce_length:
  assumes "assert_nonce_range A" and "context_wf c0" and "session_inv A c0 s" and "m \<in> set (sent s)"
  shows "length (s_nonce m) = a_NONCE_LEN A"
proof -
  have "length (base_nonce c0) = 12" using assms(2) by (simp add: context_wf_def MAX_NONCE_LEN_def)
  with assms(3,4) show ?thesis
    by (auto simp: session_inv_def sent_ok_def in_set_conv_nth length_nonce_at [OF assms(1)])
qed

lemma session_inv_nonces_distinct:
  assumes "assert_nonce_range A" and "context_wf c0" and "session_inv A c0 s"
  shows "distinct (map s_nonce (sent s))"
proof -
  have bn: "length (base_nonce c0) = 12" using assms(2) by (simp add: context_wf_def MAX_NONCE_LEN_def)
  have "s_nonce (sent s ! i) = nonce_at A (base_nonce c0) (word_of_nat i)" if "i < length (sent s)" for i
    using assms(3) that by (simp add: session_inv_def sent_ok_def)
  with session_inv_limits(1) [OF assms(3)] show ?thesis
    by (simp add: distinct_conv_nth nonce_at_inj [OF assms(1) bn] word_of_nat_u64_inj)
qed

context sealing_aead_contract
begin

text \<open>A delivery that is the message sent under its number carries that message's plaintext.\<close>

lemma session_inv_agree:
  assumes "lawful" and "session_inv A c0 s"
    and "i < length (sent s)" and "i < length (received s)"
    and "r_aad (received s ! i) = s_aad (sent s ! i)" and "r_ct (received s ! i) = s_ct (sent s ! i)"
  shows "r_pt (received s ! i) = s_pt (sent s ! i)"
proof -
  let ?n = "nonce_at A (base_nonce c0) (word_of_nat i)"
  have "a_seal A (cipher c0) ?n (s_aad (sent s ! i)) (s_pt (sent s ! i)) = Ok (s_ct (sent s ! i))"
    and "a_open A (cipher c0) ?n (r_aad (received s ! i)) (r_ct (received s ! i))
       = Ok (r_pt (received s ! i))"
    using assms(2-4) by (auto simp: session_inv_def sent_ok_def received_ok_def)
  with open_seal [OF assms(1)] assms(5,6) show ?thesis by (metis outcome.inject(1))
qed

text \<open>The sender can always go on until the counter is exhausted.\<close>

lemma session_extend:
  assumes "lawful" and "context_wf c0" and "session_inv A c0 s" and "Suc (length (sent s)) < 2 ^ 64"
  shows "\<exists>s'. session_step A s s' \<and> length (sent s') = Suc (length (sent s))"
proof -
  from assms(3) obtain n m where tx: "tx_side s = SenderContext (c0\<lparr>seq := n\<rparr>)"
      "unat n = length (sent s)"
    by (rule session_invD)
  have n: "n \<noteq> u64_MAX" using tx(2) assms(4) by (auto simp: unat_u64_MAX)
  have "context_wf (c0\<lparr>seq := n\<rparr>)" using assms(2) by (simp add: context_wf_def)
  from seal_succeeds [OF assms(1) this, of "[]" "[]"] n obtain ct
    where "Context_seal A (c0\<lparr>seq := n\<rparr>) [] [] = (Ok ct, c0\<lparr>seq := n + 1\<rparr>)" by auto
  then have "Sender_seal A (tx_side s) [] [] = (Ok ct, SenderContext (c0\<lparr>seq := n + 1\<rparr>))"
    by (simp add: tx)
  from step_seal [where A = A and s = s, OF this] show ?thesis by (intro exI conjI) (assumption, simp)
qed

lemma session_capacity:
  assumes "lawful" and "context_wf c0" and "seq c0 = 0" and "n < 2 ^ 64"
  shows "\<exists>s. session_reachable A c0 s \<and> length (sent s) = n"
  using assms(4)
proof (induction n)
  case 0
  show ?case by (rule exI [of _ "session_start c0"]) (simp add: session_reachable_def session_start_def)
next
  case (Suc n)
  then obtain s where s: "session_reachable A c0 s" "length (sent s) = n" by auto
  from session_inv_reachable [OF nonce_range assms(2,3) s(1)] have inv: "session_inv A c0 s" .
  from session_extend [OF assms(1,2) inv] s(2) Suc.prems obtain s'
    where "session_step A s s'" "length (sent s') = Suc n" by auto
  with s(1) show ?case
    unfolding session_reachable_def by (metis rtranclp.rtrancl_into_rtrancl)
qed

end

text \<open>A context that \<open>Context::new\<close> returned is well formed and starts at zero.\<close>

lemma Context_new_fresh:
  assumes "assert_nonce_range A" and "Context_new A key bn es = Ok c0"
  shows "context_wf c0" and "seq c0 = 0"
proof -
  have "a_NONCE_LEN A \<le> 12" using assms(1) by (simp add: assert_nonce_range_def MAX_NONCE_LEN_def)
  from assms(2) show "context_wf c0" and "seq c0 = 0"
    unfolding Context_new_Ok_iff [OF \<open>a_NONCE_LEN A \<le> 12\<close>]
    using \<open>a_NONCE_LEN A \<le> 12\<close> by (auto simp: context_wf_def MAX_NONCE_LEN_def)
qed

inductive_cases noisy_ConsE: "noisy A rx gs ((aad, ct) # ds)"

inductive_simps noisy_Nil: "noisy A rx gs []"

end
