(* ===== verification/Hpke_Setup.thy ===== *)
theory Hpke_Setup
  imports Hpke_Key_Schedule Hpke_Channel
begin

text \<open>
  The methods of \<open>Hpke<K, F, A>\<close> in \<open>src/lib.rs\<close>: the four pairs of setup
  functions, the four single-shot seal and open pairs and the four single-shot export pairs.

  \<open>K\<close>, \<open>F\<close> and \<open>A\<close> are the dictionaries of the three type parameters; the
  bounds of each \<open>impl\<close> block are the record types. A sender function returns its result
  and the generator after it.
\<close>

section \<open>Base and PSK mode setup\<close>

definition setup_sender_base ::
    "('r, 'pk, 'sk, 'enc, 'ss, 'z) kem_scheme \<Rightarrow> kdf \<Rightarrow> ('c, 'y) aead_scheme \<Rightarrow> 'r \<Rightarrow>
     'pk \<Rightarrow> bytes \<Rightarrow> ('enc \<times> 'c SenderContext) res \<times> 'r" where
  "setup_sender_base K F A rng pk_r info =
     (case k_encap K rng pk_r of (r, rng') \<Rightarrow>
       (try_bind r (\<lambda>(ss, enc).
        try_bind (key_schedule_psk_free BaseModeTag K F A (k_ss_as_ref K ss) info) (\<lambda>ctx.
          Ok (enc, SenderContext ctx))), rng'))"

definition setup_receiver_base ::
    "('r, 'pk, 'sk, 'enc, 'ss, 'z) kem_scheme \<Rightarrow> kdf \<Rightarrow> ('c, 'y) aead_scheme \<Rightarrow>
     'enc \<Rightarrow> 'sk \<Rightarrow> bytes \<Rightarrow> 'c ReceiverContext res" where
  "setup_receiver_base K F A enc sk_r info =
     try_bind (k_decap K enc sk_r) (\<lambda>ss.
       map_ok ReceiverContext (key_schedule_psk_free BaseModeTag K F A (k_ss_as_ref K ss) info))"

definition setup_sender_psk ::
    "('r, 'pk, 'sk, 'enc, 'ss, 'z) kem_scheme \<Rightarrow> kdf \<Rightarrow> ('c, 'y) aead_scheme \<Rightarrow> 'r \<Rightarrow>
     'pk \<Rightarrow> bytes \<Rightarrow> Psk \<Rightarrow> ('enc \<times> 'c SenderContext) res \<times> 'r" where
  "setup_sender_psk K F A rng pk_r info psk =
     (case k_encap K rng pk_r of (r, rng') \<Rightarrow>
       (try_bind r (\<lambda>(ss, enc).
        try_bind (key_schedule_psk PskModeTag K F A (k_ss_as_ref K ss) info psk) (\<lambda>ctx.
          Ok (enc, SenderContext ctx))), rng'))"

definition setup_receiver_psk ::
    "('r, 'pk, 'sk, 'enc, 'ss, 'z) kem_scheme \<Rightarrow> kdf \<Rightarrow> ('c, 'y) aead_scheme \<Rightarrow>
     'enc \<Rightarrow> 'sk \<Rightarrow> bytes \<Rightarrow> Psk \<Rightarrow> 'c ReceiverContext res" where
  "setup_receiver_psk K F A enc sk_r info psk =
     try_bind (k_decap K enc sk_r) (\<lambda>ss.
       map_ok ReceiverContext (key_schedule_psk PskModeTag K F A (k_ss_as_ref K ss) info psk))"

section \<open>Authenticated mode setup\<close>

definition setup_sender_auth ::
    "('r, 'pk, 'sk, 'enc, 'ss, ('r, 'pk, 'sk, 'enc, 'ss, 'z) auth_kem_ext) kem_scheme \<Rightarrow> kdf \<Rightarrow>
     ('c, 'y) aead_scheme \<Rightarrow> 'r \<Rightarrow> 'pk \<Rightarrow> bytes \<Rightarrow> 'sk \<Rightarrow>
     ('enc \<times> 'c SenderContext) res \<times> 'r" where
  "setup_sender_auth K F A rng pk_r info sk_s =
     (case k_auth_encap K rng pk_r sk_s of (r, rng') \<Rightarrow>
       (try_bind r (\<lambda>(ss, enc).
        try_bind (key_schedule_psk_free AuthModeTag K F A (k_ss_as_ref K ss) info) (\<lambda>ctx.
          Ok (enc, SenderContext ctx))), rng'))"

definition setup_receiver_auth ::
    "('r, 'pk, 'sk, 'enc, 'ss, ('r, 'pk, 'sk, 'enc, 'ss, 'z) auth_kem_ext) kem_scheme \<Rightarrow> kdf \<Rightarrow>
     ('c, 'y) aead_scheme \<Rightarrow> 'enc \<Rightarrow> 'sk \<Rightarrow> bytes \<Rightarrow> 'pk \<Rightarrow> 'c ReceiverContext res" where
  "setup_receiver_auth K F A enc sk_r info pk_s =
     try_bind (k_auth_decap K enc sk_r pk_s) (\<lambda>ss.
       map_ok ReceiverContext (key_schedule_psk_free AuthModeTag K F A (k_ss_as_ref K ss) info))"

definition setup_sender_auth_psk ::
    "('r, 'pk, 'sk, 'enc, 'ss, ('r, 'pk, 'sk, 'enc, 'ss, 'z) auth_kem_ext) kem_scheme \<Rightarrow> kdf \<Rightarrow>
     ('c, 'y) aead_scheme \<Rightarrow> 'r \<Rightarrow> 'pk \<Rightarrow> bytes \<Rightarrow> Psk \<Rightarrow> 'sk \<Rightarrow>
     ('enc \<times> 'c SenderContext) res \<times> 'r" where
  "setup_sender_auth_psk K F A rng pk_r info psk sk_s =
     (case k_auth_encap K rng pk_r sk_s of (r, rng') \<Rightarrow>
       (try_bind r (\<lambda>(ss, enc).
        try_bind (key_schedule_psk AuthPskModeTag K F A (k_ss_as_ref K ss) info psk) (\<lambda>ctx.
          Ok (enc, SenderContext ctx))), rng'))"

definition setup_receiver_auth_psk ::
    "('r, 'pk, 'sk, 'enc, 'ss, ('r, 'pk, 'sk, 'enc, 'ss, 'z) auth_kem_ext) kem_scheme \<Rightarrow> kdf \<Rightarrow>
     ('c, 'y) aead_scheme \<Rightarrow> 'enc \<Rightarrow> 'sk \<Rightarrow> bytes \<Rightarrow> Psk \<Rightarrow> 'pk \<Rightarrow>
     'c ReceiverContext res" where
  "setup_receiver_auth_psk K F A enc sk_r info psk pk_s =
     try_bind (k_auth_decap K enc sk_r pk_s) (\<lambda>ss.
       map_ok ReceiverContext (key_schedule_psk AuthPskModeTag K F A (k_ss_as_ref K ss) info psk))"

section \<open>Single-shot encryption\<close>

definition seal_base ::
    "('r, 'pk, 'sk, 'enc, 'ss, 'z) kem_scheme \<Rightarrow> kdf \<Rightarrow>
     ('c, ('c, 'y) sealing_aead_ext) aead_scheme \<Rightarrow> 'r \<Rightarrow> 'pk \<Rightarrow> bytes \<Rightarrow> bytes \<Rightarrow> bytes \<Rightarrow>
     ('enc \<times> bytes) res \<times> 'r" where
  "seal_base K F A rng pk_r info aad pt =
     (case setup_sender_base K F A rng pk_r info of (r, rng') \<Rightarrow>
       (try_bind r (\<lambda>(enc, ctx).
          case Sender_seal A ctx aad pt of (res, _) \<Rightarrow> try_bind res (\<lambda>ct. Ok (enc, ct))), rng'))"

definition open_base ::
    "('r, 'pk, 'sk, 'enc, 'ss, 'z) kem_scheme \<Rightarrow> kdf \<Rightarrow>
     ('c, ('c, 'y) sealing_aead_ext) aead_scheme \<Rightarrow> 'enc \<Rightarrow> 'sk \<Rightarrow> bytes \<Rightarrow> bytes \<Rightarrow> bytes \<Rightarrow>
     bytes res" where
  "open_base K F A enc sk_r info aad ct =
     try_bind (setup_receiver_base K F A enc sk_r info) (\<lambda>ctx.
       case Receiver_open A ctx aad ct of (res, _) \<Rightarrow> res)"

definition seal_psk ::
    "('r, 'pk, 'sk, 'enc, 'ss, 'z) kem_scheme \<Rightarrow> kdf \<Rightarrow>
     ('c, ('c, 'y) sealing_aead_ext) aead_scheme \<Rightarrow> 'r \<Rightarrow> 'pk \<Rightarrow> bytes \<Rightarrow> bytes \<Rightarrow> bytes \<Rightarrow>
     Psk \<Rightarrow> ('enc \<times> bytes) res \<times> 'r" where
  "seal_psk K F A rng pk_r info aad pt psk =
     (case setup_sender_psk K F A rng pk_r info psk of (r, rng') \<Rightarrow>
       (try_bind r (\<lambda>(enc, ctx).
          case Sender_seal A ctx aad pt of (res, _) \<Rightarrow> try_bind res (\<lambda>ct. Ok (enc, ct))), rng'))"

definition open_psk ::
    "('r, 'pk, 'sk, 'enc, 'ss, 'z) kem_scheme \<Rightarrow> kdf \<Rightarrow>
     ('c, ('c, 'y) sealing_aead_ext) aead_scheme \<Rightarrow> 'enc \<Rightarrow> 'sk \<Rightarrow> bytes \<Rightarrow> bytes \<Rightarrow> bytes \<Rightarrow>
     Psk \<Rightarrow> bytes res" where
  "open_psk K F A enc sk_r info aad ct psk =
     try_bind (setup_receiver_psk K F A enc sk_r info psk) (\<lambda>ctx.
       case Receiver_open A ctx aad ct of (res, _) \<Rightarrow> res)"

definition seal_auth ::
    "('r, 'pk, 'sk, 'enc, 'ss, ('r, 'pk, 'sk, 'enc, 'ss, 'z) auth_kem_ext) kem_scheme \<Rightarrow> kdf \<Rightarrow>
     ('c, ('c, 'y) sealing_aead_ext) aead_scheme \<Rightarrow> 'r \<Rightarrow> 'pk \<Rightarrow> bytes \<Rightarrow> bytes \<Rightarrow> bytes \<Rightarrow>
     'sk \<Rightarrow> ('enc \<times> bytes) res \<times> 'r" where
  "seal_auth K F A rng pk_r info aad pt sk_s =
     (case setup_sender_auth K F A rng pk_r info sk_s of (r, rng') \<Rightarrow>
       (try_bind r (\<lambda>(enc, ctx).
          case Sender_seal A ctx aad pt of (res, _) \<Rightarrow> try_bind res (\<lambda>ct. Ok (enc, ct))), rng'))"

definition open_auth ::
    "('r, 'pk, 'sk, 'enc, 'ss, ('r, 'pk, 'sk, 'enc, 'ss, 'z) auth_kem_ext) kem_scheme \<Rightarrow> kdf \<Rightarrow>
     ('c, ('c, 'y) sealing_aead_ext) aead_scheme \<Rightarrow> 'enc \<Rightarrow> 'sk \<Rightarrow> bytes \<Rightarrow> bytes \<Rightarrow> bytes \<Rightarrow>
     'pk \<Rightarrow> bytes res" where
  "open_auth K F A enc sk_r info aad ct pk_s =
     try_bind (setup_receiver_auth K F A enc sk_r info pk_s) (\<lambda>ctx.
       case Receiver_open A ctx aad ct of (res, _) \<Rightarrow> res)"

definition seal_auth_psk ::
    "('r, 'pk, 'sk, 'enc, 'ss, ('r, 'pk, 'sk, 'enc, 'ss, 'z) auth_kem_ext) kem_scheme \<Rightarrow> kdf \<Rightarrow>
     ('c, ('c, 'y) sealing_aead_ext) aead_scheme \<Rightarrow> 'r \<Rightarrow> 'pk \<Rightarrow> bytes \<Rightarrow> bytes \<Rightarrow> bytes \<Rightarrow>
     Psk \<Rightarrow> 'sk \<Rightarrow> ('enc \<times> bytes) res \<times> 'r" where
  "seal_auth_psk K F A rng pk_r info aad pt psk sk_s =
     (case setup_sender_auth_psk K F A rng pk_r info psk sk_s of (r, rng') \<Rightarrow>
       (try_bind r (\<lambda>(enc, ctx).
          case Sender_seal A ctx aad pt of (res, _) \<Rightarrow> try_bind res (\<lambda>ct. Ok (enc, ct))), rng'))"

definition open_auth_psk ::
    "('r, 'pk, 'sk, 'enc, 'ss, ('r, 'pk, 'sk, 'enc, 'ss, 'z) auth_kem_ext) kem_scheme \<Rightarrow> kdf \<Rightarrow>
     ('c, ('c, 'y) sealing_aead_ext) aead_scheme \<Rightarrow> 'enc \<Rightarrow> 'sk \<Rightarrow> bytes \<Rightarrow> bytes \<Rightarrow> bytes \<Rightarrow>
     Psk \<Rightarrow> 'pk \<Rightarrow> bytes res" where
  "open_auth_psk K F A enc sk_r info aad ct psk pk_s =
     try_bind (setup_receiver_auth_psk K F A enc sk_r info psk pk_s) (\<lambda>ctx.
       case Receiver_open A ctx aad ct of (res, _) \<Rightarrow> res)"

section \<open>Single-shot export\<close>

definition send_export_base ::
    "('r, 'pk, 'sk, 'enc, 'ss, 'z) kem_scheme \<Rightarrow> kdf \<Rightarrow>
     ('c, 'y) aead_scheme \<Rightarrow> 'r \<Rightarrow> 'pk \<Rightarrow> bytes \<Rightarrow> bytes \<Rightarrow> nat \<Rightarrow>
     ('enc \<times> bytes) res \<times> 'r" where
  "send_export_base K F A rng pk_r info exporter_context len =
     (case setup_sender_base K F A rng pk_r info of (r, rng') \<Rightarrow>
       (try_bind r (\<lambda>(enc, ctx).
        try_bind (Sender_export K F A ctx exporter_context len) (\<lambda>out. Ok (enc, out))), rng'))"

definition receiver_export_base ::
    "('r, 'pk, 'sk, 'enc, 'ss, 'z) kem_scheme \<Rightarrow> kdf \<Rightarrow>
     ('c, 'y) aead_scheme \<Rightarrow> 'enc \<Rightarrow> 'sk \<Rightarrow> bytes \<Rightarrow> bytes \<Rightarrow> nat \<Rightarrow> bytes res" where
  "receiver_export_base K F A enc sk_r info exporter_context len =
     try_bind (setup_receiver_base K F A enc sk_r info) (\<lambda>ctx.
       Receiver_export K F A ctx exporter_context len)"

definition send_export_psk ::
    "('r, 'pk, 'sk, 'enc, 'ss, 'z) kem_scheme \<Rightarrow> kdf \<Rightarrow>
     ('c, 'y) aead_scheme \<Rightarrow> 'r \<Rightarrow> 'pk \<Rightarrow> bytes \<Rightarrow> Psk \<Rightarrow> bytes \<Rightarrow> nat \<Rightarrow>
     ('enc \<times> bytes) res \<times> 'r" where
  "send_export_psk K F A rng pk_r info psk exporter_context len =
     (case setup_sender_psk K F A rng pk_r info psk of (r, rng') \<Rightarrow>
       (try_bind r (\<lambda>(enc, ctx).
        try_bind (Sender_export K F A ctx exporter_context len) (\<lambda>out. Ok (enc, out))), rng'))"

definition receiver_export_psk ::
    "('r, 'pk, 'sk, 'enc, 'ss, 'z) kem_scheme \<Rightarrow> kdf \<Rightarrow>
     ('c, 'y) aead_scheme \<Rightarrow> 'enc \<Rightarrow> 'sk \<Rightarrow> bytes \<Rightarrow> Psk \<Rightarrow> bytes \<Rightarrow> nat \<Rightarrow> bytes res" where
  "receiver_export_psk K F A enc sk_r info psk exporter_context len =
     try_bind (setup_receiver_psk K F A enc sk_r info psk) (\<lambda>ctx.
       Receiver_export K F A ctx exporter_context len)"

definition send_export_auth ::
    "('r, 'pk, 'sk, 'enc, 'ss, ('r, 'pk, 'sk, 'enc, 'ss, 'z) auth_kem_ext) kem_scheme \<Rightarrow> kdf \<Rightarrow>
     ('c, 'y) aead_scheme \<Rightarrow> 'r \<Rightarrow> 'pk \<Rightarrow> bytes \<Rightarrow> 'sk \<Rightarrow> bytes \<Rightarrow> nat \<Rightarrow>
     ('enc \<times> bytes) res \<times> 'r" where
  "send_export_auth K F A rng pk_r info sk_s exporter_context len =
     (case setup_sender_auth K F A rng pk_r info sk_s of (r, rng') \<Rightarrow>
       (try_bind r (\<lambda>(enc, ctx).
        try_bind (Sender_export K F A ctx exporter_context len) (\<lambda>out. Ok (enc, out))), rng'))"

definition receiver_export_auth ::
    "('r, 'pk, 'sk, 'enc, 'ss, ('r, 'pk, 'sk, 'enc, 'ss, 'z) auth_kem_ext) kem_scheme \<Rightarrow> kdf \<Rightarrow>
     ('c, 'y) aead_scheme \<Rightarrow> 'enc \<Rightarrow> 'sk \<Rightarrow> bytes \<Rightarrow> 'pk \<Rightarrow> bytes \<Rightarrow> nat \<Rightarrow> bytes res" where
  "receiver_export_auth K F A enc sk_r info pk_s exporter_context len =
     try_bind (setup_receiver_auth K F A enc sk_r info pk_s) (\<lambda>ctx.
       Receiver_export K F A ctx exporter_context len)"

definition send_export_auth_psk ::
    "('r, 'pk, 'sk, 'enc, 'ss, ('r, 'pk, 'sk, 'enc, 'ss, 'z) auth_kem_ext) kem_scheme \<Rightarrow> kdf \<Rightarrow>
     ('c, 'y) aead_scheme \<Rightarrow> 'r \<Rightarrow> 'pk \<Rightarrow> bytes \<Rightarrow> Psk \<Rightarrow> 'sk \<Rightarrow> bytes \<Rightarrow> nat \<Rightarrow>
     ('enc \<times> bytes) res \<times> 'r" where
  "send_export_auth_psk K F A rng pk_r info psk sk_s exporter_context len =
     (case setup_sender_auth_psk K F A rng pk_r info psk sk_s of (r, rng') \<Rightarrow>
       (try_bind r (\<lambda>(enc, ctx).
        try_bind (Sender_export K F A ctx exporter_context len) (\<lambda>out. Ok (enc, out))), rng'))"

definition receiver_export_auth_psk ::
    "('r, 'pk, 'sk, 'enc, 'ss, ('r, 'pk, 'sk, 'enc, 'ss, 'z) auth_kem_ext) kem_scheme \<Rightarrow> kdf \<Rightarrow>
     ('c, 'y) aead_scheme \<Rightarrow> 'enc \<Rightarrow> 'sk \<Rightarrow> bytes \<Rightarrow> Psk \<Rightarrow> 'pk \<Rightarrow> bytes \<Rightarrow> nat \<Rightarrow> bytes res" where
  "receiver_export_auth_psk K F A enc sk_r info psk pk_s exporter_context len =
     try_bind (setup_receiver_auth_psk K F A enc sk_r info psk pk_s) (\<lambda>ctx.
       Receiver_export K F A ctx exporter_context len)"

section \<open>What the four modes share\<close>

text \<open>
  Setup as a function of the outcome of the KEM and of the key schedule, and the single-shot
  calls as functions of the outcome of setup: every method above is an instance.
\<close>

definition sender_setup ::
    "('r, 'pk, 'sk, 'enc, 'ss, 'z) kem_scheme \<Rightarrow> ('ss \<times> 'enc) res \<times> 'r \<Rightarrow>
     (bytes \<Rightarrow> 'c Context res) \<Rightarrow> ('enc \<times> 'c SenderContext) res \<times> 'r" where
  "sender_setup K e ks =
     (case e of (r, rng') \<Rightarrow>
       (try_bind r (\<lambda>(ss, enc). try_bind (ks (k_ss_as_ref K ss)) (\<lambda>ctx.
          Ok (enc, SenderContext ctx))), rng'))"

definition receiver_setup ::
    "('r, 'pk, 'sk, 'enc, 'ss, 'z) kem_scheme \<Rightarrow> 'ss res \<Rightarrow>
     (bytes \<Rightarrow> 'c Context res) \<Rightarrow> 'c ReceiverContext res" where
  "receiver_setup K d ks = try_bind d (\<lambda>ss. map_ok ReceiverContext (ks (k_ss_as_ref K ss)))"

definition one_shot_seal ::
    "('c, ('c, 'y) sealing_aead_ext) aead_scheme \<Rightarrow> ('enc \<times> 'c SenderContext) res \<times> 'r \<Rightarrow>
     bytes \<Rightarrow> bytes \<Rightarrow> ('enc \<times> bytes) res \<times> 'r" where
  "one_shot_seal A st aad pt =
     (case st of (r, rng') \<Rightarrow>
       (try_bind r (\<lambda>(enc, ctx).
          case Sender_seal A ctx aad pt of (res, _) \<Rightarrow> try_bind res (\<lambda>ct. Ok (enc, ct))), rng'))"

definition one_shot_open ::
    "('c, ('c, 'y) sealing_aead_ext) aead_scheme \<Rightarrow> 'c ReceiverContext res \<Rightarrow>
     bytes \<Rightarrow> bytes \<Rightarrow> bytes res" where
  "one_shot_open A st aad ct =
     try_bind st (\<lambda>ctx. case Receiver_open A ctx aad ct of (res, _) \<Rightarrow> res)"

definition one_shot_send_export ::
    "('r, 'pk, 'sk, 'enc, 'ss, 'z) kem_scheme \<Rightarrow> kdf \<Rightarrow> ('c, 'y) aead_scheme \<Rightarrow>
     ('enc \<times> 'c SenderContext) res \<times> 'r \<Rightarrow> bytes \<Rightarrow> nat \<Rightarrow> ('enc \<times> bytes) res \<times> 'r" where
  "one_shot_send_export K F A st ectx n =
     (case st of (r, rng') \<Rightarrow>
       (try_bind r (\<lambda>(enc, ctx).
        try_bind (Sender_export K F A ctx ectx n) (\<lambda>out. Ok (enc, out))), rng'))"

definition one_shot_receiver_export ::
    "('r, 'pk, 'sk, 'enc, 'ss, 'z) kem_scheme \<Rightarrow> kdf \<Rightarrow> ('c, 'y) aead_scheme \<Rightarrow>
     'c ReceiverContext res \<Rightarrow> bytes \<Rightarrow> nat \<Rightarrow> bytes res" where
  "one_shot_receiver_export K F A st ectx n =
     try_bind st (\<lambda>ctx. Receiver_export K F A ctx ectx n)"

lemma setup_base_eq:
  "setup_sender_base K F A r pk info =
     sender_setup K (k_encap K r pk) (\<lambda>s. key_schedule_psk_free BaseModeTag K F A s info)"
  "setup_receiver_base K F A enc sk info =
     receiver_setup K (k_decap K enc sk) (\<lambda>s. key_schedule_psk_free BaseModeTag K F A s info)"
  by (simp_all add: setup_sender_base_def setup_receiver_base_def sender_setup_def receiver_setup_def)

lemma setup_psk_eq:
  "setup_sender_psk K F A r pk info psk =
     sender_setup K (k_encap K r pk) (\<lambda>s. key_schedule_psk PskModeTag K F A s info psk)"
  "setup_receiver_psk K F A enc sk info psk =
     receiver_setup K (k_decap K enc sk) (\<lambda>s. key_schedule_psk PskModeTag K F A s info psk)"
  by (simp_all add: setup_sender_psk_def setup_receiver_psk_def sender_setup_def receiver_setup_def)

lemma setup_auth_eq:
  "setup_sender_auth K F A r pk info sk_s =
     sender_setup K (k_auth_encap K r pk sk_s) (\<lambda>s. key_schedule_psk_free AuthModeTag K F A s info)"
  "setup_receiver_auth K F A enc sk info pk_s =
     receiver_setup K (k_auth_decap K enc sk pk_s) (\<lambda>s. key_schedule_psk_free AuthModeTag K F A s info)"
  by (simp_all add: setup_sender_auth_def setup_receiver_auth_def sender_setup_def receiver_setup_def)

lemma setup_auth_psk_eq:
  "setup_sender_auth_psk K F A r pk info psk sk_s =
     sender_setup K (k_auth_encap K r pk sk_s) (\<lambda>s. key_schedule_psk AuthPskModeTag K F A s info psk)"
  "setup_receiver_auth_psk K F A enc sk info psk pk_s =
     receiver_setup K (k_auth_decap K enc sk pk_s) (\<lambda>s. key_schedule_psk AuthPskModeTag K F A s info psk)"
  by (simp_all add: setup_sender_auth_psk_def setup_receiver_auth_psk_def sender_setup_def receiver_setup_def)

lemma one_shot_base_eq:
  "seal_base K F A' r pk info aad pt =
     one_shot_seal A' (setup_sender_base K F A' r pk info) aad pt"
  "open_base K F A' enc sk info aad ct =
     one_shot_open A' (setup_receiver_base K F A' enc sk info) aad ct"
  "send_export_base K F A r pk info ectx n =
     one_shot_send_export K F A (setup_sender_base K F A r pk info) ectx n"
  "receiver_export_base K F A enc sk info ectx n =
     one_shot_receiver_export K F A (setup_receiver_base K F A enc sk info) ectx n"
  by (simp_all add: seal_base_def open_base_def send_export_base_def receiver_export_base_def
      one_shot_seal_def one_shot_open_def one_shot_send_export_def one_shot_receiver_export_def)

lemma one_shot_psk_eq:
  "seal_psk K F A' r pk info aad pt psk =
     one_shot_seal A' (setup_sender_psk K F A' r pk info psk) aad pt"
  "open_psk K F A' enc sk info aad ct psk =
     one_shot_open A' (setup_receiver_psk K F A' enc sk info psk) aad ct"
  "send_export_psk K F A r pk info psk ectx n =
     one_shot_send_export K F A (setup_sender_psk K F A r pk info psk) ectx n"
  "receiver_export_psk K F A enc sk info psk ectx n =
     one_shot_receiver_export K F A (setup_receiver_psk K F A enc sk info psk) ectx n"
  by (simp_all add: seal_psk_def open_psk_def send_export_psk_def receiver_export_psk_def
      one_shot_seal_def one_shot_open_def one_shot_send_export_def one_shot_receiver_export_def)

lemma one_shot_auth_eq:
  "seal_auth K F A' r pk info aad pt sk_s =
     one_shot_seal A' (setup_sender_auth K F A' r pk info sk_s) aad pt"
  "open_auth K F A' enc sk info aad ct pk_s =
     one_shot_open A' (setup_receiver_auth K F A' enc sk info pk_s) aad ct"
  "send_export_auth K F A r pk info sk_s ectx n =
     one_shot_send_export K F A (setup_sender_auth K F A r pk info sk_s) ectx n"
  "receiver_export_auth K F A enc sk info pk_s ectx n =
     one_shot_receiver_export K F A (setup_receiver_auth K F A enc sk info pk_s) ectx n"
  by (simp_all add: seal_auth_def open_auth_def send_export_auth_def receiver_export_auth_def
      one_shot_seal_def one_shot_open_def one_shot_send_export_def one_shot_receiver_export_def)

lemma one_shot_auth_psk_eq:
  "seal_auth_psk K F A' r pk info aad pt psk sk_s =
     one_shot_seal A' (setup_sender_auth_psk K F A' r pk info psk sk_s) aad pt"
  "open_auth_psk K F A' enc sk info aad ct psk pk_s =
     one_shot_open A' (setup_receiver_auth_psk K F A' enc sk info psk pk_s) aad ct"
  "send_export_auth_psk K F A r pk info psk sk_s ectx n =
     one_shot_send_export K F A (setup_sender_auth_psk K F A r pk info psk sk_s) ectx n"
  "receiver_export_auth_psk K F A enc sk info psk pk_s ectx n =
     one_shot_receiver_export K F A (setup_receiver_auth_psk K F A enc sk info psk pk_s) ectx n"
  by (simp_all add: seal_auth_psk_def open_auth_psk_def send_export_auth_psk_def receiver_export_auth_psk_def
      one_shot_seal_def one_shot_open_def one_shot_send_export_def one_shot_receiver_export_def)

lemmas setup_eq = setup_base_eq setup_psk_eq setup_auth_eq setup_auth_psk_eq

lemmas one_shot_eq = one_shot_base_eq one_shot_psk_eq one_shot_auth_eq one_shot_auth_psk_eq

end
