(* ===== verification/Hpke_Modes.thy ===== *)
theory Hpke_Modes
  imports Hpke_Setup
begin

text \<open>
  End-to-end correctness of the four modes. \<open>hpke_suite\<close> and \<open>hpke_auth_suite\<close> collect
  the contracts of a KEM, a KDF and an AEAD; every method of \<open>Hpke<K, F, A>\<close> is a client
  of them. The argument is the same for the four modes, so it is made once on
  \<open>sender_setup\<close> and \<open>receiver_setup\<close>.
\<close>

section \<open>Agreement after setup\<close>

lemma sender_setup_Ok:
  assumes "sender_setup K e ks = (Ok (enc, tx), r')"
  obtains ss ctx where "e = (Ok (ss, enc), r')" and "ks (k_ss_as_ref K ss) = Ok ctx"
    and "tx = SenderContext ctx"
  using assms by (auto simp: sender_setup_def outcome_simps split: prod.splits)

lemma setup_agree:
  assumes "\<And>ss enc r'. e = (Ok (ss, enc), r') \<Longrightarrow> dec enc = Ok ss"
    and "sender_setup K e ks = (Ok (enc, tx), r')"
  shows "receiver_setup K (dec enc) ks = Ok (ReceiverContext (sender_inner tx))"
  using assms(2) by (rule sender_setup_Ok) (simp add: assms(1) receiver_setup_def)

lemma sender_setup_fresh:
  assumes "\<And>s. \<exists>ctx. ks s = Ok ctx \<and> Q ctx" and "sender_setup K e ks = (Ok (enc, tx), r')"
  shows "Q (sender_inner tx)"
  using assms(2)
proof (rule sender_setup_Ok)
  fix ss ctx
  assume "ks (k_ss_as_ref K ss) = Ok ctx" and "tx = SenderContext ctx"
  then show ?thesis using assms(1) [of "k_ss_as_ref K ss"] by auto
qed

text \<open>
  When the key schedule is total, setup succeeds exactly when encapsulation does; its only
  failures are those of the KEM.
\<close>

lemma sender_setup_cases:
  assumes "\<And>s. \<exists>ctx. ks s = Ok ctx \<and> Q ctx" and "fst e \<noteq> Panic"
  obtains (ok) ss enc ctx r' where "e = (Ok (ss, enc), r')"
      and "sender_setup K e ks = (Ok (enc, SenderContext ctx), r')" and "Q ctx"
  | (err) err r' where "e = (Err err, r')" and "sender_setup K e ks = (Err err, r')"
proof (cases e)
  case (Pair r r')
  show ?thesis
  proof (cases r)
    case (Ok x)
    obtain ss enc where x: "x = (ss, enc)" by (cases x)
    obtain ctx where "ks (k_ss_as_ref K ss) = outcome.Ok ctx" "Q ctx" using assms(1) by blast
    with Pair Ok x show ?thesis by (intro that(1) [of ss enc r' ctx]) (simp_all add: sender_setup_def)
  next
    case (Err x)
    with Pair show ?thesis by (intro that(2) [of x r']) (simp_all add: sender_setup_def)
  next
    case Panic
    with Pair assms(2) show ?thesis by simp
  qed
qed

section \<open>Single-shot calls\<close>

text \<open>
  The outcome of a sealing call that \<open>open\<close> should invert: the receiver recovers the
  plaintext, or the call reports the failure of the KEM or a message over the limit of the
  cipher. \<open>encap_out\<close> is the outcome of encapsulation.
\<close>

definition seal_open_ok ::
    "(('ss \<times> 'enc) res \<times> 'r) \<Rightarrow> nat \<Rightarrow> nat \<Rightarrow> bytes \<Rightarrow> bytes \<Rightarrow>
     ('enc \<times> bytes) res \<times> 'r \<Rightarrow> ('enc \<Rightarrow> bytes \<Rightarrow> bytes res) \<Rightarrow> bool" where
  "seal_open_ok encap_out p_max tag aad pt sealed opener =
     (case fst sealed of
        Ok (enc, ct) \<Rightarrow> opener enc ct = Ok pt \<and> length ct = length pt + tag
      | Err e \<Rightarrow> fst encap_out = Err e
           \<or> e = SealError \<and> (p_max < length pt \<or> p_max < length aad)
      | Panic \<Rightarrow> False)"

definition export_ok ::
    "(('ss \<times> 'enc) res \<times> 'r) \<Rightarrow> nat \<Rightarrow> nat \<Rightarrow>
     ('enc \<times> bytes) res \<times> 'r \<Rightarrow> ('enc \<Rightarrow> bytes res) \<Rightarrow> bool" where
  "export_ok encap_out nh n sent_out receiver =
     (case fst sent_out of
        Ok (enc, out) \<Rightarrow> receiver enc = Ok out \<and> length out = n \<and> n \<le> 255 * nh
      | Err e \<Rightarrow> fst encap_out = Err e \<or> e = ExportLengthExceeded \<and> 255 * nh < n
      | Panic \<Rightarrow> False)"

text \<open>Within the limits, the call succeeds whenever encapsulation does.\<close>

lemma seal_open_okD:
  assumes "seal_open_ok e p_max tag aad pt sealed opener" and "is_ok (fst e)"
    and "length pt \<le> p_max" and "length aad \<le> p_max"
  shows "\<exists>enc ct. fst sealed = Ok (enc, ct) \<and> opener enc ct = Ok pt"
  using assms by (auto simp: seal_open_ok_def split: outcome.splits)

lemma export_okD:
  assumes "export_ok e nh n sent_out receiver" and "is_ok (fst e)" and "n \<le> 255 * nh"
  shows "\<exists>enc out. fst sent_out = Ok (enc, out) \<and> receiver enc = Ok out \<and> length out = n"
  using assms by (auto simp: export_ok_def split: outcome.splits)

text \<open>
  The outcome of an opening call on arbitrary input: the failure of decapsulation, or a
  plaintext, or the rejection of the ciphertext. \<open>decapped\<close> is the outcome of decapsulation.
\<close>

definition open_outcome_ok :: "'ss res \<Rightarrow> bytes res \<Rightarrow> bool" where
  "open_outcome_ok decapped opened =
     (case decapped of
        Ok ss \<Rightarrow> is_ok opened \<or> opened = Err OpenError
      | Err e \<Rightarrow> opened = Err e
      | Panic \<Rightarrow> False)"

lemma open_outcome_no_panic: "open_outcome_ok d r \<Longrightarrow> r \<noteq> Panic"
  by (auto simp: open_outcome_ok_def split: outcome.splits)

context sealing_aead_contract
begin

lemma one_shot_open_outcome:
  assumes ks: "\<And>s. \<exists>ctx. ks s = Ok ctx \<and> context_wf ctx \<and> seq ctx = 0" and "decapped \<noteq> Panic"
  shows "open_outcome_ok decapped (one_shot_open A (receiver_setup K decapped ks) aad ct)"
proof (cases decapped)
  case (Ok ss)
  obtain ctx where ctx: "ks (k_ss_as_ref K ss) = outcome.Ok ctx" "context_wf ctx" "seq ctx = 0"
    using ks by blast
  then have "seq ctx \<noteq> u64_MAX" by (simp add: u64_MAX_def)
  with ctx Ok show ?thesis
    by (cases rule: open_cases [of "cipher ctx" "nonce_at A (base_nonce ctx) (seq ctx)" aad ct])
      (simp_all add: open_outcome_ok_def one_shot_open_def receiver_setup_def
        Context_open_eq [OF nonce_range])
qed (use assms(2) in \<open>simp_all add: open_outcome_ok_def one_shot_open_def receiver_setup_def\<close>)

lemma one_shot_roundtrip:
  assumes "lawful" and ks: "\<And>s. \<exists>ctx. ks s = Ok ctx \<and> context_wf ctx \<and> seq ctx = 0"
    and np: "fst e \<noteq> Panic" and agree: "\<And>ss enc r'. e = (Ok (ss, enc), r') \<Longrightarrow> dec enc = Ok ss"
  shows "seal_open_ok e p_max (a_TAG_LEN A) aad pt (one_shot_seal A (sender_setup K e ks) aad pt)
     (\<lambda>enc. one_shot_open A (receiver_setup K (dec enc) ks) aad)"
proof (cases rule: sender_setup_cases [of ks "\<lambda>ctx. context_wf ctx \<and> seq ctx = 0" e K, OF ks np, case_names ok err])
  case (err x r')
  then show ?thesis by (simp add: seal_open_ok_def one_shot_seal_def)
next
  case (ok ss enc ctx r')
  have rcv: "receiver_setup K (dec enc) ks = Ok (ReceiverContext ctx)"
    using setup_agree [of e dec, OF agree ok(2)] by simp
  obtain res ctx' where seal: "Context_seal A ctx aad pt = (res, ctx')"
    by (cases "Context_seal A ctx aad pt")
  have seq0: "seq ctx \<noteq> u64_MAX" using ok(3) by (simp add: u64_MAX_def)
  have wf: "context_wf ctx" using ok(3) by simp
  have out: "fst (one_shot_seal A (sender_setup K e ks) aad pt)
      = try_bind res (\<lambda>ct. Ok (enc, ct))"
    by (simp add: ok(2) one_shot_seal_def seal)
  show ?thesis
  proof (cases res)
    case (Ok ct)
    have "Context_open A ctx aad ct = (outcome.Ok pt, ctx')"
      using open_after_seal [OF assms(1) wf] seal Ok by simp
    moreover have "length ct = length pt + a_TAG_LEN A"
      using Context_seal_OkD(1) [OF _ wf nonce_range] seal Ok seal_length [OF assms(1)] by blast
    ultimately show ?thesis
      unfolding seal_open_ok_def out by (simp add: Ok rcv one_shot_open_def)
  next
    case (Err x)
    then have "a_seal A (cipher ctx) (nonce_at A (base_nonce ctx) (seq ctx)) aad pt = outcome.Err x"
      using seal_outcomes [OF wf, of aad pt] seal seq0 by simp
    then have "x = SealError" by (rule seal_err)
    moreover have "p_max < length pt \<or> p_max < length aad"
      using seal_succeeds [OF assms(1) wf seq0, of pt aad] seal Err by (auto simp: not_le [symmetric])
    ultimately show ?thesis
      unfolding seal_open_ok_def out by (simp add: Err)
  next
    case Panic
    then have "a_seal A (cipher ctx) (nonce_at A (base_nonce ctx) (seq ctx)) aad pt = outcome.Panic"
      using seal_outcomes [OF wf, of aad pt] seal seq0 by simp
    then show ?thesis by (simp add: seal_no_panic)
  qed
qed

end

context key_schedule_suite
begin

lemma one_shot_export:
  assumes "lawful" and ks: "\<And>s. \<exists>ctx. ks s = Ok ctx \<and> length (exporter_secret ctx) = f_HASH_LEN F"
    and np: "fst e \<noteq> Panic" and agree: "\<And>ss enc r'. e = (Ok (ss, enc), r') \<Longrightarrow> dec enc = Ok ss"
  shows "export_ok e (f_HASH_LEN F) n (one_shot_send_export K F A (sender_setup K e ks) ectx n)
     (\<lambda>enc. one_shot_receiver_export K F A (receiver_setup K (dec enc) ks) ectx n)"
proof (cases rule: sender_setup_cases [of ks "\<lambda>ctx. length (exporter_secret ctx) = f_HASH_LEN F" e K,
      OF ks np, case_names ok err])
  case (err x r')
  then show ?thesis by (simp add: export_ok_def one_shot_send_export_def)
next
  case (ok ss enc ctx r')
  have rcv: "receiver_setup K (dec enc) ks = Ok (ReceiverContext ctx)"
    using setup_agree [of e dec, OF agree ok(2)] by simp
  show ?thesis
  proof (cases "n \<le> 255 * f_HASH_LEN F")
    case True
    then obtain out where "Context_export K F A ctx ectx n = Ok out" "length out = n"
      using export_cases(2) [OF assms(1) ok(3)] by blast
    then show ?thesis
      using True by (simp add: export_ok_def one_shot_send_export_def ok(2) rcv one_shot_receiver_export_def)
  next
    case False
    then have "Context_export K F A ctx ectx n = Err ExportLengthExceeded"
      using export_cases(1) [OF assms(1) ok(3), of n] by (simp add: not_le)
    then show ?thesis
      using False by (simp add: export_ok_def one_shot_send_export_def ok(2))
  qed
qed

lemma psk_free_total:
  "lawful \<Longrightarrow> \<exists>ctx. key_schedule_psk_free M K F A s info = Ok ctx \<and> context_wf ctx \<and> seq ctx = 0"
  "lawful \<Longrightarrow> \<exists>ctx. key_schedule_psk_free M K F A s info = Ok ctx
     \<and> length (exporter_secret ctx) = f_HASH_LEN F"
  using key_schedule_psk_free_total by blast+

lemma psk_total:
  "lawful \<Longrightarrow> \<exists>ctx. key_schedule_psk M K F A s info psk = Ok ctx \<and> context_wf ctx \<and> seq ctx = 0"
  "lawful \<Longrightarrow> \<exists>ctx. key_schedule_psk M K F A s info psk = Ok ctx
     \<and> length (exporter_secret ctx) = f_HASH_LEN F"
  using key_schedule_psk_total by blast+

end

section \<open>Suites\<close>

locale hpke_suite =
  kem: kem_contract K pair lawful + ks: key_schedule_suite F A lawful
  for K :: "('r, 'pk, 'sk, 'enc, 'ss, 'z) kem_scheme" and pair :: "'sk \<Rightarrow> 'pk \<Rightarrow> bool"
    and F :: kdf and A :: "('c, 'y) aead_scheme" and lawful :: bool
begin

lemma setup_base_agree:
  assumes "lawful" and "pair sk pk" and "setup_sender_base K F A r pk info = (Ok (enc, tx), r')"
  shows "setup_receiver_base K F A enc sk info = Ok (ReceiverContext (sender_inner tx))"
  using assms(3) unfolding setup_eq
  by (rule setup_agree [rotated]) (rule kem.decap_encap [OF assms(1,2)])

lemma setup_psk_agree:
  assumes "lawful" and "pair sk pk" and "setup_sender_psk K F A r pk info psk = (Ok (enc, tx), r')"
  shows "setup_receiver_psk K F A enc sk info psk = Ok (ReceiverContext (sender_inner tx))"
  using assms(3) unfolding setup_eq
  by (rule setup_agree [rotated]) (rule kem.decap_encap [OF assms(1,2)])

lemma setup_base_fresh:
  assumes "lawful" and "setup_sender_base K F A r pk info = (Ok (enc, tx), r')"
  shows "context_wf (sender_inner tx) \<and> seq (sender_inner tx) = 0"
  using assms(2) unfolding setup_eq by (rule sender_setup_fresh [OF ks.psk_free_total(1) [OF assms(1)]])

lemma setup_psk_fresh:
  assumes "lawful" and "setup_sender_psk K F A r pk info psk = (Ok (enc, tx), r')"
  shows "context_wf (sender_inner tx) \<and> seq (sender_inner tx) = 0"
  using assms(2) unfolding setup_eq by (rule sender_setup_fresh [OF ks.psk_total(1) [OF assms(1)]])

lemma export_base:
  assumes "lawful" and "pair sk pk"
  shows "export_ok (k_encap K r pk) (f_HASH_LEN F) n (send_export_base K F A r pk info ectx n)
     (\<lambda>enc. receiver_export_base K F A enc sk info ectx n)"
  unfolding one_shot_eq setup_eq
  by (rule ks.one_shot_export ks.psk_free_total(2) kem.encap_no_panic
      kem.decap_encap assms | assumption)+

lemma export_psk:
  assumes "lawful" and "pair sk pk"
  shows "export_ok (k_encap K r pk) (f_HASH_LEN F) n (send_export_psk K F A r pk info psk ectx n)
     (\<lambda>enc. receiver_export_psk K F A enc sk info psk ectx n)"
  unfolding one_shot_eq setup_eq
  by (rule ks.one_shot_export ks.psk_total(2) kem.encap_no_panic
      kem.decap_encap assms | assumption)+

end

locale hpke_auth_suite =
  hpke_suite K pair F A lawful + auth: auth_kem_contract K pair lawful
  for K :: "('r, 'pk, 'sk, 'enc, 'ss, ('r, 'pk, 'sk, 'enc, 'ss, 'z) auth_kem_ext) kem_scheme"
    and pair :: "'sk \<Rightarrow> 'pk \<Rightarrow> bool"
    and F :: kdf and A :: "('c, 'y) aead_scheme" and lawful :: bool
begin

lemma export_auth:
  assumes "lawful" and "pair sk pk" and "pair sk_s pk_s"
  shows "export_ok (k_auth_encap K r pk sk_s) (f_HASH_LEN F) n
     (send_export_auth K F A r pk info sk_s ectx n)
     (\<lambda>enc. receiver_export_auth K F A enc sk info pk_s ectx n)"
  unfolding one_shot_eq setup_eq
  by (rule ks.one_shot_export ks.psk_free_total(2) auth.auth_encap_no_panic
      auth.auth_decap_encap assms | assumption)+

lemma export_auth_psk:
  assumes "lawful" and "pair sk pk" and "pair sk_s pk_s"
  shows "export_ok (k_auth_encap K r pk sk_s) (f_HASH_LEN F) n
     (send_export_auth_psk K F A r pk info psk sk_s ectx n)
     (\<lambda>enc. receiver_export_auth_psk K F A enc sk info psk pk_s ectx n)"
  unfolding one_shot_eq setup_eq
  by (rule ks.one_shot_export ks.psk_total(2) auth.auth_encap_no_panic
      auth.auth_decap_encap assms | assumption)+

end

locale hpke_sealing_suite =
  hpke_suite K pair F A lawful + aead: sealing_aead_contract A lawful p_max
  for K :: "('r, 'pk, 'sk, 'enc, 'ss, 'z) kem_scheme" and pair :: "'sk \<Rightarrow> 'pk \<Rightarrow> bool"
    and F :: kdf and A :: "('c, ('c, 'y) sealing_aead_ext) aead_scheme" and lawful :: bool
    and p_max :: nat
begin

lemma seal_open_base:
  assumes "lawful" and "pair sk pk"
  shows "seal_open_ok (k_encap K r pk) p_max (a_TAG_LEN A) aad pt (seal_base K F A r pk info aad pt)
     (\<lambda>enc ct. open_base K F A enc sk info aad ct)"
  unfolding one_shot_eq setup_eq
  by (rule aead.one_shot_roundtrip ks.psk_free_total(1) kem.encap_no_panic
      kem.decap_encap assms | assumption)+

lemma seal_open_psk:
  assumes "lawful" and "pair sk pk"
  shows "seal_open_ok (k_encap K r pk) p_max (a_TAG_LEN A) aad pt (seal_psk K F A r pk info aad pt psk)
     (\<lambda>enc ct. open_psk K F A enc sk info aad ct psk)"
  unfolding one_shot_eq setup_eq
  by (rule aead.one_shot_roundtrip ks.psk_total(1) kem.encap_no_panic
      kem.decap_encap assms | assumption)+

lemma open_outcomes:
  assumes "lawful"
  shows "open_outcome_ok (k_decap K enc sk) (open_base K F A enc sk info aad ct)"
    and "open_outcome_ok (k_decap K enc sk) (open_psk K F A enc sk info aad ct psk)"
  unfolding one_shot_eq setup_eq
  by (rule aead.one_shot_open_outcome ks.psk_free_total(1) ks.psk_total(1) kem.decap_no_panic assms)+

end

locale hpke_auth_sealing_suite =
  hpke_auth_suite K pair F A lawful + hpke_sealing_suite K pair F A lawful p_max
  for K :: "('r, 'pk, 'sk, 'enc, 'ss, ('r, 'pk, 'sk, 'enc, 'ss, 'z) auth_kem_ext) kem_scheme"
    and pair :: "'sk \<Rightarrow> 'pk \<Rightarrow> bool"
    and F :: kdf and A :: "('c, ('c, 'y) sealing_aead_ext) aead_scheme" and lawful :: bool
    and p_max :: nat
begin

lemma seal_open_auth:
  assumes "lawful" and "pair sk pk" and "pair sk_s pk_s"
  shows "seal_open_ok (k_auth_encap K r pk sk_s) p_max (a_TAG_LEN A) aad pt
     (seal_auth K F A r pk info aad pt sk_s) (\<lambda>enc ct. open_auth K F A enc sk info aad ct pk_s)"
  unfolding one_shot_eq setup_eq
  by (rule aead.one_shot_roundtrip ks.psk_free_total(1) auth.auth_encap_no_panic
      auth.auth_decap_encap assms | assumption)+

lemma seal_open_auth_psk:
  assumes "lawful" and "pair sk pk" and "pair sk_s pk_s"
  shows "seal_open_ok (k_auth_encap K r pk sk_s) p_max (a_TAG_LEN A) aad pt
     (seal_auth_psk K F A r pk info aad pt psk sk_s)
     (\<lambda>enc ct. open_auth_psk K F A enc sk info aad ct psk pk_s)"
  unfolding one_shot_eq setup_eq
  by (rule aead.one_shot_roundtrip ks.psk_total(1) auth.auth_encap_no_panic
      auth.auth_decap_encap assms | assumption)+

lemma open_auth_outcomes:
  assumes "lawful"
  shows "open_outcome_ok (k_auth_decap K enc sk pk_s) (open_auth K F A enc sk info aad ct pk_s)"
    and "open_outcome_ok (k_auth_decap K enc sk pk_s) (open_auth_psk K F A enc sk info aad ct psk pk_s)"
  unfolding one_shot_eq setup_eq
  by (rule aead.one_shot_open_outcome ks.psk_free_total(1) ks.psk_total(1) auth.auth_decap_no_panic
      assms)+

end

end
