(* ===== verification/Hpke_Dh.thy ===== *)
theory Hpke_Dh
  imports Hpke_Kdf Hpke_Kem Hpke_Psk
begin

text \<open>
  The generic half of \<open>src/kem/dh.rs\<close>: the \<open>DiffieHellman\<close> trait, the
  rejection-sampling loop of \<open>DeriveKeyPair\<close>, and \<open>DhKem<D>\<close>, the DHKEM of RFC 9180,
  section 4.1, over any such group.

  The trait is the record \<open>dh\<close>. Its \<open>derive\<close> is an extension of \<open>dh_core\<close>,
  because \<open>derive_p_curve_sk::<D>\<close> is itself generic over the rest of the trait and
  \<open>derive\<close> calls it at \<open>Self\<close>.
\<close>

section \<open>The trait\<close>

record ('r, 'pk, 'sk) dh_core =
  d_Kdf :: kdf
  d_ID :: u16
  d_PUBLIC_KEY_LEN :: nat
  d_PRIVATE_KEY_LEN :: nat
  d_SHARED_SECRET_LEN :: nat
  d_pk_as_ref :: "'pk \<Rightarrow> bytes"
  d_sk_zeroize :: "'sk \<Rightarrow> 'sk res"
  d_generate :: "'r \<Rightarrow> ('sk \<times> 'pk) \<times> 'r"
  d_dh :: "'sk \<Rightarrow> 'pk \<Rightarrow> bytes res"
  d_pk_from_bytes :: "bytes \<Rightarrow> 'pk res"
  d_sk_from_bytes :: "bytes \<Rightarrow> 'sk res"
  d_pk_to_bytes :: "'pk \<Rightarrow> bytes"
  d_sk_to_bytes :: "'sk \<Rightarrow> bytes"
  d_sk_to_pk :: "'sk \<Rightarrow> 'pk"

record ('r, 'pk, 'sk) dh = "('r, 'pk, 'sk) dh_core" +
  d_derive :: "bytes \<Rightarrow> ('sk \<times> 'pk) res"

text \<open>An implementation of the trait: the operations that do not derive, and \<open>derive\<close>.\<close>

definition with_derive ::
    "('r, 'pk, 'sk) dh_core \<Rightarrow> (bytes \<Rightarrow> ('sk \<times> 'pk) res) \<Rightarrow> ('r, 'pk, 'sk) dh" where
  "with_derive C der =
     \<lparr> d_Kdf = d_Kdf C, d_ID = d_ID C, d_PUBLIC_KEY_LEN = d_PUBLIC_KEY_LEN C,
       d_PRIVATE_KEY_LEN = d_PRIVATE_KEY_LEN C, d_SHARED_SECRET_LEN = d_SHARED_SECRET_LEN C,
       d_pk_as_ref = d_pk_as_ref C, d_sk_zeroize = d_sk_zeroize C, d_generate = d_generate C,
       d_dh = d_dh C, d_pk_from_bytes = d_pk_from_bytes C, d_sk_from_bytes = d_sk_from_bytes C,
       d_pk_to_bytes = d_pk_to_bytes C, d_sk_to_bytes = d_sk_to_bytes C,
       d_sk_to_pk = d_sk_to_pk C, d_derive = der \<rparr>"

lemma with_derive_simps [simp]:
  "d_Kdf (with_derive C der) = d_Kdf C" "d_ID (with_derive C der) = d_ID C"
  "d_PUBLIC_KEY_LEN (with_derive C der) = d_PUBLIC_KEY_LEN C"
  "d_PRIVATE_KEY_LEN (with_derive C der) = d_PRIVATE_KEY_LEN C"
  "d_SHARED_SECRET_LEN (with_derive C der) = d_SHARED_SECRET_LEN C"
  "d_pk_as_ref (with_derive C der) = d_pk_as_ref C"
  "d_sk_zeroize (with_derive C der) = d_sk_zeroize C"
  "d_generate (with_derive C der) = d_generate C" "d_dh (with_derive C der) = d_dh C"
  "d_pk_from_bytes (with_derive C der) = d_pk_from_bytes C"
  "d_sk_from_bytes (with_derive C der) = d_sk_from_bytes C"
  "d_pk_to_bytes (with_derive C der) = d_pk_to_bytes C"
  "d_sk_to_bytes (with_derive C der) = d_sk_to_bytes C"
  "d_sk_to_pk (with_derive C der) = d_sk_to_pk C" "d_derive (with_derive C der) = der"
  by (simp_all add: with_derive_def)

section \<open>Key types of \<open>DhKem<D>\<close>\<close>

datatype 'pk DhPublicKey = DhPublicKey (dh_pk: 'pk)

record 'sk DhPrivateKey =
  dh_sk :: 'sk
  pk_bytes :: bytes

datatype DhEncappedKey = DhEncappedKey (dh_enc: bytes)
datatype DhSharedSecret = DhSharedSecret (dh_ss: bytes)

definition DhPublicKey_as_ref ::
    "('r, 'pk, 'sk, 'z) dh_core_scheme \<Rightarrow> 'pk DhPublicKey \<Rightarrow> bytes" where
  "DhPublicKey_as_ref D pk = d_pk_as_ref D (dh_pk pk)"

text \<open>\<open>impl Debug for DhPublicKey\<close>: only the length is shown.\<close>

definition DhPublicKey_fmt ::
    "('r, 'pk, 'sk, 'z) dh_core_scheme \<Rightarrow> 'pk DhPublicKey \<Rightarrow> string" where
  "DhPublicKey_fmt D pk =
     ''DhPublicKey('' @ redacted (length (d_pk_as_ref D (dh_pk pk))) @ '')''"

definition from_pair ::
    "('r, 'pk, 'sk, 'z) dh_core_scheme \<Rightarrow> 'sk \<Rightarrow> 'pk \<Rightarrow> 'sk DhPrivateKey" where
  "from_pair D sk pk = \<lparr> dh_sk = sk, pk_bytes = d_pk_to_bytes D pk \<rparr>"

definition from_sk :: "('r, 'pk, 'sk, 'z) dh_core_scheme \<Rightarrow> 'sk \<Rightarrow> 'sk DhPrivateKey" where
  "from_sk D sk =
     (let pk = d_sk_to_pk D sk in \<lparr> dh_sk = sk, pk_bytes = d_pk_to_bytes D pk \<rparr>)"

text \<open>\<open>impl Zeroize for DhPrivateKey\<close>: the scalar is scrubbed, the cached public key stays.\<close>

definition DhPrivateKey_zeroize ::
    "('r, 'pk, 'sk, 'z) dh_core_scheme \<Rightarrow> 'sk DhPrivateKey \<Rightarrow> 'sk DhPrivateKey res" where
  "DhPrivateKey_zeroize D k =
     try_bind (d_sk_zeroize D (dh_sk k)) (\<lambda>sk. Ok (k\<lparr>dh_sk := sk\<rparr>))"

text \<open>\<open>impl Zeroize for DhSharedSecret\<close>: \<open>Vec::zeroize\<close> scrubs the bytes and empties the vector.\<close>

definition DhSharedSecret_zeroize :: "DhSharedSecret \<Rightarrow> DhSharedSecret" where
  "DhSharedSecret_zeroize ss = DhSharedSecret []"

text \<open>\<open>impl Drop\<close> of both: what is left in memory when the value goes out of scope.\<close>

definition DhPrivateKey_drop ::
    "('r, 'pk, 'sk, 'z) dh_core_scheme \<Rightarrow> 'sk DhPrivateKey \<Rightarrow> 'sk DhPrivateKey res" where
  "DhPrivateKey_drop D k = DhPrivateKey_zeroize D k"

definition DhSharedSecret_drop :: "DhSharedSecret \<Rightarrow> DhSharedSecret" where
  "DhSharedSecret_drop ss = DhSharedSecret_zeroize ss"

section \<open>Shared-secret derivation\<close>

definition suite_id :: "('r, 'pk, 'sk, 'z) dh_core_scheme \<Rightarrow> bytes" where
  "suite_id D = kem_suite_id (d_ID D)"

definition extract_and_expand ::
    "('r, 'pk, 'sk, 'z) dh_core_scheme \<Rightarrow> bytes \<Rightarrow> bytes list \<Rightarrow> bytes res" where
  "extract_and_expand D dh_bytes kem_context =
     (let suite = suite_id D;
          eae_prk = labeled_extract (d_Kdf D) [] suite (ascii ''eae_prk'') dh_bytes
      in labeled_expand_pieces (d_Kdf D) eae_prk suite (ascii ''shared_secret'') kem_context
           (d_SHARED_SECRET_LEN D))"

definition extract_and_expand_pieces ::
    "('r, 'pk, 'sk, 'z) dh_core_scheme \<Rightarrow> bytes list \<Rightarrow> bytes list \<Rightarrow> bytes res" where
  "extract_and_expand_pieces D dh_pieces kem_context =
     (let suite = suite_id D
      in try_bind (labeled_extract_pieces (d_Kdf D) [] suite (ascii ''eae_prk'') dh_pieces)
           (\<lambda>eae_prk.
         labeled_expand_pieces (d_Kdf D) eae_prk suite (ascii ''shared_secret'') kem_context
           (d_SHARED_SECRET_LEN D)))"

section \<open>\<open>DeriveKeyPair\<close> by rejection sampling\<close>

text \<open>The body of \<open>for counter in 0u8..=255\<close>, on the counters still to try.\<close>

fun p_curve_loop ::
    "('r, 'pk, 'sk, 'z) dh_core_scheme \<Rightarrow> bytes \<Rightarrow> bytes \<Rightarrow> nat \<Rightarrow> u8 \<Rightarrow> u8 list \<Rightarrow> bytes res" where
  "p_curve_loop D suite dkp_prk nsk bitmask [] = Err DeriveKeyPairError"
| "p_curve_loop D suite dkp_prk nsk bitmask (counter # rest) =
     try_bind (labeled_expand (d_Kdf D) dkp_prk suite (ascii ''candidate'') [counter] nsk)
       (\<lambda>candidate.
     try_bind (modify_at 0 (\<lambda>b. b AND bitmask) candidate) (\<lambda>candidate.
       case d_sk_from_bytes D candidate of
         Ok _ \<Rightarrow> Ok candidate
       | Err _ \<Rightarrow> p_curve_loop D suite dkp_prk nsk bitmask rest
       | Panic \<Rightarrow> Panic))"

definition derive_p_curve_sk ::
    "('r, 'pk, 'sk, 'z) dh_core_scheme \<Rightarrow> bytes \<Rightarrow> nat \<Rightarrow> u8 \<Rightarrow> bytes res" where
  "derive_p_curve_sk D ikm nsk bitmask =
     (let suite = suite_id D;
          dkp_prk = labeled_extract (d_Kdf D) [] suite (ascii ''dkp_prk'') ikm
      in p_curve_loop D suite dkp_prk nsk bitmask (map word_of_nat [0..<256]))"

section \<open>Encapsulation and decapsulation\<close>

definition encap_with ::
    "('r, 'pk, 'sk, 'z) dh_core_scheme \<Rightarrow> 'r \<Rightarrow> 'pk DhPublicKey \<Rightarrow> 'sk DhPrivateKey option \<Rightarrow>
     (DhSharedSecret \<times> DhEncappedKey) res \<times> 'r" where
  "encap_with D rng pk_r sk_sender =
     (case d_generate D rng of ((sk_e, pk_e), rng') \<Rightarrow>
       (try_bind (d_dh D sk_e (dh_pk pk_r)) (\<lambda>dh1.
          let enc = d_pk_to_bytes D pk_e;
              pk_recipient = d_pk_as_ref D (dh_pk pk_r)
          in try_bind
               (case sk_sender of
                  None \<Rightarrow> extract_and_expand D dh1 [enc, pk_recipient]
                | Some sk_s \<Rightarrow>
                    try_bind (d_dh D (dh_sk sk_s) (dh_pk pk_r)) (\<lambda>dh2.
                      extract_and_expand_pieces D [dh1, dh2] [enc, pk_recipient, pk_bytes sk_s]))
               (\<lambda>ss. Ok (DhSharedSecret ss, DhEncappedKey enc))),
        rng'))"

definition DhKem_generate ::
    "('r, 'pk, 'sk, 'z) dh_core_scheme \<Rightarrow> 'r \<Rightarrow> ('sk DhPrivateKey \<times> 'pk DhPublicKey) res \<times> 'r" where
  "DhKem_generate D rng =
     (case d_generate D rng of ((sk, pk), rng') \<Rightarrow> (Ok (from_pair D sk pk, DhPublicKey pk), rng'))"

definition DhKem_derive_key_pair ::
    "('r, 'pk, 'sk, ('pk, 'sk, 'z) dh_ext) dh_core_scheme \<Rightarrow> bytes \<Rightarrow>
     ('sk DhPrivateKey \<times> 'pk DhPublicKey) res" where
  "DhKem_derive_key_pair D ikm =
     try_bind (d_derive D ikm) (\<lambda>(sk, pk). Ok (from_pair D sk pk, DhPublicKey pk))"

definition DhKem_encap ::
    "('r, 'pk, 'sk, 'z) dh_core_scheme \<Rightarrow> 'r \<Rightarrow> 'pk DhPublicKey \<Rightarrow>
     (DhSharedSecret \<times> DhEncappedKey) res \<times> 'r" where
  "DhKem_encap D rng pk_r = encap_with D rng pk_r None"

definition DhKem_decap ::
    "('r, 'pk, 'sk, 'z) dh_core_scheme \<Rightarrow> DhEncappedKey \<Rightarrow> 'sk DhPrivateKey \<Rightarrow> DhSharedSecret res" where
  "DhKem_decap D enc sk_r =
     try_bind (d_pk_from_bytes D (dh_enc enc)) (\<lambda>pk_e.
     try_bind (d_dh D (dh_sk sk_r) pk_e) (\<lambda>dh.
     try_bind (extract_and_expand D dh [dh_enc enc, pk_bytes sk_r]) (\<lambda>ss.
       Ok (DhSharedSecret ss))))"

definition DhKem_pk_from_bytes ::
    "('r, 'pk, 'sk, 'z) dh_core_scheme \<Rightarrow> bytes \<Rightarrow> 'pk DhPublicKey res" where
  "DhKem_pk_from_bytes D b = try_bind (d_pk_from_bytes D b) (\<lambda>pk. Ok (DhPublicKey pk))"

definition DhKem_sk_from_bytes ::
    "('r, 'pk, 'sk, 'z) dh_core_scheme \<Rightarrow> bytes \<Rightarrow> 'sk DhPrivateKey res" where
  "DhKem_sk_from_bytes D b = try_bind (d_sk_from_bytes D b) (\<lambda>sk. Ok (from_sk D sk))"

definition DhKem_enc_from_bytes ::
    "('r, 'pk, 'sk, 'z) dh_core_scheme \<Rightarrow> bytes \<Rightarrow> DhEncappedKey res" where
  "DhKem_enc_from_bytes D b =
     (if length b \<noteq> d_PUBLIC_KEY_LEN D then Err InvalidEncappedKey else Ok (DhEncappedKey b))"

definition DhKem_pk_to_bytes ::
    "('r, 'pk, 'sk, 'z) dh_core_scheme \<Rightarrow> 'pk DhPublicKey \<Rightarrow> bytes" where
  "DhKem_pk_to_bytes D pk = d_pk_to_bytes D (dh_pk pk)"

definition DhKem_sk_to_bytes ::
    "('r, 'pk, 'sk, 'z) dh_core_scheme \<Rightarrow> 'sk DhPrivateKey \<Rightarrow> bytes" where
  "DhKem_sk_to_bytes D sk = d_sk_to_bytes D (dh_sk sk)"

definition DhKem_auth_encap ::
    "('r, 'pk, 'sk, 'z) dh_core_scheme \<Rightarrow> 'r \<Rightarrow> 'pk DhPublicKey \<Rightarrow> 'sk DhPrivateKey \<Rightarrow>
     (DhSharedSecret \<times> DhEncappedKey) res \<times> 'r" where
  "DhKem_auth_encap D rng pk_r sk_s = encap_with D rng pk_r (Some sk_s)"

definition DhKem_auth_decap ::
    "('r, 'pk, 'sk, 'z) dh_core_scheme \<Rightarrow> DhEncappedKey \<Rightarrow> 'sk DhPrivateKey \<Rightarrow> 'pk DhPublicKey \<Rightarrow>
     DhSharedSecret res" where
  "DhKem_auth_decap D enc sk_r pk_s =
     try_bind (d_pk_from_bytes D (dh_enc enc)) (\<lambda>pk_e.
     try_bind (d_dh D (dh_sk sk_r) pk_e) (\<lambda>dh1.
     try_bind (d_dh D (dh_sk sk_r) (dh_pk pk_s)) (\<lambda>dh2.
     try_bind (extract_and_expand_pieces D [dh1, dh2]
         [dh_enc enc, pk_bytes sk_r, d_pk_as_ref D (dh_pk pk_s)]) (\<lambda>ss.
       Ok (DhSharedSecret ss)))))"

text \<open>The deterministic variants of the test and interoperability builds.\<close>

definition encap_with_ikm ::
    "('r, 'pk, 'sk, ('pk, 'sk, 'z) dh_ext) dh_core_scheme \<Rightarrow> 'pk DhPublicKey \<Rightarrow> bytes \<Rightarrow>
     (DhSharedSecret \<times> DhEncappedKey) res" where
  "encap_with_ikm D pk_r ikm_e =
     try_bind (d_derive D ikm_e) (\<lambda>(sk_e, pk_e).
     try_bind (d_dh D sk_e (dh_pk pk_r)) (\<lambda>dh.
       let enc = d_pk_to_bytes D pk_e in
       try_bind (extract_and_expand D dh [enc, d_pk_as_ref D (dh_pk pk_r)]) (\<lambda>ss.
         Ok (DhSharedSecret ss, DhEncappedKey enc))))"

definition auth_encap_with_ikm ::
    "('r, 'pk, 'sk, ('pk, 'sk, 'z) dh_ext) dh_core_scheme \<Rightarrow> 'pk DhPublicKey \<Rightarrow>
     'sk DhPrivateKey \<Rightarrow> bytes \<Rightarrow> (DhSharedSecret \<times> DhEncappedKey) res" where
  "auth_encap_with_ikm D pk_r sk_s ikm_e =
     try_bind (d_derive D ikm_e) (\<lambda>(sk_e, pk_e).
     try_bind (d_dh D sk_e (dh_pk pk_r)) (\<lambda>dh1.
     try_bind (d_dh D (dh_sk sk_s) (dh_pk pk_r)) (\<lambda>dh2.
       let enc = d_pk_to_bytes D pk_e in
       try_bind (extract_and_expand_pieces D [dh1, dh2]
           [enc, d_pk_as_ref D (dh_pk pk_r), pk_bytes sk_s]) (\<lambda>ss.
         Ok (DhSharedSecret ss, DhEncappedKey enc)))))"

text \<open>The associated function of the same name.\<close>

definition DhKem_encap_with_ikm ::
    "('r, 'pk, 'sk, ('pk, 'sk, 'z) dh_ext) dh_core_scheme \<Rightarrow> 'pk DhPublicKey \<Rightarrow> bytes \<Rightarrow>
     (DhSharedSecret \<times> DhEncappedKey) res" where
  "DhKem_encap_with_ikm D pk_r ikm_e = encap_with_ikm D pk_r ikm_e"

text \<open>\<open>impl Kem for DhKem<D>\<close> and \<open>impl AuthKem for DhKem<D>\<close>.\<close>

definition DhKem ::
    "('r, 'pk, 'sk, ('pk, 'sk, 'z) dh_ext) dh_core_scheme \<Rightarrow>
     ('r, 'pk DhPublicKey, 'sk DhPrivateKey, DhEncappedKey, DhSharedSecret) auth_kem" where
  "DhKem D =
     \<lparr> k_ID = d_ID D, k_ENCAPPED_KEY_LEN = d_PUBLIC_KEY_LEN D,
       k_PUBLIC_KEY_LEN = d_PUBLIC_KEY_LEN D, k_PRIVATE_KEY_LEN = d_PRIVATE_KEY_LEN D,
       k_SHARED_SECRET_LEN = d_SHARED_SECRET_LEN D,
       k_pk_as_ref = DhPublicKey_as_ref D, k_enc_as_ref = dh_enc, k_ss_as_ref = dh_ss,
       k_sk_zeroize = DhPrivateKey_zeroize D,
       k_generate = DhKem_generate D, k_derive_key_pair = DhKem_derive_key_pair D,
       k_encap = DhKem_encap D, k_decap = DhKem_decap D,
       k_pk_from_bytes = DhKem_pk_from_bytes D, k_sk_from_bytes = DhKem_sk_from_bytes D,
       k_enc_from_bytes = DhKem_enc_from_bytes D,
       k_pk_to_bytes = DhKem_pk_to_bytes D, k_sk_to_bytes = DhKem_sk_to_bytes D,
       k_auth_encap = DhKem_auth_encap D, k_auth_decap = DhKem_auth_decap D \<rparr>"

lemma DhKem_simps [simp]:
  "k_ID (DhKem D) = d_ID D"
  "k_ENCAPPED_KEY_LEN (DhKem D) = d_PUBLIC_KEY_LEN D"
  "k_PUBLIC_KEY_LEN (DhKem D) = d_PUBLIC_KEY_LEN D"
  "k_PRIVATE_KEY_LEN (DhKem D) = d_PRIVATE_KEY_LEN D"
  "k_SHARED_SECRET_LEN (DhKem D) = d_SHARED_SECRET_LEN D"
  "k_enc_as_ref (DhKem D) = dh_enc" "k_ss_as_ref (DhKem D) = dh_ss"
  "k_pk_as_ref (DhKem D) = DhPublicKey_as_ref D"
  "k_sk_zeroize (DhKem D) = DhPrivateKey_zeroize D"
  "k_generate (DhKem D) = DhKem_generate D"
  "k_derive_key_pair (DhKem D) = DhKem_derive_key_pair D"
  "k_encap (DhKem D) = DhKem_encap D" "k_decap (DhKem D) = DhKem_decap D"
  "k_pk_from_bytes (DhKem D) = DhKem_pk_from_bytes D"
  "k_sk_from_bytes (DhKem D) = DhKem_sk_from_bytes D"
  "k_enc_from_bytes (DhKem D) = DhKem_enc_from_bytes D"
  "k_pk_to_bytes (DhKem D) = DhKem_pk_to_bytes D"
  "k_sk_to_bytes (DhKem D) = DhKem_sk_to_bytes D"
  "k_auth_encap (DhKem D) = DhKem_auth_encap D"
  "k_auth_decap (DhKem D) = DhKem_auth_decap D"
  by (simp_all add: DhKem_def)

end
