(* ===== verification/Hpke_Dhkem.thy ===== *)
theory Hpke_Dhkem
  imports Hpke_Dh
begin

text \<open>
  Correctness of the DHKEM construction and of the rejection-sampling loop, proved once for
  every group that keeps the contract \<open>dh_contract\<close>. The groups of the crate are
  shown to keep it in \<open>Hpke_Montgomery\<close> and \<open>Hpke_Nist\<close>.
\<close>

section \<open>The contract of a group\<close>

text \<open>
  \<open>pair sk pk\<close>: \<open>pk\<close> is the public key of \<open>sk\<close>. The law that makes a
  Diffie-Hellman group is \<open>dh_comm\<close>; the others fix the wire formats and the errors.
\<close>

locale dh_contract =
  kdf: kdf_contract "d_Kdf D" lawful
  for D :: "('r, 'pk, 'sk, ('pk, 'sk, 'z) dh_ext) dh_core_scheme" and lawful :: bool +
  fixes pair :: "'sk \<Rightarrow> 'pk \<Rightarrow> bool"
  assumes shared_secret_le: "d_SHARED_SECRET_LEN D \<le> 64"
    and generate_pair: "lawful \<Longrightarrow> d_generate D r = ((sk, pk), r') \<Longrightarrow> pair sk pk"
    and derive_pair: "lawful \<Longrightarrow> d_derive D ikm = Ok (sk, pk) \<Longrightarrow> pair sk pk"
    and from_bytes_pair: "lawful \<Longrightarrow> d_sk_from_bytes D b = Ok sk \<Longrightarrow> pair sk (d_sk_to_pk D sk)"
    and pair_unique: "lawful \<Longrightarrow> pair sk pk \<Longrightarrow> d_sk_to_pk D sk = pk"
    and dh_comm: "lawful \<Longrightarrow> pair sk pk \<Longrightarrow> pair sk' pk' \<Longrightarrow> d_dh D sk pk' = d_dh D sk' pk"
    and as_ref_eq: "d_pk_as_ref D pk = d_pk_to_bytes D pk"
    and pk_wire: "lawful \<Longrightarrow> pair sk pk \<Longrightarrow> d_pk_from_bytes D (d_pk_to_bytes D pk) = Ok pk"
    and pk_length: "lawful \<Longrightarrow> pair sk pk \<Longrightarrow> length (d_pk_to_bytes D pk) = d_PUBLIC_KEY_LEN D"
    and sk_wire: "lawful \<Longrightarrow> pair sk pk \<Longrightarrow> d_sk_from_bytes D (d_sk_to_bytes D sk) = Ok sk"
    and sk_length: "lawful \<Longrightarrow> pair sk pk \<Longrightarrow> length (d_sk_to_bytes D sk) = d_PRIVATE_KEY_LEN D"
    and dh_err: "d_dh D sk pk = Err e \<Longrightarrow> e = EncapError"
    and dh_no_panic: "d_dh D sk pk \<noteq> Panic"
    and pk_from_bytes_err: "d_pk_from_bytes D b = Err e \<Longrightarrow> e = InvalidPublicKey"
    and pk_from_bytes_no_panic: "d_pk_from_bytes D b \<noteq> Panic"
    and sk_from_bytes_err: "d_sk_from_bytes D b = Err e \<Longrightarrow> e = InvalidPrivateKey"
    and sk_from_bytes_no_panic: "d_sk_from_bytes D b \<noteq> Panic"
    and derive_no_panic: "lawful \<Longrightarrow> d_derive D ikm \<noteq> Panic"

section \<open>Every outcome of a KEM exchange\<close>

text \<open>
  What one call of encapsulation and the matching decapsulation do, in one statement: the two
  sides agree on a secret of the advertised length, or encapsulation reports a rejected
  Diffie-Hellman output.
\<close>

definition kem_exchange_ok ::
    "('r, 'pk, 'sk, 'z) dh_core_scheme \<Rightarrow> (DhSharedSecret \<times> DhEncappedKey) res \<Rightarrow>
     (DhEncappedKey \<Rightarrow> DhSharedSecret res) \<Rightarrow> bool" where
  "kem_exchange_ok D encapped decapper =
     (case encapped of
        Ok (ss, enc) \<Rightarrow> decapper enc = Ok ss \<and> length (dh_ss ss) = d_SHARED_SECRET_LEN D
          \<and> length (dh_enc enc) = d_PUBLIC_KEY_LEN D
      | Err e \<Rightarrow> e = EncapError
      | Panic \<Rightarrow> False)"

section \<open>Shared-secret derivation succeeds and does not see the pieces\<close>

context kdf_contract
begin

lemma eae_ok:
  assumes "lawful" and "F = d_Kdf D" and "d_SHARED_SECRET_LEN D \<le> 64" and "length ctx \<le> 12"
  shows "\<exists>ss. extract_and_expand D dh_bytes ctx = Ok ss \<and> length ss = d_SHARED_SECRET_LEN D"
  unfolding extract_and_expand_def Let_def assms(2) [symmetric]
  using assms(1,3,4) hash_len_ge
  by (intro labeled_expand_pieces_ok) (simp_all add: labeled_extract_length)

lemma eae_pieces_concat:
  assumes "lawful" and "F = d_Kdf D" and "length ps \<le> 5"
  shows "extract_and_expand_pieces D ps ctx = extract_and_expand D (concat ps) ctx"
  using labeled_extract_pieces_concat [OF assms(1,3)] assms(2)
  by (simp add: extract_and_expand_pieces_def extract_and_expand_def Let_def)

end

context dh_contract
begin

lemma extract_and_expand_ok:
  "lawful \<Longrightarrow> length ctx \<le> 12 \<Longrightarrow>
   \<exists>ss. extract_and_expand D dh_bytes ctx = Ok ss \<and> length ss = d_SHARED_SECRET_LEN D"
  using kdf.eae_ok shared_secret_le by blast

lemma extract_and_expand_pieces_eq:
  "lawful \<Longrightarrow> length ps \<le> 5 \<Longrightarrow>
   extract_and_expand_pieces D ps ctx = extract_and_expand D (concat ps) ctx"
  using kdf.eae_pieces_concat by blast

section \<open>Encapsulation and decapsulation agree\<close>

text \<open>A private key whose cached bytes are those of its public half.\<close>

definition key_pair :: "'sk DhPrivateKey \<Rightarrow> 'pk DhPublicKey \<Rightarrow> bool" where
  "key_pair sk pk \<longleftrightarrow> pair (dh_sk sk) (dh_pk pk) \<and> pk_bytes sk = d_pk_to_bytes D (dh_pk pk)"

lemma dh_agree:
  assumes "lawful" and "pair sk pk" and "pair sk' pk'" and "d_dh D sk pk' = Ok x"
  shows "d_dh D sk' pk = Ok x"
  using dh_comm [OF assms(1-3)] assms(4) by simp

lemma encap_with_Ok:
  assumes "encap_with D r pk_r snd_key = (Ok (ss, enc), r')"
  obtains sk_e pk_e dh1 s where "d_generate D r = ((sk_e, pk_e), r')"
    and "d_dh D sk_e (dh_pk pk_r) = Ok dh1"
    and "enc = DhEncappedKey (d_pk_to_bytes D pk_e)" and "ss = DhSharedSecret s"
    and "(case snd_key of
            None \<Rightarrow> extract_and_expand D dh1 [d_pk_to_bytes D pk_e, d_pk_as_ref D (dh_pk pk_r)]
          | Some sk_s \<Rightarrow> try_bind (d_dh D (dh_sk sk_s) (dh_pk pk_r)) (\<lambda>dh2.
              extract_and_expand_pieces D [dh1, dh2]
                [d_pk_to_bytes D pk_e, d_pk_as_ref D (dh_pk pk_r), pk_bytes sk_s])) = Ok s"
  using assms
  by (auto simp: encap_with_def Let_def outcome_simps split: prod.splits)

lemma decap_encap:
  assumes "lawful" and "key_pair sk_r pk_r" and "DhKem_encap D r pk_r = (Ok (ss, enc), r')"
  shows "DhKem_decap D enc sk_r = Ok ss"
proof -
  from assms(3) obtain sk_e pk_e dh1 s where gen: "d_generate D r = ((sk_e, pk_e), r')"
    and dh1: "d_dh D sk_e (dh_pk pk_r) = Ok dh1"
    and enc: "enc = DhEncappedKey (d_pk_to_bytes D pk_e)" and ss: "ss = DhSharedSecret s"
    and eae: "extract_and_expand D dh1 [d_pk_to_bytes D pk_e, d_pk_as_ref D (dh_pk pk_r)] = Ok s"
    unfolding DhKem_encap_def by (rule encap_with_Ok) simp
  have e: "pair sk_e pk_e" using assms(1) gen by (rule generate_pair)
  have "d_dh D (dh_sk sk_r) pk_e = Ok dh1"
    using dh_agree [OF assms(1) e _ dh1] assms(2) by (simp add: key_pair_def)
  with assms(2) eae show ?thesis
    by (simp add: DhKem_decap_def enc ss pk_wire [OF assms(1) e] as_ref_eq key_pair_def)
qed

lemma auth_decap_encap:
  assumes "lawful" and "key_pair sk_r pk_r" and "key_pair sk_s pk_s"
    and "DhKem_auth_encap D r pk_r sk_s = (Ok (ss, enc), r')"
  shows "DhKem_auth_decap D enc sk_r pk_s = Ok ss"
proof -
  from assms(4) obtain sk_e pk_e dh1 dh2 s where gen: "d_generate D r = ((sk_e, pk_e), r')"
    and dh1: "d_dh D sk_e (dh_pk pk_r) = Ok dh1"
    and dh2: "d_dh D (dh_sk sk_s) (dh_pk pk_r) = Ok dh2"
    and enc: "enc = DhEncappedKey (d_pk_to_bytes D pk_e)" and ss: "ss = DhSharedSecret s"
    and eae: "extract_and_expand_pieces D [dh1, dh2]
        [d_pk_to_bytes D pk_e, d_pk_as_ref D (dh_pk pk_r), pk_bytes sk_s] = Ok s"
    unfolding DhKem_auth_encap_def by (rule encap_with_Ok) (auto simp: outcome_simps)
  have e: "pair sk_e pk_e" using assms(1) gen by (rule generate_pair)
  have "d_dh D (dh_sk sk_r) pk_e = Ok dh1" and "d_dh D (dh_sk sk_r) (dh_pk pk_s) = Ok dh2"
    using dh_agree [OF assms(1) e _ dh1] dh_agree [OF assms(1) _ _ dh2, of "dh_pk pk_s"]
      assms(2,3) by (simp_all add: key_pair_def)
  with assms(2,3) eae show ?thesis
    by (simp add: DhKem_auth_decap_def enc ss pk_wire [OF assms(1) e] as_ref_eq key_pair_def)
qed

lemma encap_with_enc_length:
  assumes "lawful" and "encap_with D r pk_r snd_key = (Ok (ss, enc), r')"
  shows "length (dh_enc enc) = d_PUBLIC_KEY_LEN D"
  using assms(2)
proof (rule encap_with_Ok)
  fix sk_e pk_e
  assume "d_generate D r = ((sk_e, pk_e), r')" and enc: "enc = DhEncappedKey (d_pk_to_bytes D pk_e)"
  then have "pair sk_e pk_e" using assms(1) generate_pair by blast
  then show ?thesis using assms(1) enc by (simp add: pk_length)
qed

lemma eae_no_panic: "lawful \<Longrightarrow> length ctx \<le> 12 \<Longrightarrow> extract_and_expand D dh_bytes ctx \<noteq> Panic"
  using extract_and_expand_ok [of ctx dh_bytes] by auto

lemma encap_with_no_panic: "lawful \<Longrightarrow> fst (encap_with D r pk_r snd_key) \<noteq> Panic"
  by (auto simp: encap_with_def Let_def outcome_simps dh_no_panic eae_no_panic
      extract_and_expand_pieces_eq split: prod.splits option.splits)

text \<open>The only failure of encapsulation is a rejected Diffie-Hellman output.\<close>

lemma encap_with_err:
  assumes "lawful" and "fst (encap_with D r pk_r snd_key) = Err e"
  shows "e = EncapError"
proof -
  have "extract_and_expand D dh_bytes ctx \<noteq> Err e" if "length ctx \<le> 12" for dh_bytes ctx
    using extract_and_expand_ok [OF assms(1) that, of dh_bytes] by auto
  with assms dh_err show ?thesis
    by (auto simp: encap_with_def Let_def outcome_simps extract_and_expand_pieces_eq
        split: prod.splits option.splits)
qed

text \<open>Encapsulation succeeds exactly when every exchange it makes is accepted.\<close>

lemma encap_ok_iff:
  assumes "lawful"
  shows "is_ok (fst (DhKem_encap D r pk_r)) \<longleftrightarrow>
     is_ok (d_dh D (fst (fst (d_generate D r))) (dh_pk pk_r))"
proof -
  obtain sk_e pk_e r' where gen: "d_generate D r = ((sk_e, pk_e), r')" by (metis surj_pair)
  have "\<exists>ss. extract_and_expand D z [d_pk_to_bytes D pk_e, d_pk_as_ref D (dh_pk pk_r)] = Ok ss" for z
    using extract_and_expand_ok [OF assms] by force
  then show ?thesis
    by (auto simp: DhKem_encap_def encap_with_def Let_def gen is_ok_iff outcome_simps)
qed

lemma auth_encap_ok_iff:
  assumes "lawful"
  shows "is_ok (fst (DhKem_auth_encap D r pk_r sk_s)) \<longleftrightarrow>
     is_ok (d_dh D (fst (fst (d_generate D r))) (dh_pk pk_r))
     \<and> is_ok (d_dh D (dh_sk sk_s) (dh_pk pk_r))"
proof -
  obtain sk_e pk_e r' where gen: "d_generate D r = ((sk_e, pk_e), r')" by (metis surj_pair)
  have "\<exists>ss. extract_and_expand D z
      [d_pk_to_bytes D pk_e, d_pk_as_ref D (dh_pk pk_r), pk_bytes sk_s] = Ok ss" for z
    using extract_and_expand_ok [OF assms] by force
  then show ?thesis
    by (auto simp: DhKem_auth_encap_def encap_with_def Let_def gen is_ok_iff outcome_simps
        extract_and_expand_pieces_eq [OF assms])
qed

lemma decap_no_panic: "lawful \<Longrightarrow> DhKem_decap D enc sk_r \<noteq> Panic"
  by (simp add: DhKem_decap_def outcome_simps pk_from_bytes_no_panic dh_no_panic eae_no_panic)

lemma auth_decap_no_panic: "lawful \<Longrightarrow> DhKem_auth_decap D enc sk_r pk_s \<noteq> Panic"
  by (simp add: DhKem_auth_decap_def outcome_simps pk_from_bytes_no_panic dh_no_panic
      eae_no_panic extract_and_expand_pieces_eq)

text \<open>The two errors that decapsulation of arbitrary bytes can give.\<close>

lemma decap_err:
  assumes "lawful" and "DhKem_decap D enc sk_r = Err e"
  shows "e = InvalidPublicKey \<or> e = EncapError"
proof -
  have "extract_and_expand D dh_bytes ctx \<noteq> Err e" if "length ctx \<le> 12" for dh_bytes ctx
    using extract_and_expand_ok [OF assms(1) that, of dh_bytes] by auto
  with assms(2) dh_err pk_from_bytes_err show ?thesis
    by (auto simp: DhKem_decap_def outcome_simps)
qed

lemma auth_decap_err:
  assumes "lawful" and "DhKem_auth_decap D enc sk_r pk_s = Err e"
  shows "e = InvalidPublicKey \<or> e = EncapError"
proof -
  have "extract_and_expand_pieces D [x, y] [a, b, c] \<noteq> Err e" for x y a b c
    using extract_and_expand_ok [OF assms(1), of "[a, b, c]" "concat [x, y]"]
    by (auto simp: extract_and_expand_pieces_eq [OF assms(1)])
  with assms(2) dh_err pk_from_bytes_err show ?thesis
    by (auto simp: DhKem_auth_decap_def outcome_simps)
qed

section \<open>Keys\<close>

lemma from_pair_key_pair: "pair sk pk \<Longrightarrow> key_pair (from_pair D sk pk) (DhPublicKey pk)"
  by (simp add: key_pair_def from_pair_def)

lemma generate_key_pair:
  "lawful \<Longrightarrow> DhKem_generate D r = (Ok (sk, pk), r') \<Longrightarrow> key_pair sk pk"
  by (auto simp: DhKem_generate_def intro!: from_pair_key_pair generate_pair split: prod.splits)

lemma derive_key_pair:
  "lawful \<Longrightarrow> DhKem_derive_key_pair D ikm = Ok (sk, pk) \<Longrightarrow> key_pair sk pk"
  by (auto simp: DhKem_derive_key_pair_def outcome_simps intro!: from_pair_key_pair derive_pair)

text \<open>Serialising a private key and loading it again gives the same key, cache included.\<close>

lemma sk_roundtrip:
  assumes "lawful" and "key_pair sk pk"
  shows "DhKem_sk_from_bytes D (DhKem_sk_to_bytes D sk) = Ok sk"
  using assms sk_wire [OF assms(1), of "dh_sk sk" "dh_pk pk"]
    pair_unique [OF assms(1), of "dh_sk sk" "dh_pk pk"]
  by (simp add: DhKem_sk_from_bytes_def DhKem_sk_to_bytes_def key_pair_def from_sk_def Let_def)

lemma pk_roundtrip:
  assumes "lawful" and "key_pair sk pk"
  shows "DhKem_pk_from_bytes D (DhKem_pk_to_bytes D pk) = Ok pk"
  using assms pk_wire [OF assms(1), of "dh_sk sk" "dh_pk pk"]
  by (simp add: DhKem_pk_from_bytes_def DhKem_pk_to_bytes_def key_pair_def)

lemma loaded_key_pair:
  assumes "lawful" and "DhKem_sk_from_bytes D b = Ok sk"
  shows "key_pair sk (DhPublicKey (d_sk_to_pk D (dh_sk sk)))"
  using assms from_bytes_pair
  by (auto simp: DhKem_sk_from_bytes_def outcome_simps from_sk_def Let_def key_pair_def)

lemma encap_with_ikm_decap:
  assumes "lawful" and "key_pair sk_r pk_r" and "encap_with_ikm D pk_r ikm = Ok (ss, enc)"
  shows "DhKem_decap D enc sk_r = Ok ss"
proof -
  from assms(3) obtain sk_e pk_e dh1 s where der: "d_derive D ikm = Ok (sk_e, pk_e)"
    and dh1: "d_dh D sk_e (dh_pk pk_r) = Ok dh1"
    and enc: "enc = DhEncappedKey (d_pk_to_bytes D pk_e)" and ss: "ss = DhSharedSecret s"
    and eae: "extract_and_expand D dh1 [d_pk_to_bytes D pk_e, d_pk_as_ref D (dh_pk pk_r)] = Ok s"
    by (auto simp: encap_with_ikm_def Let_def outcome_simps)
  have e: "pair sk_e pk_e" using assms(1) der by (rule derive_pair)
  have "d_dh D (dh_sk sk_r) pk_e = Ok dh1"
    using dh_agree [OF assms(1) e _ dh1] assms(2) by (simp add: key_pair_def)
  with assms(2) eae show ?thesis
    by (simp add: DhKem_decap_def enc ss pk_wire [OF assms(1) e] as_ref_eq key_pair_def)
qed

lemma encap_with_ss_length:
  assumes "lawful" and "encap_with D r pk_r snd_key = (Ok (ss, enc), r')"
  shows "length (dh_ss ss) = d_SHARED_SECRET_LEN D"
proof -
  have len: "length out = d_SHARED_SECRET_LEN D"
    if "extract_and_expand D z ctx = Ok out" "length ctx \<le> 12" for z ctx out
    using extract_and_expand_ok [OF assms(1) that(2), of z] that(1) by auto
  from assms(2) show ?thesis
    by (rule encap_with_Ok)
      (auto simp: outcome_simps extract_and_expand_pieces_eq [OF assms(1)] split: option.splits
        dest!: len)
qed

lemma exchange_outcome:
  assumes "lawful" and "key_pair sk_r pk_r"
  shows "kem_exchange_ok D (fst (DhKem_encap D r pk_r)) (\<lambda>enc. DhKem_decap D enc sk_r)"
proof (cases "DhKem_encap D r pk_r")
  case (Pair res r')
  show ?thesis
  proof (cases res)
    case (Ok x)
    with Pair obtain ss enc where e: "DhKem_encap D r pk_r = (outcome.Ok (ss, enc), r')"
      by (cases x) auto
    with decap_encap [OF assms e] show ?thesis
      using encap_with_enc_length [OF assms(1)] encap_with_ss_length [OF assms(1)]
      by (simp add: kem_exchange_ok_def DhKem_encap_def)
  next
    case (Err e)
    with Pair encap_with_err [OF assms(1), of r pk_r None e] show ?thesis
      by (simp add: kem_exchange_ok_def DhKem_encap_def)
  next
    case Panic
    with Pair encap_with_no_panic [OF assms(1), of r pk_r None] show ?thesis
      by (simp add: DhKem_encap_def)
  qed
qed

lemma auth_exchange_outcome:
  assumes "lawful" and "key_pair sk_r pk_r" and "key_pair sk_s pk_s"
  shows "kem_exchange_ok D (fst (DhKem_auth_encap D r pk_r sk_s))
     (\<lambda>enc. DhKem_auth_decap D enc sk_r pk_s)"
proof (cases "DhKem_auth_encap D r pk_r sk_s")
  case (Pair res r')
  show ?thesis
  proof (cases res)
    case (Ok x)
    with Pair obtain ss enc where e: "DhKem_auth_encap D r pk_r sk_s = (outcome.Ok (ss, enc), r')"
      by (cases x) auto
    with auth_decap_encap [OF assms e] show ?thesis
      using encap_with_enc_length [OF assms(1)] encap_with_ss_length [OF assms(1)]
      by (simp add: kem_exchange_ok_def DhKem_auth_encap_def)
  next
    case (Err e)
    with Pair encap_with_err [OF assms(1), of r pk_r "Some sk_s" e] show ?thesis
      by (simp add: kem_exchange_ok_def DhKem_auth_encap_def)
  next
    case Panic
    with Pair encap_with_no_panic [OF assms(1), of r pk_r "Some sk_s"] show ?thesis
      by (simp add: DhKem_auth_encap_def)
  qed
qed

text \<open>Keys as they come out of the crate are pairs.\<close>

lemma made_key_pair:
  assumes "lawful"
    and "DhKem_generate D r0 = (Ok (sk, pk), r1) \<or> DhKem_derive_key_pair D ikm = Ok (sk, pk)"
  shows "key_pair sk pk"
  using assms generate_key_pair derive_key_pair by blast

end

section \<open>A DHKEM is an authenticated KEM\<close>

text \<open>\<open>key_pair\<close> with its parameters made explicit, for use outside the contract.\<close>

definition DhKem_pair ::
    "('r, 'pk, 'sk, 'z) dh_core_scheme \<Rightarrow> ('sk \<Rightarrow> 'pk \<Rightarrow> bool) \<Rightarrow>
     'sk DhPrivateKey \<Rightarrow> 'pk DhPublicKey \<Rightarrow> bool" where
  "DhKem_pair D pair sk pk \<longleftrightarrow>
     pair (dh_sk sk) (dh_pk pk) \<and> pk_bytes sk = d_pk_to_bytes D (dh_pk pk)"

sublocale dh_contract \<subseteq> kem: auth_kem_contract "DhKem D" "DhKem_pair D pair" lawful
proof -
  have kp: "DhKem_pair D pair sk pk \<longleftrightarrow> key_pair sk pk" for sk pk
    by (simp add: DhKem_pair_def key_pair_def)
  show "auth_kem_contract (DhKem D) (DhKem_pair D pair) lawful"
  proof (unfold_locales, unfold DhKem_simps kp)
    fix r pk_r sk_s ss enc r'
    assume "lawful" and "DhKem_auth_encap D r pk_r sk_s = (Ok (ss, enc), r')"
    then show "DhKem_enc_from_bytes D (dh_enc enc) = Ok enc"
      using encap_with_enc_length by (simp add: DhKem_auth_encap_def DhKem_enc_from_bytes_def)
  next
    fix r pk ss enc r'
    assume "lawful" and "DhKem_encap D r pk = (Ok (ss, enc), r')"
    then show "DhKem_enc_from_bytes D (dh_enc enc) = Ok enc"
      using encap_with_enc_length by (simp add: DhKem_encap_def DhKem_enc_from_bytes_def)
  qed (auto intro: generate_key_pair derive_key_pair decap_encap auth_decap_encap simp: decap_no_panic
      auth_decap_no_panic DhKem_encap_def DhKem_auth_encap_def encap_with_no_panic)
qed

context dh_contract
begin

lemma auth_kem: "auth_kem_contract (DhKem D) (DhKem_pair D pair) lawful"
  by (rule kem.auth_kem_contract_axioms)

lemma DhKem_pair_eq: "DhKem_pair D pair = key_pair"
  by (intro ext) (simp add: DhKem_pair_def key_pair_def)

end

section \<open>The rejection-sampling loop\<close>

text \<open>The candidate for one counter, and the loop as a search for the first acceptable one.\<close>

definition p_curve_candidate ::
    "('r, 'pk, 'sk, 'z) dh_core_scheme \<Rightarrow> bytes \<Rightarrow> bytes \<Rightarrow> nat \<Rightarrow> u8 \<Rightarrow> u8 \<Rightarrow> bytes res" where
  "p_curve_candidate D suite prk nsk bitmask counter =
     try_bind (labeled_expand (d_Kdf D) prk suite (ascii ''candidate'') [counter] nsk)
       (\<lambda>c. modify_at 0 (\<lambda>b. b AND bitmask) c)"

definition p_curve_accepts ::
    "('r, 'pk, 'sk, 'z) dh_core_scheme \<Rightarrow> bytes res \<Rightarrow> bool" where
  "p_curve_accepts D c = (case c of Ok b \<Rightarrow> is_ok (d_sk_from_bytes D b) | _ \<Rightarrow> False)"

lemma p_curve_loop_find:
  assumes cand: "\<And>c. c \<in> set cs \<Longrightarrow> \<exists>b. p_curve_candidate D suite prk nsk bitmask c = Ok b"
    and np: "\<And>b. d_sk_from_bytes D b \<noteq> Panic"
  shows "p_curve_loop D suite prk nsk bitmask cs =
     (case List.find (\<lambda>c. p_curve_accepts D (p_curve_candidate D suite prk nsk bitmask c)) cs of
        None \<Rightarrow> Err DeriveKeyPairError
      | Some c \<Rightarrow> p_curve_candidate D suite prk nsk bitmask c)"
  using cand
proof (induction cs)
  case Nil
  then show ?case by simp
next
  case (Cons c cs)
  then obtain b where b: "p_curve_candidate D suite prk nsk bitmask c = Ok b" by auto
  then obtain b0 where "labeled_expand (d_Kdf D) prk suite (ascii ''candidate'') [c] nsk = Ok b0"
      and "modify_at 0 (\<lambda>b. b AND bitmask) b0 = (Ok b :: bytes res)"
    by (auto simp: p_curve_candidate_def outcome_simps)
  with b Cons np [of b] show ?case
    by (cases "d_sk_from_bytes D b") (simp_all add: p_curve_accepts_def)
qed

context kdf_contract
begin

lemma p_curve_candidate_ok:
  assumes "lawful" and "F = d_Kdf D" and "0 < nsk" and "nsk \<le> 255 * 32" and "f_HASH_LEN F \<le> length prk"
  shows "\<exists>b. p_curve_candidate D suite prk nsk bitmask c = Ok b \<and> length b = nsk"
proof -
  have "nsk \<le> 255 * f_HASH_LEN F" using assms(4) hash_len_ge by simp
  from labeled_expand_ok [OF assms(1) this assms(5), of suite "ascii ''candidate''" "[c]"]
  obtain b0 where "labeled_expand F prk suite (ascii ''candidate'') [c] nsk = Ok b0"
      and "length b0 = nsk" by blast
  with assms(2,3) show ?thesis
    by (auto simp: p_curve_candidate_def modify_at_def)
qed

lemma derive_p_curve_sk_find:
  assumes "lawful" and "F = d_Kdf D" and "0 < nsk" and "nsk \<le> 255 * 32"
    and np: "\<And>b. d_sk_from_bytes D b \<noteq> Panic"
  shows "derive_p_curve_sk D ikm nsk bitmask =
     (let cand = p_curve_candidate D (suite_id D)
                   (labeled_extract F [] (suite_id D) (ascii ''dkp_prk'') ikm) nsk bitmask
      in case List.find (\<lambda>c. p_curve_accepts D (cand c)) (map word_of_nat [0..<256]) of
           None \<Rightarrow> Err DeriveKeyPairError | Some c \<Rightarrow> cand c)"
proof -
  define prk where "prk = labeled_extract F [] (suite_id D) (ascii ''dkp_prk'') ikm"
  have "f_HASH_LEN F \<le> length prk"
    unfolding prk_def by (simp add: labeled_extract_length [OF assms(1)])
  then have "\<exists>b. p_curve_candidate D (suite_id D) prk nsk bitmask c = Ok b" for c
    using p_curve_candidate_ok [OF assms(1-4)] by blast
  from p_curve_loop_find [OF this np] show ?thesis
    unfolding derive_p_curve_sk_def Let_def prk_def [symmetric] assms(2) [symmetric] .
qed

text \<open>Whatever the input key material, the loop returns a valid key or its documented error.\<close>

lemma derive_p_curve_sk_cases:
  assumes "lawful" and "F = d_Kdf D" and "0 < nsk" and "nsk \<le> 255 * 32"
    and np: "\<And>b. d_sk_from_bytes D b \<noteq> Panic"
  shows "derive_p_curve_sk D ikm nsk bitmask = Err DeriveKeyPairError \<or>
     (\<exists>b. derive_p_curve_sk D ikm nsk bitmask = Ok b \<and> length b = nsk \<and> is_ok (d_sk_from_bytes D b))"
proof -
  define prk where "prk = labeled_extract F [] (suite_id D) (ascii ''dkp_prk'') ikm"
  define cand where "cand = p_curve_candidate D (suite_id D) prk nsk bitmask"
  have prk: "f_HASH_LEN F \<le> length prk"
    unfolding prk_def by (simp add: labeled_extract_length [OF assms(1)])
  have eq: "derive_p_curve_sk D ikm nsk bitmask =
      (case List.find (\<lambda>c. p_curve_accepts D (cand c)) (map word_of_nat [0..<256]) of
           None \<Rightarrow> Err DeriveKeyPairError | Some c \<Rightarrow> cand c)"
    using derive_p_curve_sk_find [OF assms] unfolding cand_def prk_def Let_def .
  show ?thesis
  proof (cases "List.find (\<lambda>c. p_curve_accepts D (cand c)) (map word_of_nat [0..<256])")
    case None
    then show ?thesis by (simp add: eq)
  next
    case (Some c)
    then have acc: "p_curve_accepts D (cand c)" by (auto simp: find_Some_iff)
    obtain b where b: "cand c = Ok b" "length b = nsk"
      using p_curve_candidate_ok [OF assms(1-4) prk] unfolding cand_def by blast
    with acc Some show ?thesis by (simp add: eq p_curve_accepts_def)
  qed
qed

end

section \<open>The deterministic variants\<close>

text \<open>
  Replacing the generator of a group changes none of the other operations.
\<close>

lemma d_generate_update_sel:
  "d_Kdf (D\<lparr>d_generate := g\<rparr>) = d_Kdf D" "d_ID (D\<lparr>d_generate := g\<rparr>) = d_ID D"
  "d_PUBLIC_KEY_LEN (D\<lparr>d_generate := g\<rparr>) = d_PUBLIC_KEY_LEN D"
  "d_PRIVATE_KEY_LEN (D\<lparr>d_generate := g\<rparr>) = d_PRIVATE_KEY_LEN D"
  "d_SHARED_SECRET_LEN (D\<lparr>d_generate := g\<rparr>) = d_SHARED_SECRET_LEN D"
  "d_pk_as_ref (D\<lparr>d_generate := g\<rparr>) = d_pk_as_ref D"
  "d_dh (D\<lparr>d_generate := g\<rparr>) = d_dh D"
  "d_pk_from_bytes (D\<lparr>d_generate := g\<rparr>) = d_pk_from_bytes D"
  "d_sk_from_bytes (D\<lparr>d_generate := g\<rparr>) = d_sk_from_bytes D"
  "d_pk_to_bytes (D\<lparr>d_generate := g\<rparr>) = d_pk_to_bytes D"
  "d_sk_to_bytes (D\<lparr>d_generate := g\<rparr>) = d_sk_to_bytes D"
  "d_sk_to_pk (D\<lparr>d_generate := g\<rparr>) = d_sk_to_pk D"
  "d_derive (D\<lparr>d_generate := g\<rparr>) = d_derive D"
  "d_generate (D\<lparr>d_generate := g\<rparr>) = g"
  by simp_all

lemma d_generate_update_ops:
  "DhKem_decap (D\<lparr>d_generate := g\<rparr>) = DhKem_decap D"
  "DhKem_auth_decap (D\<lparr>d_generate := g\<rparr>) = DhKem_auth_decap D"
  "encap_with_ikm (D\<lparr>d_generate := g\<rparr>) = encap_with_ikm D"
  "auth_encap_with_ikm (D\<lparr>d_generate := g\<rparr>) = auth_encap_with_ikm D"
  "kem_exchange_ok (D\<lparr>d_generate := g\<rparr>) = kem_exchange_ok D"
  unfolding fun_eq_iff suite_id_def extract_and_expand_def extract_and_expand_pieces_def
    DhKem_decap_def DhKem_auth_decap_def encap_with_ikm_def auth_encap_with_ikm_def
    kem_exchange_ok_def d_generate_update_sel
  by (rule allI refl)+

text \<open>On the derived pair as ephemeral key, both variants are the randomised operation.\<close>

lemma encap_with_ikm_eq:
  assumes "d_derive D ikm = Ok kp" and "d_generate D r = (kp, r')"
  shows "encap_with_ikm D pk_r ikm = fst (DhKem_encap D r pk_r)"
    and "auth_encap_with_ikm D pk_r sk_s ikm = fst (DhKem_auth_encap D r pk_r sk_s)"
  using assms
  by (auto simp: encap_with_ikm_def auth_encap_with_ikm_def DhKem_encap_def DhKem_auth_encap_def
      encap_with_def Let_def try_bind_assoc split: prod.splits)

text \<open>
  Every outcome of the two variants: the failure of the derivation of the ephemeral key, or
  the exchange that the randomised operations make.
\<close>

definition ikm_exchange_ok ::
    "('r, 'pk, 'sk, ('pk, 'sk, 'z) dh_ext) dh_core_scheme \<Rightarrow> 'sk DhPrivateKey \<Rightarrow> 'pk DhPublicKey \<Rightarrow>
     'sk DhPrivateKey \<Rightarrow> 'pk DhPublicKey \<Rightarrow> bytes \<Rightarrow> bool" where
  "ikm_exchange_ok D sk_r pk_r sk_s pk_s ikm =
     (case d_derive D ikm of
        Ok kp \<Rightarrow> kem_exchange_ok D (encap_with_ikm D pk_r ikm) (\<lambda>enc. DhKem_decap D enc sk_r)
          \<and> kem_exchange_ok D (auth_encap_with_ikm D pk_r sk_s ikm)
              (\<lambda>enc. DhKem_auth_decap D enc sk_r pk_s)
      | Err e \<Rightarrow> encap_with_ikm D pk_r ikm = Err e \<and> auth_encap_with_ikm D pk_r sk_s ikm = Err e
      | Panic \<Rightarrow> False)"

context dh_contract
begin

lemma fixed_generator:
  assumes "lawful" and "d_derive D ikm = Ok kp"
  shows "dh_contract (D\<lparr>d_generate := \<lambda>r. (kp, r)\<rparr>) lawful pair"
proof (rule dh_contract.intro, unfold d_generate_update_sel)
  show "kdf_contract (d_Kdf D) lawful" by (rule kdf.kdf_contract_axioms)
  have "dh_contract_axioms D lawful pair" using dh_contract_axioms by (simp add: dh_contract_def)
  moreover have "pair (fst kp) (snd kp)"
    using derive_pair [OF assms(1), of ikm "fst kp" "snd kp"] assms(2) by simp
  ultimately show "dh_contract_axioms (D\<lparr>d_generate := \<lambda>r. (kp, r)\<rparr>) lawful pair"
    unfolding dh_contract_axioms_def d_generate_update_sel
    by (elim conjE) (intro conjI; (assumption | auto))
qed

lemma ikm_exchange_outcome:
  assumes "lawful" and "key_pair sk_r pk_r" and "key_pair sk_s pk_s"
  shows "ikm_exchange_ok D sk_r pk_r sk_s pk_s ikm"
proof (cases "d_derive D ikm")
  case (Ok kp)
  let ?D = "D\<lparr>d_generate := \<lambda>r. (kp, r)\<rparr>"
  note fixed = fixed_generator [OF assms(1) Ok]
  have "d_derive ?D ikm = outcome.Ok kp" "d_generate ?D r = (kp, r)" for r
    using Ok by (simp_all add: d_generate_update_sel)
  note eq = encap_with_ikm_eq [OF this]
  have "dh_contract.key_pair ?D pair sk_r pk_r" "dh_contract.key_pair ?D pair sk_s pk_s"
    using assms(2,3)
    by (simp_all add: dh_contract.key_pair_def [OF fixed] key_pair_def d_generate_update_sel)
  with Ok show ?thesis
    using dh_contract.exchange_outcome [OF fixed assms(1)]
      dh_contract.auth_exchange_outcome [OF fixed assms(1)]
    unfolding d_generate_update_ops eq [symmetric] by (simp add: ikm_exchange_ok_def)
qed (use assms derive_no_panic in \<open>simp_all add: ikm_exchange_ok_def encap_with_ikm_def
    auth_encap_with_ikm_def\<close>)

end

section \<open>The invariant of a private key\<close>

text \<open>
  \<open>pk_bytes\<close> caches the serialised public key of the scalar. The cache is coherent when it is
  what a recomputation would give; every constructor establishes it. \<open>keys_coherent\<close> says so of
  a group, and \<open>zeroize_erases\<close> says that scrubbing, by \<open>zeroize\<close> or by a drop, returns, keeps
  the cache and leaves a scalar that does not depend on the one it replaced.
\<close>

definition key_coherent :: "('r, 'pk, 'sk, 'z) dh_core_scheme \<Rightarrow> 'sk DhPrivateKey \<Rightarrow> bool" where
  "key_coherent D sk \<longleftrightarrow> pk_bytes sk = d_pk_to_bytes D (d_sk_to_pk D (dh_sk sk))
     \<and> length (pk_bytes sk) = d_PUBLIC_KEY_LEN D"

definition keys_coherent ::
    "('r, 'pk, 'sk, ('pk, 'sk, 'z) dh_ext) dh_core_scheme \<Rightarrow> bool" where
  "keys_coherent D \<longleftrightarrow>
     (\<forall>r sk pk r'. DhKem_generate D r = (Ok (sk, pk), r') \<longrightarrow>
        key_coherent D sk \<and> pk = DhPublicKey (d_sk_to_pk D (dh_sk sk)))
   \<and> (\<forall>ikm sk pk. DhKem_derive_key_pair D ikm = Ok (sk, pk) \<longrightarrow>
        key_coherent D sk \<and> pk = DhPublicKey (d_sk_to_pk D (dh_sk sk)))
   \<and> (\<forall>b sk. DhKem_sk_from_bytes D b = Ok sk \<longrightarrow> key_coherent D sk)"

definition zeroize_erases :: "('r, 'pk, 'sk, 'z) dh_core_scheme \<Rightarrow> bool" where
  "zeroize_erases D \<longleftrightarrow>
     (\<exists>blank. \<forall>sk. DhPrivateKey_zeroize D sk = Ok \<lparr> dh_sk = blank, pk_bytes = pk_bytes sk \<rparr>
        \<and> DhPrivateKey_drop D sk = Ok \<lparr> dh_sk = blank, pk_bytes = pk_bytes sk \<rparr>)"

lemma zeroize_erasesI:
  "(\<And>s. d_sk_zeroize D s = Ok blank) \<Longrightarrow> zeroize_erases D"
  unfolding zeroize_erases_def DhPrivateKey_drop_def DhPrivateKey_zeroize_def
  by (intro exI [of _ blank] allI) simp

context dh_contract
begin

lemma key_pair_coherent:
  assumes "lawful" and "key_pair sk pk"
  shows "key_coherent D sk \<and> pk = DhPublicKey (d_sk_to_pk D (dh_sk sk))"
  using assms pair_unique [OF assms(1), of "dh_sk sk" "dh_pk pk"]
    pk_length [OF assms(1), of "dh_sk sk" "dh_pk pk"]
  by (cases pk) (auto simp: key_pair_def key_coherent_def)

lemma keys_coherent: "lawful \<Longrightarrow> keys_coherent D"
  unfolding keys_coherent_def
  using key_pair_coherent generate_key_pair derive_key_pair loaded_key_pair by blast

end

end
