(* ===== verification/Hpke_Montgomery.thy ===== *)
theory Hpke_Montgomery
  imports Hpke_Dhkem
begin

text \<open>
  The two Montgomery curves of \<open>src/kem/dh.rs\<close>: \<open>X25519\<close> over the crate
  \<open>x25519-dalek\<close> and \<open>X448\<close> over \<open>ed448-goldilocks\<close>, each shown to keep
  the contract of a group.
\<close>

section \<open>X25519\<close>

text \<open>
  \<open>StaticSecret::from\<close>, \<open>to_bytes\<close>, \<open>PublicKey::from(&sk)\<close> as bytes,
  \<open>diffie_hellman\<close> with the public key given by its bytes, and \<open>ct_eq\<close> of
  \<open>subtle\<close>.
\<close>

record 's x25519_lib =
  xs_from :: "bytes \<Rightarrow> 's"
  xs_to_bytes :: "'s \<Rightarrow> bytes"
  xp_from :: "'s \<Rightarrow> bytes"
  xs_diffie_hellman :: "'s \<Rightarrow> bytes \<Rightarrow> bytes"
  x_ct_eq :: "bytes \<Rightarrow> bytes \<Rightarrow> bool"

text \<open>
  Documented behaviour: the secret is a wrapper of its bytes, public keys are reduced
  u-coordinates (so the top bit of the last byte is clear), both sides of an exchange agree,
  and \<open>ct_eq\<close> decides equality.
\<close>

definition x25519_lib_ok :: "'s x25519_lib \<Rightarrow> bool" where
  "x25519_lib_ok L \<longleftrightarrow>
     (\<forall>b. length b = 32 \<longrightarrow> xs_to_bytes L (xs_from L b) = b)
   \<and> (\<forall>s. length (xp_from L s) = 32 \<and> xp_from L s ! 31 AND 0x7F = xp_from L s ! 31)
   \<and> (\<forall>s t. xs_diffie_hellman L s (xp_from L t) = xs_diffie_hellman L t (xp_from L s))
   \<and> (\<forall>a b. x_ct_eq L a b \<longleftrightarrow> a = b)"

datatype X25519PublicKeyWrap = X25519PublicKeyWrap (x25519_pk: bytes)
datatype 's X25519PrivateKeyWrap = X25519PrivateKeyWrap (x25519_sk: 's)

text \<open>\<open>bytes[0] &= 0xF8; bytes[31] &= 0x7F; bytes[31] |= 0x40;\<close> on a 32-byte array.\<close>

definition x25519_clamp :: "bytes \<Rightarrow> bytes" where
  "x25519_clamp bs =
     (let bs = bs[0 := bs ! 0 AND 0xF8];
          bs = bs[31 := bs ! 31 AND 0x7F]
      in bs[31 := bs ! 31 OR 0x40])"

definition X25519_generate ::
    "'s x25519_lib \<Rightarrow> 'r rng \<Rightarrow> 'r \<Rightarrow> ('s X25519PrivateKeyWrap \<times> X25519PublicKeyWrap) \<times> 'r" where
  "X25519_generate L R rng =
     (case fill_bytes R rng 32 of (filled, rng') \<Rightarrow>
       (let bs = x25519_clamp filled; sk = xs_from L bs; pk = xp_from L sk
        in ((X25519PrivateKeyWrap sk, X25519PublicKeyWrap pk), rng')))"

definition X25519_dh ::
    "'s x25519_lib \<Rightarrow> 's X25519PrivateKeyWrap \<Rightarrow> X25519PublicKeyWrap \<Rightarrow> bytes res" where
  "X25519_dh L sk pk =
     (let shared = xs_diffie_hellman L (x25519_sk sk) (x25519_pk pk); zero = replicate 32 0
      in if x_ct_eq L shared zero then Err EncapError else Ok shared)"

definition X25519_pk_from_bytes :: "bytes \<Rightarrow> X25519PublicKeyWrap res" where
  "X25519_pk_from_bytes b =
     (if length b \<noteq> 32 then Err InvalidPublicKey
      else try_bind (copy_into 0 32 b (replicate 32 0)) (\<lambda>arr.
             Ok (X25519PublicKeyWrap (arr[31 := arr ! 31 AND 0x7F]))))"

definition X25519_sk_from_bytes :: "'s x25519_lib \<Rightarrow> bytes \<Rightarrow> 's X25519PrivateKeyWrap res" where
  "X25519_sk_from_bytes L b =
     (if length b \<noteq> 32 then Err InvalidPrivateKey
      else try_bind (copy_into 0 32 b (replicate 32 0)) (\<lambda>arr.
             Ok (X25519PrivateKeyWrap (xs_from L (x25519_clamp arr)))))"

definition X25519_pk_to_bytes :: "X25519PublicKeyWrap \<Rightarrow> bytes" where
  "X25519_pk_to_bytes pk = x25519_pk pk"

definition X25519_sk_to_bytes :: "'s x25519_lib \<Rightarrow> 's X25519PrivateKeyWrap \<Rightarrow> bytes" where
  "X25519_sk_to_bytes L sk = xs_to_bytes L (x25519_sk sk)"

lemma X25519_to_bytes_eq [simp]:
  "X25519_pk_to_bytes = x25519_pk" "X25519_sk_to_bytes L = (\<lambda>sk. xs_to_bytes L (x25519_sk sk))"
  by (simp_all add: fun_eq_iff X25519_pk_to_bytes_def X25519_sk_to_bytes_def)

definition X25519_sk_to_pk :: "'s x25519_lib \<Rightarrow> 's X25519PrivateKeyWrap \<Rightarrow> X25519PublicKeyWrap" where
  "X25519_sk_to_pk L sk = X25519PublicKeyWrap (xp_from L (x25519_sk sk))"

definition X25519_zeroize ::
    "'s x25519_lib \<Rightarrow> 's X25519PrivateKeyWrap \<Rightarrow> 's X25519PrivateKeyWrap res" where
  "X25519_zeroize L sk = Ok (X25519PrivateKeyWrap (xs_from L (replicate 32 0)))"

definition X25519_core ::
    "'s x25519_lib \<Rightarrow> ('x, 'h) hkdf_lib \<Rightarrow> 'r rng \<Rightarrow>
     ('r, X25519PublicKeyWrap, 's X25519PrivateKeyWrap) dh_core" where
  "X25519_core L H R =
     \<lparr> d_Kdf = HkdfSha256 H, d_ID = 0x0020, d_PUBLIC_KEY_LEN = 32, d_PRIVATE_KEY_LEN = 32,
       d_SHARED_SECRET_LEN = 32, d_pk_as_ref = x25519_pk, d_sk_zeroize = X25519_zeroize L,
       d_generate = X25519_generate L R, d_dh = X25519_dh L,
       d_pk_from_bytes = X25519_pk_from_bytes, d_sk_from_bytes = X25519_sk_from_bytes L,
       d_pk_to_bytes = X25519_pk_to_bytes, d_sk_to_bytes = X25519_sk_to_bytes L,
       d_sk_to_pk = X25519_sk_to_pk L \<rparr>"

definition X25519_derive ::
    "'s x25519_lib \<Rightarrow> ('x, 'h) hkdf_lib \<Rightarrow> 'r rng \<Rightarrow> bytes \<Rightarrow>
     ('s X25519PrivateKeyWrap \<times> X25519PublicKeyWrap) res" where
  "X25519_derive L H R ikm =
     (let D = X25519_core L H R;
          suite = suite_id D;
          dkp_prk = labeled_extract (d_Kdf D) [] suite (ascii ''dkp_prk'') ikm
      in try_bind (labeled_expand (d_Kdf D) dkp_prk suite (ascii ''sk'') [] 32) (\<lambda>sk_bytes.
         try_bind (copy_into 0 32 sk_bytes (replicate 32 0)) (\<lambda>arr.
           let sk = xs_from L (x25519_clamp arr); pk = xp_from L sk
           in Ok (X25519PrivateKeyWrap sk, X25519PublicKeyWrap pk))))"

definition X25519 ::
    "'s x25519_lib \<Rightarrow> ('x, 'h) hkdf_lib \<Rightarrow> 'r rng \<Rightarrow>
     ('r, X25519PublicKeyWrap, 's X25519PrivateKeyWrap) dh" where
  "X25519 L H R = with_derive (X25519_core L H R) (X25519_derive L H R)"

subsection \<open>Clamping\<close>

lemma length_x25519_clamp [simp]: "length (x25519_clamp bs) = length bs"
  by (simp add: x25519_clamp_def Let_def)

lemma clamp_last_idem: "((b AND 0x7F) OR 0x40) AND 0x7F OR 0x40 = (b AND 0x7F) OR (0x40 :: u8)"
  by (rule bit_word_eqI) (auto simp: bit_or_iff bit_and_iff)

lemma x25519_clamp_idem: "length bs = 32 \<Longrightarrow> x25519_clamp (x25519_clamp bs) = x25519_clamp bs"
  by (rule nth_equalityI)
     (simp_all add: x25519_clamp_def Let_def nth_list_update clamp_last_idem)

text \<open>The bits that RFC 7748 fixes.\<close>

lemma x25519_clamp_bits:
  assumes "length bs = 32"
  shows "x25519_clamp bs ! 0 AND 7 = 0" and "x25519_clamp bs ! 31 AND 0x80 = 0"
    and "x25519_clamp bs ! 31 AND 0x40 = 0x40"
  using assms
  by (simp_all add: x25519_clamp_def Let_def and.assoc bit.conj_disj_distrib2)

subsection \<open>The contract\<close>

lemma x25519_lib_okD:
  assumes "x25519_lib_ok L"
  shows "length b = 32 \<Longrightarrow> xs_to_bytes L (xs_from L b) = b"
    and "length (xp_from L s) = 32" and "xp_from L s ! 31 AND 0x7F = xp_from L s ! 31"
    and "xs_diffie_hellman L s (xp_from L t) = xs_diffie_hellman L t (xp_from L s)"
    and "x_ct_eq L a b \<longleftrightarrow> a = b"
  using assms unfolding x25519_lib_ok_def by blast+

definition x25519_pair ::
    "'s x25519_lib \<Rightarrow> 's X25519PrivateKeyWrap \<Rightarrow> X25519PublicKeyWrap \<Rightarrow> bool" where
  "x25519_pair L sk pk \<longleftrightarrow>
     (\<exists>bs. length bs = 32 \<and> x25519_clamp bs = bs \<and> x25519_sk sk = xs_from L bs)
     \<and> pk = X25519_sk_to_pk L sk"

lemma x25519_pair_from:
  assumes "x25519_lib_ok L" and "length bs = 32"
  shows "x25519_pair L (X25519PrivateKeyWrap (xs_from L (x25519_clamp bs)))
           (X25519PublicKeyWrap (xp_from L (xs_from L (x25519_clamp bs))))"
  using assms by (auto simp: x25519_pair_def X25519_sk_to_pk_def x25519_clamp_idem
      intro!: exI [of _ "x25519_clamp bs"])

lemma x25519_pk_wire:
  assumes "x25519_lib_ok L"
  shows "X25519_pk_from_bytes (xp_from L s) = Ok (X25519PublicKeyWrap (xp_from L s))"
  by (simp add: X25519_pk_from_bytes_def x25519_lib_okD [OF assms])

lemma X25519_derive_ok:
  assumes "hkdf_lib_ok H 32"
  shows "\<exists>bs. length bs = 32 \<and> X25519_derive L H R ikm =
     Ok (X25519PrivateKeyWrap (xs_from L (x25519_clamp bs)),
         X25519PublicKeyWrap (xp_from L (xs_from L (x25519_clamp bs))))"
proof -
  let ?D = "X25519_core L H R" and ?F = "HkdfSha256 H"
  let ?prk = "labeled_extract ?F [] (suite_id ?D) (ascii ''dkp_prk'') ikm"
  obtain bs where "labeled_expand ?F ?prk (suite_id ?D) (ascii ''sk'') [] 32 = Ok bs"
    and "length bs = 32"
    using sha256.expand_of_extract [OF assms, of 32] by fastforce
  moreover have "d_Kdf ?D = ?F"
    by (simp add: X25519_core_def)
  ultimately show ?thesis
    by (auto simp: X25519_derive_def Let_def)
qed

lemma X25519_simps:
  "d_Kdf (X25519 L H R) = HkdfSha256 H" "d_ID (X25519 L H R) = 0x0020"
  "d_PUBLIC_KEY_LEN (X25519 L H R) = 32" "d_PRIVATE_KEY_LEN (X25519 L H R) = 32"
  "d_SHARED_SECRET_LEN (X25519 L H R) = 32" "d_pk_as_ref (X25519 L H R) = x25519_pk"
  "d_sk_zeroize (X25519 L H R) = X25519_zeroize L"
  "d_generate (X25519 L H R) = X25519_generate L R" "d_dh (X25519 L H R) = X25519_dh L"
  "d_pk_from_bytes (X25519 L H R) = X25519_pk_from_bytes"
  "d_sk_from_bytes (X25519 L H R) = X25519_sk_from_bytes L"
  "d_pk_to_bytes (X25519 L H R) = x25519_pk"
  "d_sk_to_bytes (X25519 L H R) = (\<lambda>sk. xs_to_bytes L (x25519_sk sk))"
  "d_sk_to_pk (X25519 L H R) = X25519_sk_to_pk L" "d_derive (X25519 L H R) = X25519_derive L H R"
  by (simp_all add: X25519_def X25519_core_def)

lemma X25519_failures:
  "X25519_dh L sk pk = Err e \<Longrightarrow> e = EncapError" "X25519_dh L sk pk \<noteq> Panic"
  "X25519_pk_from_bytes b = Err e \<Longrightarrow> e = InvalidPublicKey" "X25519_pk_from_bytes b \<noteq> Panic"
  "X25519_sk_from_bytes L b = Err e \<Longrightarrow> e = InvalidPrivateKey" "X25519_sk_from_bytes L b \<noteq> Panic"
  by (auto simp: X25519_dh_def Let_def X25519_pk_from_bytes_def X25519_sk_from_bytes_def
      split: if_splits)

lemma X25519_dh_comm:
  assumes "x25519_lib_ok L" and "x25519_pair L sk pk" and "x25519_pair L sk' pk'"
  shows "X25519_dh L sk pk' = X25519_dh L sk' pk"
  using assms(2,3) x25519_lib_okD(4) [OF assms(1), of "x25519_sk sk" "x25519_sk sk'"]
  by (simp add: X25519_dh_def x25519_pair_def X25519_sk_to_pk_def)

lemma X25519_sk_wire:
  assumes "x25519_lib_ok L" and "x25519_pair L sk pk"
  shows "X25519_sk_from_bytes L (xs_to_bytes L (x25519_sk sk)) = Ok sk"
  using assms(2) by (cases sk) (auto simp: X25519_sk_from_bytes_def x25519_pair_def 
      x25519_lib_okD [OF assms(1)])

interpretation x25519: dh_contract "X25519 L H R" "x25519_lib_ok L \<and> hkdf_lib_ok H 32 \<and> rng_ok R"
    "x25519_pair L"
proof (rule dh_contract.intro, unfold X25519_simps)
  show "kdf_contract (HkdfSha256 H) (x25519_lib_ok L \<and> hkdf_lib_ok H 32 \<and> rng_ok R)"
    by (rule kdf_contract_mono [OF sha256.kdf_contract_axioms]) simp
  show "dh_contract_axioms (X25519 L H R) (x25519_lib_ok L \<and> hkdf_lib_ok H 32 \<and> rng_ok R)
      (x25519_pair L)"
  proof (rule dh_contract_axioms.intro, unfold X25519_simps, goal_cases)
    case (2 r sk pk r')
    then show ?case
      by (auto simp: X25519_generate_def Let_def rng_ok_def intro!: x25519_pair_from
          split: prod.splits) (metis fst_conv)
  next
    case (3 ikm sk pk)
    then show ?case
      using X25519_derive_ok [of H L R ikm] x25519_pair_from [of L] by auto
  next
    case (4 b sk)
    then show ?case
      using x25519_pair_from [of L b]
      by (auto simp: X25519_sk_from_bytes_def X25519_sk_to_pk_def split: if_splits)
  next
    case (18 ikm)
    then show ?case using X25519_derive_ok [of H L R ikm] by auto
  qed (auto simp: x25519_pair_def X25519_dh_comm X25519_sk_wire x25519_pk_wire X25519_sk_to_pk_def
      x25519_lib_okD X25519_failures)
qed

section \<open>X448\<close>

text \<open>
  \<open>EdwardsScalar::from_uint_unchecked(U448::from_le_slice(..))\<close>, the generator, a point
  from its bytes, the Montgomery ladder and the bytes of its result.
\<close>

record ('sc, 'pt) x448_lib =
  ed_scalar_from_le :: "bytes \<Rightarrow> 'sc"
  mont_GENERATOR :: 'pt
  mont_point :: "bytes \<Rightarrow> 'pt"
  mont_mul :: "'pt \<Rightarrow> 'sc \<Rightarrow> 'pt"
  mont_as_bytes :: "'pt \<Rightarrow> bytes"
  x4_ct_eq :: "bytes \<Rightarrow> bytes \<Rightarrow> bool"

datatype X448PublicKeyWrap = X448PublicKeyWrap (x448_pk: bytes)
datatype X448PrivateKeyWrap = X448PrivateKeyWrap (x448_sk: bytes)

definition x448_scalar_mult_base :: "('sc, 'pt) x448_lib \<Rightarrow> bytes \<Rightarrow> bytes" where
  "x448_scalar_mult_base L sk =
     (let scalar = ed_scalar_from_le L sk;
          result = mont_mul L (mont_GENERATOR L) scalar
      in mont_as_bytes L result)"

definition x448_scalar_mult :: "('sc, 'pt) x448_lib \<Rightarrow> bytes \<Rightarrow> bytes \<Rightarrow> bytes" where
  "x448_scalar_mult L sk pk =
     (let scalar = ed_scalar_from_le L sk;
          point = mont_point L pk;
          result = mont_mul L point scalar
      in mont_as_bytes L result)"

text \<open>\<open>sk[0] &= 0xfc; sk[55] |= 0x80;\<close> on a 56-byte array.\<close>

definition x448_clamp :: "bytes \<Rightarrow> bytes" where
  "x448_clamp bs =
     (let bs = bs[0 := bs ! 0 AND 0xFC]
      in bs[55 := bs ! 55 OR 0x80])"

text \<open>
  Documented behaviour: points serialise to 56 bytes, for clamped scalars the ladder gives
  both sides of an exchange the same result, and \<open>ct_eq\<close> decides equality.
\<close>

definition x448_lib_ok :: "('sc, 'pt) x448_lib \<Rightarrow> bool" where
  "x448_lib_ok L \<longleftrightarrow>
     (\<forall>p. length (mont_as_bytes L p) = 56)
   \<and> (\<forall>a b. x448_clamp a = a \<longrightarrow> x448_clamp b = b \<longrightarrow> length a = 56 \<longrightarrow> length b = 56 \<longrightarrow>
        mont_as_bytes L (mont_mul L (mont_point L (mont_as_bytes L
          (mont_mul L (mont_GENERATOR L) (ed_scalar_from_le L a)))) (ed_scalar_from_le L b))
      = mont_as_bytes L (mont_mul L (mont_point L (mont_as_bytes L
          (mont_mul L (mont_GENERATOR L) (ed_scalar_from_le L b)))) (ed_scalar_from_le L a)))
   \<and> (\<forall>a b. x4_ct_eq L a b \<longleftrightarrow> a = b)"

definition X448_generate ::
    "('sc, 'pt) x448_lib \<Rightarrow> 'r rng \<Rightarrow> 'r \<Rightarrow> (X448PrivateKeyWrap \<times> X448PublicKeyWrap) \<times> 'r" where
  "X448_generate L R rng =
     (case fill_bytes R rng 56 of (filled, rng') \<Rightarrow>
       (let sk = x448_clamp filled; pk = x448_scalar_mult_base L sk
        in ((X448PrivateKeyWrap sk, X448PublicKeyWrap pk), rng')))"

definition X448_dh ::
    "('sc, 'pt) x448_lib \<Rightarrow> X448PrivateKeyWrap \<Rightarrow> X448PublicKeyWrap \<Rightarrow> bytes res" where
  "X448_dh L sk pk =
     (let shared = x448_scalar_mult L (x448_sk sk) (x448_pk pk); zero = replicate 56 0
      in if x4_ct_eq L shared zero then Err EncapError else Ok shared)"

definition X448_pk_from_bytes :: "bytes \<Rightarrow> X448PublicKeyWrap res" where
  "X448_pk_from_bytes b =
     (if length b \<noteq> 56 then Err InvalidPublicKey
      else try_bind (copy_into 0 56 b (replicate 56 0)) (\<lambda>arr. Ok (X448PublicKeyWrap arr)))"

definition X448_sk_from_bytes :: "bytes \<Rightarrow> X448PrivateKeyWrap res" where
  "X448_sk_from_bytes b =
     (if length b \<noteq> 56 then Err InvalidPrivateKey
      else try_bind (copy_into 0 56 b (replicate 56 0)) (\<lambda>arr.
             Ok (X448PrivateKeyWrap (x448_clamp arr))))"

definition X448_pk_to_bytes :: "X448PublicKeyWrap \<Rightarrow> bytes" where
  "X448_pk_to_bytes pk = x448_pk pk"

definition X448_sk_to_bytes :: "X448PrivateKeyWrap \<Rightarrow> bytes" where
  "X448_sk_to_bytes sk = x448_sk sk"

lemma X448_to_bytes_eq [simp]: "X448_pk_to_bytes = x448_pk" "X448_sk_to_bytes = x448_sk"
  by (simp_all add: fun_eq_iff X448_pk_to_bytes_def X448_sk_to_bytes_def)

definition X448_sk_to_pk :: "('sc, 'pt) x448_lib \<Rightarrow> X448PrivateKeyWrap \<Rightarrow> X448PublicKeyWrap" where
  "X448_sk_to_pk L sk = X448PublicKeyWrap (x448_scalar_mult_base L (x448_sk sk))"

definition X448_zeroize :: "X448PrivateKeyWrap \<Rightarrow> X448PrivateKeyWrap res" where
  "X448_zeroize sk = Ok (X448PrivateKeyWrap (replicate 56 0))"

definition X448PrivateKeyWrap_drop :: "X448PrivateKeyWrap \<Rightarrow> X448PrivateKeyWrap res" where
  "X448PrivateKeyWrap_drop sk = X448_zeroize sk"

definition X448_core ::
    "('sc, 'pt) x448_lib \<Rightarrow> ('x, 'h) hkdf_lib \<Rightarrow> 'r rng \<Rightarrow>
     ('r, X448PublicKeyWrap, X448PrivateKeyWrap) dh_core" where
  "X448_core L H R =
     \<lparr> d_Kdf = HkdfSha512 H, d_ID = 0x0021, d_PUBLIC_KEY_LEN = 56, d_PRIVATE_KEY_LEN = 56,
       d_SHARED_SECRET_LEN = 64, d_pk_as_ref = x448_pk, d_sk_zeroize = X448_zeroize,
       d_generate = X448_generate L R, d_dh = X448_dh L,
       d_pk_from_bytes = X448_pk_from_bytes, d_sk_from_bytes = X448_sk_from_bytes,
       d_pk_to_bytes = X448_pk_to_bytes, d_sk_to_bytes = X448_sk_to_bytes, d_sk_to_pk = X448_sk_to_pk L \<rparr>"

definition X448_derive ::
    "('sc, 'pt) x448_lib \<Rightarrow> ('x, 'h) hkdf_lib \<Rightarrow> 'r rng \<Rightarrow> bytes \<Rightarrow>
     (X448PrivateKeyWrap \<times> X448PublicKeyWrap) res" where
  "X448_derive L H R ikm =
     (let D = X448_core L H R;
          suite = suite_id D;
          prk = labeled_extract (d_Kdf D) [] suite (ascii ''dkp_prk'') ikm
      in try_bind (labeled_expand (d_Kdf D) prk suite (ascii ''sk'') [] 56) (\<lambda>derived.
         try_bind (copy_into 0 56 derived (replicate 56 0)) (\<lambda>arr.
           let sk = x448_clamp arr; pk = x448_scalar_mult_base L sk
           in Ok (X448PrivateKeyWrap sk, X448PublicKeyWrap pk))))"

definition X448 ::
    "('sc, 'pt) x448_lib \<Rightarrow> ('x, 'h) hkdf_lib \<Rightarrow> 'r rng \<Rightarrow>
     ('r, X448PublicKeyWrap, X448PrivateKeyWrap) dh" where
  "X448 L H R = with_derive (X448_core L H R) (X448_derive L H R)"

subsection \<open>The contract\<close>

lemma length_x448_clamp [simp]: "length (x448_clamp bs) = length bs"
  by (simp add: x448_clamp_def Let_def)

lemma x448_clamp_idem: "length bs = 56 \<Longrightarrow> x448_clamp (x448_clamp bs) = x448_clamp bs"
  by (rule nth_equalityI)
     (simp_all add: x448_clamp_def Let_def nth_list_update and.assoc or.assoc)

lemma x448_clamp_bits:
  assumes "length bs = 56"
  shows "x448_clamp bs ! 0 AND 3 = 0" and "x448_clamp bs ! 55 AND 0x80 = 0x80"
  using assms
  by (simp_all add: x448_clamp_def Let_def and.assoc bit.conj_disj_distrib2)

lemma x448_lib_okD:
  assumes "x448_lib_ok L"
  shows "length (x448_scalar_mult_base L a) = 56"
    and "x448_clamp a = a \<Longrightarrow> x448_clamp b = b \<Longrightarrow> length a = 56 \<Longrightarrow> length b = 56 \<Longrightarrow>
         x448_scalar_mult L b (x448_scalar_mult_base L a)
         = x448_scalar_mult L a (x448_scalar_mult_base L b)"
    and "x4_ct_eq L u v \<longleftrightarrow> u = v"
  using assms
  unfolding x448_lib_ok_def x448_scalar_mult_base_def x448_scalar_mult_def Let_def by blast+

definition x448_pair ::
    "('sc, 'pt) x448_lib \<Rightarrow> X448PrivateKeyWrap \<Rightarrow> X448PublicKeyWrap \<Rightarrow> bool" where
  "x448_pair L sk pk \<longleftrightarrow>
     length (x448_sk sk) = 56 \<and> x448_clamp (x448_sk sk) = x448_sk sk \<and> pk = X448_sk_to_pk L sk"

lemma x448_pair_from:
  "length bs = 56 \<Longrightarrow> x448_pair L (X448PrivateKeyWrap (x448_clamp bs))
     (X448PublicKeyWrap (x448_scalar_mult_base L (x448_clamp bs)))"
  by (simp add: x448_pair_def X448_sk_to_pk_def x448_clamp_idem)

lemma X448_derive_ok:
  assumes "hkdf_lib_ok H 64"
  shows "\<exists>bs. length bs = 56 \<and> X448_derive L H R ikm =
     Ok (X448PrivateKeyWrap (x448_clamp bs),
         X448PublicKeyWrap (x448_scalar_mult_base L (x448_clamp bs)))"
proof -
  let ?D = "X448_core L H R" and ?F = "HkdfSha512 H"
  let ?prk = "labeled_extract ?F [] (suite_id ?D) (ascii ''dkp_prk'') ikm"
  obtain bs where "labeled_expand ?F ?prk (suite_id ?D) (ascii ''sk'') [] 56 = Ok bs"
    and "length bs = 56"
    using sha512.expand_of_extract [OF assms, of 56] by fastforce
  moreover have "d_Kdf ?D = ?F"
    by (simp add: X448_core_def)
  ultimately show ?thesis
    by (auto simp: X448_derive_def Let_def)
qed

lemma X448_simps:
  "d_Kdf (X448 L H R) = HkdfSha512 H" "d_ID (X448 L H R) = 0x0021"
  "d_PUBLIC_KEY_LEN (X448 L H R) = 56" "d_PRIVATE_KEY_LEN (X448 L H R) = 56"
  "d_SHARED_SECRET_LEN (X448 L H R) = 64" "d_pk_as_ref (X448 L H R) = x448_pk"
  "d_sk_zeroize (X448 L H R) = X448_zeroize"
  "d_generate (X448 L H R) = X448_generate L R" "d_dh (X448 L H R) = X448_dh L"
  "d_pk_from_bytes (X448 L H R) = X448_pk_from_bytes"
  "d_sk_from_bytes (X448 L H R) = X448_sk_from_bytes"
  "d_pk_to_bytes (X448 L H R) = x448_pk" "d_sk_to_bytes (X448 L H R) = x448_sk"
  "d_sk_to_pk (X448 L H R) = X448_sk_to_pk L" "d_derive (X448 L H R) = X448_derive L H R"
  by (simp_all add: X448_def X448_core_def)

lemma X448_failures:
  "X448_dh L sk pk = Err e \<Longrightarrow> e = EncapError" "X448_dh L sk pk \<noteq> Panic"
  "X448_pk_from_bytes b = Err e \<Longrightarrow> e = InvalidPublicKey" "X448_pk_from_bytes b \<noteq> Panic"
  "X448_sk_from_bytes b = Err e \<Longrightarrow> e = InvalidPrivateKey" "X448_sk_from_bytes b \<noteq> Panic"
  by (auto simp: X448_dh_def Let_def X448_pk_from_bytes_def X448_sk_from_bytes_def
      split: if_splits)

lemma X448_dh_comm:
  assumes "x448_lib_ok L" and "x448_pair L sk pk" and "x448_pair L sk' pk'"
  shows "X448_dh L sk pk' = X448_dh L sk' pk"
  using assms(2,3) x448_lib_okD(2) [OF assms(1), of "x448_sk sk" "x448_sk sk'"]
  by (simp add: X448_dh_def x448_pair_def X448_sk_to_pk_def)

lemma X448_sk_wire:
  "x448_pair L sk pk \<Longrightarrow> X448_sk_from_bytes (x448_sk sk) = Ok sk"
  by (simp add: X448_sk_from_bytes_def x448_pair_def)

lemma x448_pk_wire:
  "x448_lib_ok L \<Longrightarrow> X448_pk_from_bytes (x448_scalar_mult_base L s)
     = Ok (X448PublicKeyWrap (x448_scalar_mult_base L s))"
  by (simp add: X448_pk_from_bytes_def x448_lib_okD)

interpretation x448: dh_contract "X448 L H R" "x448_lib_ok L \<and> hkdf_lib_ok H 64 \<and> rng_ok R"
    "x448_pair L"
proof (rule dh_contract.intro, unfold X448_simps)
  show "kdf_contract (HkdfSha512 H) (x448_lib_ok L \<and> hkdf_lib_ok H 64 \<and> rng_ok R)"
    by (rule kdf_contract_mono [OF sha512.kdf_contract_axioms]) simp
  show "dh_contract_axioms (X448 L H R) (x448_lib_ok L \<and> hkdf_lib_ok H 64 \<and> rng_ok R)
      (x448_pair L)"
  proof (rule dh_contract_axioms.intro, unfold X448_simps, goal_cases)
    case (2 r sk pk r')
    then show ?case
      by (auto simp: X448_generate_def Let_def rng_ok_def intro!: x448_pair_from
          split: prod.splits) (metis fst_conv)
  next
    case (3 ikm sk pk)
    then show ?case
      using X448_derive_ok [of H L R ikm] x448_pair_from [of _ L] by auto
  next
    case (4 b sk)
    then show ?case
      using x448_pair_from [of b L]
      by (auto simp: X448_sk_from_bytes_def X448_sk_to_pk_def split: if_splits)
  next
    case (18 ikm)
    then show ?case using X448_derive_ok [of H L R ikm] by auto
  qed (auto simp: x448_pair_def X448_dh_comm X448_sk_wire x448_pk_wire X448_sk_to_pk_def
      x448_lib_okD X448_failures)
qed

end
