(* ===== verification/Hpke_Nist.thy ===== *)
theory Hpke_Nist
  imports Hpke_Dhkem
begin

text \<open>
  The macro \<open>nist_curve!\<close> of \<open>src/kem/dh.rs\<close> and its four instances: P-256, P-384,
  P-521 and secp256k1. The macro parameters (KDF, identifier, key length, shared-secret
  length and top-byte mask) are the record \<open>nist_params\<close>; the curve crate is
  \<open>ec_lib\<close>.
\<close>

section \<open>The curve crate\<close>

text \<open>
  \<open>SecretKey::generate_from_rng\<close>, \<open>public_key\<close>, \<open>from_slice\<close> and
  \<open>to_bytes\<close>, \<open>ecdh::diffie_hellman\<close> with \<open>raw_secret_bytes\<close>,
  \<open>PublicKey::from_sec1_bytes\<close>, \<open>to_sec1_point(false)\<close>, and \<open>ct_eq\<close>.
\<close>

record ('r, 's, 'p) ec_lib =
  ec_generate_from_rng :: "'r \<Rightarrow> 's \<times> 'r"
  ec_public_key :: "'s \<Rightarrow> 'p"
  ec_from_slice :: "bytes \<Rightarrow> 's option"
  ec_to_bytes :: "'s \<Rightarrow> bytes"
  ec_diffie_hellman :: "'s \<Rightarrow> 'p \<Rightarrow> bytes"
  ec_from_sec1_bytes :: "bytes \<Rightarrow> 'p option"
  ec_to_sec1_uncompressed :: "'p \<Rightarrow> bytes"
  ec_ct_eq :: "bytes \<Rightarrow> bytes \<Rightarrow> bool"

text \<open>
  Documented behaviour for field elements of \<open>nsk\<close> bytes: an exchange is symmetric, the
  uncompressed SEC1 form starts with \<open>0x04\<close>, has \<open>1 + 2 * nsk\<close> bytes and decodes
  to the same point, scalars serialise to \<open>nsk\<close> bytes and back, the scalar one is valid.
\<close>

definition ec_lib_ok :: "('r, 's, 'p) ec_lib \<Rightarrow> nat \<Rightarrow> bool" where
  "ec_lib_ok L nsk \<longleftrightarrow>
     (\<forall>s t. ec_diffie_hellman L s (ec_public_key L t) = ec_diffie_hellman L t (ec_public_key L s))
   \<and> (\<forall>p. length (ec_to_sec1_uncompressed L p) = 1 + 2 * nsk
        \<and> ec_to_sec1_uncompressed L p ! 0 = 4
        \<and> ec_from_sec1_bytes L (ec_to_sec1_uncompressed L p) = Some p)
   \<and> (\<forall>s. length (ec_to_bytes L s) = nsk \<and> ec_from_slice L (ec_to_bytes L s) = Some s)
   \<and> ec_from_slice L ((replicate nsk 0)[nsk - 1 := 1]) \<noteq> None
   \<and> (\<forall>a b. ec_ct_eq L a b \<longleftrightarrow> a = b)"

section \<open>The macro\<close>

record nist_params =
  np_kdf :: kdf
  np_id :: u16
  np_nsk :: nat
  np_nsecret :: nat
  np_bitmask :: u8

record 'p nist_pk =
  nist_pk_point :: 'p
  nist_pk_encoded :: bytes

datatype 's nist_sk = NistPrivateKeyWrap (nist_scalar: 's)

definition nist_make_pk :: "('r, 's, 'p) ec_lib \<Rightarrow> 'p \<Rightarrow> 'p nist_pk" where
  "nist_make_pk L pk = \<lparr> nist_pk_point = pk, nist_pk_encoded = ec_to_sec1_uncompressed L pk \<rparr>"

definition nist_generate ::
    "('r, 's, 'p) ec_lib \<Rightarrow> 'r \<Rightarrow> ('s nist_sk \<times> 'p nist_pk) \<times> 'r" where
  "nist_generate L rng =
     (case ec_generate_from_rng L rng of (sk, rng') \<Rightarrow>
       ((NistPrivateKeyWrap sk, nist_make_pk L (ec_public_key L sk)), rng'))"

definition nist_dh ::
    "('r, 's, 'p) ec_lib \<Rightarrow> nat \<Rightarrow> 's nist_sk \<Rightarrow> 'p nist_pk \<Rightarrow> bytes res" where
  "nist_dh L nsk sk pk =
     (let shared = ec_diffie_hellman L (nist_scalar sk) (nist_pk_point pk); zero = replicate nsk 0
      in if ec_ct_eq L shared zero then Err EncapError else Ok shared)"

definition nist_pk_from_bytes ::
    "('r, 's, 'p) ec_lib \<Rightarrow> nat \<Rightarrow> bytes \<Rightarrow> 'p nist_pk res" where
  "nist_pk_from_bytes L public_key_len b =
     (if length b \<noteq> public_key_len \<or> b ! 0 \<noteq> 0x04 then Err InvalidPublicKey
      else map_ok (nist_make_pk L) (ok_or InvalidPublicKey (ec_from_sec1_bytes L b)))"

definition nist_sk_from_bytes ::
    "('r, 's, 'p) ec_lib \<Rightarrow> nat \<Rightarrow> bytes \<Rightarrow> 's nist_sk res" where
  "nist_sk_from_bytes L nsk b =
     (if length b \<noteq> nsk then Err InvalidPrivateKey
      else map_ok NistPrivateKeyWrap (ok_or InvalidPrivateKey (ec_from_slice L b)))"

definition nist_sk_to_pk :: "('r, 's, 'p) ec_lib \<Rightarrow> 's nist_sk \<Rightarrow> 'p nist_pk" where
  "nist_sk_to_pk L sk = nist_make_pk L (ec_public_key L (nist_scalar sk))"

text \<open>\<open>zeroize\<close> swaps the scalar one in; the old secret scrubs itself when dropped.\<close>

definition nist_zeroize :: "('r, 's, 'p) ec_lib \<Rightarrow> nat \<Rightarrow> 's nist_sk \<Rightarrow> 's nist_sk res" where
  "nist_zeroize L nsk sk =
     (let dummy = (replicate nsk 0)[nsk - 1 := 1]
      in try_bind (expect (ec_from_slice L dummy)) (\<lambda>d. Ok (NistPrivateKeyWrap d)))"

definition nist_core ::
    "('r, 's, 'p) ec_lib \<Rightarrow> nist_params \<Rightarrow> ('r, 'p nist_pk, 's nist_sk) dh_core" where
  "nist_core L P =
     \<lparr> d_Kdf = np_kdf P, d_ID = np_id P, d_PUBLIC_KEY_LEN = 1 + 2 * np_nsk P,
       d_PRIVATE_KEY_LEN = np_nsk P, d_SHARED_SECRET_LEN = np_nsecret P,
       d_pk_as_ref = nist_pk_encoded, d_sk_zeroize = nist_zeroize L (np_nsk P),
       d_generate = nist_generate L, d_dh = nist_dh L (np_nsk P),
       d_pk_from_bytes = nist_pk_from_bytes L (1 + 2 * np_nsk P),
       d_sk_from_bytes = nist_sk_from_bytes L (np_nsk P),
       d_pk_to_bytes = nist_pk_encoded, d_sk_to_bytes = (\<lambda>sk. ec_to_bytes L (nist_scalar sk)),
       d_sk_to_pk = nist_sk_to_pk L \<rparr>"

definition nist_derive ::
    "('r, 's, 'p) ec_lib \<Rightarrow> nist_params \<Rightarrow> bytes \<Rightarrow> ('s nist_sk \<times> 'p nist_pk) res" where
  "nist_derive L P ikm =
     try_bind (derive_p_curve_sk (nist_core L P) ikm (np_nsk P) (np_bitmask P)) (\<lambda>bs.
     try_bind (ok_or InvalidPrivateKey (ec_from_slice L bs)) (\<lambda>sk.
       Ok (NistPrivateKeyWrap sk, nist_make_pk L (ec_public_key L sk))))"

definition nist_curve ::
    "('r, 's, 'p) ec_lib \<Rightarrow> nist_params \<Rightarrow> ('r, 'p nist_pk, 's nist_sk) dh" where
  "nist_curve L P = with_derive (nist_core L P) (nist_derive L P)"

section \<open>The four curves\<close>

definition P256 :: "('r, 's, 'p) ec_lib \<Rightarrow> ('x, 'h) hkdf_lib \<Rightarrow> ('r, 'p nist_pk, 's nist_sk) dh" where
  "P256 L H = nist_curve L \<lparr> np_kdf = HkdfSha256 H, np_id = 0x0010, np_nsk = 32,
     np_nsecret = 32, np_bitmask = 0xFF \<rparr>"

definition P384 :: "('r, 's, 'p) ec_lib \<Rightarrow> ('x, 'h) hkdf_lib \<Rightarrow> ('r, 'p nist_pk, 's nist_sk) dh" where
  "P384 L H = nist_curve L \<lparr> np_kdf = HkdfSha384 H, np_id = 0x0011, np_nsk = 48,
     np_nsecret = 48, np_bitmask = 0xFF \<rparr>"

definition P521 :: "('r, 's, 'p) ec_lib \<Rightarrow> ('x, 'h) hkdf_lib \<Rightarrow> ('r, 'p nist_pk, 's nist_sk) dh" where
  "P521 L H = nist_curve L \<lparr> np_kdf = HkdfSha512 H, np_id = 0x0012, np_nsk = 66,
     np_nsecret = 64, np_bitmask = 0x01 \<rparr>"

definition K256 :: "('r, 's, 'p) ec_lib \<Rightarrow> ('x, 'h) hkdf_lib \<Rightarrow> ('r, 'p nist_pk, 's nist_sk) dh" where
  "K256 L H = nist_curve L \<lparr> np_kdf = HkdfSha256 H, np_id = 0x0016, np_nsk = 32,
     np_nsecret = 32, np_bitmask = 0xFF \<rparr>"

section \<open>The contract\<close>

lemma ec_lib_okD:
  assumes "ec_lib_ok L nsk"
  shows "ec_diffie_hellman L s (ec_public_key L t) = ec_diffie_hellman L t (ec_public_key L s)"
    and "length (ec_to_sec1_uncompressed L p) = 1 + 2 * nsk"
    and "ec_to_sec1_uncompressed L p ! 0 = 4"
    and "ec_from_sec1_bytes L (ec_to_sec1_uncompressed L p) = Some p"
    and "length (ec_to_bytes L s) = nsk" and "ec_from_slice L (ec_to_bytes L s) = Some s"
    and "ec_from_slice L ((replicate nsk 0)[nsk - 1 := 1]) \<noteq> None"
    and "ec_ct_eq L a b \<longleftrightarrow> a = b"
  using assms unfolding ec_lib_ok_def by blast+

definition nist_pair :: "('r, 's, 'p) ec_lib \<Rightarrow> 's nist_sk \<Rightarrow> 'p nist_pk \<Rightarrow> bool" where
  "nist_pair L sk pk \<longleftrightarrow> pk = nist_sk_to_pk L sk"

lemma nist_simps:
  "d_Kdf (nist_curve L P) = np_kdf P" "d_ID (nist_curve L P) = np_id P"
  "d_PUBLIC_KEY_LEN (nist_curve L P) = 1 + 2 * np_nsk P"
  "d_PRIVATE_KEY_LEN (nist_curve L P) = np_nsk P"
  "d_SHARED_SECRET_LEN (nist_curve L P) = np_nsecret P"
  "d_pk_as_ref (nist_curve L P) = nist_pk_encoded"
  "d_sk_zeroize (nist_curve L P) = nist_zeroize L (np_nsk P)"
  "d_generate (nist_curve L P) = nist_generate L" "d_dh (nist_curve L P) = nist_dh L (np_nsk P)"
  "d_pk_from_bytes (nist_curve L P) = nist_pk_from_bytes L (1 + 2 * np_nsk P)"
  "d_sk_from_bytes (nist_curve L P) = nist_sk_from_bytes L (np_nsk P)"
  "d_pk_to_bytes (nist_curve L P) = nist_pk_encoded"
  "d_sk_to_bytes (nist_curve L P) = (\<lambda>sk. ec_to_bytes L (nist_scalar sk))"
  "d_sk_to_pk (nist_curve L P) = nist_sk_to_pk L" "d_derive (nist_curve L P) = nist_derive L P"
  by (simp_all add: nist_curve_def nist_core_def)

lemma nist_failures:
  "nist_dh L n sk pk = Err e \<Longrightarrow> e = EncapError" "nist_dh L n sk pk \<noteq> Panic"
  "nist_pk_from_bytes L n b = Err e \<Longrightarrow> e = InvalidPublicKey" "nist_pk_from_bytes L n b \<noteq> Panic"
  "nist_sk_from_bytes L n b = Err e \<Longrightarrow> e = InvalidPrivateKey" "nist_sk_from_bytes L n b \<noteq> Panic"
  by (auto simp: nist_dh_def Let_def nist_pk_from_bytes_def nist_sk_from_bytes_def outcome_simps
      split: if_splits)

lemma nist_core_simps:
  "d_Kdf (nist_core L P) = np_kdf P"
  "d_sk_from_bytes (nist_core L P) = nist_sk_from_bytes L (np_nsk P)"
  by (simp_all add: nist_core_def)

lemma nist_sk_from_bytes_Ok_iff:
  "nist_sk_from_bytes L n b = Ok sk \<longleftrightarrow>
     length b = n \<and> ec_from_slice L b = Some (nist_scalar sk)"
  by (cases sk) (auto simp: nist_sk_from_bytes_def outcome_simps)

text \<open>
  \<open>DeriveKeyPair\<close> on a NIST curve: the sampled bytes always load, so the second
  conversion never fails, and the only error is exhaustion of the 256 candidates.
\<close>

lemma nist_derive_cases:
  assumes "kdf_contract (np_kdf P) True" and "0 < np_nsk P" and "np_nsk P \<le> 255 * 32"
  shows "nist_derive L P ikm = Err DeriveKeyPairError \<or>
     (\<exists>sk. nist_derive L P ikm = Ok (NistPrivateKeyWrap sk, nist_make_pk L (ec_public_key L sk)))"
proof -
  let ?bs = "derive_p_curve_sk (nist_core L P) ikm (np_nsk P) (np_bitmask P)"
  have "\<And>b. d_sk_from_bytes (nist_core L P) b \<noteq> Panic"
    by (simp add: nist_core_simps nist_failures)
  with assms have "?bs = Err DeriveKeyPairError \<or>
      (\<exists>b. ?bs = Ok b \<and> is_ok (d_sk_from_bytes (nist_core L P) b))"
    using kdf_contract.derive_p_curve_sk_cases [OF assms(1) TrueI, of "nist_core L P" "np_nsk P"]
    unfolding nist_core_simps(1) by blast
  then show ?thesis
    by (auto simp: nist_core_simps nist_derive_def is_ok_iff nist_sk_from_bytes_Ok_iff)
      (metis nist_sk.exhaust)
qed

lemma nist_dh_comm:
  assumes "ec_lib_ok L nsk" and "nist_pair L sk pk" and "nist_pair L sk' pk'"
  shows "nist_dh L n sk pk' = nist_dh L n sk' pk"
  using assms(2,3) ec_lib_okD(1) [OF assms(1), of "nist_scalar sk" "nist_scalar sk'"]
  by (simp add: nist_dh_def nist_pair_def nist_sk_to_pk_def nist_make_pk_def)

lemma nist_wire:
  assumes "ec_lib_ok L nsk"
  shows "nist_pk_from_bytes L (1 + 2 * nsk) (nist_pk_encoded (nist_make_pk L p)) = Ok (nist_make_pk L p)"
    and "nist_sk_from_bytes L nsk (ec_to_bytes L (nist_scalar sk)) = Ok sk"
  using ec_lib_okD [OF assms]
  by (simp_all add: nist_pk_from_bytes_def nist_sk_from_bytes_def nist_make_pk_def)

lemma nist_contract:
  assumes kdf: "kdf_contract (np_kdf P) l" and nsk: "0 < np_nsk P" "np_nsk P \<le> 66"
    and nsecret: "np_nsecret P \<le> 64"
  shows "dh_contract (nist_curve L P) (ec_lib_ok L (np_nsk P) \<and> l) (nist_pair L)"
proof (rule dh_contract.intro, unfold nist_simps)
  show "kdf_contract (np_kdf P) (ec_lib_ok L (np_nsk P) \<and> l)"
    by (rule kdf_contract_mono [OF kdf]) simp
  have derive: "nist_derive L P ikm = Err DeriveKeyPairError \<or>
     (\<exists>sk. nist_derive L P ikm = Ok (NistPrivateKeyWrap sk, nist_make_pk L (ec_public_key L sk)))"
    if "l" for ikm
    using nist_derive_cases [of P L ikm] kdf_contract_mono [OF kdf] that nsk by simp
  show "dh_contract_axioms (nist_curve L P) (ec_lib_ok L (np_nsk P) \<and> l) (nist_pair L)"
  proof (rule dh_contract_axioms.intro, unfold nist_simps, goal_cases)
    case 1
    show ?case by (rule nsecret)
  next
    case (2 r sk pk r')
    then show ?case
      by (auto simp: nist_generate_def nist_pair_def nist_sk_to_pk_def split: prod.splits)
  next
    case (3 ikm sk pk)
    then show ?case
      using derive [of ikm] by (auto simp: nist_pair_def nist_sk_to_pk_def)
  next
    case (18 ikm)
    then show ?case using derive [of ikm] by auto
  next
    case (6 sk pk sk' pk')
    then show ?case using nist_dh_comm by blast
  next
    case (9 sk pk)
    then show ?case
      using ec_lib_okD(2) [of L "np_nsk P"]
      by (simp add: nist_pair_def nist_sk_to_pk_def nist_make_pk_def)
  next
    case (8 sk pk)
    then show ?case using nist_wire(1) [of L "np_nsk P"] by (simp add: nist_pair_def nist_sk_to_pk_def)
  next
    case (11 sk pk)
    then show ?case using ec_lib_okD(5) [of L "np_nsk P"] by simp
  qed (simp_all add: nist_pair_def nist_failures nist_wire nist_sk_to_pk_def)
qed

interpretation p256: dh_contract "P256 L H" "ec_lib_ok L 32 \<and> hkdf_lib_ok H 32" "nist_pair L"
  unfolding P256_def
  using nist_contract [of "\<lparr> np_kdf = HkdfSha256 H, np_id = 0x0010, np_nsk = 32,
     np_nsecret = 32, np_bitmask = 0xFF \<rparr>" _ L] sha256.kdf_contract_axioms [of H] by simp

interpretation p384: dh_contract "P384 L H" "ec_lib_ok L 48 \<and> hkdf_lib_ok H 48" "nist_pair L"
  unfolding P384_def
  using nist_contract [of "\<lparr> np_kdf = HkdfSha384 H, np_id = 0x0011, np_nsk = 48,
     np_nsecret = 48, np_bitmask = 0xFF \<rparr>" _ L] sha384.kdf_contract_axioms [of H] by simp

interpretation p521: dh_contract "P521 L H" "ec_lib_ok L 66 \<and> hkdf_lib_ok H 64" "nist_pair L"
  unfolding P521_def
  using nist_contract [of "\<lparr> np_kdf = HkdfSha512 H, np_id = 0x0012, np_nsk = 66,
     np_nsecret = 64, np_bitmask = 0x01 \<rparr>" _ L] sha512.kdf_contract_axioms [of H] by simp

interpretation k256: dh_contract "K256 L H" "ec_lib_ok L 32 \<and> hkdf_lib_ok H 32" "nist_pair L"
  unfolding K256_def
  using nist_contract [of "\<lparr> np_kdf = HkdfSha256 H, np_id = 0x0016, np_nsk = 32,
     np_nsecret = 32, np_bitmask = 0xFF \<rparr>" _ L] sha256.kdf_contract_axioms [of H] by simp

end
