(* ===== verification/Hpke_Pq.thy ===== *)
theory Hpke_Pq
  imports Hpke_Kem
begin

text \<open>
  The first half of \<open>src/kem/pq.rs\<close>: the one-stage labelled derivation over SHAKE256,
  and X-Wing. The macro \<open>ml_kem_variant!\<close> is in \<open>Hpke_Mlkem\<close>.

  None of the post-quantum KEMs implements \<open>AuthKem\<close>: their dictionaries are plain \<open>kem\<close> records,
  so the authenticated modes do not apply to them, here as in the crate.
\<close>

section \<open>\<open>SHAKE256.LabeledDerive\<close>\<close>

text \<open>\<open>Shake256::default\<close>, \<open>Update::update\<close>, \<open>finalize_xof\<close>, \<open>XofReader::read\<close>.\<close>

record ('h, 'x) shake_lib =
  sh_default :: 'h
  sh_update :: "'h \<Rightarrow> bytes \<Rightarrow> 'h"
  sh_finalize_xof :: "'h \<Rightarrow> 'x"
  sh_read :: "'x \<Rightarrow> nat \<Rightarrow> bytes"

text \<open>
  Documented behaviour: absorbing is streaming, and reading fills the buffer it is given.
\<close>

definition shake_lib_ok :: "('h, 'x) shake_lib \<Rightarrow> bool" where
  "shake_lib_ok S \<longleftrightarrow>
     (\<forall>ps. sh_finalize_xof S (foldl (sh_update S) (sh_default S) ps)
         = sh_finalize_xof S (sh_update S (sh_default S) (concat ps)))
   \<and> (\<forall>x n. length (sh_read S x n) = n)"

definition DERIVE_KEY_PAIR_LABEL :: bytes where
  "DERIVE_KEY_PAIR_LABEL = ascii ''DeriveKeyPair''"

text \<open>The result is the output buffer, whose length is the last argument.\<close>

definition shake256_labeled_derive ::
    "('h, 'x) shake_lib \<Rightarrow> bytes \<Rightarrow> bytes \<Rightarrow> bytes \<Rightarrow> nat \<Rightarrow> bytes res" where
  "shake256_labeled_derive S suite_id label ikm out_size =
     try_bind (ok_or DeriveKeyPairError (u16_try_from (length label))) (\<lambda>label_len.
     try_bind (ok_or DeriveKeyPairError (u16_try_from out_size)) (\<lambda>out_len.
       let h = sh_default S;
           h = sh_update S h ikm;
           h = sh_update S h (ascii ''HPKE-v1'');
           h = sh_update S h suite_id;
           h = sh_update S h (to_be_bytes label_len);
           h = sh_update S h label;
           h = sh_update S h (to_be_bytes out_len)
       in Ok (sh_read S (sh_finalize_xof S h) out_size)))"

text \<open>
  The string the sponge absorbs, as the draft states it, and the specification: one call of
  the extendable-output function on that string.
\<close>

definition labeled_ikm :: "bytes \<Rightarrow> bytes \<Rightarrow> bytes \<Rightarrow> nat \<Rightarrow> bytes" where
  "labeled_ikm suite_id label ikm n =
     ikm @ ascii ''HPKE-v1'' @ suite_id @ to_be_bytes (word_of_nat (length label) :: u16) @ label
         @ to_be_bytes (word_of_nat n :: u16)"

definition SHAKE256 :: "('h, 'x) shake_lib \<Rightarrow> bytes \<Rightarrow> nat \<Rightarrow> bytes" where
  "SHAKE256 S m n = sh_read S (sh_finalize_xof S (sh_update S (sh_default S) m)) n"

lemma shake_lib_okD:
  assumes "shake_lib_ok S"
  shows "sh_finalize_xof S (foldl (sh_update S) (sh_default S) ps)
         = sh_finalize_xof S (sh_update S (sh_default S) (concat ps))"
    and "length (sh_read S x n) = n"
  using assms unfolding shake_lib_ok_def by blast+

lemma length_SHAKE256: "shake_lib_ok S \<Longrightarrow> length (SHAKE256 S m n) = n"
  by (simp add: SHAKE256_def shake_lib_okD)

lemma shake256_labeled_derive_eq:
  assumes "shake_lib_ok S" and "length label < 65536" and "n < 65536"
  shows "shake256_labeled_derive S suite_id label ikm n =
         Ok (SHAKE256 S (labeled_ikm suite_id label ikm n) n)"
  using shake_lib_okD(1) [OF assms(1), of "[ikm, ascii ''HPKE-v1'', suite_id,
      to_be_bytes (word_of_nat (length label) :: u16), label, to_be_bytes (word_of_nat n :: u16)]"]
    assms(2,3)
  by (simp add: shake256_labeled_derive_def u16_try_from_def SHAKE256_def labeled_ikm_def Let_def)

text \<open>Suites, key material and output lengths never share an absorbed string.\<close>

lemma labeled_ikm_inj:
  assumes "length suite = 5" and "length suite' = 5" and "n < 65536" and "n' < 65536"
  shows "labeled_ikm suite label ikm n = labeled_ikm suite' label ikm' n' \<longleftrightarrow>
         suite = suite' \<and> ikm = ikm' \<and> n = n'"
proof -
  have "(word_of_nat n :: u16) = word_of_nat n' \<longleftrightarrow> n = n'"
    using assms(3,4) by (metis unat_word_of_nat_u16)
  moreover have "length (labeled_ikm suite label ikm n) = length ikm + (length label + 16)"
      "length (labeled_ikm suite' label ikm' n') = length ikm' + (length label + 16)"
    using assms(1,2) by (simp_all add: labeled_ikm_def)
  then have "length ikm = length ikm'"
    if "labeled_ikm suite label ikm n = labeled_ikm suite' label ikm' n'"
    using that by simp
  ultimately show ?thesis
    using assms(1,2) by (auto simp: labeled_ikm_def)
qed

lemma derive_label_eq:
  assumes "shake_lib_ok S" and "n \<le> 64"
  shows "shake256_labeled_derive S suite_id DERIVE_KEY_PAIR_LABEL ikm n =
         Ok (SHAKE256 S (labeled_ikm suite_id DERIVE_KEY_PAIR_LABEL ikm n) n)"
  using assms by (intro shake256_labeled_derive_eq) (simp_all add: DERIVE_KEY_PAIR_LABEL_def)

section \<open>X-Wing\<close>

text \<open>
  The crate \<open>x_wing\<close>: its three size constants, \<open>DecapsulationKey::from\<close>,
  \<open>encapsulation_key\<close>, \<open>to_bytes\<close> and \<open>try_from\<close> of encapsulation keys,
  \<open>encapsulate_with_rng\<close> (ciphertext first) and \<open>decapsulate_slice\<close>.
\<close>

record ('r, 'dk, 'ek) x_wing_lib =
  xw_CIPHERTEXT_SIZE :: nat
  xw_ENCAPSULATION_KEY_SIZE :: nat
  xw_DECAPSULATION_KEY_SIZE :: nat
  xw_from_seed :: "bytes \<Rightarrow> 'dk"
  xw_encapsulation_key :: "'dk \<Rightarrow> 'ek"
  xw_ek_to_bytes :: "'ek \<Rightarrow> bytes"
  xw_ek_try_from :: "bytes \<Rightarrow> 'ek option"
  xw_encapsulate_with_rng :: "'ek \<Rightarrow> 'r \<Rightarrow> (bytes \<times> bytes) \<times> 'r"
  xw_decapsulate_slice :: "'dk \<Rightarrow> bytes \<Rightarrow> bytes option"

text \<open>
  Documented behaviour: the published sizes, 32-byte shared secrets, lossless wire form of
  encapsulation keys, rejection of exactly the ciphertexts of the wrong size, and agreement of
  the two sides. The last is the correctness of the scheme with the failure probability of
  ML-KEM-768 (below 2 to the power -164) taken as zero.
\<close>

definition x_wing_lib_ok :: "('r, 'dk, 'ek) x_wing_lib \<Rightarrow> bool" where
  "x_wing_lib_ok L \<longleftrightarrow>
     xw_CIPHERTEXT_SIZE L = 1120 \<and> xw_ENCAPSULATION_KEY_SIZE L = 1216
   \<and> xw_DECAPSULATION_KEY_SIZE L = 32
   \<and> (\<forall>ek. length (xw_ek_to_bytes L ek) = 1216 \<and> xw_ek_try_from L (xw_ek_to_bytes L ek) = Some ek)
   \<and> (\<forall>dk ct. xw_decapsulate_slice L dk ct = None \<longleftrightarrow> length ct \<noteq> 1120)
   \<and> (\<forall>dk ct ss. xw_decapsulate_slice L dk ct = Some ss \<longrightarrow> length ss = 32)
   \<and> (\<forall>dk r ct ss r'. xw_encapsulate_with_rng L (xw_encapsulation_key L dk) r = ((ct, ss), r') \<longrightarrow>
        xw_decapsulate_slice L dk ct = Some ss)
   \<and> (\<forall>ek r ct ss r'. xw_encapsulate_with_rng L ek r = ((ct, ss), r') \<longrightarrow>
        length ct = 1120 \<and> length ss = 32)"

record 'ek XWingPublicKey =
  xw_pk_bytes :: bytes
  xw_parsed :: 'ek

record 'dk XWingPrivateKey =
  xw_seed :: bytes
  xw_dk :: "'dk option"

datatype XWingEncappedKey = XWingEncappedKey (xw_enc: bytes)
datatype XWingSharedSecret = XWingSharedSecret (xw_ss: bytes)

definition XWingPrivateKey_zeroize :: "'dk XWingPrivateKey \<Rightarrow> 'dk XWingPrivateKey" where
  "XWingPrivateKey_zeroize sk = sk\<lparr>xw_seed := replicate 32 0, xw_dk := None\<rparr>"

definition XWingSharedSecret_zeroize :: "XWingSharedSecret \<Rightarrow> XWingSharedSecret" where
  "XWingSharedSecret_zeroize ss = XWingSharedSecret (replicate 32 0)"

definition XWingPrivateKey_drop :: "'dk XWingPrivateKey \<Rightarrow> 'dk XWingPrivateKey" where
  "XWingPrivateKey_drop sk = XWingPrivateKey_zeroize sk"

definition XWingSharedSecret_drop :: "XWingSharedSecret \<Rightarrow> XWingSharedSecret" where
  "XWingSharedSecret_drop ss = XWingSharedSecret_zeroize ss"

definition keypair_from_seed ::
    "('r, 'dk, 'ek) x_wing_lib \<Rightarrow> bytes \<Rightarrow> 'dk XWingPrivateKey \<times> 'ek XWingPublicKey" where
  "keypair_from_seed L seed =
     (let dk = xw_from_seed L seed; ek = xw_encapsulation_key L dk
      in (\<lparr> xw_seed = seed, xw_dk = Some dk \<rparr>,
          \<lparr> xw_pk_bytes = xw_ek_to_bytes L ek, xw_parsed = ek \<rparr>))"

definition XWing_ID :: u16 where "XWing_ID = 0x647A"

definition XWing_generate ::
    "('r, 'dk, 'ek) x_wing_lib \<Rightarrow> 'r rng \<Rightarrow> 'r \<Rightarrow>
     ('dk XWingPrivateKey \<times> 'ek XWingPublicKey) res \<times> 'r" where
  "XWing_generate L R rng =
     (case fill_bytes R rng 32 of (seed, rng') \<Rightarrow> (Ok (keypair_from_seed L seed), rng'))"

definition XWing_derive_key_pair ::
    "('r, 'dk, 'ek) x_wing_lib \<Rightarrow> ('h, 'x) shake_lib \<Rightarrow> bytes \<Rightarrow>
     ('dk XWingPrivateKey \<times> 'ek XWingPublicKey) res" where
  "XWing_derive_key_pair L S ikm =
     try_bind (shake256_labeled_derive S (kem_suite_id XWing_ID) DERIVE_KEY_PAIR_LABEL ikm 32)
       (\<lambda>seed. Ok (keypair_from_seed L seed))"

definition XWing_encap ::
    "('r, 'dk, 'ek) x_wing_lib \<Rightarrow> 'r \<Rightarrow> 'ek XWingPublicKey \<Rightarrow>
     (XWingSharedSecret \<times> XWingEncappedKey) res \<times> 'r" where
  "XWing_encap L rng pk_r =
     (case xw_encapsulate_with_rng L (xw_parsed pk_r) rng of ((ct, ss), rng') \<Rightarrow>
       (try_bind (copy_into 0 32 ss (replicate 32 0)) (\<lambda>ss_bytes.
          Ok (XWingSharedSecret ss_bytes, XWingEncappedKey ct)), rng'))"

definition XWing_decap ::
    "('r, 'dk, 'ek) x_wing_lib \<Rightarrow> XWingEncappedKey \<Rightarrow> 'dk XWingPrivateKey \<Rightarrow>
     XWingSharedSecret res" where
  "XWing_decap L enc sk_r =
     try_bind (ok_or DecapError (xw_dk sk_r)) (\<lambda>dk.
     try_bind (ok_or InvalidEncappedKey (xw_decapsulate_slice L dk (xw_enc enc))) (\<lambda>ss.
     try_bind (copy_into 0 32 ss (replicate 32 0)) (\<lambda>ss_bytes. Ok (XWingSharedSecret ss_bytes))))"

definition XWing_pk_from_bytes ::
    "('r, 'dk, 'ek) x_wing_lib \<Rightarrow> bytes \<Rightarrow> 'ek XWingPublicKey res" where
  "XWing_pk_from_bytes L b =
     (if length b \<noteq> xw_ENCAPSULATION_KEY_SIZE L then Err InvalidPublicKey
      else try_bind (ok_or InvalidPublicKey (xw_ek_try_from L b)) (\<lambda>parsed.
           Ok \<lparr> xw_pk_bytes = b, xw_parsed = parsed \<rparr>))"

definition XWing_sk_from_bytes ::
    "('r, 'dk, 'ek) x_wing_lib \<Rightarrow> bytes \<Rightarrow> 'dk XWingPrivateKey res" where
  "XWing_sk_from_bytes L b =
     (if length b \<noteq> xw_DECAPSULATION_KEY_SIZE L then Err InvalidPrivateKey
      else try_bind (copy_into 0 32 b (replicate 32 0)) (\<lambda>seed.
           Ok \<lparr> xw_seed = seed, xw_dk = Some (xw_from_seed L seed) \<rparr>))"

definition XWing_enc_from_bytes ::
    "('r, 'dk, 'ek) x_wing_lib \<Rightarrow> bytes \<Rightarrow> XWingEncappedKey res" where
  "XWing_enc_from_bytes L b =
     (if length b \<noteq> xw_CIPHERTEXT_SIZE L then Err InvalidEncappedKey else Ok (XWingEncappedKey b))"

definition XWing_pk_to_bytes :: "'ek XWingPublicKey \<Rightarrow> bytes" where
  "XWing_pk_to_bytes pk = xw_pk_bytes pk"

definition XWing_sk_to_bytes :: "'dk XWingPrivateKey \<Rightarrow> bytes" where
  "XWing_sk_to_bytes sk = xw_seed sk"

lemma XWing_to_bytes_eq [simp]: "XWing_pk_to_bytes = xw_pk_bytes" "XWing_sk_to_bytes = xw_seed"
  by (simp_all add: fun_eq_iff XWing_pk_to_bytes_def XWing_sk_to_bytes_def)

definition XWingDraft06 ::
    "('r, 'dk, 'ek) x_wing_lib \<Rightarrow> ('h, 'x) shake_lib \<Rightarrow> 'r rng \<Rightarrow>
     ('r, 'ek XWingPublicKey, 'dk XWingPrivateKey, XWingEncappedKey, XWingSharedSecret) kem" where
  "XWingDraft06 L S R =
     \<lparr> k_ID = XWing_ID, k_ENCAPPED_KEY_LEN = xw_CIPHERTEXT_SIZE L,
       k_PUBLIC_KEY_LEN = xw_ENCAPSULATION_KEY_SIZE L,
       k_PRIVATE_KEY_LEN = xw_DECAPSULATION_KEY_SIZE L, k_SHARED_SECRET_LEN = 32,
       k_pk_as_ref = xw_pk_bytes, k_enc_as_ref = xw_enc, k_ss_as_ref = xw_ss,
       k_sk_zeroize = (\<lambda>sk. Ok (XWingPrivateKey_zeroize sk)),
       k_generate = XWing_generate L R, k_derive_key_pair = XWing_derive_key_pair L S,
       k_encap = XWing_encap L, k_decap = XWing_decap L,
       k_pk_from_bytes = XWing_pk_from_bytes L, k_sk_from_bytes = XWing_sk_from_bytes L,
       k_enc_from_bytes = XWing_enc_from_bytes L,
       k_pk_to_bytes = XWing_pk_to_bytes, k_sk_to_bytes = XWing_sk_to_bytes \<rparr>"

subsection \<open>Correctness\<close>

text \<open>The halves that a constructor of the crate returns together.\<close>

definition XWing_pair ::
    "('r, 'dk, 'ek) x_wing_lib \<Rightarrow> 'dk XWingPrivateKey \<Rightarrow> 'ek XWingPublicKey \<Rightarrow> bool" where
  "XWing_pair L sk pk \<longleftrightarrow> length (xw_seed sk) = 32 \<and> (sk, pk) = keypair_from_seed L (xw_seed sk)"

lemma x_wing_lib_okD:
  assumes "x_wing_lib_ok L"
  shows "xw_CIPHERTEXT_SIZE L = 1120" "xw_ENCAPSULATION_KEY_SIZE L = 1216"
    "xw_DECAPSULATION_KEY_SIZE L = 32" "length (xw_ek_to_bytes L ek) = 1216"
    "xw_ek_try_from L (xw_ek_to_bytes L ek) = Some ek"
    "xw_decapsulate_slice L dk ct = None \<longleftrightarrow> length ct \<noteq> 1120"
    "xw_decapsulate_slice L dk ct = Some ss \<Longrightarrow> length ss = 32"
    "xw_encapsulate_with_rng L (xw_encapsulation_key L dk) r = ((ct, ss), r') \<Longrightarrow>
       xw_decapsulate_slice L dk ct = Some ss"
    "xw_encapsulate_with_rng L ek r = ((ct, ss), r') \<Longrightarrow> length ct = 1120"
    "xw_encapsulate_with_rng L ek r = ((ct, ss), r') \<Longrightarrow> length ss = 32"
  using assms unfolding x_wing_lib_ok_def by blast+

lemma XWing_pair_keypair: "length seed = 32 \<Longrightarrow> keypair_from_seed L seed = (sk, pk) \<Longrightarrow> XWing_pair L sk pk"
  by (auto simp: XWing_pair_def keypair_from_seed_def Let_def)

lemma XWing_decap_cases:
  assumes "x_wing_lib_ok L"
  shows "xw_dk sk = None \<Longrightarrow> XWing_decap L enc sk = Err DecapError"
    and "xw_dk sk = Some dk \<Longrightarrow> length (xw_enc enc) \<noteq> 1120 \<Longrightarrow>
         XWing_decap L enc sk = Err InvalidEncappedKey"
    and "xw_dk sk = Some dk \<Longrightarrow> xw_decapsulate_slice L dk (xw_enc enc) = Some ss \<Longrightarrow>
         XWing_decap L enc sk = Ok (XWingSharedSecret ss)"
  using x_wing_lib_okD(6,7) [OF assms, of dk "xw_enc enc"] by (auto simp: XWing_decap_def)

lemma XWing_encap_Ok:
  assumes "x_wing_lib_ok L"
    and "xw_encapsulate_with_rng L (xw_parsed pk) r = ((ct, ss), r')"
  shows "XWing_encap L r pk = (Ok (XWingSharedSecret ss, XWingEncappedKey ct), r')"
  using x_wing_lib_okD(10) [OF assms] assms(2) by (simp add: XWing_encap_def)

lemma XWing_decap_encap:
  assumes "x_wing_lib_ok L" and "XWing_pair L sk pk" and "XWing_encap L r pk = (Ok (ss, enc), r')"
  shows "XWing_decap L enc sk = Ok ss" and "XWing_enc_from_bytes L (xw_enc enc) = Ok enc"
proof -
  obtain ct s r'' where e: "xw_encapsulate_with_rng L (xw_parsed pk) r = ((ct, s), r'')"
    by (metis surj_pair)
  then have se: "ss = XWingSharedSecret s" "enc = XWingEncappedKey ct"
    using XWing_encap_Ok [OF assms(1) e] assms(3) by auto
  obtain dk where dk: "xw_dk sk = Some dk" "xw_parsed pk = xw_encapsulation_key L dk"
    using assms(2) by (auto simp: XWing_pair_def keypair_from_seed_def Let_def dest: arg_cong [of sk _ xw_dk]
        arg_cong [of pk _ xw_parsed])
  then have "xw_decapsulate_slice L dk ct = Some s"
    using x_wing_lib_okD(8) [OF assms(1)] e by simp
  with dk show "XWing_decap L enc sk = Ok ss"
    using XWing_decap_cases(3) [OF assms(1)] by (simp add: se)
  show "XWing_enc_from_bytes L (xw_enc enc) = Ok enc"
    using x_wing_lib_okD(1,9) [OF assms(1)] e by (simp add: XWing_enc_from_bytes_def se)
qed

lemma XWing_decap_no_panic:
  assumes "x_wing_lib_ok L" shows "XWing_decap L enc sk \<noteq> Panic"
  using x_wing_lib_okD(7) [OF assms] by (auto simp: XWing_decap_def outcome_simps split: if_splits)

lemma XWing_encap_no_panic:
  assumes "x_wing_lib_ok L" shows "fst (XWing_encap L r pk) \<noteq> Panic"
  using XWing_encap_Ok [OF assms] by (metis fst_conv outcome.distinct(3) surj_pair)

text \<open>Serialised keys load back to the same keys, caches included.\<close>

lemma XWing_sk_roundtrip:
  assumes "x_wing_lib_ok L" and "XWing_pair L sk pk"
  shows "XWing_sk_from_bytes L (xw_seed sk) = Ok sk" and "XWing_pk_from_bytes L (xw_pk_bytes pk) = Ok pk"
  using assms(2) x_wing_lib_okD(2,3,4,5) [OF assms(1)]
  by (auto simp: XWing_pair_def XWing_sk_from_bytes_def XWing_pk_from_bytes_def keypair_from_seed_def Let_def)

interpretation xwing: kem_contract "XWingDraft06 L S R" "XWing_pair L"
  "x_wing_lib_ok L \<and> shake_lib_ok S \<and> rng_ok R"
proof (unfold_locales)
  let ?K = "XWingDraft06 L S R"
  fix r sk pk r' ikm ss enc
  assume ok: "x_wing_lib_ok L \<and> shake_lib_ok S \<and> rng_ok R"
  show "XWing_pair L sk pk" if "k_generate ?K r = (Ok (sk, pk), r')"
    using that ok XWing_pair_keypair [of "fst (fill_bytes R r 32)" L sk pk]
    by (auto simp: XWingDraft06_def XWing_generate_def rng_ok_def split: prod.splits)
  show "XWing_pair L sk pk" if "k_derive_key_pair ?K ikm = Ok (sk, pk)"
    using that ok by (auto simp: XWingDraft06_def XWing_derive_key_pair_def derive_label_eq
        length_SHAKE256 intro!: XWing_pair_keypair)
  show "k_decap ?K enc sk = Ok ss" "k_enc_from_bytes ?K (k_enc_as_ref ?K enc) = Ok enc"
    if "XWing_pair L sk pk" "k_encap ?K r pk = (Ok (ss, enc), r')"
    using XWing_decap_encap [of L sk pk r ss enc r'] that ok by (simp_all add: XWingDraft06_def)
  show "fst (k_encap ?K r pk) \<noteq> Panic" and "k_decap ?K enc sk \<noteq> Panic"
    using ok by (simp_all add: XWingDraft06_def XWing_encap_no_panic XWing_decap_no_panic)
qed

end
