(* ===== verification/Hpke_Mlkem.thy ===== *)
theory Hpke_Mlkem
  imports Hpke_Pq
begin

text \<open>
  The macro \<open>ml_kem_variant!\<close> of \<open>src/kem/pq.rs\<close> and its two instances, ML-KEM-768
  and ML-KEM-1024. The macro parameters that are data are the record \<open>ml_kem_params\<close>;
  the types it takes come from the crate \<open>ml_kem\<close>, which is \<open>ml_kem_lib\<close>.
\<close>

section \<open>The crate \<open>ml_kem\<close>\<close>

text \<open>
  \<open>DecapsulationKey::from_seed\<close>, \<open>encapsulation_key\<close>, \<open>to_bytes\<close>, the
  conversion of a slice to the key array and \<open>EncapsulationKey::new\<close>, the conversion of
  a slice to the ciphertext array and back, \<open>encapsulate_with_rng\<close>, \<open>decapsulate\<close>.
\<close>

record ('r, 'dk, 'ek, 'ct, 'k) ml_kem_lib =
  mk_from_seed :: "bytes \<Rightarrow> 'dk"
  mk_encapsulation_key :: "'dk \<Rightarrow> 'ek"
  mk_ek_to_bytes :: "'ek \<Rightarrow> bytes"
  mk_key_try_from :: "bytes \<Rightarrow> 'k option"
  mk_ek_new :: "'k \<Rightarrow> 'ek option"
  mk_ct_try_from :: "bytes \<Rightarrow> 'ct option"
  mk_ct_to_vec :: "'ct \<Rightarrow> bytes"
  mk_encapsulate_with_rng :: "'ek \<Rightarrow> 'r \<Rightarrow> ('ct \<times> bytes) \<times> 'r"
  mk_decapsulate :: "'dk \<Rightarrow> 'ct \<Rightarrow> bytes"

text \<open>
  Documented behaviour for ciphertexts of \<open>nenc\<close> and encapsulation keys of \<open>npk\<close>
  bytes. The agreement of the two sides is the correctness of FIPS 203 with its failure
  probability (below 2 to the power -164) taken as zero.
\<close>

definition ml_kem_lib_ok :: "('r, 'dk, 'ek, 'ct, 'k) ml_kem_lib \<Rightarrow> nat \<Rightarrow> nat \<Rightarrow> bool" where
  "ml_kem_lib_ok L nenc npk \<longleftrightarrow>
     (\<forall>ek. length (mk_ek_to_bytes L ek) = npk
        \<and> Option.bind (mk_key_try_from L (mk_ek_to_bytes L ek)) (mk_ek_new L) = Some ek)
   \<and> (\<forall>b. mk_ct_try_from L b = None \<longleftrightarrow> length b \<noteq> nenc)
   \<and> (\<forall>ct. length (mk_ct_to_vec L ct) = nenc \<and> mk_ct_try_from L (mk_ct_to_vec L ct) = Some ct)
   \<and> (\<forall>dk ct. length (mk_decapsulate L dk ct) = 32)
   \<and> (\<forall>ek r ct ss r'. mk_encapsulate_with_rng L ek r = ((ct, ss), r') \<longrightarrow> length ss = 32)
   \<and> (\<forall>dk r ct ss r'. mk_encapsulate_with_rng L (mk_encapsulation_key L dk) r = ((ct, ss), r') \<longrightarrow>
        mk_decapsulate L dk ct = ss)"

section \<open>The macro\<close>

record ml_kem_params =
  mp_id :: u16
  mp_nenc :: nat
  mp_npk :: nat

record 'ek MlKemPublicKey =
  mk_pk_bytes :: bytes
  mk_parsed :: 'ek

record 'dk MlKemPrivateKey =
  mk_dk :: "'dk option"
  mk_seed :: bytes

datatype MlKemEncappedKey = MlKemEncappedKey (mk_enc: bytes)
datatype MlKemSharedSecret = MlKemSharedSecret (mk_ss: bytes)

definition MlKemPrivateKey_zeroize :: "'dk MlKemPrivateKey \<Rightarrow> 'dk MlKemPrivateKey" where
  "MlKemPrivateKey_zeroize sk = sk\<lparr>mk_seed := replicate 64 0, mk_dk := None\<rparr>"

definition MlKemSharedSecret_zeroize :: "MlKemSharedSecret \<Rightarrow> MlKemSharedSecret" where
  "MlKemSharedSecret_zeroize ss = MlKemSharedSecret (replicate 32 0)"

definition MlKemPrivateKey_drop :: "'dk MlKemPrivateKey \<Rightarrow> 'dk MlKemPrivateKey" where
  "MlKemPrivateKey_drop sk = MlKemPrivateKey_zeroize sk"

definition MlKemSharedSecret_drop :: "MlKemSharedSecret \<Rightarrow> MlKemSharedSecret" where
  "MlKemSharedSecret_drop ss = MlKemSharedSecret_zeroize ss"

definition ml_kem_from_seed ::
    "('r, 'dk, 'ek, 'ct, 'k) ml_kem_lib \<Rightarrow> bytes \<Rightarrow> 'dk MlKemPrivateKey \<times> 'ek MlKemPublicKey" where
  "ml_kem_from_seed L seed =
     (let dk = mk_from_seed L seed; ek = mk_encapsulation_key L dk; ek_bytes = mk_ek_to_bytes L ek
      in (\<lparr> mk_dk = Some dk, mk_seed = seed \<rparr>, \<lparr> mk_pk_bytes = ek_bytes, mk_parsed = ek \<rparr>))"

definition ml_kem_generate ::
    "('r, 'dk, 'ek, 'ct, 'k) ml_kem_lib \<Rightarrow> 'r rng \<Rightarrow> 'r \<Rightarrow>
     ('dk MlKemPrivateKey \<times> 'ek MlKemPublicKey) res \<times> 'r" where
  "ml_kem_generate L R rng =
     (case fill_bytes R rng 64 of (seed, rng') \<Rightarrow> (Ok (ml_kem_from_seed L seed), rng'))"

definition ml_kem_derive_key_pair ::
    "('r, 'dk, 'ek, 'ct, 'k) ml_kem_lib \<Rightarrow> ml_kem_params \<Rightarrow> ('h, 'x) shake_lib \<Rightarrow> bytes \<Rightarrow>
     ('dk MlKemPrivateKey \<times> 'ek MlKemPublicKey) res" where
  "ml_kem_derive_key_pair L P S ikm =
     try_bind (shake256_labeled_derive S (kem_suite_id (mp_id P)) DERIVE_KEY_PAIR_LABEL ikm 64)
       (\<lambda>seed. Ok (ml_kem_from_seed L seed))"

definition ml_kem_encap ::
    "('r, 'dk, 'ek, 'ct, 'k) ml_kem_lib \<Rightarrow> 'r \<Rightarrow> 'ek MlKemPublicKey \<Rightarrow>
     (MlKemSharedSecret \<times> MlKemEncappedKey) res \<times> 'r" where
  "ml_kem_encap L rng pk_r =
     (case mk_encapsulate_with_rng L (mk_parsed pk_r) rng of ((ct, ss), rng') \<Rightarrow>
       (try_bind (copy_into 0 32 ss (replicate 32 0)) (\<lambda>ss_bytes.
          Ok (MlKemSharedSecret ss_bytes, MlKemEncappedKey (mk_ct_to_vec L ct))), rng'))"

definition ml_kem_decap ::
    "('r, 'dk, 'ek, 'ct, 'k) ml_kem_lib \<Rightarrow> MlKemEncappedKey \<Rightarrow> 'dk MlKemPrivateKey \<Rightarrow>
     MlKemSharedSecret res" where
  "ml_kem_decap L enc sk_r =
     try_bind (ok_or DecapError (mk_dk sk_r)) (\<lambda>dk.
     try_bind (ok_or InvalidEncappedKey (mk_ct_try_from L (mk_enc enc))) (\<lambda>ct.
       let ss = mk_decapsulate L dk ct
       in try_bind (copy_into 0 32 ss (replicate 32 0)) (\<lambda>ss_bytes.
            Ok (MlKemSharedSecret ss_bytes))))"

definition ml_kem_pk_from_bytes ::
    "('r, 'dk, 'ek, 'ct, 'k) ml_kem_lib \<Rightarrow> ml_kem_params \<Rightarrow> bytes \<Rightarrow> 'ek MlKemPublicKey res" where
  "ml_kem_pk_from_bytes L P b =
     (if length b \<noteq> mp_npk P then Err InvalidPublicKey
      else try_bind (ok_or InvalidPublicKey (mk_key_try_from L b)) (\<lambda>ek_bytes.
           try_bind (ok_or InvalidPublicKey (mk_ek_new L ek_bytes)) (\<lambda>parsed.
             Ok \<lparr> mk_pk_bytes = b, mk_parsed = parsed \<rparr>)))"

definition ml_kem_sk_from_bytes ::
    "('r, 'dk, 'ek, 'ct, 'k) ml_kem_lib \<Rightarrow> bytes \<Rightarrow> 'dk MlKemPrivateKey res" where
  "ml_kem_sk_from_bytes L b =
     (if length b \<noteq> 64 then Err InvalidPrivateKey
      else try_bind (copy_into 0 64 b (replicate 64 0)) (\<lambda>seed.
           case ml_kem_from_seed L seed of (sk, _) \<Rightarrow> Ok sk))"

definition ml_kem_enc_from_bytes :: "ml_kem_params \<Rightarrow> bytes \<Rightarrow> MlKemEncappedKey res" where
  "ml_kem_enc_from_bytes P b =
     (if length b \<noteq> mp_nenc P then Err InvalidEncappedKey else Ok (MlKemEncappedKey b))"

definition ml_kem_pk_to_bytes :: "'ek MlKemPublicKey \<Rightarrow> bytes" where
  "ml_kem_pk_to_bytes pk = mk_pk_bytes pk"

definition ml_kem_sk_to_bytes :: "'dk MlKemPrivateKey \<Rightarrow> bytes" where
  "ml_kem_sk_to_bytes sk = mk_seed sk"

lemma ml_kem_to_bytes_eq [simp]: "ml_kem_pk_to_bytes = mk_pk_bytes" "ml_kem_sk_to_bytes = mk_seed"
  by (simp_all add: fun_eq_iff ml_kem_pk_to_bytes_def ml_kem_sk_to_bytes_def)

definition ml_kem_variant ::
    "('r, 'dk, 'ek, 'ct, 'k) ml_kem_lib \<Rightarrow> ml_kem_params \<Rightarrow> ('h, 'x) shake_lib \<Rightarrow> 'r rng \<Rightarrow>
     ('r, 'ek MlKemPublicKey, 'dk MlKemPrivateKey, MlKemEncappedKey, MlKemSharedSecret) kem" where
  "ml_kem_variant L P S R =
     \<lparr> k_ID = mp_id P, k_ENCAPPED_KEY_LEN = mp_nenc P, k_PUBLIC_KEY_LEN = mp_npk P,
       k_PRIVATE_KEY_LEN = 64, k_SHARED_SECRET_LEN = 32,
       k_pk_as_ref = mk_pk_bytes, k_enc_as_ref = mk_enc, k_ss_as_ref = mk_ss,
       k_sk_zeroize = (\<lambda>sk. Ok (MlKemPrivateKey_zeroize sk)),
       k_generate = ml_kem_generate L R, k_derive_key_pair = ml_kem_derive_key_pair L P S,
       k_encap = ml_kem_encap L, k_decap = ml_kem_decap L,
       k_pk_from_bytes = ml_kem_pk_from_bytes L P, k_sk_from_bytes = ml_kem_sk_from_bytes L,
       k_enc_from_bytes = ml_kem_enc_from_bytes P,
       k_pk_to_bytes = ml_kem_pk_to_bytes, k_sk_to_bytes = ml_kem_sk_to_bytes \<rparr>"

section \<open>The two parameter sets\<close>

definition params_768 :: ml_kem_params where
  "params_768 = \<lparr> mp_id = 0x0041, mp_nenc = 1088, mp_npk = 1184 \<rparr>"

definition params_1024 :: ml_kem_params where
  "params_1024 = \<lparr> mp_id = 0x0042, mp_nenc = 1568, mp_npk = 1568 \<rparr>"

definition MlKem768 ::
    "('r, 'dk, 'ek, 'ct, 'k) ml_kem_lib \<Rightarrow> ('h, 'x) shake_lib \<Rightarrow> 'r rng \<Rightarrow>
     ('r, 'ek MlKemPublicKey, 'dk MlKemPrivateKey, MlKemEncappedKey, MlKemSharedSecret) kem" where
  "MlKem768 L S R = ml_kem_variant L params_768 S R"

definition MlKem1024 ::
    "('r, 'dk, 'ek, 'ct, 'k) ml_kem_lib \<Rightarrow> ('h, 'x) shake_lib \<Rightarrow> 'r rng \<Rightarrow>
     ('r, 'ek MlKemPublicKey, 'dk MlKemPrivateKey, MlKemEncappedKey, MlKemSharedSecret) kem" where
  "MlKem1024 L S R = ml_kem_variant L params_1024 S R"

section \<open>Correctness\<close>

definition ml_kem_pair ::
    "('r, 'dk, 'ek, 'ct, 'k) ml_kem_lib \<Rightarrow> 'dk MlKemPrivateKey \<Rightarrow> 'ek MlKemPublicKey \<Rightarrow> bool" where
  "ml_kem_pair L sk pk \<longleftrightarrow> length (mk_seed sk) = 64 \<and> (sk, pk) = ml_kem_from_seed L (mk_seed sk)"

lemma ml_kem_lib_okD:
  assumes "ml_kem_lib_ok L nenc npk"
  shows "length (mk_ek_to_bytes L ek) = npk"
    "Option.bind (mk_key_try_from L (mk_ek_to_bytes L ek)) (mk_ek_new L) = Some ek"
    "mk_ct_try_from L b = None \<longleftrightarrow> length b \<noteq> nenc"
    "length (mk_ct_to_vec L ct) = nenc" "mk_ct_try_from L (mk_ct_to_vec L ct) = Some ct"
    "length (mk_decapsulate L dk ct) = 32"
    "mk_encapsulate_with_rng L ek r = ((ct, ss), r') \<Longrightarrow> length ss = 32"
    "mk_encapsulate_with_rng L (mk_encapsulation_key L dk) r = ((ct, ss), r') \<Longrightarrow>
       mk_decapsulate L dk ct = ss"
  using assms unfolding ml_kem_lib_ok_def by blast+

lemma ml_kem_pair_iff:
  "ml_kem_pair L sk pk \<longleftrightarrow> length (mk_seed sk) = 64 \<and>
     sk = \<lparr> mk_dk = Some (mk_from_seed L (mk_seed sk)), mk_seed = mk_seed sk \<rparr> \<and>
     mk_parsed pk = mk_encapsulation_key L (mk_from_seed L (mk_seed sk)) \<and>
     mk_pk_bytes pk = mk_ek_to_bytes L (mk_parsed pk)"
  by (cases pk) (auto simp: ml_kem_pair_def ml_kem_from_seed_def Let_def)

lemma ml_kem_pair_from_seed:
  "length seed = 64 \<Longrightarrow> ml_kem_from_seed L seed = (sk, pk) \<Longrightarrow> ml_kem_pair L sk pk"
  by (auto simp: ml_kem_pair_def ml_kem_from_seed_def Let_def)

lemma ml_kem_encap_Ok:
  assumes "ml_kem_lib_ok L nenc npk"
    and "mk_encapsulate_with_rng L (mk_parsed pk) r = ((ct, ss), r')"
  shows "ml_kem_encap L r pk = (Ok (MlKemSharedSecret ss, MlKemEncappedKey (mk_ct_to_vec L ct)), r')"
  using ml_kem_lib_okD(7) [OF assms] assms(2) by (simp add: ml_kem_encap_def)

text \<open>Every outcome of decapsulation, on any bytes and any state of the key.\<close>

lemma ml_kem_decap_cases:
  assumes "ml_kem_lib_ok L nenc npk"
  shows "ml_kem_decap L enc sk =
     (case mk_dk sk of None \<Rightarrow> Err DecapError
      | Some dk \<Rightarrow> (case mk_ct_try_from L (mk_enc enc) of None \<Rightarrow> Err InvalidEncappedKey
          | Some ct \<Rightarrow> Ok (MlKemSharedSecret (mk_decapsulate L dk ct))))"
  using ml_kem_lib_okD(6) [OF assms]
  by (simp add: ml_kem_decap_def split: option.splits)

lemma ml_kem_decap_encap:
  assumes "ml_kem_lib_ok L nenc npk" and "ml_kem_pair L sk pk"
    and "ml_kem_encap L r pk = (Ok (ss, enc), r')"
  shows "ml_kem_decap L enc sk = Ok ss" and "length (mk_enc enc) = nenc"
proof -
  obtain ct s r'' where e: "mk_encapsulate_with_rng L (mk_parsed pk) r = ((ct, s), r'')"
    by (metis surj_pair)
  then have se: "ss = MlKemSharedSecret s" "enc = MlKemEncappedKey (mk_ct_to_vec L ct)"
    using ml_kem_encap_Ok [OF assms(1) e] assms(3) by auto
  have dk: "mk_dk sk = Some (mk_from_seed L (mk_seed sk))"
      "mk_parsed pk = mk_encapsulation_key L (mk_from_seed L (mk_seed sk))"
    using assms(2) by (simp_all add: ml_kem_pair_def ml_kem_from_seed_def Let_def)
      (metis MlKemPrivateKey.select_convs(1))
  then show "ml_kem_decap L enc sk = Ok ss"
    using ml_kem_lib_okD(8) [OF assms(1)] ml_kem_lib_okD(5) [OF assms(1)] e
    by (simp add: ml_kem_decap_cases [OF assms(1)] se)
  show "length (mk_enc enc) = nenc"
    using ml_kem_lib_okD(4) [OF assms(1)] by (simp add: se)
qed

lemma ml_kem_no_panic:
  assumes "ml_kem_lib_ok L nenc npk"
  shows "ml_kem_decap L enc sk \<noteq> Panic" and "fst (ml_kem_encap L r pk) \<noteq> Panic"
proof -
  show "ml_kem_decap L enc sk \<noteq> Panic"
    by (simp add: ml_kem_decap_cases [OF assms] split: option.splits)
  show "fst (ml_kem_encap L r pk) \<noteq> Panic"
    using ml_kem_encap_Ok [OF assms] by (metis fst_conv outcome.distinct(3) surj_pair)
qed

text \<open>Serialised keys load back to the same keys, caches included.\<close>

lemma ml_kem_key_roundtrip:
  assumes "ml_kem_lib_ok L nenc (mp_npk P)" and "ml_kem_pair L sk pk"
  shows "ml_kem_sk_from_bytes L (mk_seed sk) = Ok sk"
    and "ml_kem_pk_from_bytes L P (mk_pk_bytes pk) = Ok pk"
proof -
  have len: "length (mk_seed sk) = 64" and eq: "ml_kem_from_seed L (mk_seed sk) = (sk, pk)"
    using assms(2) by (simp_all add: ml_kem_pair_def)
  then show "ml_kem_sk_from_bytes L (mk_seed sk) = Ok sk"
    by (simp add: ml_kem_sk_from_bytes_def)
  have "mk_pk_bytes pk = mk_ek_to_bytes L (mk_parsed pk)"
    using assms(2) by (simp add: ml_kem_pair_iff)
  then show "ml_kem_pk_from_bytes L P (mk_pk_bytes pk) = Ok pk"
    using ml_kem_lib_okD(1,2) [OF assms(1), of "mk_parsed pk"]
    by (cases pk; cases "mk_key_try_from L (mk_pk_bytes pk)") (auto simp: ml_kem_pk_from_bytes_def)
qed

lemma ml_kem_variant_contract:
  "kem_contract (ml_kem_variant L P S R) (ml_kem_pair L)
     (ml_kem_lib_ok L (mp_nenc P) (mp_npk P) \<and> shake_lib_ok S \<and> rng_ok R)"
proof (unfold_locales)
  let ?K = "ml_kem_variant L P S R"
  fix r sk pk r' ikm ss enc
  assume ok: "ml_kem_lib_ok L (mp_nenc P) (mp_npk P) \<and> shake_lib_ok S \<and> rng_ok R"
  show "ml_kem_pair L sk pk" if "k_generate ?K r = (Ok (sk, pk), r')"
    using that ok ml_kem_pair_from_seed [of "fst (fill_bytes R r 64)" L sk pk]
    by (auto simp: ml_kem_variant_def ml_kem_generate_def rng_ok_def split: prod.splits)
  show "ml_kem_pair L sk pk" if "k_derive_key_pair ?K ikm = Ok (sk, pk)"
    using that ok by (auto simp: ml_kem_variant_def ml_kem_derive_key_pair_def derive_label_eq
        length_SHAKE256 intro!: ml_kem_pair_from_seed)
  show "k_decap ?K enc sk = Ok ss" "k_enc_from_bytes ?K (k_enc_as_ref ?K enc) = Ok enc"
    if "ml_kem_pair L sk pk" "k_encap ?K r pk = (Ok (ss, enc), r')"
    using ml_kem_decap_encap [of L "mp_nenc P" "mp_npk P" sk pk r ss enc r'] that ok
    by (simp_all add: ml_kem_variant_def ml_kem_enc_from_bytes_def)
  show "fst (k_encap ?K r pk) \<noteq> Panic" and "k_decap ?K enc sk \<noteq> Panic"
    using ok ml_kem_no_panic [of L "mp_nenc P" "mp_npk P"] by (simp_all add: ml_kem_variant_def)
qed

interpretation mlkem768: kem_contract "MlKem768 L S R" "ml_kem_pair L"
  "ml_kem_lib_ok L 1088 1184 \<and> shake_lib_ok S \<and> rng_ok R"
  unfolding MlKem768_def
  using ml_kem_variant_contract [of L params_768 S R] by (simp add: params_768_def)

interpretation mlkem1024: kem_contract "MlKem1024 L S R" "ml_kem_pair L"
  "ml_kem_lib_ok L 1568 1568 \<and> shake_lib_ok S \<and> rng_ok R"
  unfolding MlKem1024_def
  using ml_kem_variant_contract [of L params_1024 S R] by (simp add: params_1024_def)

end
