(* ===== verification/Hpke_Suites.thy ===== *)
theory Hpke_Suites
  imports Hpke_Modes Hpke_Montgomery Hpke_Nist Hpke_Mlkem
begin

text \<open>
  The suites: the end-to-end contracts of \<open>Hpke_Modes\<close> for every KEM of the crate, each
  with one KDF and one AEAD, and streams of messages over a channel that setup created.
\<close>

section \<open>Building a suite from its parts\<close>

lemma kem_contract_mono:
  "kem_contract K pair l \<Longrightarrow> (l' \<Longrightarrow> l) \<Longrightarrow> kem_contract K pair l'"
  unfolding kem_contract_def by (cases l') simp_all

lemma auth_kem_contract_mono:
  "auth_kem_contract K pair l \<Longrightarrow> (l' \<Longrightarrow> l) \<Longrightarrow> auth_kem_contract K pair l'"
  unfolding auth_kem_contract_def auth_kem_contract_axioms_def
  using kem_contract_mono [of K pair l l'] by (cases l') simp_all

lemma hpke_sealing_suite_intro:
  assumes "kem_contract K pair l" and "kdf_contract F l'" and "sealing_aead_contract A l'' p_max"
  shows "hpke_sealing_suite K pair F A (l \<and> l' \<and> l'') p_max"
proof -
  have "aead_contract A l''" using assms(3) by (simp add: sealing_aead_contract_def)
  then have "key_schedule_suite F A (l' \<and> l'')" using assms(2) by (intro key_schedule_suite_intro)
  with assms show ?thesis
    by (simp add: hpke_sealing_suite_def hpke_suite_def key_schedule_suite_def kem_contract_mono
        kdf_contract_mono aead_contract_mono sealing_aead_contract_mono)
qed

lemma hpke_auth_sealing_suite_intro:
  assumes "auth_kem_contract K pair l" and "kdf_contract F l'" and "sealing_aead_contract A l'' p_max"
  shows "hpke_auth_sealing_suite K pair F A (l \<and> l' \<and> l'') p_max"
proof -
  have "kem_contract K pair l" using assms(1) by (simp add: auth_kem_contract_def)
  from hpke_sealing_suite_intro [OF this assms(2,3)] assms(1) show ?thesis
    by (simp add: hpke_auth_sealing_suite_def hpke_auth_suite_def hpke_sealing_suite_def
        auth_kem_contract_mono)
qed

section \<open>Streams over a fresh channel\<close>

context hpke_sealing_suite
begin

lemma stream_base:
  assumes "lawful" and "pair sk pk" and "setup_sender_base K F A r pk info = (Ok (enc, tx), r')"
    and "\<And>aad pt. (aad, pt) \<in> set ms \<Longrightarrow> length aad \<le> p_max \<and> length pt \<le> p_max"
    and "length ms < 2 ^ 64"
  shows "\<exists>cts rx tx' rx'. seal_run A tx ms = (map Ok cts, tx')
     \<and> setup_receiver_base K F A enc sk info = Ok rx
     \<and> open_run A rx (zip (map fst ms) cts) = (map (Ok \<circ> snd) ms, rx')"
proof -
  obtain ctx where tx: "tx = SenderContext ctx" by (cases tx)
  have wf: "context_wf ctx" and seq0: "seq ctx = 0"
    using setup_base_fresh [OF assms(1,3)] by (simp_all add: tx)
  have "unat (seq ctx) + length ms < 2 ^ 64" using assms(5) seq0 by simp
  from aead.stream_total [OF assms(1) wf assms(4) this] obtain cts ctx'
    where run: "seal_run A (SenderContext ctx) ms = (map Ok cts, SenderContext ctx')" by blast
  from setup_base_agree [OF assms(1-3)]
  have "setup_receiver_base K F A enc sk info = Ok (ReceiverContext ctx)" by (simp add: tx)
  with run aead.stream [OF assms(1) wf run] show ?thesis unfolding tx by blast
qed

end

section \<open>One suite per KEM\<close>

interpretation x25519_suite: hpke_auth_sealing_suite "DhKem (X25519 L H R)"
  "DhKem_pair (X25519 L H R) (x25519_pair L)" "HkdfSha256 G" "ChaCha20Poly1305 C"
  "(x25519_lib_ok L \<and> hkdf_lib_ok H 32 \<and> rng_ok R) \<and> hkdf_lib_ok G 32 \<and> aead_lib_ok C 32 p_max" p_max
  by (rule hpke_auth_sealing_suite_intro)
    (rule x25519.kem.auth_kem_contract_axioms sha256.kdf_contract_axioms
      chacha.sealing_aead_contract_axioms)+

interpretation x448_suite: hpke_auth_sealing_suite "DhKem (X448 L H R)"
  "DhKem_pair (X448 L H R) (x448_pair L)" "HkdfSha512 G" "Aes256Gcm C"
  "(x448_lib_ok L \<and> hkdf_lib_ok H 64 \<and> rng_ok R) \<and> hkdf_lib_ok G 64 \<and> aead_lib_ok C 32 p_max" p_max
  by (rule hpke_auth_sealing_suite_intro)
    (rule x448.kem.auth_kem_contract_axioms sha512.kdf_contract_axioms
      aes256.sealing_aead_contract_axioms)+

interpretation p256_suite: hpke_auth_sealing_suite "DhKem (P256 L H)"
  "DhKem_pair (P256 L H) (nist_pair L)" "HkdfSha256 G" "Aes128Gcm C"
  "(ec_lib_ok L 32 \<and> hkdf_lib_ok H 32) \<and> hkdf_lib_ok G 32 \<and> aead_lib_ok C 16 p_max" p_max
  by (rule hpke_auth_sealing_suite_intro)
    (rule p256.kem.auth_kem_contract_axioms sha256.kdf_contract_axioms
      aes128.sealing_aead_contract_axioms)+

interpretation p384_suite: hpke_auth_sealing_suite "DhKem (P384 L H)"
  "DhKem_pair (P384 L H) (nist_pair L)" "HkdfSha384 G" "Aes256Gcm C"
  "(ec_lib_ok L 48 \<and> hkdf_lib_ok H 48) \<and> hkdf_lib_ok G 48 \<and> aead_lib_ok C 32 p_max" p_max
  by (rule hpke_auth_sealing_suite_intro)
    (rule p384.kem.auth_kem_contract_axioms sha384.kdf_contract_axioms
      aes256.sealing_aead_contract_axioms)+

interpretation p521_suite: hpke_auth_sealing_suite "DhKem (P521 L H)"
  "DhKem_pair (P521 L H) (nist_pair L)" "HkdfSha512 G" "Aes256Gcm C"
  "(ec_lib_ok L 66 \<and> hkdf_lib_ok H 64) \<and> hkdf_lib_ok G 64 \<and> aead_lib_ok C 32 p_max" p_max
  by (rule hpke_auth_sealing_suite_intro)
    (rule p521.kem.auth_kem_contract_axioms sha512.kdf_contract_axioms
      aes256.sealing_aead_contract_axioms)+

interpretation k256_suite: hpke_auth_sealing_suite "DhKem (K256 L H)"
  "DhKem_pair (K256 L H) (nist_pair L)" "HkdfSha256 G" "ChaCha20Poly1305 C"
  "(ec_lib_ok L 32 \<and> hkdf_lib_ok H 32) \<and> hkdf_lib_ok G 32 \<and> aead_lib_ok C 32 p_max" p_max
  by (rule hpke_auth_sealing_suite_intro)
    (rule k256.kem.auth_kem_contract_axioms sha256.kdf_contract_axioms
      chacha.sealing_aead_contract_axioms)+

interpretation xwing_suite: hpke_sealing_suite "XWingDraft06 L S R" "XWing_pair L"
  "HkdfSha256 G" "ChaCha20Poly1305 C"
  "(x_wing_lib_ok L \<and> shake_lib_ok S \<and> rng_ok R) \<and> hkdf_lib_ok G 32 \<and> aead_lib_ok C 32 p_max" p_max
  by (rule hpke_sealing_suite_intro)
    (rule xwing.kem_contract_axioms sha256.kdf_contract_axioms
      chacha.sealing_aead_contract_axioms)+

interpretation mlkem768_suite: hpke_sealing_suite "MlKem768 L S R" "ml_kem_pair L"
  "HkdfSha256 G" "Aes128Gcm C"
  "(ml_kem_lib_ok L 1088 1184 \<and> shake_lib_ok S \<and> rng_ok R) \<and> hkdf_lib_ok G 32
     \<and> aead_lib_ok C 16 p_max" p_max
  by (rule hpke_sealing_suite_intro)
    (rule mlkem768.kem_contract_axioms sha256.kdf_contract_axioms
      aes128.sealing_aead_contract_axioms)+

interpretation mlkem1024_suite: hpke_sealing_suite "MlKem1024 L S R" "ml_kem_pair L"
  "HkdfSha512 G" "Aes256Gcm C"
  "(ml_kem_lib_ok L 1568 1568 \<and> shake_lib_ok S \<and> rng_ok R) \<and> hkdf_lib_ok G 64
     \<and> aead_lib_ok C 32 p_max" p_max
  by (rule hpke_sealing_suite_intro)
    (rule mlkem1024.kem_contract_axioms sha512.kdf_contract_axioms
      aes256.sealing_aead_contract_axioms)+

section \<open>All registered algorithms\<close>

text \<open>
  The algorithms of one type, as a set, so that one statement covers all of them. The
  hypothesis on a library is taken at the key, hash or field length of the algorithm.
  \<open>registered_aeads\<close> holds the three ciphers that seal. \<open>ExportOnly\<close>, the fourth
  registered AEAD, has no cipher state and another type; statements that do not seal are made of it
  beside them, without a hypothesis on a library.
\<close>

definition registered_kdfs :: "('x, 'h) hkdf_lib \<Rightarrow> kdf set" where
  "registered_kdfs G = {HkdfSha256 G, HkdfSha384 G, HkdfSha512 G}"

definition registered_aeads :: "('c, 'n) aead_lib \<Rightarrow> 'c sealing_aead set" where
  "registered_aeads C = {ChaCha20Poly1305 C, Aes128Gcm C, Aes256Gcm C}"

definition registered_nist ::
    "('r, 's, 'p) ec_lib \<Rightarrow> ('x, 'h) hkdf_lib \<Rightarrow> ('r, 'p nist_pk, 's nist_sk) dh set" where
  "registered_nist L H = {P256 L H, P384 L H, P521 L H, K256 L H}"

definition registered_ml_kems :: "ml_kem_params set" where
  "registered_ml_kems = {params_768, params_1024}"

lemma registered_kdf_contract:
  assumes "F \<in> registered_kdfs G" and "hkdf_lib_ok G (f_HASH_LEN F)"
  shows "kdf_contract F True"
proof -
  from assms(1) consider "F = HkdfSha256 G" | "F = HkdfSha384 G" | "F = HkdfSha512 G"
    by (auto simp: registered_kdfs_def)
  then show ?thesis
    by cases (use assms(2) kdf_contract_mono [OF sha256.kdf_contract_axioms]
        kdf_contract_mono [OF sha384.kdf_contract_axioms]
        kdf_contract_mono [OF sha512.kdf_contract_axioms] in \<open>simp_all add: const_simps\<close>)
qed

lemma registered_aead_lawful:
  assumes "A \<in> registered_aeads C"
  shows "sealing_aead_contract A (aead_lib_ok C (a_KEY_LEN A) p_max) p_max"
proof -
  from assms consider "A = ChaCha20Poly1305 C" | "A = Aes128Gcm C" | "A = Aes256Gcm C"
    by (auto simp: registered_aeads_def)
  then show ?thesis
    by cases (use chacha.sealing_aead_contract_axioms aes128.sealing_aead_contract_axioms
        aes256.sealing_aead_contract_axioms in \<open>simp_all add: const_simps\<close>)
qed

lemma registered_aead_contract:
  assumes "A \<in> registered_aeads C" and "aead_lib_ok C (a_KEY_LEN A) p_max"
  shows "sealing_aead_contract A True p_max"
  using registered_aead_lawful [OF assms(1), of p_max] assms(2) by simp

lemma registered_aead_nonce: "A \<in> registered_aeads C \<Longrightarrow> a_NONCE_LEN A = 12 \<and> a_TAG_LEN A = 16"
  by (auto simp: registered_aeads_def const_simps)

lemma dh_contract_mono:
  assumes "dh_contract D l pair" and "l"
  shows "dh_contract D True pair"
  using assms by simp

lemma registered_nist_contract:
  assumes "D \<in> registered_nist L H" and "ec_lib_ok L (d_PRIVATE_KEY_LEN D)"
    and "hkdf_lib_ok H (f_HASH_LEN (d_Kdf D))"
  shows "dh_contract D True (nist_pair L)"
proof -
  note nist_consts = P256_def P384_def P521_def K256_def nist_simps const_simps
  from assms(1) consider "D = P256 L H" | "D = P384 L H" | "D = P521 L H" | "D = K256 L H"
    by (auto simp: registered_nist_def)
  then show ?thesis
  proof cases
    case 1
    with assms(2,3) have "ec_lib_ok L 32 \<and> hkdf_lib_ok H 32" by (simp add: nist_consts)
    with p256.dh_contract_axioms show ?thesis unfolding 1 by (rule dh_contract_mono)
  next
    case 2
    with assms(2,3) have "ec_lib_ok L 48 \<and> hkdf_lib_ok H 48" by (simp add: nist_consts)
    with p384.dh_contract_axioms show ?thesis unfolding 2 by (rule dh_contract_mono)
  next
    case 3
    with assms(2,3) have "ec_lib_ok L 66 \<and> hkdf_lib_ok H 64" by (simp add: nist_consts)
    with p521.dh_contract_axioms show ?thesis unfolding 3 by (rule dh_contract_mono)
  next
    case 4
    with assms(2,3) have "ec_lib_ok L 32 \<and> hkdf_lib_ok H 32" by (simp add: nist_consts)
    with k256.dh_contract_axioms show ?thesis unfolding 4 by (rule dh_contract_mono)
  qed
qed

lemma x25519_contract_True:
  "x25519_lib_ok L \<Longrightarrow> hkdf_lib_ok H 32 \<Longrightarrow> rng_ok R \<Longrightarrow>
   dh_contract (X25519 L H R) True (x25519_pair L)"
  by (rule dh_contract_mono [OF x25519.dh_contract_axioms]) simp

lemma x448_contract_True:
  "x448_lib_ok L \<Longrightarrow> hkdf_lib_ok H 64 \<Longrightarrow> rng_ok R \<Longrightarrow>
   dh_contract (X448 L H R) True (x448_pair L)"
  by (rule dh_contract_mono [OF x448.dh_contract_axioms]) simp

lemma dhkem_auth_kem_contract:
  "dh_contract D True pair \<Longrightarrow> auth_kem_contract (DhKem D) (DhKem_pair D pair) True"
  by (rule dh_contract.auth_kem)

text \<open>Any DHKEM with any registered KDF and AEAD.\<close>

lemma dhkem_suite:
  assumes "dh_contract D True pair" and "F \<in> registered_kdfs G" and "hkdf_lib_ok G (f_HASH_LEN F)"
    and "A \<in> registered_aeads C" and "aead_lib_ok C (a_KEY_LEN A) p_max"
  shows "hpke_auth_sealing_suite (DhKem D) (DhKem_pair D pair) F A True p_max"
  using hpke_auth_sealing_suite_intro [of "DhKem D" "DhKem_pair D pair" True F True A True p_max]
    dhkem_auth_kem_contract [OF assms(1)]
    registered_kdf_contract [OF assms(2,3)] registered_aead_contract [OF assms(4,5)] by simp

text \<open>Any KEM that keeps the contract of the unauthenticated modes.\<close>

lemma kem_suite:
  assumes "kem_contract K pair l" and l: "l" and "F \<in> registered_kdfs G"
    and "hkdf_lib_ok G (f_HASH_LEN F)" and "A \<in> registered_aeads C"
    and "aead_lib_ok C (a_KEY_LEN A) p_max"
  shows "hpke_sealing_suite K pair F A True p_max"
  using hpke_sealing_suite_intro [of K pair l F True A True p_max] assms(1) l
    registered_kdf_contract [OF assms(3,4)] registered_aead_contract [OF assms(5,6)] by simp

lemma key_schedule_registered:
  assumes "F \<in> registered_kdfs G" and "hkdf_lib_ok G (f_HASH_LEN F)"
    and "A \<in> registered_aeads C" and "aead_lib_ok C (a_KEY_LEN A) p_max"
  shows "key_schedule_suite F A True"
  using registered_kdf_contract [OF assms(1,2)] registered_aead_contract [OF assms(3,4)]
  by (simp add: key_schedule_suite_def sealing_aead_contract_def)

lemma key_schedule_export_only:
  assumes "F \<in> registered_kdfs G" and "hkdf_lib_ok G (f_HASH_LEN F)"
  shows "key_schedule_suite F ExportOnly True"
  using registered_kdf_contract [OF assms] export_only.aead_contract_axioms
  by (simp add: key_schedule_suite_def)

text \<open>Keys as they come out of the crate, as pairs of the KEM contract.\<close>

lemma dhkem_made_pair:
  assumes "dh_contract D True pair"
    and "DhKem_generate D r0 = (Ok (sk, pk), r1) \<or> DhKem_derive_key_pair D ikm = Ok (sk, pk)"
  shows "DhKem_pair D pair sk pk"
  using dh_contract.made_key_pair [OF assms(1) TrueI assms(2)]
  by (simp add: dh_contract.DhKem_pair_eq [OF assms(1)])

end
