(* ===== verification/Hpke_Instances.thy ===== *)
theory Hpke_Instances
  imports Hpke_Suites
begin

text \<open>
  The hypotheses on third-party code are satisfiable: one small executable instance of every
  library interface, with the proof that it behaves as documented. The instances have no
  cryptographic strength; they let the witnesses run the model on concrete inputs.
\<close>

section \<open>A checksum in place of a hash\<close>

definition checksum :: "bytes \<Rightarrow> u8" where
  "checksum b = (if b = [] then 0 else hd b + last b)"

definition toy_hkdf :: "nat \<Rightarrow> (bytes, bytes) hkdf_lib" where
  "toy_hkdf nh =
     \<lparr> hx_new = (\<lambda>salt. salt), hx_input_ikm = (\<lambda>x ikm. x @ ikm),
       hx_finalize = (\<lambda>x. replicate nh (checksum x)),
       hk_from_prk = (\<lambda>prk. if length prk < nh then None else Some prk),
       hk_expand_multi_info = (\<lambda>h infos n. if 255 * nh < n then None
          else Some (replicate n (checksum h + checksum (concat infos)))) \<rparr>"

lemma foldl_append: "foldl (@) x ps = x @ concat ps"
  by (induction ps arbitrary: x) simp_all

lemma toy_hkdf_ok: "hkdf_lib_ok (toy_hkdf nh) nh"
  by (auto simp: hkdf_lib_ok_def toy_hkdf_def foldl_append split: if_splits)

definition toy_shake :: "(bytes, bytes) shake_lib" where
  "toy_shake =
     \<lparr> sh_default = [], sh_update = (\<lambda>h b. h @ b), sh_finalize_xof = (\<lambda>h. h),
       sh_read = (\<lambda>x n. replicate n (checksum x)) \<rparr>"

lemma toy_shake_ok: "shake_lib_ok toy_shake"
  by (simp add: shake_lib_ok_def toy_shake_def foldl_append)

section \<open>A generator that counts\<close>

definition toy_rng :: "nat rng" where
  "toy_rng = \<lparr> fill_bytes = (\<lambda>r n. (replicate n (word_of_nat r), Suc r)) \<rparr>"

lemma toy_rng_ok: "rng_ok toy_rng"
  by (simp add: rng_ok_def toy_rng_def)

section \<open>A cipher that appends a tag\<close>

definition toy_tag :: "bytes \<Rightarrow> bytes \<Rightarrow> bytes \<Rightarrow> bytes \<Rightarrow> bytes" where
  "toy_tag c n m a = replicate 16 (checksum c + checksum n + checksum m + checksum a)"

definition toy_aead :: "nat \<Rightarrow> (bytes, bytes) aead_lib" where
  "toy_aead nk =
     \<lparr> al_new_from_slice = (\<lambda>key. if length key = nk then Some key else None),
       al_nonce_try_from = (\<lambda>b. if length b = 12 then Some b else None),
       al_encrypt = (\<lambda>c n p. Some (msg p @ toy_tag c n (msg p) (aad_of p))),
       al_decrypt = (\<lambda>c n p. let m = take (length (msg p) - 16) (msg p) in
          if msg p = m @ toy_tag c n m (aad_of p) then Some m else None) \<rparr>"

lemma toy_aead_ok: "aead_lib_ok (toy_aead nk) nk p_max"
  by (simp add: aead_lib_ok_def toy_aead_def toy_tag_def Let_def)

section \<open>Groups\<close>

definition pad :: "nat \<Rightarrow> bytes \<Rightarrow> bytes" where
  "pad n b = take n (b @ replicate n 0)"

lemma length_pad [simp]: "length (pad n b) = n"
  by (simp add: pad_def)

lemma pad_id: "length b = n \<Longrightarrow> pad n b = b"
  by (simp add: pad_def)

definition add_bytes :: "bytes \<Rightarrow> bytes \<Rightarrow> bytes" where
  "add_bytes a b = map2 (+) a b"

lemma add_bytes_comm: "add_bytes a b = add_bytes b a"
  unfolding add_bytes_def by (subst zip_commute) (auto simp: add.commute)

definition toy_x25519_pk :: "bytes \<Rightarrow> bytes" where
  "toy_x25519_pk s = (pad 32 s)[31 := pad 32 s ! 31 AND 0x7F]"

definition toy_x25519 :: "bytes x25519_lib" where
  "toy_x25519 =
     \<lparr> xs_from = (\<lambda>b. b), xs_to_bytes = (\<lambda>s. s), xp_from = toy_x25519_pk,
       xs_diffie_hellman = (\<lambda>s p. add_bytes (toy_x25519_pk s) p), x_ct_eq = (=) \<rparr>"

lemma toy_x25519_ok: "x25519_lib_ok toy_x25519"
  by (simp add: x25519_lib_ok_def toy_x25519_def toy_x25519_pk_def add_bytes_comm and.assoc)

definition toy_x448 :: "(bytes, bytes) x448_lib" where
  "toy_x448 =
     \<lparr> ed_scalar_from_le = (\<lambda>b. b), mont_GENERATOR = replicate 56 0, mont_point = (\<lambda>b. b),
       mont_mul = (\<lambda>p s. add_bytes p (pad 56 s)), mont_as_bytes = pad 56,
       x4_ct_eq = (=) \<rparr>"

lemma add_bytes_zero: "length b = n \<Longrightarrow> add_bytes b (replicate n 0) = b"
  unfolding add_bytes_def by (induction b arbitrary: n) auto

lemma length_add_bytes [simp]: "length (add_bytes a b) = min (length a) (length b)"
  by (simp add: add_bytes_def)

lemma toy_x448_ok: "x448_lib_ok toy_x448"
  unfolding x448_lib_ok_def toy_x448_def
  by (simp add: pad_id add_bytes_comm [of "replicate 56 0"] add_bytes_zero) (metis add_bytes_comm)

text \<open>Scalars and points are single bytes, encoded in the last position.\<close>

definition toy_ec :: "nat \<Rightarrow> (nat, u8, u8) ec_lib" where
  "toy_ec nsk =
     \<lparr> ec_generate_from_rng = (\<lambda>r. (word_of_nat (2 * r + 1), Suc r)),
       ec_public_key = (\<lambda>s. s),
       ec_from_slice = (\<lambda>b. if b = replicate (nsk - 1) 0 @ [last b] then Some (last b) else None),
       ec_to_bytes = (\<lambda>s. replicate (nsk - 1) 0 @ [s]),
       ec_diffie_hellman = (\<lambda>s p. replicate nsk (s * p)),
       ec_from_sec1_bytes = (\<lambda>b. if b = 4 # replicate (2 * nsk - 1) 0 @ [last b]
          then Some (last b) else None),
       ec_to_sec1_uncompressed = (\<lambda>p. 4 # replicate (2 * nsk - 1) 0 @ [p]),
       ec_ct_eq = (=) \<rparr>"

lemma replicate_last_one: "(replicate (Suc n) x)[n := y] = replicate n x @ [y]"
  by (induction n) simp_all

lemma toy_ec_ok: "0 < nsk \<Longrightarrow> ec_lib_ok (toy_ec nsk) nsk"
  by (cases nsk) (simp_all add: ec_lib_ok_def toy_ec_def mult.commute replicate_last_one
      del: replicate_Suc)

section \<open>Post-quantum KEMs\<close>

definition toy_x_wing :: "(nat, u8, u8) x_wing_lib" where
  "toy_x_wing =
     \<lparr> xw_CIPHERTEXT_SIZE = 1120, xw_ENCAPSULATION_KEY_SIZE = 1216,
       xw_DECAPSULATION_KEY_SIZE = 32, xw_from_seed = checksum, xw_encapsulation_key = (\<lambda>dk. dk),
       xw_ek_to_bytes = replicate 1216,
       xw_ek_try_from = (\<lambda>b. Some (hd b)),
       xw_encapsulate_with_rng = (\<lambda>ek r.
          ((replicate 1120 (word_of_nat r), replicate 32 (ek + word_of_nat r)), Suc r)),
       xw_decapsulate_slice = (\<lambda>dk ct.
          if length ct = 1120 then Some (replicate 32 (dk + hd ct)) else None) \<rparr>"

lemma toy_x_wing_ok: "x_wing_lib_ok toy_x_wing"
  by (auto simp: x_wing_lib_ok_def toy_x_wing_def split: if_splits)

definition toy_ml_kem :: "nat \<Rightarrow> nat \<Rightarrow> (nat, u8, u8, u8, bytes) ml_kem_lib" where
  "toy_ml_kem nenc npk =
     \<lparr> mk_from_seed = checksum, mk_encapsulation_key = (\<lambda>dk. dk),
       mk_ek_to_bytes = replicate npk,
       mk_key_try_from = (\<lambda>b. if length b = npk then Some b else None),
       mk_ek_new = (\<lambda>b. Some (hd b)),
       mk_ct_try_from = (\<lambda>b. if length b = nenc then Some (hd b) else None),
       mk_ct_to_vec = replicate nenc,
       mk_encapsulate_with_rng = (\<lambda>ek r.
          ((word_of_nat r, replicate 32 (ek + word_of_nat r)), Suc r)),
       mk_decapsulate = (\<lambda>dk ct. replicate 32 (dk + ct)) \<rparr>"

lemma toy_ml_kem_ok: "0 < nenc \<Longrightarrow> 0 < npk \<Longrightarrow> ml_kem_lib_ok (toy_ml_kem nenc npk) nenc npk"
  by (simp add: ml_kem_lib_ok_def toy_ml_kem_def)

lemmas toy_ok = toy_hkdf_ok toy_shake_ok toy_rng_ok toy_aead_ok toy_x25519_ok toy_x448_ok
  toy_ec_ok toy_x_wing_ok toy_ml_kem_ok

end
