(* ===== verification/Hpke_Rfc9180.thy ===== *)
theory Hpke_Rfc9180
  imports Hpke_Key_Schedule
begin

text \<open>
  The abstract specification: the pseudo-code of RFC 9180, sections 4, 5.1, 5.2 and 5.3,
  over concatenated byte strings and natural numbers, with none of the crate's slot arrays,
  piecewise hashing, fixed buffers or 64-bit counter. The lemmas show that the code computes
  it.
\<close>

section \<open>Encodings\<close>

text \<open>\<open>I2OSP(n, w)\<close>: big-endian, \<open>w\<close> bytes.\<close>

definition i2osp :: "nat \<Rightarrow> nat \<Rightarrow> bytes" where
  "i2osp n w = map (\<lambda>i. word_of_nat (n div 256 ^ i)) (rev [0..<w])"

lemma length_i2osp [simp]: "length (i2osp n w) = w"
  by (simp add: i2osp_def)

lemma to_be_bytes_i2osp:
  "to_be_bytes (w :: 'a::len word) = i2osp (unat w) (LENGTH('a) div 8)"
proof -
  have "(ucast (drop_bit (8 * i) w) :: u8) = word_of_nat (unat w div 256 ^ i)" for i
  proof -
    have "unat (drop_bit (8 * i) w) = unat w div 256 ^ i"
      by (simp only: unat_drop_bit_eq) (simp add: drop_bit_eq_div power_mult)
    then show ?thesis
      by (metis of_nat_unat)
  qed
  then show ?thesis
    by (simp add: to_be_bytes_def i2osp_def)
qed

lemma i2osp_pad:
  assumes "n < 256 ^ w"
  shows "i2osp n (k + w) = replicate k 0 @ i2osp n w"
proof -
  have "rev [0..<k + w] = rev [w..<k + w] @ rev [0..<w]"
    by (metis add.commute le_add2 le_add_same_cancel2 rev_append upt_add_eq_append zero_le)
  moreover have "map (\<lambda>i. word_of_nat (n div 256 ^ i) :: u8) (rev [w..<k + w]) = replicate k 0"
  proof (rule replicate_eqI)
    fix y assume "y \<in> set (map (\<lambda>i. word_of_nat (n div 256 ^ i) :: u8) (rev [w..<k + w]))"
    then obtain i where i: "w \<le> i" "y = word_of_nat (n div 256 ^ i)"
      by auto
    have "n < 256 ^ i"
      using assms i(1) by (meson less_le_trans one_le_numeral power_increasing)
    with i(2) show "y = 0" by simp
  qed simp
  ultimately show ?thesis
    by (simp add: i2osp_def)
qed

section \<open>Section 4: labelled derivations\<close>

definition rfc_LabeledExtract :: "kdf \<Rightarrow> bytes \<Rightarrow> bytes \<Rightarrow> bytes \<Rightarrow> bytes \<Rightarrow> bytes" where
  "rfc_LabeledExtract F salt suite_id label ikm =
     f_extract F salt [ascii ''HPKE-v1'' @ suite_id @ label @ ikm]"

definition rfc_LabeledExpand :: "kdf \<Rightarrow> bytes \<Rightarrow> bytes \<Rightarrow> bytes \<Rightarrow> bytes \<Rightarrow> nat \<Rightarrow> bytes res" where
  "rfc_LabeledExpand F prk suite_id label info L =
     f_expand F prk [i2osp L 2 @ ascii ''HPKE-v1'' @ suite_id @ label @ info] L"

section \<open>Section 5.1: key schedule\<close>

datatype rfc_mode = mode_base | mode_psk | mode_auth | mode_auth_psk

fun rfc_mode_byte :: "rfc_mode \<Rightarrow> u8" where
  "rfc_mode_byte mode_base = 0"
| "rfc_mode_byte mode_psk = 1"
| "rfc_mode_byte mode_auth = 2"
| "rfc_mode_byte mode_auth_psk = 3"

text \<open>\<open>VerifyPSKInputs\<close>: whether it passes.\<close>

definition rfc_VerifyPSKInputs :: "rfc_mode \<Rightarrow> bytes \<Rightarrow> bytes \<Rightarrow> bool" where
  "rfc_VerifyPSKInputs mode psk pid =
     (let got_psk = (psk \<noteq> []); got_psk_id = (pid \<noteq> []) in
      if got_psk \<noteq> got_psk_id then False
      else if got_psk \<and> (mode = mode_base \<or> mode = mode_auth) then False
      else if \<not> got_psk \<and> (mode = mode_psk \<or> mode = mode_auth_psk) then False
      else True)"

record rfc_context =
  rfc_key :: bytes
  rfc_base_nonce :: bytes
  rfc_seq :: nat
  rfc_exporter_secret :: bytes

definition rfc_KeySchedule ::
    "kdf \<Rightarrow> bytes \<Rightarrow> nat \<Rightarrow> nat \<Rightarrow> rfc_mode \<Rightarrow> bytes \<Rightarrow> bytes \<Rightarrow> bytes \<Rightarrow> bytes \<Rightarrow>
     rfc_context res" where
  "rfc_KeySchedule F suite_id Nk Nn mode shared_secret info psk pid =
     (if \<not> rfc_VerifyPSKInputs mode psk pid then Err InconsistentPsk
      else let psk_id_hash = rfc_LabeledExtract F [] suite_id (ascii ''psk_id_hash'') pid;
               info_hash = rfc_LabeledExtract F [] suite_id (ascii ''info_hash'') info;
               key_schedule_context = [rfc_mode_byte mode] @ psk_id_hash @ info_hash;
               secret = rfc_LabeledExtract F shared_secret suite_id (ascii ''secret'') psk
           in try_bind (rfc_LabeledExpand F secret suite_id (ascii ''key'') key_schedule_context Nk)
                (\<lambda>key.
              try_bind (rfc_LabeledExpand F secret suite_id (ascii ''base_nonce'')
                  key_schedule_context Nn) (\<lambda>nonce.
              try_bind (rfc_LabeledExpand F secret suite_id (ascii ''exp'')
                  key_schedule_context (f_HASH_LEN F)) (\<lambda>exp_secret.
                Ok \<lparr> rfc_key = key, rfc_base_nonce = nonce, rfc_seq = 0,
                     rfc_exporter_secret = exp_secret \<rparr>))))"

section \<open>Section 5.2 and 5.3: nonces and exports\<close>

definition rfc_ComputeNonce :: "bytes \<Rightarrow> nat \<Rightarrow> bytes" where
  "rfc_ComputeNonce bn s = xor_bytes bn (i2osp s (length bn))"

definition rfc_Export :: "kdf \<Rightarrow> bytes \<Rightarrow> rfc_context \<Rightarrow> bytes \<Rightarrow> nat \<Rightarrow> bytes res" where
  "rfc_Export F suite_id ctx exporter_context L =
     rfc_LabeledExpand F (rfc_exporter_secret ctx) suite_id (ascii ''sec'') exporter_context L"

text \<open>The abstraction of a context of the crate.\<close>

definition abs_context :: "('c, 'y) aead_scheme \<Rightarrow> 'c Context \<Rightarrow> rfc_context" where
  "abs_context A ctx =
     \<lparr> rfc_key = raw_key ctx, rfc_base_nonce = Context_nonce A ctx,
       rfc_seq = unat (seq ctx), rfc_exporter_secret = exporter_secret ctx \<rparr>"

definition psk_free_abs :: "PskFreeMode \<Rightarrow> rfc_mode" where
  "psk_free_abs m = (case m of BaseModeTag \<Rightarrow> mode_base | AuthModeTag \<Rightarrow> mode_auth)"

definition psk_abs :: "PskMode \<Rightarrow> rfc_mode" where
  "psk_abs m = (case m of PskModeTag \<Rightarrow> mode_psk | AuthPskModeTag \<Rightarrow> mode_auth_psk)"

lemma mode_byte_abs [simp]:
  "rfc_mode_byte (psk_free_abs m) = psk_free_mode_byte m"
  "rfc_mode_byte (psk_abs n) = psk_mode_byte n"
  by (cases m, simp_all add: psk_free_abs_def mode_defs)
     (cases n, simp_all add: psk_abs_def mode_defs)

lemma verify_psk_free: "rfc_VerifyPSKInputs (psk_free_abs m) [] []"
  by (cases m) (simp_all add: rfc_VerifyPSKInputs_def psk_free_abs_def)

lemma verify_psk: "psk_valid p \<Longrightarrow> rfc_VerifyPSKInputs (psk_abs m) (psk_secret p) (psk_id p)"
  by (cases m) (auto simp: rfc_VerifyPSKInputs_def psk_abs_def psk_valid_def MIN_PSK_LEN_def)

section \<open>Nonces\<close>

lemma xor_bytes_append:
  "length xs = length us \<Longrightarrow> xor_bytes (xs @ ys) (us @ vs) = xor_bytes xs us @ xor_bytes ys vs"
  by (simp add: xor_bytes_def)

lemma xor_bytes_zeros: "length xs = n \<Longrightarrow> xor_bytes xs (replicate n 0) = xs"
  unfolding xor_bytes_def by (induction xs arbitrary: n) auto

lemma nonce_at_rfc:
  assumes "assert_nonce_range A" and "length bn = 12"
  shows "nonce_at A bn s = rfc_ComputeNonce (take (a_NONCE_LEN A) bn) (unat s)"
proof -
  define k where "k = a_NONCE_LEN A - 8"
  have k: "a_NONCE_LEN A = k + 8" "k \<le> 4"
    using assms(1) by (auto simp: k_def assert_nonce_range_def SEQ_LEN_def MAX_NONCE_LEN_def)
  have "unat s < 256 ^ 8"
    using unsigned_less [of s, where ?'a = nat] by simp
  then have "i2osp (unat s) (k + 8) = replicate k 0 @ to_be_bytes s"
    by (simp add: i2osp_pad to_be_bytes_i2osp [of s])
  moreover have "take (k + 8) bn = take k bn @ take 8 (drop k bn)"
    by (simp add: take_add)
  ultimately have "xor_bytes (take (k + 8) bn) (i2osp (unat s) (k + 8))
      = take k bn @ xor_bytes (take 8 (drop k bn)) (to_be_bytes s)"
    using k(2) assms(2) by (simp only: xor_bytes_append) (simp add: xor_bytes_append xor_bytes_zeros)
  moreover have "length (take (k + 8) bn) = k + 8"
    using k(2) assms(2) by simp
  ultimately show ?thesis
    by (simp only: nonce_at_def rfc_ComputeNonce_def Let_def k(1) diff_add_inverse2)
qed

section \<open>Labelled derivations\<close>

context kdf_contract
begin

lemma labeled_extract_rfc:
  "lawful \<Longrightarrow> labeled_extract F salt suite label ikm = rfc_LabeledExtract F salt suite label ikm"
  by (simp add: labeled_extract_eq rfc_LabeledExtract_def HPKE_v1_def)

lemma u16_be_i2osp: "n \<le> 255 * f_HASH_LEN F \<Longrightarrow> to_be_bytes (word_of_nat n :: u16) = i2osp n 2"
  using hash_len_le by (simp add: to_be_bytes_i2osp unat_word_of_nat_u16)

lemma labeled_expand_rfc:
  assumes "lawful"
  shows "labeled_expand F prk suite label info n = rfc_LabeledExpand F prk suite label info n"
proof (cases "n \<le> 255 * f_HASH_LEN F")
  case True
  then show ?thesis
    by (simp add: labeled_expand_eq [OF assms] u16_be_i2osp rfc_LabeledExpand_def HPKE_v1_def)
next
  case False
  then show ?thesis
    by (simp add: labeled_expand_too_long rfc_LabeledExpand_def expand_too_long)
qed

end

section \<open>Key schedule and export\<close>

context key_schedule_suite
begin

lemma expand_pieces_rfc:
  "lawful \<Longrightarrow> length ps \<le> 12 \<Longrightarrow>
   labeled_expand_pieces F prk suite label ps n = rfc_LabeledExpand F prk suite label (concat ps) n"
  by (simp add: kdf.labeled_expand_pieces_concat kdf.labeled_expand_rfc)

lemma derive_context_rfc:
  assumes "lawful" and "rfc_VerifyPSKInputs m psk pid"
  shows "map_ok (abs_context A) (derive_context (rfc_mode_byte m) K F A ss info psk pid) =
     rfc_KeySchedule F (ciphersuite K F A) (a_KEY_LEN A) (a_NONCE_LEN A) m ss info psk pid"
proof -
  from derive_context_total [OF assms(1), of "rfc_mode_byte m" K ss info psk pid]
  obtain ctx where ctx: "derive_context (rfc_mode_byte m) K F A ss info psk pid = Ok ctx"
      and seq: "seq ctx = 0" and len: "length (Context_nonce A ctx) = a_NONCE_LEN A"
    by blast
  have copy: "splice 0 bn (replicate 12 0) = bn @ replicate (12 - length bn) 0" for bn :: bytes
    by (simp add: splice_def)
  from ctx assms aead.nonce_len_le show ?thesis
    by (auto simp: ctx derive_context_def rfc_KeySchedule_def Let_def outcome_simps
        expand_pieces_rfc kdf.labeled_extract_rfc abs_context_def Context_nonce_def
        Context_new_Ok_iff)
qed

lemma key_schedule_psk_free_rfc:
  assumes "lawful"
  shows "map_ok (abs_context A) (key_schedule_psk_free M K F A ss info) =
     rfc_KeySchedule F (ciphersuite K F A) (a_KEY_LEN A) (a_NONCE_LEN A)
       (psk_free_abs M) ss info [] []"
  using derive_context_rfc [OF assms verify_psk_free, of M K ss info]
  by (simp add: key_schedule_psk_free_eq)

lemma key_schedule_psk_rfc:
  assumes "lawful" and "psk_valid psk"
  shows "map_ok (abs_context A) (key_schedule_psk M K F A ss info psk) =
     rfc_KeySchedule F (ciphersuite K F A) (a_KEY_LEN A) (a_NONCE_LEN A)
       (psk_abs M) ss info (psk_secret psk) (psk_id psk)"
  using derive_context_rfc [OF assms(1) verify_psk [OF assms(2)], of M K ss info]
  by (simp add: key_schedule_psk_eq)

lemma export_rfc:
  "lawful \<Longrightarrow> Context_export K F A ctx ectx n = rfc_Export F (ciphersuite K F A) (abs_context A ctx) ectx n"
  by (simp add: Context_export_def rfc_Export_def abs_context_def kdf.labeled_expand_rfc)

end

end
