(* ===== verification/Hpke_Channel_Theorems.thy ===== *)
theory Hpke_Channel_Theorems
  imports Hpke_Instances Hpke_Rfc9180
begin

text \<open>
  What holds of every use of a context: nonces, the counter, streams, deliveries with noise
  and exports. The hypotheses on libraries are those of \<open>Hpke_Aead\<close> and
  \<open>Hpke_Kdf\<close>; the witnesses run on the instances of \<open>Hpke_Instances\<close>.
\<close>

section \<open>A concrete context\<close>

definition demo_aead :: "bytes sealing_aead" where
  "demo_aead = ChaCha20Poly1305 (toy_aead 32)"

definition demo_context :: "bytes Context" where
  "demo_context =
     \<lparr> cipher = replicate 32 1, base_nonce = replicate 12 2, exporter_secret = replicate 32 3,
       seq = 0, raw_key = replicate 32 1 \<rparr>"

lemma demo_registered: "demo_aead \<in> registered_aeads (toy_aead 32)"
  by (simp add: demo_aead_def registered_aeads_def)

lemma demo_lib_ok: "aead_lib_ok (toy_aead 32) (a_KEY_LEN demo_aead) p_max"
  by (simp add: demo_aead_def const_simps toy_aead_ok)

lemma demo_limit: "aead_lib_ok (toy_aead 32) (a_KEY_LEN demo_aead) 100"
  by (rule demo_lib_ok)

text \<open>The suite of the witnesses.\<close>

definition demo_kdf :: kdf where
  "demo_kdf = HkdfSha256 (toy_hkdf 32)"

lemma demo_kdf_registered: "demo_kdf \<in> registered_kdfs (toy_hkdf 32)"
  by (simp add: demo_kdf_def registered_kdfs_def)

lemma demo_kdf_lib: "hkdf_lib_ok (toy_hkdf 32) (f_HASH_LEN demo_kdf)"
  by (simp add: demo_kdf_def const_simps toy_hkdf_ok)

lemmas demo_suite = demo_kdf_registered demo_kdf_lib demo_registered demo_lib_ok

lemma demo_contract: "sealing_aead_contract demo_aead True p_max"
  by (rule registered_aead_contract [OF demo_registered demo_lib_ok])

lemma demo_range: "assert_nonce_range demo_aead"
  by (simp add: demo_aead_def assert_nonce_range_def const_simps SEQ_LEN_def MAX_NONCE_LEN_def)

lemma demo_new: "Context_new demo_aead (replicate 32 1) (replicate 12 2) (replicate 32 3) = Ok demo_context"
  by (simp add: Context_new_def demo_aead_def ChaCha20Poly1305_def ChaCha20Poly1305_init_def
      toy_aead_def MAX_NONCE_LEN_def demo_context_def)

lemma demo_wf: "context_wf demo_context" "seq demo_context = 0"
  using Context_new_fresh [OF demo_range demo_new] by simp_all

lemma demo_open_empty: "a_open demo_aead c n a [] = Err OpenError"
  by (simp add: demo_aead_def ChaCha20Poly1305_def ChaCha20Poly1305_open_def toy_aead_def
      toy_tag_def Let_def)

lemma demo_rejects_empty:
  "Receiver_open demo_aead (ReceiverContext demo_context) [] []
     = (Err OpenError, ReceiverContext demo_context)"
  by (simp add: Context_open_eq [OF demo_range demo_wf(1)] demo_wf(2) u64_MAX_def demo_open_empty)

lemma demo_seals: "\<exists>ct ctx'. Context_seal demo_aead demo_context aad pt = (Ok ct, ctx')"
  using sealing_aead_contract.seal_succeeds [OF demo_contract [of "max (length pt) (length aad)"]
      TrueI demo_wf(1), of pt aad] demo_wf(2)
  by (auto simp: u64_MAX_def)

section \<open>Nonces\<close>

text \<open>
  C1: no nonce is ever reused. In any session over a context that \<open>Context::new\<close>
  returned - any interleaving of sealing and opening, successful or not, with any inputs - every
  ciphertext the sender produced is the output of the cipher, initialised once with the key of the
  context, for the nonce recorded with it; these nonces have the length of the cipher and are
  pairwise distinct, and there are fewer than 2 to the power 64 of them. Nothing is assumed of the
  cipher, so a call under any other nonce would break the first part.
\<close>

theorem session_nonces_distinct:
  assumes "assert_nonce_range A" and "Context_new A key bn es = Ok c0"
    and "session_reachable A c0 s"
  shows "a_init A key = Ok (cipher c0)
     \<and> (\<forall>m \<in> set (sent s). a_seal A (cipher c0) (s_nonce m) (s_aad m) (s_pt m) = Ok (s_ct m)
          \<and> length (s_nonce m) = a_NONCE_LEN A)
     \<and> distinct (map s_nonce (sent s)) \<and> length (sent s) < 2 ^ 64"
proof -
  note fresh = Context_new_fresh [OF assms(1,2)]
  have inv: "session_inv A c0 s"
    using assms(1) fresh assms(3) by (rule session_inv_reachable)
  have "a_init A key = Ok (cipher c0)"
    using assms(2) by (auto simp: Context_new_def outcome_simps)
  then show ?thesis
    using session_inv_nonces_distinct [OF assms(1) fresh(1) inv] session_inv_limits(1) [OF inv]
      session_inv_sealed [OF inv] session_inv_nonce_length [OF assms(1) fresh(1) inv] by blast
qed

theorem session_nonces_distinct_witness:
  "\<exists>s. session_reachable demo_aead demo_context s \<and> length (sent s) = 3
     \<and> (\<forall>m \<in> set (sent s).
          a_seal demo_aead (cipher demo_context) (s_nonce m) (s_aad m) (s_pt m) = Ok (s_ct m))
     \<and> distinct (map s_nonce (sent s))"
proof -
  obtain s where s: "session_reachable demo_aead demo_context s" "length (sent s) = 3"
    using sealing_aead_contract.session_capacity [OF demo_contract TrueI demo_wf, of 3] by auto
  with session_nonces_distinct [OF demo_range demo_new s(1)] show ?thesis by blast
qed

text \<open>
  C2: the nonce of a message is the one RFC 9180 prescribes. What \<open>compute_nonce\<close> hands
  to the cipher is \<open>base_nonce XOR I2OSP(seq, Nn)\<close>, for every nonce length that
  \<open>AssertNonceRange\<close> admits and every value of the 64-bit counter.
\<close>

theorem compute_nonce_is_rfc_ComputeNonce:
  assumes "assert_nonce_range A" and "context_wf ctx"
  shows "map_ok (take (a_NONCE_LEN A)) (compute_nonce A ctx)
       = Ok (rfc_ComputeNonce (Context_nonce A ctx) (unat (seq ctx)))"
proof -
  have "length (base_nonce ctx) = 12" using assms(2) by (simp add: context_wf_def MAX_NONCE_LEN_def)
  with nonce_at_rfc [OF assms(1)] compute_nonce_eq [OF assms] show ?thesis
    by (auto simp: Context_nonce_def)
qed

theorem compute_nonce_is_rfc_ComputeNonce_witness:
  "map_ok (take (a_NONCE_LEN demo_aead)) (compute_nonce demo_aead (demo_context\<lparr>seq := 258\<rparr>))
     = Ok (rfc_ComputeNonce (replicate 12 2) 258)"
proof -
  have "context_wf (demo_context\<lparr>seq := 258\<rparr>)" using demo_wf(1) by (simp add: context_wf_def)
  from compute_nonce_is_rfc_ComputeNonce [OF demo_range this] show ?thesis
    by (simp add: Context_nonce_def demo_context_def demo_aead_def const_simps)
qed

section \<open>The counter\<close>

text \<open>
  C3: the message limit. A context whose counter has reached \<open>u64::MAX\<close> refuses to seal
  and to open, and stays as it is; below the limit neither call reports the limit.
\<close>

theorem message_limit:
  assumes "A \<in> registered_aeads C" and "context_wf ctx"
  shows "(fst (Context_seal A ctx aad pt) = Err MessageLimitReached \<longleftrightarrow> seq ctx = u64_MAX)
       \<and> (fst (Context_open A ctx aad ct) = Err MessageLimitReached \<longleftrightarrow> seq ctx = u64_MAX)
       \<and> (seq ctx = u64_MAX \<longrightarrow> snd (Context_seal A ctx aad pt) = ctx
            \<and> snd (Context_open A ctx aad ct) = ctx)"
proof -
  have range: "assert_nonce_range A"
    using registered_aead_nonce [OF assms(1)]
    by (simp add: assert_nonce_range_def SEQ_LEN_def MAX_NONCE_LEN_def)
  note contract = registered_aead_lawful [OF assms(1)]
  have "a_seal A c n a m \<noteq> Err MessageLimitReached" "a_open A c n a m \<noteq> Err MessageLimitReached"
    for c n a m
    using sealing_aead_contract.seal_err [OF contract] sealing_aead_contract.open_err [OF contract]
    by blast+
  then show ?thesis
    by (auto simp: Context_seal_eq [OF range assms(2)] Context_open_eq [OF range assms(2)]
        split: outcome.splits if_splits)
qed

theorem message_limit_witness:
  "fst (Context_seal demo_aead (demo_context\<lparr>seq := u64_MAX\<rparr>) [] [1, 2]) = Err MessageLimitReached"
proof -
  have "context_wf (demo_context\<lparr>seq := u64_MAX\<rparr>)" using demo_wf(1) by (simp add: context_wf_def)
  from message_limit [OF demo_registered this, of "[]" "[1, 2]"] show ?thesis by simp
qed

text \<open>
  C4: the counter moves on success and only then. After a successful \<open>seal\<close> or
  \<open>open\<close> the context differs from the one before by one step of the counter, which does
  not wrap; after any failure it is unchanged, so that a caller can retry and a forged message
  does not desynchronise a receiver.
\<close>

theorem counter_moves_on_success:
  "(case Context_seal A ctx aad pt of (r, ctx') \<Rightarrow>
      if is_ok r then ctx' = ctx\<lparr>seq := seq ctx + 1\<rparr> \<and> unat (seq ctx') = unat (seq ctx) + 1
      else ctx' = ctx)
   \<and> (case Context_open A ctx aad ct of (r, ctx') \<Rightarrow>
      if is_ok r then ctx' = ctx\<lparr>seq := seq ctx + 1\<rparr> \<and> unat (seq ctx') = unat (seq ctx) + 1
      else ctx' = ctx)"
  by (simp add: Context_seal_def Context_open_def u64_succ split: outcome.split)

section \<open>Streams\<close>

text \<open>
  Streams arrive. Fewer than 2 to the power 64 messages within the size limit of the
  cipher, sealed in a row on a new context, all produce ciphertexts, and a receiver context
  with the same keys opens those, in the same order and with the same associated data, to
  exactly the plaintexts that were sealed.
\<close>

theorem stream_roundtrip:
  assumes "A \<in> registered_aeads C" and "aead_lib_ok C (a_KEY_LEN A) p_max"
    and "Context_new A key bn es = Ok c0"
    and "\<forall>m \<in> set ms. length (fst m) \<le> p_max \<and> length (snd m) \<le> p_max"
    and "length ms < 2 ^ 64"
  shows "\<exists>cts tx' rx'. seal_run A (SenderContext c0) ms = (map Ok cts, tx')
     \<and> open_run A (ReceiverContext c0) (zip (map fst ms) cts) = (map (Ok \<circ> snd) ms, rx')"
proof -
  note contract = registered_aead_contract [OF assms(1,2)]
  note fresh = Context_new_fresh [OF sealing_aead_contract.nonce_range [OF contract] assms(3)]
  have "unat (seq c0) + length ms < 2 ^ 64" using assms(5) fresh(2) by simp
  moreover have "length aad \<le> p_max \<and> length pt \<le> p_max" if "(aad, pt) \<in> set ms" for aad pt
    using bspec [OF assms(4) that] by simp
  ultimately obtain cts ctx'
    where run: "seal_run A (SenderContext c0) ms = (map Ok cts, SenderContext ctx')"
    using sealing_aead_contract.stream_total [OF contract TrueI fresh(1)] by blast
  with sealing_aead_contract.stream [OF contract TrueI fresh(1) run] show ?thesis by blast
qed

theorem stream_roundtrip_witness:
  "\<exists>cts tx' rx'. seal_run demo_aead (SenderContext demo_context) [([1], [7, 8]), ([], [9])]
       = (map Ok cts, tx')
     \<and> open_run demo_aead (ReceiverContext demo_context) (zip [[1], []] cts) = ([Ok [7, 8], Ok [9]], rx')"
  using stream_roundtrip [OF demo_registered demo_lib_ok [of 16] demo_new,
      of "[([1], [7, 8]), ([], [9])]"] by simp

text \<open>
  C6: noise is harmless. If between the messages of a stream the network delivers anything
  else that the receiver rejects when it arrives, the deliveries the receiver accepts are still
  exactly the plaintexts of the stream, in order.
\<close>

theorem noisy_stream_roundtrip:
  assumes "A \<in> registered_aeads C" and "aead_lib_ok C (a_KEY_LEN A) p_max"
    and "Context_new A key bn es = Ok c0"
    and "seal_run A (SenderContext c0) ms = (map Ok cts, tx')"
    and "noisy A (ReceiverContext c0) (zip (map fst ms) cts) ds"
  shows "delivered (fst (open_run A (ReceiverContext c0) ds)) = map (Ok \<circ> snd) ms"
proof -
  note contract = registered_aead_contract [OF assms(1,2)]
  note fresh = Context_new_fresh [OF sealing_aead_contract.nonce_range [OF contract] assms(3)]
  obtain ctx' where "tx' = SenderContext ctx'" by (cases tx')
  with sealing_aead_contract.stream [OF contract TrueI fresh(1)] assms(4)
  have "fst (open_run A (ReceiverContext c0) (zip (map fst ms) cts)) = map (Ok \<circ> snd) ms" by simp
  with noisy_delivers [OF assms(5)] show ?thesis by simp
qed

theorem noisy_stream_roundtrip_witness:
  "\<exists>ct. delivered (fst (open_run demo_aead (ReceiverContext demo_context) [([], []), ([1], ct)]))
     = [Ok [7]]"
proof -
  obtain ct ctx' where seal: "Context_seal demo_aead demo_context [1] [7] = (Ok ct, ctx')"
    using demo_seals by blast
  have "Context_open demo_aead demo_context [1] ct = (Ok [7], ctx')"
    using sealing_aead_contract.open_after_seal [OF demo_contract TrueI demo_wf(1) seal] .
  then have "noisy demo_aead (ReceiverContext demo_context) [([1], ct)] [([], []), ([1], ct)]"
    by (intro noisy_rejected [OF demo_rejects_empty] noisy_genuine noisy_end) simp
  moreover have "seal_run demo_aead (SenderContext demo_context) [([1], [7])]
      = (map Ok [ct], SenderContext ctx')"
    using seal by simp
  ultimately have "delivered (fst (open_run demo_aead (ReceiverContext demo_context)
      [([], []), ([1], ct)])) = map (Ok \<circ> snd) [([1], [7])]"
    using noisy_stream_roundtrip [OF demo_registered demo_lib_ok demo_new,
        of "[([1], [7])]" "[ct]" "SenderContext ctx'" "[([], []), ([1], ct)]"] by simp
  then show ?thesis by auto
qed

text \<open>
  Messages keep their number. In any session over a new context, if the i-th delivery
  that the receiver accepted is the i-th message the sender produced (same associated data and
  ciphertext), then the plaintext the receiver got is the one the sender sealed, whatever
  happened before and in between.
\<close>

theorem session_plaintexts_agree:
  assumes "A \<in> registered_aeads C" and "aead_lib_ok C (a_KEY_LEN A) p_max"
    and "Context_new A key bn es = Ok c0" and "session_reachable A c0 s"
    and "i < length (sent s)" and "i < length (received s)"
    and "r_aad (received s ! i) = s_aad (sent s ! i)"
    and "r_ct (received s ! i) = s_ct (sent s ! i)"
  shows "r_pt (received s ! i) = s_pt (sent s ! i)"
proof -
  note contract = registered_aead_contract [OF assms(1,2)]
  note range = sealing_aead_contract.nonce_range [OF contract]
  note fresh = Context_new_fresh [OF range assms(3)]
  show ?thesis
    using sealing_aead_contract.session_inv_agree [OF contract TrueI
        session_inv_reachable [OF range fresh assms(4)] assms(5-8)] .
qed

text \<open>A session of two steps: one message sealed, then delivered.\<close>

lemma demo_session:
  "\<exists>s :: bytes session. session_reachable demo_aead demo_context s \<and> length (sent s) = 1
     \<and> length (received s) = 1 \<and> r_aad (received s ! 0) = s_aad (sent s ! 0)
     \<and> r_ct (received s ! 0) = s_ct (sent s ! 0) \<and> s_pt (sent s ! 0) = [7]"
proof -
  let ?s = "session_start demo_context"
  obtain ct ctx' where seal: "Context_seal demo_aead demo_context [1] [7] = (Ok ct, ctx')"
    using demo_seals by blast
  then have 1: "Sender_seal demo_aead (tx_side ?s) [1] [7] = (Ok ct, SenderContext ctx')"
    by (simp add: session_start_def)
  let ?s1 = "?s\<lparr>tx_side := SenderContext ctx', sent := sent ?s @
       [\<lparr> s_nonce = current_nonce demo_aead (sender_inner (tx_side ?s)), s_aad = [1], s_pt = [7], s_ct = ct \<rparr>]\<rparr>"
  have "Context_open demo_aead demo_context [1] ct = (Ok [7], ctx')"
    using sealing_aead_contract.open_after_seal [OF demo_contract TrueI demo_wf(1) seal] .
  then have 2: "Receiver_open demo_aead (rx_side ?s1) [1] ct = (Ok [7], ReceiverContext ctx')"
    by (simp add: session_start_def)
  have "session_reachable demo_aead demo_context (?s1\<lparr>rx_side := ReceiverContext ctx',
      received := received ?s1 @ [\<lparr> r_aad = [1], r_ct = ct, r_pt = [7] \<rparr>]\<rparr>)"
    unfolding session_reachable_def using step_seal [OF 1] step_open [OF 2]
    by (meson converse_rtranclp_into_rtranclp rtranclp.rtrancl_refl)
  then show ?thesis by (intro exI conjI) (assumption | simp add: session_start_def)+
qed

theorem session_plaintexts_agree_witness:
  "\<exists>s :: bytes session. session_reachable demo_aead demo_context s
     \<and> r_pt (received s ! 0) = [7]"
proof -
  obtain s :: "bytes session" where s: "session_reachable demo_aead demo_context s"
      "length (sent s) = 1" "length (received s) = 1" "r_aad (received s ! 0) = s_aad (sent s ! 0)"
      "r_ct (received s ! 0) = s_ct (sent s ! 0)" "s_pt (sent s ! 0) = [7]"
    using demo_session by blast
  from session_plaintexts_agree [OF demo_registered demo_lib_ok demo_new s(1) _ _ s(4,5)] s
  have "r_pt (received s ! 0) = [7]" by simp
  with s(1) show ?thesis by blast
qed

section \<open>Exports\<close>

text \<open>
  C8: \<open>Context::export\<close> is \<open>Context.Export\<close> of RFC 9180, section 5.3. On a context
  whose exporter secret has the length of the hash it computes the labelled expansion the RFC
  prescribes, returns exactly the requested number of bytes, and fails exactly above
  \<open>255 * Nh\<close> bytes, with \<open>ExportLengthExceeded\<close>.
\<close>

theorem export_is_rfc_Export:
  assumes "F \<in> registered_kdfs G" and "hkdf_lib_ok G (f_HASH_LEN F)"
    and "length (exporter_secret ctx) = f_HASH_LEN F"
  shows "Context_export K F A ctx ectx n = rfc_Export F (ciphersuite K F A) (abs_context A ctx) ectx n
     \<and> (if n \<le> 255 * f_HASH_LEN F
        then \<exists>out. Context_export K F A ctx ectx n = Ok out \<and> length out = n
        else Context_export K F A ctx ectx n = Err ExportLengthExceeded)"
proof -
  note kdf = registered_kdf_contract [OF assms(1,2)]
  show ?thesis
    using kdf_contract.labeled_expand_rfc [OF kdf TrueI] kdf_contract.labeled_expand_ok [OF kdf TrueI]
      kdf_contract.labeled_expand_too_long [OF kdf] assms(3)
    by (simp add: Context_export_def rfc_Export_def abs_context_def not_le)
qed

theorem export_is_rfc_Export_witness:
  "Context_export (DhKem (P256 (toy_ec 32) (toy_hkdf 32))) (HkdfSha256 (toy_hkdf 32)) demo_aead
     demo_context [5] 8161 = Err ExportLengthExceeded"
proof -
  let ?F = "HkdfSha256 (toy_hkdf 32)"
  have reg: "?F \<in> registered_kdfs (toy_hkdf 32)" by (simp add: registered_kdfs_def)
  have ok: "hkdf_lib_ok (toy_hkdf 32) (f_HASH_LEN ?F)" by (simp add: const_simps toy_hkdf_ok)
  have len: "length (exporter_secret demo_context) = f_HASH_LEN ?F"
    by (simp add: const_simps demo_context_def)
  have "\<not> (8161 :: nat) \<le> 255 * f_HASH_LEN ?F" by (simp add: const_simps)
  with export_is_rfc_Export [OF reg ok len, of "DhKem (P256 (toy_ec 32) (toy_hkdf 32))" demo_aead
      "[5]" 8161, THEN conjunct2]
  show ?thesis by (simp only: if_False)
qed

end
