(* ===== verification/Hpke_Channel_Spec.thy ===== *)
theory Hpke_Channel_Spec
  imports Hpke_Channel_Theorems "HOL-Library.Sublist"
begin

text \<open>
  What a pair of contexts promises, as an abstract channel: messages are received in the order in
  which they were sent, each at most once, none invented. The session of \<open>Hpke_Channel\<close>, in
  which the network delivers any bytes in any order and calls may fail, refines it: every run is a
  run of the channel, unless one of its steps accepts a message that was not sealed under the
  nonce in use. Conversely every behaviour of the channel within the limits is a run of the code.
\<close>

section \<open>The abstract channel\<close>

text \<open>A message is its associated data and its plaintext.\<close>

record channel =
  ch_sent :: "(bytes \<times> bytes) list"
  ch_received :: "(bytes \<times> bytes) list"

definition channel_start :: channel where
  "channel_start = \<lparr> ch_sent = [], ch_received = [] \<rparr>"

inductive channel_step :: "channel \<Rightarrow> channel \<Rightarrow> bool" where
  chan_send: "channel_step c (c\<lparr>ch_sent := ch_sent c @ [m]\<rparr>)"
| chan_receive: "length (ch_received c) < length (ch_sent c) \<Longrightarrow>
     channel_step c (c\<lparr>ch_received := ch_received c @ [ch_sent c ! length (ch_received c)]\<rparr>)"

definition channel_reachable :: "channel \<Rightarrow> bool" where
  "channel_reachable = channel_step\<^sup>*\<^sup>* channel_start"

lemma channel_reachable_start: "channel_reachable channel_start"
  by (simp add: channel_reachable_def)

lemma channel_reachable_step: "channel_reachable c \<Longrightarrow> channel_step c c' \<Longrightarrow> channel_reachable c'"
  unfolding channel_reachable_def by (rule rtranclp.rtrancl_into_rtrancl)

lemma channel_reachable_induct [consumes 1, case_names start step]:
  assumes "channel_reachable c" and "P channel_start"
    and "\<And>c c'. channel_reachable c \<Longrightarrow> channel_step c c' \<Longrightarrow> P c \<Longrightarrow> P c'"
  shows "P c"
  using assms(1) unfolding channel_reachable_def
proof (induction rule: rtranclp_induct)
  case base
  show ?case by (rule assms(2))
next
  case (step c c')
  then show ?case using assms(3) unfolding channel_reachable_def by blast
qed

text \<open>In order, without duplicates, losses in the middle or inventions.\<close>

lemma channel_prefix: "channel_reachable c \<Longrightarrow> prefix (ch_received c) (ch_sent c)"
proof (induction rule: channel_reachable_induct)
  case start
  show ?case by (simp add: channel_start_def)
next
  case (step c c')
  from step(2) show ?case
  proof cases
    case (chan_send m)
    with step(3) show ?thesis by simp
  next
    case chan_receive
    from step(3) obtain zs where zs: "ch_sent c = ch_received c @ zs" by (auto simp: prefix_def)
    with chan_receive(2) obtain y ys where "zs = y # ys" by (cases zs) auto
    with chan_receive(1) zs show ?thesis by simp
  qed
qed

section \<open>Runs of a session\<close>

text \<open>A run: the states of a session from its start, one step apart.\<close>

definition session_run ::
    "('c, ('c, 'y) sealing_aead_ext) aead_scheme \<Rightarrow> 'c Context \<Rightarrow> 'c session list \<Rightarrow> bool" where
  "session_run A c0 ss \<longleftrightarrow> ss \<noteq> [] \<and> hd ss = session_start c0 \<and> successively (session_step A) ss"

lemma session_run_start: "session_run A c0 [session_start c0]"
  by (simp add: session_run_def)

lemma session_run_snoc:
  assumes "ss \<noteq> []"
  shows "session_run A c0 (ss @ [s]) \<longleftrightarrow> session_run A c0 ss \<and> session_step A (last ss) s"
  using assms by (auto simp: session_run_def successively_append_iff)

lemma session_run_reachable: "session_run A c0 ss \<Longrightarrow> session_reachable A c0 (last ss)"
proof (induction ss rule: rev_induct)
  case Nil
  then show ?case by (simp add: session_run_def)
next
  case (snoc s ss)
  show ?case
  proof (cases "ss = []")
    case True
    with snoc.prems show ?thesis by (simp add: session_run_def session_reachable_def)
  next
    case False
    with snoc show ?thesis
      unfolding session_run_snoc [OF False] session_reachable_def by auto
  qed
qed

text \<open>
  A step is a forgery if the receiver accepts a message that the sender has not sealed under the
  nonce the receiver is at.
\<close>

definition sealed_under ::
    "sent_message list \<Rightarrow> bytes \<Rightarrow> bytes \<Rightarrow> bytes \<Rightarrow> bool" where
  "sealed_under log nonce aad ct \<longleftrightarrow>
     (\<exists>m \<in> set log. s_nonce m = nonce \<and> s_aad m = aad \<and> s_ct m = ct)"

definition forgery ::
    "('c, ('c, 'y) sealing_aead_ext) aead_scheme \<Rightarrow> 'c session \<Rightarrow> 'c session \<Rightarrow> bool" where
  "forgery A s s' \<longleftrightarrow>
     (\<exists>m. received s' = received s @ [m]
        \<and> \<not> sealed_under (sent s) (current_nonce A (receiver_inner (rx_side s))) (r_aad m) (r_ct m))"

definition forgery_in ::
    "('c, ('c, 'y) sealing_aead_ext) aead_scheme \<Rightarrow> 'c session list \<Rightarrow> bool" where
  "forgery_in A ss \<longleftrightarrow> (\<exists>i. Suc i < length ss \<and> forgery A (ss ! i) (ss ! Suc i))"

lemma forgery_in_snoc:
  "ss \<noteq> [] \<Longrightarrow> forgery_in A (ss @ [s]) \<longleftrightarrow> forgery_in A ss \<or> forgery A (last ss) s"
proof
  assume ne: "ss \<noteq> []" and "forgery_in A (ss @ [s])"
  then obtain i where i: "i < length ss" "forgery A ((ss @ [s]) ! i) ((ss @ [s]) ! Suc i)"
    unfolding forgery_in_def by auto
  show "forgery_in A ss \<or> forgery A (last ss) s"
  proof (cases "Suc i < length ss")
    case True
    with i show ?thesis unfolding forgery_in_def by (auto simp: nth_append)
  next
    case False
    with i(1) have "i = length ss - 1" "Suc i = length ss" by simp_all
    with i ne show ?thesis by (simp add: nth_append last_conv_nth)
  qed
next
  assume ne: "ss \<noteq> []" and or: "forgery_in A ss \<or> forgery A (last ss) s"
  from or show "forgery_in A (ss @ [s])"
  proof
    assume "forgery_in A ss"
    then obtain i where "Suc i < length ss" "forgery A (ss ! i) (ss ! Suc i)"
      unfolding forgery_in_def by blast
    then show ?thesis unfolding forgery_in_def by (intro exI [of _ i]) (simp add: nth_append)
  next
    assume f: "forgery A (last ss) s"
    have "Suc (length ss - 1) = length ss" using ne by simp
    with f ne show ?thesis
      unfolding forgery_in_def by (intro exI [of _ "length ss - 1"]) (simp add: nth_append last_conv_nth)
  qed
qed

section \<open>The abstraction and the simulation\<close>

definition abs_session :: "'c session \<Rightarrow> channel" where
  "abs_session s =
     \<lparr> ch_sent = map (\<lambda>m. (s_aad m, s_pt m)) (sent s),
       ch_received = map (\<lambda>m. (r_aad m, r_pt m)) (received s) \<rparr>"

lemma abs_session_start: "abs_session (session_start c0) = channel_start"
  by (simp add: abs_session_def session_start_def channel_start_def)

lemma abs_session_receive:
  assumes "length (received s) < length (sent s)"
    and "sent s ! length (received s) = m" and "r_aad r = s_aad m" and "r_pt r = s_pt m"
  shows "channel_step (abs_session s) (abs_session (s\<lparr>rx_side := rx', received := received s @ [r]\<rparr>))"
proof -
  have "abs_session (s\<lparr>rx_side := rx', received := received s @ [r]\<rparr>)
      = (abs_session s)\<lparr>ch_received := ch_received (abs_session s)
          @ [ch_sent (abs_session s) ! length (ch_received (abs_session s))]\<rparr>"
    using assms by (simp add: abs_session_def)
  moreover have "length (ch_received (abs_session s)) < length (ch_sent (abs_session s))"
    using assms(1) by (simp add: abs_session_def)
  ultimately show ?thesis by (metis chan_receive)
qed

lemma abs_session_send:
  "channel_step (abs_session s) (abs_session (s\<lparr>tx_side := tx', sent := sent s @ [m]\<rparr>))"
proof -
  have "abs_session (s\<lparr>tx_side := tx', sent := sent s @ [m]\<rparr>)
      = (abs_session s)\<lparr>ch_sent := ch_sent (abs_session s) @ [(s_aad m, s_pt m)]\<rparr>"
    by (simp add: abs_session_def)
  then show ?thesis by (metis chan_send)
qed

lemma session_inv_rx_nonce:
  assumes "assert_nonce_range A" and "context_wf c0" and "session_inv A c0 s"
  shows "current_nonce A (receiver_inner (rx_side s))
     = nonce_at A (base_nonce c0) (word_of_nat (length (received s)))"
proof -
  from assms(3) obtain n m where rx: "rx_side s = ReceiverContext (c0\<lparr>seq := m\<rparr>)" "unat m = length (received s)"
    by (rule session_invD)
  have "word_of_nat (length (received s)) = m" using rx(2) by (metis of_nat_unat ucast_id)
  moreover have "context_wf (c0\<lparr>seq := m\<rparr>)" using assms(2) by (simp add: context_wf_def)
  ultimately show ?thesis by (simp add: rx(1) current_nonce_eq [OF assms(1)])
qed

text \<open>What was sealed under the nonce of the receiver is the message whose turn it is.\<close>

lemma sealed_under_current:
  assumes "assert_nonce_range A" and "context_wf c0" and inv: "session_inv A c0 s"
    and "sealed_under (sent s) (current_nonce A (receiver_inner (rx_side s))) aad ct"
  shows "length (received s) < length (sent s)" and "s_aad (sent s ! length (received s)) = aad"
    and "s_ct (sent s ! length (received s)) = ct"
proof -
  let ?k = "length (received s)"
  have bn: "length (base_nonce c0) = 12" using assms(2) by (simp add: context_wf_def MAX_NONCE_LEN_def)
  from assms(4) obtain j where j: "j < length (sent s)"
    "s_nonce (sent s ! j) = nonce_at A (base_nonce c0) (word_of_nat ?k)"
    "s_aad (sent s ! j) = aad" "s_ct (sent s ! j) = ct"
    unfolding sealed_under_def session_inv_rx_nonce [OF assms(1-3)] by (metis in_set_conv_nth)
  have "s_nonce (sent s ! j) = nonce_at A (base_nonce c0) (word_of_nat j)"
    using inv j(1) by (simp add: session_inv_def sent_ok_def)
  moreover have "j < 2 ^ 64" "?k < 2 ^ 64" using session_inv_limits [OF inv] j(1) by simp_all
  ultimately have "j = ?k" using j(2) by (simp add: nonce_at_inj [OF assms(1) bn] word_of_nat_u64_inj)
  with j show "?k < length (sent s)" "s_aad (sent s ! ?k) = aad" "s_ct (sent s ! ?k) = ct" by simp_all
qed

context sealing_aead_contract
begin

lemma session_simulates:
  assumes "lawful" and "context_wf c0" and inv: "session_inv A c0 s" and step: "session_step A s s'"
  shows "abs_session s' = abs_session s \<or> channel_step (abs_session s) (abs_session s') \<or> forgery A s s'"
  using step
proof cases
  case (step_seal aad pt ct tx')
  then show ?thesis using abs_session_send by blast
next
  case (step_seal_fails aad pt r tx')
  then show ?thesis by (simp add: abs_session_def)
next
  case (step_open aad ct pt rx')
  let ?m = "\<lparr> r_aad = aad, r_ct = ct, r_pt = pt \<rparr>" and ?k = "length (received s)"
  show ?thesis
  proof (cases "sealed_under (sent s) (current_nonce A (receiver_inner (rx_side s))) aad ct")
    case True
    note cur = sealed_under_current [OF nonce_range assms(2) inv True]
    have "session_inv A c0 s'" by (rule session_inv_step [OF nonce_range assms(2) step inv])
    then have "r_pt (received s' ! ?k) = s_pt (sent s' ! ?k)"
      by (rule session_inv_agree [OF assms(1)]) (use cur in \<open>simp_all add: step_open(1)\<close>)
    then have "pt = s_pt (sent s ! ?k)" by (simp add: step_open(1))
    with cur show ?thesis unfolding step_open(1) by (intro disjI2 disjI1 abs_session_receive) auto
  next
    case False
    then show ?thesis by (intro disjI2) (simp add: forgery_def step_open(1))
  qed
next
  case (step_open_fails aad ct r rx')
  then show ?thesis by (simp add: abs_session_def)
qed

lemma session_refines:
  assumes "lawful" and "context_wf c0" and "seq c0 = 0" and "session_run A c0 ss"
  shows "channel_reachable (abs_session (last ss)) \<or> forgery_in A ss"
  using assms(4)
proof (induction ss rule: rev_induct)
  case Nil
  then show ?case by (simp add: session_run_def)
next
  case (snoc s ss)
  show ?case
  proof (cases "ss = []")
    case True
    with snoc.prems show ?thesis
      by (simp add: session_run_def abs_session_start channel_reachable_start)
  next
    case False
    from snoc.prems have run: "session_run A c0 ss" and step: "session_step A (last ss) s"
      unfolding session_run_snoc [OF False] by blast+
    have inv: "session_inv A c0 (last ss)"
      by (rule session_inv_reachable [OF nonce_range assms(2,3) session_run_reachable [OF run]])
    from session_simulates [OF assms(1,2) inv step] snoc.IH [OF run]
    consider "forgery_in A ss" | "forgery A (last ss) s"
      | "channel_reachable (abs_session (last ss))" "abs_session s = abs_session (last ss)"
      | "channel_reachable (abs_session (last ss))" "channel_step (abs_session (last ss)) (abs_session s)"
      by blast
    then show ?thesis
    proof cases
      case 4
      from channel_reachable_step [OF this] show ?thesis by simp
    qed (simp_all add: forgery_in_snoc [OF False])
  qed
qed

end

section \<open>Every behaviour of the channel is one of the code\<close>

text \<open>The limits of the implementation: of the counter, and of the cipher on each message.\<close>

definition channel_within :: "nat \<Rightarrow> channel \<Rightarrow> bool" where
  "channel_within p_max c \<longleftrightarrow> length (ch_sent c) < 2 ^ 64
     \<and> (\<forall>m \<in> set (ch_sent c). length (fst m) \<le> p_max \<and> length (snd m) \<le> p_max)"

context sealing_aead_contract
begin

lemma session_sends:
  assumes "lawful" and "context_wf c0" and inv: "session_inv A c0 s"
    and "Suc (length (sent s)) < 2 ^ 64" and "length aad \<le> p_max" and "length pt \<le> p_max"
  shows "\<exists>tx' m. session_step A s (s\<lparr>tx_side := tx', sent := sent s @ [m]\<rparr>) \<and> s_aad m = aad \<and> s_pt m = pt"
proof -
  from inv obtain n m where tx: "tx_side s = SenderContext (c0\<lparr>seq := n\<rparr>)" "unat n = length (sent s)"
    by (rule session_invD)
  have n: "seq (c0\<lparr>seq := n\<rparr>) \<noteq> u64_MAX" using tx(2) assms(4) by (auto simp: unat_u64_MAX)
  have "context_wf (c0\<lparr>seq := n\<rparr>)" using assms(2) by (simp add: context_wf_def)
  from seal_succeeds [OF assms(1) this n assms(6,5)] obtain ct ctx'
    where "Context_seal A (c0\<lparr>seq := n\<rparr>) aad pt = (Ok ct, ctx')" by blast
  then have "Sender_seal A (tx_side s) aad pt = (Ok ct, SenderContext ctx')" by (simp add: tx)
  from step_seal [where A = A and s = s, OF this] show ?thesis by force
qed

lemma session_receives:
  assumes "lawful" and "context_wf c0" and inv: "session_inv A c0 s"
    and k: "length (received s) < length (sent s)" and m: "sent s ! length (received s) = m"
  shows "\<exists>rx'. session_step A s (s\<lparr>rx_side := rx', received := received s @
     [\<lparr> r_aad = s_aad m, r_ct = s_ct m, r_pt = s_pt m \<rparr>]\<rparr>)"
proof -
  from inv obtain n i where rx: "rx_side s = ReceiverContext (c0\<lparr>seq := i\<rparr>)" "unat i = length (received s)"
    by (rule session_invD)
  have i: "word_of_nat (length (received s)) = i" using rx(2) by (metis of_nat_unat ucast_id)
  have "i \<noteq> u64_MAX" using rx(2) k session_inv_limits(1) [OF inv] by (auto simp: unat_u64_MAX)
  have wf: "context_wf (c0\<lparr>seq := i\<rparr>)" using assms(2) by (simp add: context_wf_def)
  have "sent_ok A c0 (length (received s)) m" using inv k m by (auto simp: session_inv_def)
  then have "a_seal A (cipher c0) (nonce_at A (base_nonce c0) i) (s_aad m) (s_pt m) = Ok (s_ct m)"
    by (auto simp: sent_ok_def i)
  from open_seal [OF assms(1) this] \<open>i \<noteq> u64_MAX\<close>
  have "Receiver_open A (rx_side s) (s_aad m) (s_ct m)
      = (Ok (s_pt m), ReceiverContext (c0\<lparr>seq := i + 1\<rparr>))"
    by (simp add: rx(1) Context_open_eq [OF nonce_range wf])
  from step_open [where A = A and s = s, OF this] show ?thesis by blast
qed

lemma session_realises_step:
  assumes "lawful" and "context_wf c0" and inv: "session_inv A c0 s"
    and "channel_step (abs_session s) c" and "channel_within p_max c"
  shows "\<exists>s'. session_step A s s' \<and> \<not> forgery A s s' \<and> abs_session s' = c"
  using assms(4)
proof cases
  case (chan_send msg)
  obtain aad pt where msg: "msg = (aad, pt)" by (cases msg)
  have len: "Suc (length (sent s)) < 2 ^ 64" "length aad \<le> p_max" "length pt \<le> p_max"
    using assms(5) by (simp_all add: channel_within_def chan_send msg abs_session_def)
  obtain tx' m where "session_step A s (s\<lparr>tx_side := tx', sent := sent s @ [m]\<rparr>)" "s_aad m = aad" "s_pt m = pt"
    using session_sends [OF assms(1,2) inv len] by blast
  then show ?thesis
    by (intro exI [of _ "s\<lparr>tx_side := tx', sent := sent s @ [m]\<rparr>"])
      (simp add: forgery_def chan_send msg abs_session_def)
next
  case chan_receive
  define m where "m = sent s ! length (received s)"
  have k: "length (received s) < length (sent s)" using chan_receive(2) by (simp add: abs_session_def)
  obtain rx' where step: "session_step A s (s\<lparr>rx_side := rx', received := received s @
     [\<lparr> r_aad = s_aad m, r_ct = s_ct m, r_pt = s_pt m \<rparr>]\<rparr>)" (is "session_step A s ?s'")
    using session_receives [OF assms(1,2) inv k m_def [symmetric]] by blast
  have "sent_ok A c0 (length (received s)) m" using inv k by (auto simp: session_inv_def m_def)
  then have "s_nonce m = current_nonce A (receiver_inner (rx_side s))"
    by (simp add: sent_ok_def session_inv_rx_nonce [OF nonce_range assms(2) inv])
  moreover have "m \<in> set (sent s)" using k by (simp add: m_def)
  ultimately have "\<not> forgery A s ?s'" by (auto simp: forgery_def sealed_under_def)
  moreover have "abs_session ?s' = c" using k by (simp add: chan_receive(1) abs_session_def m_def)
  ultimately show ?thesis using step by blast
qed

lemma channel_realised:
  assumes "lawful" and "context_wf c0" and "seq c0 = 0"
    and "channel_reachable c" and "channel_within p_max c"
  shows "\<exists>ss. session_run A c0 ss \<and> \<not> forgery_in A ss \<and> abs_session (last ss) = c"
  using assms(4,5)
proof (induction rule: channel_reachable_induct)
  case start
  show ?case
    by (rule exI [of _ "[session_start c0]"]) (simp add: session_run_start forgery_in_def abs_session_start)
next
  case (step c c')
  have "channel_within p_max c"
    using step(2,4) by cases (auto simp: channel_within_def)
  with step(3) obtain ss where ss: "session_run A c0 ss" "\<not> forgery_in A ss" "abs_session (last ss) = c" by blast
  then have ne: "ss \<noteq> []" by (simp add: session_run_def)
  have inv: "session_inv A c0 (last ss)"
    by (rule session_inv_reachable [OF nonce_range assms(2,3) session_run_reachable [OF ss(1)]])
  from session_realises_step [OF assms(1,2) inv] step(2,4) ss(3) obtain s'
    where "session_step A (last ss) s'" "\<not> forgery A (last ss) s'" "abs_session s' = c'" by blast
  with ss ne show ?case
    by (intro exI [of _ "ss @ [s']"]) (simp add: session_run_snoc forgery_in_snoc)
qed

end

section \<open>The properties\<close>

text \<open>
  C7: a session is a reliable channel. Every run of a sender and a recipient over a new context,
  whatever the network delivers and whatever calls fail, is a run of the abstract channel: what
  the recipient has accepted is at each moment a prefix of what was sent, in order, each message
  once and with its associated data - unless a step of the run is a forgery, in which the cipher
  accepts a message that was not sealed before under the nonce in use.
\<close>

theorem session_refines_channel:
  assumes "A \<in> registered_aeads C" and "aead_lib_ok C (a_KEY_LEN A) p_max"
    and "Context_new A key bn es = Ok c0" and "session_run A c0 ss"
  shows "channel_reachable (abs_session (last ss))
       \<and> prefix (map (\<lambda>m. (r_aad m, r_pt m)) (received (last ss)))
           (map (\<lambda>m. (s_aad m, s_pt m)) (sent (last ss)))
     \<or> forgery_in A ss"
proof -
  note contract = registered_aead_contract [OF assms(1,2)]
  note fresh = Context_new_fresh [OF sealing_aead_contract.nonce_range [OF contract] assms(3)]
  from sealing_aead_contract.session_refines [OF contract TrueI fresh assms(4)] channel_prefix
  show ?thesis by (fastforce simp: abs_session_def)
qed

text \<open>A run that seals one message and delivers it.\<close>

definition demo_channel :: channel where
  "demo_channel = \<lparr> ch_sent = [([1], [7])], ch_received = [([1], [7])] \<rparr>"

lemma demo_channel_ok: "channel_reachable demo_channel" "channel_within 16 demo_channel"
proof -
  have 1: "channel_step channel_start \<lparr> ch_sent = [([1], [7])], ch_received = [] \<rparr>"
    using chan_send [of channel_start "([1], [7])"] by (simp add: channel_start_def)
  have 2: "channel_step \<lparr> ch_sent = [([1], [7])], ch_received = [] \<rparr> demo_channel"
    using chan_receive [of "\<lparr> ch_sent = [([1], [7])], ch_received = [] \<rparr>"] by (simp add: demo_channel_def)
  from channel_reachable_step [OF channel_reachable_step [OF channel_reachable_start 1] 2]
  show "channel_reachable demo_channel" .
  show "channel_within 16 demo_channel" by (simp add: channel_within_def demo_channel_def)
qed

theorem session_refines_channel_witness:
  "\<exists>ss :: bytes session list. session_run demo_aead demo_context ss \<and> received (last ss) \<noteq> []
     \<and> prefix (map (\<lambda>m. (r_aad m, r_pt m)) (received (last ss)))
         (map (\<lambda>m. (s_aad m, s_pt m)) (sent (last ss)))"
proof -
  obtain ss where ss: "session_run demo_aead demo_context ss" "\<not> forgery_in demo_aead ss"
    "abs_session (last ss) = demo_channel"
    using sealing_aead_contract.channel_realised [OF demo_contract TrueI demo_wf demo_channel_ok] by blast
  from session_refines_channel [OF demo_registered demo_lib_ok demo_new ss(1)] ss
  show ?thesis by (intro exI [of _ ss]) (auto simp: abs_session_def demo_channel_def)
qed

text \<open>
  C19: the channel is available. Every behaviour of the abstract channel with fewer than 2 to the
  power 64 messages within the limit of the cipher, in whatever order sending and receiving are
  interleaved, is a run of the code without a forgery: the sender can always go on, and the next
  message always opens.
\<close>

theorem channel_realised_by_session:
  assumes "A \<in> registered_aeads C" and "aead_lib_ok C (a_KEY_LEN A) p_max"
    and "Context_new A key bn es = Ok c0" and "channel_reachable c" and "channel_within p_max c"
  shows "\<exists>ss. session_run A c0 ss \<and> \<not> forgery_in A ss \<and> abs_session (last ss) = c"
proof -
  note contract = registered_aead_contract [OF assms(1,2)]
  note fresh = Context_new_fresh [OF sealing_aead_contract.nonce_range [OF contract] assms(3)]
  show ?thesis by (rule sealing_aead_contract.channel_realised [OF contract TrueI fresh assms(4,5)])
qed

theorem channel_realised_by_session_witness:
  "\<exists>ss :: bytes session list. session_run demo_aead demo_context ss \<and> \<not> forgery_in demo_aead ss
     \<and> map r_pt (received (last ss)) = [[7]]"
proof -
  obtain ss where ss: "session_run demo_aead demo_context ss" "\<not> forgery_in demo_aead ss"
    "abs_session (last ss) = demo_channel"
    using channel_realised_by_session [OF demo_registered demo_lib_ok demo_new demo_channel_ok] by blast
  have "map r_pt (received (last ss)) = map snd (ch_received (abs_session (last ss)))"
    by (simp add: abs_session_def)
  with ss show ?thesis by (intro exI [of _ ss]) (simp add: demo_channel_def)
qed


section \<open>The state of a session\<close>

text \<open>
  C22: a session changes nothing but its two counters. At any moment of a session over a new
  context, whatever was sealed, opened or rejected, both ends hold the key, base nonce and exporter
  secret they started with; the counter of the sender is the number of messages it has sealed, that
  of the recipient the number it has accepted; and both ends export the same bytes as the new
  context, whatever the other end has done meanwhile.
\<close>

theorem session_moves_counters_only:
  assumes "assert_nonce_range A" and "Context_new A key bn es = Ok c0" and "session_reachable A c0 s"
  shows "tx_side s = SenderContext (c0\<lparr>seq := word_of_nat (length (sent s))\<rparr>)
     \<and> rx_side s = ReceiverContext (c0\<lparr>seq := word_of_nat (length (received s))\<rparr>)
     \<and> length (sent s) < 2 ^ 64 \<and> length (received s) < 2 ^ 64
     \<and> Sender_export K F A (tx_side s) ectx n = Context_export K F A c0 ectx n
     \<and> Receiver_export K F A (rx_side s) ectx n = Context_export K F A c0 ectx n"
proof -
  have inv: "session_inv A c0 s"
    using assms(1) Context_new_fresh [OF assms(1,2)] assms(3) by (rule session_inv_reachable)
  then obtain i j where s: "tx_side s = SenderContext (c0\<lparr>seq := i\<rparr>)" "unat i = length (sent s)"
      "rx_side s = ReceiverContext (c0\<lparr>seq := j\<rparr>)" "unat j = length (received s)"
    by (rule session_invD)
  have "word_of_nat (length (sent s)) = i" "word_of_nat (length (received s)) = j"
    by (simp_all add: s(2,4) [symmetric])
  with s session_inv_limits [OF inv] show ?thesis by (simp add: Context_export_def)
qed

theorem session_moves_counters_only_witness:
  "\<exists>s. session_reachable demo_aead demo_context s \<and> length (sent s) = 3
     \<and> tx_side s = SenderContext (demo_context\<lparr>seq := 3\<rparr>)"
proof -
  obtain s where s: "session_reachable demo_aead demo_context s" "length (sent s) = 3"
    using sealing_aead_contract.session_capacity [OF demo_contract TrueI demo_wf, of 3] by auto
  with session_moves_counters_only [OF demo_range demo_new s(1),
      of "DhKem (P256 (toy_ec 32) (toy_hkdf 32))" demo_kdf "[]" 0] show ?thesis by auto
qed

end
