(* ===== verification/Hpke_Kem_Theorems.thy ===== *)
theory Hpke_Kem_Theorems
  imports Hpke_Instances
begin

text \<open>
  What holds of the KEMs: agreement of the two sides for every group and every post-quantum
  KEM, key derivation, wire formats, the errors of decapsulation on arbitrary bytes, and
  zeroization. The witnesses run on the instances of \<open>Hpke_Instances\<close>.
\<close>

section \<open>Concrete keys\<close>

definition demo_p256 :: "(nat, u8 nist_pk, u8 nist_sk) dh" where
  "demo_p256 = P256 (toy_ec 32) (toy_hkdf 32)"

definition demo_p256_sk :: "u8 \<Rightarrow> u8 nist_sk DhPrivateKey" where
  "demo_p256_sk w = \<lparr> dh_sk = NistPrivateKeyWrap w, pk_bytes = 4 # replicate 63 0 @ [w] \<rparr>"

definition demo_p256_pk :: "u8 \<Rightarrow> u8 nist_pk DhPublicKey" where
  "demo_p256_pk w =
     DhPublicKey \<lparr> nist_pk_point = w, nist_pk_encoded = 4 # replicate 63 0 @ [w] \<rparr>"

lemma demo_p256_registered: "demo_p256 \<in> registered_nist (toy_ec 32) (toy_hkdf 32)"
  by (simp add: demo_p256_def registered_nist_def)

lemma demo_p256_libs:
  "ec_lib_ok (toy_ec 32) (d_PRIVATE_KEY_LEN demo_p256)"
  "hkdf_lib_ok (toy_hkdf 32) (f_HASH_LEN (d_Kdf demo_p256))"
  by (simp_all add: demo_p256_def P256_def nist_simps const_simps toy_ok)

lemma demo_p256_generate:
  "DhKem_generate demo_p256 r =
     (Ok (demo_p256_sk (word_of_nat (2 * r + 1)), demo_p256_pk (word_of_nat (2 * r + 1))), Suc r)"
  by (simp add: DhKem_generate_def demo_p256_def P256_def nist_simps nist_generate_def toy_ec_def
      from_pair_def nist_make_pk_def demo_p256_sk_def demo_p256_pk_def)

lemmas demo_p256_contract = registered_nist_contract [OF demo_p256_registered demo_p256_libs]

text \<open>Encapsulation on the concrete keys succeeds: the product of two odd bytes is not zero.\<close>

lemma demo_p256_dh:
  "d_dh demo_p256 (NistPrivateKeyWrap v) \<lparr> nist_pk_point = w, nist_pk_encoded = e \<rparr>
     = (if v * w = 0 then Err EncapError else Ok (replicate 32 (v * w)))"
  by (simp add: demo_p256_def P256_def nist_simps nist_dh_def toy_ec_def Let_def replicate_eq_replicate)

lemma demo_p256_ephemeral:
  "fst (fst (d_generate demo_p256 r)) = NistPrivateKeyWrap (word_of_nat (2 * r + 1))"
  by (simp add: demo_p256_def P256_def nist_simps nist_generate_def toy_ec_def)

lemma demo_p256_encap: "is_ok (fst (DhKem_encap demo_p256 1 (demo_p256_pk 1)))"
  unfolding dh_contract.encap_ok_iff [OF demo_p256_contract TrueI]
  by (simp add: demo_p256_pk_def demo_p256_dh demo_p256_ephemeral)

section \<open>Diffie-Hellman KEMs\<close>

text \<open>
  DHKEM over P-256, P-384, P-521 and secp256k1 is correct. For a recipient key pair that
  the crate generated or derived, encapsulation and decapsulation agree on a shared secret of
  the length registered for the group, with an encapsulated key of the registered length; the
  only way encapsulation fails is \<open>EncapError\<close> (a rejected Diffie-Hellman output), and
  nothing panics.
\<close>

theorem nist_exchange:
  assumes "D \<in> registered_nist L H" and "ec_lib_ok L (d_PRIVATE_KEY_LEN D)"
    and "hkdf_lib_ok H (f_HASH_LEN (d_Kdf D))"
    and "DhKem_generate D r0 = (Ok (sk, pk), r1) \<or> DhKem_derive_key_pair D ikm = Ok (sk, pk)"
  shows "kem_exchange_ok D (fst (DhKem_encap D r pk)) (\<lambda>enc. DhKem_decap D enc sk)"
proof -
  note contract = registered_nist_contract [OF assms(1-3)]
  show ?thesis
    using dh_contract.exchange_outcome [OF contract TrueI
        dh_contract.made_key_pair [OF contract TrueI assms(4)]] .
qed

theorem nist_exchange_witness:
  "\<exists>ss enc. fst (DhKem_encap demo_p256 1 (demo_p256_pk 1)) = Ok (ss, enc)
     \<and> DhKem_decap demo_p256 enc (demo_p256_sk 1) = Ok ss"
  using nist_exchange [OF demo_p256_registered demo_p256_libs disjI1 [OF demo_p256_generate [of 0]],
      of 1] demo_p256_encap
  by (auto simp: kem_exchange_ok_def is_ok_iff)

text \<open>
  The authenticated KEM over the same four groups is correct. With a second pair for the
  sender, \<open>auth_encap\<close> and \<open>auth_decap\<close> agree in the same sense.
\<close>

theorem nist_auth_exchange:
  assumes "D \<in> registered_nist L H" and "ec_lib_ok L (d_PRIVATE_KEY_LEN D)"
    and "hkdf_lib_ok H (f_HASH_LEN (d_Kdf D))"
    and "DhKem_generate D r0 = (Ok (sk_r, pk_r), r1) \<or> DhKem_derive_key_pair D ikm = Ok (sk_r, pk_r)"
    and "DhKem_generate D r2 = (Ok (sk_s, pk_s), r3) \<or> DhKem_derive_key_pair D ikm' = Ok (sk_s, pk_s)"
  shows "kem_exchange_ok D (fst (DhKem_auth_encap D r pk_r sk_s))
     (\<lambda>enc. DhKem_auth_decap D enc sk_r pk_s)"
proof -
  note contract = registered_nist_contract [OF assms(1-3)]
  show ?thesis
    using dh_contract.auth_exchange_outcome [OF contract TrueI
        dh_contract.made_key_pair [OF contract TrueI assms(4)]
        dh_contract.made_key_pair [OF contract TrueI assms(5)]] .
qed

lemma demo_p256_auth_encap:
  "is_ok (fst (DhKem_auth_encap demo_p256 2 (demo_p256_pk 1) (demo_p256_sk 3)))"
  unfolding dh_contract.auth_encap_ok_iff [OF demo_p256_contract TrueI]
  by (simp add: demo_p256_pk_def demo_p256_sk_def demo_p256_dh demo_p256_ephemeral)

theorem nist_auth_exchange_witness:
  "\<exists>ss enc. fst (DhKem_auth_encap demo_p256 2 (demo_p256_pk 1) (demo_p256_sk 3)) = Ok (ss, enc)
     \<and> DhKem_auth_decap demo_p256 enc (demo_p256_sk 1) (demo_p256_pk 3) = Ok ss"
  using nist_auth_exchange [OF demo_p256_registered demo_p256_libs
      disjI1 [OF demo_p256_generate [of 0]] disjI1 [OF demo_p256_generate [of 1]], of 2]
    demo_p256_auth_encap
  by (auto simp: kem_exchange_ok_def is_ok_iff)

text \<open>
  DHKEM over X25519 and X448 is correct, with and without sender authentication. The
  statement is the one for the other groups; clamping and the masking of public keys do not
  break the agreement of the two sides.
\<close>

theorem montgomery_exchange:
  assumes "x25519_lib_ok L" and "x448_lib_ok L'" and "hkdf_lib_ok H 32" and "hkdf_lib_ok H' 64"
    and "rng_ok R"
    and "DhKem_generate (X25519 L H R) r0 = (Ok (sk_r, pk_r), r1)"
    and "DhKem_generate (X25519 L H R) r2 = (Ok (sk_s, pk_s), r3)"
    and "DhKem_generate (X448 L' H' R) r4 = (Ok (sk_r', pk_r'), r5)"
    and "DhKem_generate (X448 L' H' R) r6 = (Ok (sk_s', pk_s'), r7)"
  shows "kem_exchange_ok (X25519 L H R) (fst (DhKem_encap (X25519 L H R) r pk_r))
           (\<lambda>enc. DhKem_decap (X25519 L H R) enc sk_r)
     \<and> kem_exchange_ok (X25519 L H R) (fst (DhKem_auth_encap (X25519 L H R) r pk_r sk_s))
           (\<lambda>enc. DhKem_auth_decap (X25519 L H R) enc sk_r pk_s)
     \<and> kem_exchange_ok (X448 L' H' R) (fst (DhKem_encap (X448 L' H' R) r pk_r'))
           (\<lambda>enc. DhKem_decap (X448 L' H' R) enc sk_r')
     \<and> kem_exchange_ok (X448 L' H' R) (fst (DhKem_auth_encap (X448 L' H' R) r pk_r' sk_s'))
           (\<lambda>enc. DhKem_auth_decap (X448 L' H' R) enc sk_r' pk_s')"
  using assms by (intro conjI x25519.exchange_outcome x25519.auth_exchange_outcome
      x448.exchange_outcome x448.auth_exchange_outcome x25519.generate_key_pair
      x448.generate_key_pair) blast+

lemma DhKem_generate_total: "\<exists>sk pk r'. DhKem_generate D r = (Ok (sk, pk), r')"
  by (simp add: DhKem_generate_def split: prod.splits)

theorem montgomery_exchange_witness:
  "\<exists>sk pk. kem_exchange_ok (X25519 toy_x25519 (toy_hkdf 32) toy_rng)
     (fst (DhKem_encap (X25519 toy_x25519 (toy_hkdf 32) toy_rng) 5 pk))
     (\<lambda>enc. DhKem_decap (X25519 toy_x25519 (toy_hkdf 32) toy_rng) enc sk)"
proof -
  let ?D = "X25519 toy_x25519 (toy_hkdf 32) toy_rng"
  let ?E = "X448 toy_x448 (toy_hkdf 64) toy_rng"
  obtain sk pk r1 where g: "DhKem_generate ?D 0 = (Ok (sk, pk), r1)"
    using DhKem_generate_total [of ?D 0] by blast
  obtain sk' pk' r1' where g': "DhKem_generate ?E 0 = (Ok (sk', pk'), r1')"
    using DhKem_generate_total [of ?E 0] by blast
  from montgomery_exchange [OF toy_x25519_ok toy_x448_ok toy_hkdf_ok toy_hkdf_ok toy_rng_ok g g g' g',
      of 5] show ?thesis by blast
qed

section \<open>Decapsulation of arbitrary bytes\<close>

text \<open>
  Decapsulation is total and its errors are exact. On any private key and any bytes as
  encapsulated key, decapsulation over the four SEC1 groups never panics; it fails with
  \<open>InvalidPublicKey\<close> exactly when the bytes are not an uncompressed point of the curve,
  with \<open>EncapError\<close> exactly when they are but the exchange is rejected, and otherwise
  returns a secret.
\<close>

theorem nist_decap_outcomes:
  assumes "D \<in> registered_nist L H" and "ec_lib_ok L (d_PRIVATE_KEY_LEN D)"
    and "hkdf_lib_ok H (f_HASH_LEN (d_Kdf D))"
  shows "case d_pk_from_bytes D (dh_enc enc) of
      Ok pk_e \<Rightarrow> (if is_ok (d_dh D (dh_sk sk) pk_e) then is_ok (DhKem_decap D enc sk)
                  else DhKem_decap D enc sk = Err EncapError)
    | Err e \<Rightarrow> e = InvalidPublicKey \<and> DhKem_decap D enc sk = Err InvalidPublicKey
    | Panic \<Rightarrow> False"
proof -
  note contract = registered_nist_contract [OF assms(1-3)]
  show ?thesis
  proof (cases "d_pk_from_bytes D (dh_enc enc)")
    case (Ok pk_e)
    have eae: "\<exists>ss. extract_and_expand D z [dh_enc enc, pk_bytes sk] = outcome.Ok ss" for z
      using dh_contract.extract_and_expand_ok [OF contract TrueI, of "[dh_enc enc, pk_bytes sk]" z]
      by auto
    have "d_dh D (dh_sk sk) pk_e \<noteq> outcome.Panic"
        "d_dh D (dh_sk sk) pk_e = outcome.Err e \<Longrightarrow> e = EncapError" for e
      using dh_contract.dh_no_panic [OF contract] dh_contract.dh_err [OF contract] by blast+
    with Ok eae show ?thesis
      by (cases "d_dh D (dh_sk sk) pk_e") (auto simp: DhKem_decap_def is_ok_iff outcome_simps)
  next
    case (Err e)
    with dh_contract.pk_from_bytes_err [OF contract] show ?thesis by (auto simp: DhKem_decap_def)
  next
    case Panic
    with dh_contract.pk_from_bytes_no_panic [OF contract] show ?thesis by blast
  qed
qed

theorem nist_decap_outcomes_witness:
  "DhKem_decap demo_p256 (DhEncappedKey [2, 0]) (demo_p256_sk 1) = Err InvalidPublicKey"
  using nist_decap_outcomes [OF demo_p256_registered demo_p256_libs,
      where enc = "DhEncappedKey [2, 0]" and sk = "demo_p256_sk 1"]
  by (simp add: demo_p256_def P256_def nist_simps nist_pk_from_bytes_def)

section \<open>Key derivation\<close>

text \<open>
  C13: \<open>DeriveKeyPair\<close> samples by rejection as RFC 9180, section 7.1.3, prescribes. For
  any group whose key parser does not panic, the loop returns the first of the 256 candidates
  (in the order of the counter byte, with the top byte masked) that the parser accepts, and
  \<open>DeriveKeyPairError\<close> when it accepts none.
\<close>

theorem derive_p_curve_sk_first_accepted:
  assumes "F \<in> registered_kdfs G" and "hkdf_lib_ok G (f_HASH_LEN F)" and "F = d_Kdf D"
    and "0 < nsk" and "nsk \<le> 255 * 32" and "\<forall>b. d_sk_from_bytes D b \<noteq> Panic"
  shows "derive_p_curve_sk D ikm nsk bitmask =
     (let cand = p_curve_candidate D (suite_id D)
                   (labeled_extract F [] (suite_id D) (ascii ''dkp_prk'') ikm) nsk bitmask
      in case List.find (\<lambda>c. p_curve_accepts D (cand c)) (map word_of_nat [0..<256]) of
           None \<Rightarrow> Err DeriveKeyPairError | Some c \<Rightarrow> cand c)"
  using assms by (intro kdf_contract.derive_p_curve_sk_find
      [OF registered_kdf_contract [OF assms(1,2)] TrueI]) auto

theorem derive_p_curve_sk_first_accepted_witness:
  "derive_p_curve_sk demo_p256 [1] 32 255 =
     (let cand = p_curve_candidate demo_p256 (suite_id demo_p256)
                   (labeled_extract (HkdfSha256 (toy_hkdf 32)) [] (suite_id demo_p256)
                     (ascii ''dkp_prk'') [1]) 32 255
      in case List.find (\<lambda>c. p_curve_accepts demo_p256 (cand c)) (map word_of_nat [0..<256]) of
           None \<Rightarrow> Err DeriveKeyPairError | Some c \<Rightarrow> cand c)"
  by (rule derive_p_curve_sk_first_accepted [where G = "toy_hkdf 32"])
    (simp_all add: registered_kdfs_def const_simps toy_hkdf_ok demo_p256_def P256_def nist_simps
      nist_failures)

text \<open>
  \<open>derive_key_pair\<close> over the SEC1 groups always returns a matching key pair or
  \<open>DeriveKeyPairError\<close>, for every input key material: the conversion of the sampled
  bytes after the loop cannot fail, and nothing panics.
\<close>

theorem nist_derive_key_pair_outcomes:
  assumes "D \<in> registered_nist L H" and "ec_lib_ok L (d_PRIVATE_KEY_LEN D)"
    and "hkdf_lib_ok H (f_HASH_LEN (d_Kdf D))"
  shows "DhKem_derive_key_pair D ikm = Err DeriveKeyPairError \<or>
     (\<exists>sk pk. DhKem_derive_key_pair D ikm = Ok (sk, pk)
        \<and> pk = DhPublicKey (d_sk_to_pk D (dh_sk sk)) \<and> pk_bytes sk = DhKem_pk_to_bytes D pk)"
proof -
  have kdf: "kdf_contract (d_Kdf D) True"
    using registered_nist_contract [OF assms] by (simp add: dh_contract_def)
  obtain P where D: "D = nist_curve L P" and P: "0 < np_nsk P" "np_nsk P \<le> 255 * 32"
    using assms(1) unfolding registered_nist_def P256_def P384_def P521_def K256_def by fastforce
  with kdf have "nist_derive L P ikm = Err DeriveKeyPairError \<or>
     (\<exists>sk. nist_derive L P ikm = Ok (NistPrivateKeyWrap sk, nist_make_pk L (ec_public_key L sk)))"
    by (intro nist_derive_cases) (simp_all add: nist_simps)
  then show ?thesis
    by (auto simp: D DhKem_derive_key_pair_def nist_simps from_pair_def nist_sk_to_pk_def
        DhKem_pk_to_bytes_def)
qed

theorem nist_derive_key_pair_outcomes_witness:
  "DhKem_derive_key_pair demo_p256 [1, 2, 3] = Err DeriveKeyPairError \<or>
     (\<exists>sk pk. DhKem_derive_key_pair demo_p256 [1, 2, 3] = Ok (sk, pk)
        \<and> pk = DhPublicKey (d_sk_to_pk demo_p256 (dh_sk sk))
        \<and> pk_bytes sk = DhKem_pk_to_bytes demo_p256 pk)"
  using nist_derive_key_pair_outcomes [OF demo_p256_registered demo_p256_libs] .

section \<open>Keys on the wire\<close>

text \<open>
  Keys survive serialisation. Over the SEC1 groups, serialising a key pair of the crate and
  parsing it again gives back both halves unchanged (the cached public bytes included), and the
  serialised forms have the registered lengths.
\<close>

theorem nist_key_roundtrip:
  assumes "D \<in> registered_nist L H" and "ec_lib_ok L (d_PRIVATE_KEY_LEN D)"
    and "hkdf_lib_ok H (f_HASH_LEN (d_Kdf D))"
    and "DhKem_generate D r0 = (Ok (sk, pk), r1) \<or> DhKem_derive_key_pair D ikm = Ok (sk, pk)"
  shows "DhKem_sk_from_bytes D (DhKem_sk_to_bytes D sk) = Ok sk
     \<and> DhKem_pk_from_bytes D (DhKem_pk_to_bytes D pk) = Ok pk
     \<and> length (DhKem_sk_to_bytes D sk) = d_PRIVATE_KEY_LEN D
     \<and> length (DhKem_pk_to_bytes D pk) = d_PUBLIC_KEY_LEN D"
proof -
  note contract = registered_nist_contract [OF assms(1-3)]
  note kp = dh_contract.made_key_pair [OF contract TrueI assms(4)]
  then have "nist_pair L (dh_sk sk) (dh_pk pk)"
    unfolding dh_contract.DhKem_pair_eq [OF contract, symmetric] by (simp add: DhKem_pair_def)
  then show ?thesis
    using dh_contract.sk_roundtrip [OF contract TrueI kp] dh_contract.pk_roundtrip [OF contract TrueI kp]
      dh_contract.sk_length [OF contract TrueI] dh_contract.pk_length [OF contract TrueI]
    by (simp add: DhKem_sk_to_bytes_def DhKem_pk_to_bytes_def)
qed

theorem nist_key_roundtrip_witness:
  "DhKem_sk_from_bytes demo_p256 (DhKem_sk_to_bytes demo_p256 (demo_p256_sk 3)) = Ok (demo_p256_sk 3)
   \<and> DhKem_pk_from_bytes demo_p256 (DhKem_pk_to_bytes demo_p256 (demo_p256_pk 3)) = Ok (demo_p256_pk 3)"
  using nist_key_roundtrip [OF demo_p256_registered demo_p256_libs
      disjI1 [OF demo_p256_generate [of 1]]] by simp

text \<open>
  X25519 private keys are canonical. Any 32 bytes are accepted and stored clamped as
  RFC 7748 requires - the three low bits and the top bit clear, bit 254 set - so that
  serialising and loading again changes nothing; any other length is \<open>InvalidPrivateKey\<close>.
\<close>

theorem x25519_private_key_canonical:
  assumes "x25519_lib_ok L"
  shows "if length b = 32
     then \<exists>sk. X25519_sk_from_bytes L b = Ok sk
        \<and> (let w = xs_to_bytes L (x25519_sk sk)
           in w = x25519_clamp b \<and> w ! 0 AND 7 = 0 \<and> w ! 31 AND 0x80 = 0 \<and> w ! 31 AND 0x40 = 0x40
              \<and> X25519_sk_from_bytes L w = Ok sk)
     else X25519_sk_from_bytes L b = Err InvalidPrivateKey"
  by (simp add: X25519_sk_from_bytes_def x25519_lib_okD [OF assms] x25519_clamp_idem
      x25519_clamp_bits Let_def)

theorem x25519_private_key_canonical_witness:
  "\<exists>sk. X25519_sk_from_bytes toy_x25519 (replicate 32 0xFF) = Ok sk
     \<and> X25519_sk_from_bytes toy_x25519 (xs_to_bytes toy_x25519 (x25519_sk sk)) = Ok sk"
  using x25519_private_key_canonical [OF toy_x25519_ok, of "replicate 32 0xFF"]
  by (auto simp: Let_def)

text \<open>
  The all-zero shared secret never gets through. Decapsulation over X25519 succeeds
  exactly when the bytes have the length of a public key and the exchange of that key, its top
  bit masked, with the recipient's scalar is not the all-zero string; it never panics (RFC 9180, section 7.1.4).
\<close>

theorem x25519_decap_rejects_zero:
  assumes "x25519_lib_ok L" and "hkdf_lib_ok H 32" and "rng_ok R"
  shows "(is_ok (DhKem_decap (X25519 L H R) enc sk) \<longleftrightarrow>
       length (dh_enc enc) = 32
     \<and> xs_diffie_hellman L (x25519_sk (dh_sk sk))
         ((dh_enc enc)[31 := dh_enc enc ! 31 AND 0x7F]) \<noteq> replicate 32 0)
     \<and> DhKem_decap (X25519 L H R) enc sk \<noteq> Panic"
proof -
  have "\<exists>ss. extract_and_expand (X25519 L H R) z [dh_enc enc, pk_bytes sk] = Ok ss" for z
    using x25519.extract_and_expand_ok [of L H R "[dh_enc enc, pk_bytes sk]" z] assms by auto
  then show ?thesis
    using x25519.decap_no_panic [of L H R enc sk] assms
    by (auto simp: DhKem_decap_def is_ok_iff outcome_simps X25519_simps X25519_pk_from_bytes_def
        X25519_dh_def x25519_lib_okD [OF assms(1)] Let_def)
qed

theorem x25519_decap_rejects_zero_witness:
  "\<not> is_ok (DhKem_decap (X25519 toy_x25519 (toy_hkdf 32) toy_rng) (DhEncappedKey (replicate 32 0))
     (from_sk (X25519 toy_x25519 (toy_hkdf 32) toy_rng) (X25519PrivateKeyWrap (replicate 32 0))))"
  unfolding x25519_decap_rejects_zero [OF toy_x25519_ok toy_hkdf_ok toy_rng_ok, THEN conjunct1]
  by (simp add: from_sk_def Let_def toy_x25519_def toy_x25519_pk_def pad_id add_bytes_zero)

section \<open>Post-quantum KEMs\<close>

text \<open>Generation and encapsulation of the post-quantum KEMs always succeed.\<close>

lemma XWing_generate_pair:
  assumes "rng_ok R"
  shows "\<exists>sk pk r'. XWing_generate L R r = (Ok (sk, pk), r') \<and> XWing_pair L sk pk"
proof -
  obtain bs r' where "fill_bytes R r 32 = (bs, r')" and "length bs = 32"
    using assms by (metis rng_ok_def prod.collapse)
  moreover obtain sk pk where "keypair_from_seed L bs = (sk, pk)" by (metis surj_pair)
  ultimately show ?thesis
    by (simp add: XWing_generate_def XWing_pair_keypair)
qed

lemma ml_kem_generate_pair:
  assumes "rng_ok R"
  shows "\<exists>sk pk r'. ml_kem_generate L R r = (Ok (sk, pk), r') \<and> ml_kem_pair L sk pk"
proof -
  obtain bs r' where "fill_bytes R r 64 = (bs, r')" and "length bs = 64"
    using assms by (metis rng_ok_def prod.collapse)
  moreover obtain sk pk where "ml_kem_from_seed L bs = (sk, pk)" by (metis surj_pair)
  ultimately show ?thesis
    by (simp add: ml_kem_generate_def ml_kem_pair_from_seed)
qed

lemma pq_encap_total:
  "x_wing_lib_ok L \<Longrightarrow> \<exists>ss enc r'. XWing_encap L r pk = (Ok (ss, enc), r')"
  "ml_kem_lib_ok M nenc npk \<Longrightarrow> \<exists>ss enc r'. ml_kem_encap M r pk' = (Ok (ss, enc), r')"
  using XWing_encap_Ok [of L pk r] ml_kem_encap_Ok [of M nenc npk pk' r] by (metis surj_pair)+

text \<open>
  X-Wing is correct and total. For a key pair that the crate generated or derived,
  encapsulation always succeeds, with a 1120-byte ciphertext and a 32-byte secret, and
  decapsulation of that ciphertext gives the same secret.
\<close>

theorem xwing_exchange:
  assumes "x_wing_lib_ok L" and "shake_lib_ok S" and "rng_ok R"
    and "XWing_generate L R r0 = (Ok (sk, pk), r1) \<or> XWing_derive_key_pair L S ikm = Ok (sk, pk)"
  shows "\<exists>ss enc. fst (XWing_encap L r pk) = Ok (ss, enc) \<and> XWing_decap L enc sk = Ok ss
     \<and> length (xw_ss ss) = 32 \<and> length (xw_enc enc) = 1120"
proof -
  have pair: "XWing_pair L sk pk"
    using assms xwing.generate_pair [of L S R r0 sk pk r1] xwing.derive_pair [of L S R ikm sk pk]
    by (auto simp: XWingDraft06_def)
  obtain ct s r' where e: "xw_encapsulate_with_rng L (xw_parsed pk) r = ((ct, s), r')"
    by (metis surj_pair)
  note enc = XWing_encap_Ok [OF assms(1) e]
  show ?thesis
    using enc XWing_decap_encap(1) [OF assms(1) pair enc] x_wing_lib_okD(9,10) [OF assms(1) e]
    by auto
qed

theorem xwing_exchange_witness:
  "\<exists>sk pk ss enc. fst (XWing_generate toy_x_wing toy_rng 3) = Ok (sk, pk)
     \<and> fst (XWing_encap toy_x_wing 4 pk) = Ok (ss, enc) \<and> XWing_decap toy_x_wing enc sk = Ok ss"
proof -
  obtain sk pk where g: "XWing_generate toy_x_wing toy_rng 3 = (Ok (sk, pk), Suc 3)"
    by (simp add: XWing_generate_def toy_rng_def keypair_from_seed_def Let_def)
  from xwing_exchange [OF toy_x_wing_ok toy_shake_ok toy_rng_ok disjI1 [OF g], of 4] g
  show ?thesis by auto
qed

text \<open>
  ML-KEM-768 and ML-KEM-1024 are correct and total, in the same sense, with the ciphertext
  length of the parameter set.
\<close>

theorem ml_kem_exchange:
  assumes "P \<in> registered_ml_kems" and "ml_kem_lib_ok L (mp_nenc P) (mp_npk P)"
    and "shake_lib_ok S" and "rng_ok R"
    and "ml_kem_generate L R r0 = (Ok (sk, pk), r1) \<or> ml_kem_derive_key_pair L P S ikm = Ok (sk, pk)"
  shows "\<exists>ss enc. fst (ml_kem_encap L r pk) = Ok (ss, enc) \<and> ml_kem_decap L enc sk = Ok ss
     \<and> length (mk_ss ss) = 32 \<and> length (mk_enc enc) = mp_nenc P"
proof -
  note contract = ml_kem_variant_contract [of L P S R]
  have pair: "ml_kem_pair L sk pk"
    using assms kem_contract.generate_pair [OF contract, of r0 sk pk r1]
      kem_contract.derive_pair [OF contract, of ikm sk pk]
    by (auto simp: ml_kem_variant_def)
  obtain ct s r' where e: "mk_encapsulate_with_rng L (mk_parsed pk) r = ((ct, s), r')"
    by (metis surj_pair)
  note enc = ml_kem_encap_Ok [OF assms(2) e]
  show ?thesis
    using enc ml_kem_decap_encap [OF assms(2) pair enc] ml_kem_lib_okD(7) [OF assms(2) e] by auto
qed

theorem ml_kem_exchange_witness:
  "\<exists>sk pk ss enc. fst (ml_kem_generate (toy_ml_kem 1088 1184) toy_rng 3) = Ok (sk, pk)
     \<and> fst (ml_kem_encap (toy_ml_kem 1088 1184) 4 pk) = Ok (ss, enc)
     \<and> ml_kem_decap (toy_ml_kem 1088 1184) enc sk = Ok ss"
proof -
  have reg: "params_768 \<in> registered_ml_kems" by (simp add: registered_ml_kems_def)
  have ok: "ml_kem_lib_ok (toy_ml_kem 1088 1184) (mp_nenc params_768) (mp_npk params_768)"
    by (simp add: params_768_def toy_ml_kem_ok)
  obtain sk pk where g: "ml_kem_generate (toy_ml_kem 1088 1184) toy_rng 3 = (Ok (sk, pk), Suc 3)"
    by (simp add: ml_kem_generate_def toy_rng_def ml_kem_from_seed_def Let_def)
  from ml_kem_exchange [OF reg ok toy_shake_ok toy_rng_ok disjI1 [OF g], of 4] g
  show ?thesis by auto
qed

text \<open>
  C20: post-quantum key derivation follows the drafts and is domain-separated. Each key pair is
  built from SHAKE256 of one labelled string, with the KEM identifier, the label
  \<open>DeriveKeyPair\<close> and the seed length in it; derivation never fails; and two such strings
  coincide only when identifier, input key material and length all coincide.
\<close>

theorem pq_derivation_separated:
  assumes "shake_lib_ok S" and "n < 65536" and "n' < 65536"
  shows "XWing_derive_key_pair L S ikm = Ok (keypair_from_seed L
       (SHAKE256 S (labeled_ikm (kem_suite_id 0x647A) (ascii ''DeriveKeyPair'') ikm 32) 32))
     \<and> ml_kem_derive_key_pair L' P S ikm = Ok (ml_kem_from_seed L'
       (SHAKE256 S (labeled_ikm (kem_suite_id (mp_id P)) (ascii ''DeriveKeyPair'') ikm 64) 64))
     \<and> (labeled_ikm (kem_suite_id i) (ascii ''DeriveKeyPair'') ikm n
          = labeled_ikm (kem_suite_id i') (ascii ''DeriveKeyPair'') ikm' n'
        \<longleftrightarrow> i = i' \<and> ikm = ikm' \<and> n = n')"
  using derive_label_eq [OF assms(1)]
    labeled_ikm_inj [OF length_kem_suite_id length_kem_suite_id assms(2,3)]
  by (simp add: DERIVE_KEY_PAIR_LABEL_def kem_suite_id_inj XWing_derive_key_pair_def XWing_ID_def
      ml_kem_derive_key_pair_def)

theorem pq_derivation_separated_witness:
  "labeled_ikm (kem_suite_id (mp_id params_768)) (ascii ''DeriveKeyPair'') [1] 64
     \<noteq> labeled_ikm (kem_suite_id (mp_id params_1024)) (ascii ''DeriveKeyPair'') [1] 64"
  using pq_derivation_separated [OF toy_shake_ok, of 64 64 toy_x_wing "[1]"
      "toy_ml_kem 1088 1184" params_768 "mp_id params_768" "mp_id params_1024" "[1]"]
  by (simp add: params_768_def params_1024_def)

text \<open>
  C21: zeroization disables a post-quantum private key. Whatever the key was, afterwards it is
  the same blank value: an all-zero seed and no cached decapsulation key, so nothing of the old
  key is left in it, and decapsulation of anything fails with \<open>DecapError\<close>, without panic.
  Dropping a key leaves the same blank value behind.
  This is the effect of \<open>zeroize\<close> and not of the key: before it, a generated key
  decapsulates what was encapsulated to it.
\<close>

theorem pq_zeroize_disables_decap:
  assumes "x_wing_lib_ok L" and "ml_kem_lib_ok L' nenc npk" and "rng_ok R"
    and "XWing_generate L R r = (Ok (sk, pk), r1)" and "ml_kem_generate L' R r = (Ok (sk', pk'), r1')"
  shows "XWingPrivateKey_zeroize key = \<lparr> xw_seed = replicate 32 0, xw_dk = None \<rparr>
     \<and> MlKemPrivateKey_zeroize key' = \<lparr> mk_dk = None, mk_seed = replicate 64 0 \<rparr>
     \<and> XWingPrivateKey_drop key = \<lparr> xw_seed = replicate 32 0, xw_dk = None \<rparr>
     \<and> MlKemPrivateKey_drop key' = \<lparr> mk_dk = None, mk_seed = replicate 64 0 \<rparr>
     \<and> XWing_decap L any (XWingPrivateKey_zeroize key) = Err DecapError
     \<and> ml_kem_decap L' any' (MlKemPrivateKey_zeroize key') = Err DecapError
     \<and> (\<exists>ss enc. fst (XWing_encap L r1 pk) = Ok (ss, enc) \<and> XWing_decap L enc sk = Ok ss
          \<and> XWing_decap L enc (XWingPrivateKey_zeroize sk) = Err DecapError)
     \<and> (\<exists>ss enc. fst (ml_kem_encap L' r1' pk') = Ok (ss, enc) \<and> ml_kem_decap L' enc sk' = Ok ss
          \<and> ml_kem_decap L' enc (MlKemPrivateKey_zeroize sk') = Err DecapError)"
proof -
  have zero: "XWingPrivateKey_zeroize k = \<lparr> xw_seed = replicate 32 0, xw_dk = None \<rparr>"
      "MlKemPrivateKey_zeroize k' = \<lparr> mk_dk = None, mk_seed = replicate 64 0 \<rparr>" for k and k'
    by (simp_all add: XWingPrivateKey_zeroize_def MlKemPrivateKey_zeroize_def)
  have pairs: "XWing_pair L sk pk" "ml_kem_pair L' sk' pk'"
    using XWing_generate_pair [OF assms(3), of L r] ml_kem_generate_pair [OF assms(3), of L' r]
      assms(4,5) by auto
  obtain ss enc r2 where e: "XWing_encap L r1 pk = (Ok (ss, enc), r2)"
    using pq_encap_total(1) [OF assms(1), of r1 pk] by auto
  obtain ss' enc' r2' where e': "ml_kem_encap L' r1' pk' = (Ok (ss', enc'), r2')"
    using pq_encap_total(2) [OF assms(2), of r1' pk'] by auto
  show ?thesis
    using e e' XWing_decap_encap(1) [OF assms(1) pairs(1) e]
      ml_kem_decap_encap(1) [OF assms(2) pairs(2) e']
    by (simp add: zero XWingPrivateKey_drop_def MlKemPrivateKey_drop_def XWing_decap_def ml_kem_decap_def)
qed

theorem pq_zeroize_disables_decap_witness:
  "\<exists>sk pk ss enc. fst (XWing_generate toy_x_wing toy_rng 3) = Ok (sk, pk)
     \<and> fst (XWing_encap toy_x_wing 4 pk) = Ok (ss, enc) \<and> XWing_decap toy_x_wing enc sk = Ok ss
     \<and> XWing_decap toy_x_wing enc (XWingPrivateKey_zeroize sk) = Err DecapError"
proof -
  obtain sk pk where g: "XWing_generate toy_x_wing toy_rng 3 = (Ok (sk, pk), 4)"
    by (simp add: XWing_generate_def toy_rng_def keypair_from_seed_def Let_def)
  obtain sk' pk' where g': "ml_kem_generate (toy_ml_kem 1088 1184) toy_rng 3 = (Ok (sk', pk'), 4)"
    by (simp add: ml_kem_generate_def toy_rng_def ml_kem_from_seed_def Let_def)
  have M: "ml_kem_lib_ok (toy_ml_kem 1088 1184) 1088 1184"
    by (simp add: toy_ml_kem_ok)
  have "\<exists>ss enc. fst (XWing_encap toy_x_wing 4 pk) = Ok (ss, enc)
     \<and> XWing_decap toy_x_wing enc sk = Ok ss
     \<and> XWing_decap toy_x_wing enc (XWingPrivateKey_zeroize sk) = Err DecapError"
    using pq_zeroize_disables_decap [OF toy_x_wing_ok M toy_rng_ok g g',
        where key = sk and key' = sk' and any = "XWingEncappedKey []" and any' = "MlKemEncappedKey []"]
    by (elim conjE)
  with g show ?thesis by simp
qed

text \<open>
  Post-quantum keys survive serialisation. The 32- or 64-byte seed reloads to the same
  private key, cached decapsulation key included, and the public key to the same public key.
\<close>

theorem pq_key_roundtrip:
  assumes "x_wing_lib_ok L" and "P \<in> registered_ml_kems"
    and "ml_kem_lib_ok L' (mp_nenc P) (mp_npk P)"
    and "length seed = 32" and "keypair_from_seed L seed = (sk, pk)"
    and "length seed' = 64" and "ml_kem_from_seed L' seed' = (sk', pk')"
  shows "XWing_sk_from_bytes L (XWing_sk_to_bytes sk) = Ok sk
     \<and> XWing_pk_from_bytes L (XWing_pk_to_bytes pk) = Ok pk
     \<and> ml_kem_sk_from_bytes L' (ml_kem_sk_to_bytes sk') = Ok sk'
     \<and> ml_kem_pk_from_bytes L' P (ml_kem_pk_to_bytes pk') = Ok pk'"
  unfolding XWing_to_bytes_eq ml_kem_to_bytes_eq
  using XWing_sk_roundtrip [OF assms(1) XWing_pair_keypair [OF assms(4,5)]]
    ml_kem_key_roundtrip [OF assms(3) ml_kem_pair_from_seed [OF assms(6,7)]] by blast

theorem pq_key_roundtrip_witness:
  "XWing_sk_from_bytes toy_x_wing (replicate 32 9)
     = Ok (fst (keypair_from_seed toy_x_wing (replicate 32 9)))"
proof -
  have "params_1024 \<in> registered_ml_kems"
      "ml_kem_lib_ok (toy_ml_kem 1568 1568) (mp_nenc params_1024) (mp_npk params_1024)"
    by (simp_all add: registered_ml_kems_def params_1024_def toy_ml_kem_ok)
  from pq_key_roundtrip [OF toy_x_wing_ok this _ prod.collapse [symmetric] _ prod.collapse [symmetric],
      of "replicate 32 9" "replicate 64 9"]
  show ?thesis by (simp add: keypair_from_seed_def Let_def)
qed

end
