(* ===== verification/Hpke_Fuzz.thy ===== *)
theory Hpke_Fuzz
  imports Hpke_Kem_Theorems
begin

text \<open>
  Hostile input. The drivers \<open>fuzz/fuzz_targets/open.rs\<close> and
  \<open>fuzz/fuzz_targets/key_schedule.rs\<close> cut arbitrary bytes into arguments and call the
  crate, a panic being the bug they look for; they are modelled here with their slicing, and
  shown to return on every input. The parsers of every KEM are characterised on every input,
  which covers the remaining drivers.
\<close>

text \<open>The errors a call can give.\<close>

definition errors_in :: "HpkeError set \<Rightarrow> 'a res \<Rightarrow> bool" where
  "errors_in E r \<longleftrightarrow> (\<forall>e. r = Err e \<longrightarrow> e \<in> E)"

section \<open>The drivers\<close>

text \<open>\<open>let _ = f(..);\<close>: a value or an error is dropped, a panic is not.\<close>

fun discard :: "'a res \<Rightarrow> unit res" where
  "discard (Ok _) = Ok ()"
| "discard (Err _) = Ok ()"
| "discard Panic = Panic"

text \<open>
  \<open>take_lp(&mut rest)\<close> returns the prefix and the new \<open>rest\<close>. \<open>split_at\<close>
  panics when the index is beyond the end.
\<close>

definition take_lp :: "bytes \<Rightarrow> (bytes \<times> bytes) res" where
  "take_lp rest =
     (if rest = [] then Ok ([], rest)
      else let len = min (unat (rest ! 0)) (length rest - 1); body = drop 1 rest
        in if len \<le> length body then Ok (take len body, drop len body) else Panic)"

definition fuzz_key_schedule ::
    "'s x25519_lib \<Rightarrow> ('x, 'h) hkdf_lib \<Rightarrow> 'r rng \<Rightarrow> ('c, 'n) aead_lib \<Rightarrow> bytes \<Rightarrow> unit res" where
  "fuzz_key_schedule L H R C data =
     (if length data < 1 + 32 then Ok ()
      else
        let mode = data ! 0; shared_secret = take 32 (drop 1 data); rest = drop 33 data;
            K = DhKem (X25519 L H R); F = HkdfSha256 H; A = ChaCha20Poly1305 C
        in try_bind (take_lp rest) (\<lambda>(info, rest).
           try_bind (take_lp rest) (\<lambda>(psk, rest).
           try_bind (take_lp rest) (\<lambda>(psk_id, rest).
             if mode mod 4 = 0 then discard (key_schedule_psk_free BaseModeTag K F A shared_secret info)
             else if mode mod 4 = 1 then
               (case Psk_new psk psk_id of
                  Ok p \<Rightarrow> discard (key_schedule_psk PskModeTag K F A shared_secret info p)
                | Err _ \<Rightarrow> Ok () | Panic \<Rightarrow> Panic)
             else if mode mod 4 = 2 then
               discard (key_schedule_psk_free AuthModeTag K F A shared_secret info)
             else
               (case Psk_new psk psk_id of
                  Ok p \<Rightarrow> discard (key_schedule_psk AuthPskModeTag K F A shared_secret info p)
                | Err _ \<Rightarrow> Ok () | Panic \<Rightarrow> Panic)))))"

text \<open>The fixed recipient of the driver: derivation from a constant, with \<open>expect\<close>.\<close>

definition fuzz_recipient ::
    "'s x25519_lib \<Rightarrow> ('x, 'h) hkdf_lib \<Rightarrow> 'r rng \<Rightarrow> 's X25519PrivateKeyWrap DhPrivateKey res" where
  "fuzz_recipient L H R =
     (case k_derive_key_pair (DhKem (X25519 L H R)) (ascii ''hpke-ng-fuzz-recipient'') of
        Ok (sk, pk) \<Rightarrow> Ok sk | _ \<Rightarrow> Panic)"

definition fuzz_open ::
    "'s x25519_lib \<Rightarrow> ('x, 'h) hkdf_lib \<Rightarrow> 'r rng \<Rightarrow> ('c, 'n) aead_lib \<Rightarrow> bytes \<Rightarrow> unit res" where
  "fuzz_open L H R C data =
     (if length data < 32 then Ok ()
      else
        let K = DhKem (X25519 L H R); enc_bytes = take 32 data; ct = drop 32 data
        in case k_enc_from_bytes K enc_bytes of
             Ok enc \<Rightarrow> try_bind (fuzz_recipient L H R) (\<lambda>sk.
               discard (open_base K (HkdfSha256 H) (ChaCha20Poly1305 C) enc sk (ascii ''info'')
                 (ascii ''aad'') ct))
           | Err _ \<Rightarrow> Ok () | Panic \<Rightarrow> Panic)"

section \<open>They return on every input\<close>

lemma discard_Ok_iff: "discard r = Ok () \<longleftrightarrow> r \<noteq> Panic"
  by (cases r) simp_all

lemma take_lp_Ok: "\<exists>out rest'. take_lp rest = Ok (out, rest')"
  by (simp add: take_lp_def Let_def)

text \<open>The suite both drivers use.\<close>

lemma fuzz_suite:
  assumes "x25519_lib_ok L" and "hkdf_lib_ok H 32" and "rng_ok R" and "aead_lib_ok C 32 p_max"
  shows "hpke_auth_sealing_suite (DhKem (X25519 L H R)) (DhKem_pair (X25519 L H R) (x25519_pair L))
     (HkdfSha256 H) (ChaCha20Poly1305 C) True p_max"
  by (rule dhkem_suite [OF x25519_contract_True [OF assms(1-3)]])
    (use assms in \<open>simp_all add: registered_kdfs_def registered_aeads_def const_simps\<close>)

lemma fuzz_key_schedule_returns:
  assumes "x25519_lib_ok L" and "hkdf_lib_ok H 32" and "rng_ok R" and "aead_lib_ok C 32 p_max"
  shows "fuzz_key_schedule L H R C data = Ok ()"
proof -
  let ?K = "DhKem (X25519 L H R)" and ?F = "HkdfSha256 H" and ?A = "ChaCha20Poly1305 C"
  have ks: "key_schedule_suite ?F ?A True"
    by (rule key_schedule_registered)
      (use assms in \<open>simp_all add: registered_kdfs_def registered_aeads_def const_simps\<close>)
  have free: "discard (key_schedule_psk_free M ?K ?F ?A s info) = Ok ()" for M s info
    unfolding discard_Ok_iff
    using key_schedule_suite.psk_free_total(1) [OF ks TrueI, of M ?K s info] by auto
  have psk: "discard (key_schedule_psk M ?K ?F ?A s info p) = Ok ()" for M s info p
    unfolding discard_Ok_iff
    using key_schedule_suite.psk_total(1) [OF ks TrueI, of M ?K s info p] by auto
  have "(case Psk_new a b of Ok p \<Rightarrow> discard (key_schedule_psk M ?K ?F ?A s info p)
      | Err _ \<Rightarrow> Ok () | Panic \<Rightarrow> Panic) = Ok ()" for a b M s info
    using Psk_new_not_Panic [of a b] by (simp add: psk split: outcome.split)
  moreover obtain o1 r1 where "take_lp (drop 33 data) = (Ok (o1, r1) :: (bytes \<times> bytes) res)"
    using take_lp_Ok by blast
  moreover obtain o2 r2 where "take_lp r1 = (Ok (o2, r2) :: (bytes \<times> bytes) res)"
    using take_lp_Ok by blast
  moreover obtain o3 r3 where "take_lp r2 = (Ok (o3, r3) :: (bytes \<times> bytes) res)"
    using take_lp_Ok by blast
  ultimately show ?thesis
    by (simp add: fuzz_key_schedule_def Let_def free)
qed

lemma fuzz_open_returns:
  assumes "x25519_lib_ok L" and "hkdf_lib_ok H 32" and "rng_ok R" and "aead_lib_ok C 32 p_max"
  shows "fuzz_open L H R C data = Ok ()"
proof (cases "length data < 32")
  case True
  then show ?thesis by (simp add: fuzz_open_def)
next
  case False
  let ?K = "DhKem (X25519 L H R)" and ?F = "HkdfSha256 H" and ?A = "ChaCha20Poly1305 C"
  let ?enc = "DhEncappedKey (take 32 data)"
  from False have enc: "k_enc_from_bytes ?K (take 32 data) = Ok ?enc"
    by (simp add: DhKem_enc_from_bytes_def X25519_simps)
  obtain sk where sk: "fuzz_recipient L H R = Ok sk"
    using X25519_derive_ok [OF assms(2), of L R "ascii ''hpke-ng-fuzz-recipient''"]
    by (auto simp: fuzz_recipient_def DhKem_derive_key_pair_def X25519_simps)
  have "open_base ?K ?F ?A ?enc sk (ascii ''info'') (ascii ''aad'') (drop 32 data) \<noteq> Panic"
    by (rule open_outcome_no_panic [OF hpke_sealing_suite.open_outcomes(1)
          [OF hpke_auth_sealing_suite.axioms(2) [OF fuzz_suite [OF assms]] TrueI]])
  with False enc sk show ?thesis
    by (simp add: fuzz_open_def discard_Ok_iff)
qed

section \<open>The parsers\<close>

text \<open>
  What the three parsers of a KEM do on any bytes: an encapsulated key is accepted exactly by
  its length and kept as it is; a public or private key that is accepted has its registered
  length, one that is not reports the error of its kind; nothing panics.
\<close>

definition parsers_exact :: "('r, 'pk, 'sk, 'enc, 'ss, 'z) kem_scheme \<Rightarrow> bytes \<Rightarrow> bool" where
  "parsers_exact K b \<longleftrightarrow>
     (case k_enc_from_bytes K b of
        Ok enc \<Rightarrow> length b = k_ENCAPPED_KEY_LEN K \<and> k_enc_as_ref K enc = b
      | Err e \<Rightarrow> length b \<noteq> k_ENCAPPED_KEY_LEN K \<and> e = InvalidEncappedKey
      | Panic \<Rightarrow> False)
   \<and> (case k_pk_from_bytes K b of
        Ok pk \<Rightarrow> length b = k_PUBLIC_KEY_LEN K
      | Err e \<Rightarrow> e = InvalidPublicKey | Panic \<Rightarrow> False)
   \<and> (case k_sk_from_bytes K b of
        Ok sk \<Rightarrow> length b = k_PRIVATE_KEY_LEN K
      | Err e \<Rightarrow> e = InvalidPrivateKey | Panic \<Rightarrow> False)"

lemma DhKem_parsers_exact:
  assumes "dh_contract D True pair"
    and "\<And>pk. d_pk_from_bytes D b = Ok pk \<Longrightarrow> length b = d_PUBLIC_KEY_LEN D"
    and "\<And>sk. d_sk_from_bytes D b = Ok sk \<Longrightarrow> length b = d_PRIVATE_KEY_LEN D"
  shows "parsers_exact (DhKem D) b"
proof -
  have "k_pk_from_bytes (DhKem D) b \<noteq> Panic" "k_sk_from_bytes (DhKem D) b \<noteq> Panic"
    using dh_contract.pk_from_bytes_no_panic [OF assms(1)]
      dh_contract.sk_from_bytes_no_panic [OF assms(1)]
    by (simp_all add: DhKem_pk_from_bytes_def DhKem_sk_from_bytes_def outcome_simps)
  moreover have "e = InvalidPublicKey" if "k_pk_from_bytes (DhKem D) b = Err e" for e
    using that dh_contract.pk_from_bytes_err [OF assms(1)]
    by (auto simp: DhKem_pk_from_bytes_def outcome_simps)
  moreover have "e = InvalidPrivateKey" if "k_sk_from_bytes (DhKem D) b = Err e" for e
    using that dh_contract.sk_from_bytes_err [OF assms(1)]
    by (auto simp: DhKem_sk_from_bytes_def outcome_simps)
  moreover have "length b = d_PUBLIC_KEY_LEN D" if "k_pk_from_bytes (DhKem D) b = Ok pk" for pk
    using that assms(2) by (auto simp: DhKem_pk_from_bytes_def outcome_simps)
  moreover have "length b = d_PRIVATE_KEY_LEN D" if "k_sk_from_bytes (DhKem D) b = Ok sk" for sk
    using that assms(3) by (auto simp: DhKem_sk_from_bytes_def outcome_simps)
  ultimately show ?thesis
    by (auto simp: parsers_exact_def DhKem_enc_from_bytes_def split: outcome.splits)
qed

lemma nist_lens:
  "d_PRIVATE_KEY_LEN (P256 L H) = 32" "d_PRIVATE_KEY_LEN (P384 L H) = 48"
  "d_PRIVATE_KEY_LEN (P521 L H) = 66" "d_PRIVATE_KEY_LEN (K256 L H) = 32"
  "f_HASH_LEN (d_Kdf (P256 L H)) = 32" "f_HASH_LEN (d_Kdf (P384 L H)) = 48"
  "f_HASH_LEN (d_Kdf (P521 L H)) = 64" "f_HASH_LEN (d_Kdf (K256 L H)) = 32"
  by (simp_all add: P256_def P384_def P521_def K256_def nist_simps const_simps)

lemma nist_parsers_exact:
  assumes "D \<in> registered_nist L H" and "ec_lib_ok L (d_PRIVATE_KEY_LEN D)"
    and "hkdf_lib_ok H (f_HASH_LEN (d_Kdf D))"
  shows "parsers_exact (DhKem D) b"
proof -
  obtain P where D: "D = nist_curve L P"
    using assms(1) unfolding registered_nist_def P256_def P384_def P521_def K256_def by blast
  show ?thesis
    by (rule DhKem_parsers_exact [OF registered_nist_contract [OF assms]])
      (auto simp: D nist_simps nist_pk_from_bytes_def nist_sk_from_bytes_def split: if_splits)
qed

lemma x25519_parsers_exact:
  assumes "x25519_lib_ok L" and "hkdf_lib_ok H 32" and "rng_ok R"
  shows "parsers_exact (DhKem (X25519 L H R)) b"
  by (rule DhKem_parsers_exact [OF x25519_contract_True [OF assms]])
    (auto simp: X25519_simps X25519_pk_from_bytes_def X25519_sk_from_bytes_def split: if_splits)

lemma x448_parsers_exact:
  assumes "x448_lib_ok L" and "hkdf_lib_ok H 64" and "rng_ok R"
  shows "parsers_exact (DhKem (X448 L H R)) b"
  by (rule DhKem_parsers_exact [OF x448_contract_True [OF assms]])
    (auto simp: X448_simps X448_pk_from_bytes_def X448_sk_from_bytes_def split: if_splits)

lemma xwing_parsers_exact:
  assumes "x_wing_lib_ok L"
  shows "parsers_exact (XWingDraft06 L S R) b"
  using x_wing_lib_okD(3) [OF assms]
  by (auto simp: parsers_exact_def XWingDraft06_def XWing_enc_from_bytes_def XWing_pk_from_bytes_def
      XWing_sk_from_bytes_def outcome_simps split: outcome.splits)

lemma ml_kem_parsers_exact: "parsers_exact (ml_kem_variant L P S R) b"
  by (auto simp: parsers_exact_def ml_kem_variant_def ml_kem_enc_from_bytes_def
      ml_kem_pk_from_bytes_def ml_kem_sk_from_bytes_def outcome_simps
      split: outcome.splits prod.splits)

section \<open>The drivers over every KEM\<close>

text \<open>
  \<open>pk_from_bytes.rs\<close>, \<open>enc_from_bytes.rs\<close> and \<open>derive_key_pair.rs\<close>: the
  same call on the nine KEMs of the crate, one after the other. The arguments before the data
  are the third-party crates of the groups, of the post-quantum KEMs, of the three hashes, of
  SHAKE256 and of the generator.
\<close>

fun in_order :: "unit res list \<Rightarrow> unit res" where
  "in_order [] = Ok ()"
| "in_order (s # ss) = try_bind s (\<lambda>_. in_order ss)"

definition fuzz_pk_from_bytes where
  "fuzz_pk_from_bytes LX LG E256 E384 E521 EK W M768 M1024 H256 H384 H512 S R data =
     in_order
       [discard (k_pk_from_bytes (DhKem (X25519 LX H256 R)) data),
        discard (k_pk_from_bytes (DhKem (X448 LG H512 R)) data),
        discard (k_pk_from_bytes (DhKem (P256 E256 H256)) data),
        discard (k_pk_from_bytes (DhKem (P384 E384 H384)) data),
        discard (k_pk_from_bytes (DhKem (P521 E521 H512)) data),
        discard (k_pk_from_bytes (DhKem (K256 EK H256)) data),
        discard (k_pk_from_bytes (XWingDraft06 W S R) data),
        discard (k_pk_from_bytes (MlKem768 M768 S R) data),
        discard (k_pk_from_bytes (MlKem1024 M1024 S R) data)]"

definition fuzz_enc_from_bytes where
  "fuzz_enc_from_bytes LX LG E256 E384 E521 EK W M768 M1024 H256 H384 H512 S R data =
     in_order
       [discard (k_enc_from_bytes (DhKem (X25519 LX H256 R)) data),
        discard (k_enc_from_bytes (DhKem (X448 LG H512 R)) data),
        discard (k_enc_from_bytes (DhKem (P256 E256 H256)) data),
        discard (k_enc_from_bytes (DhKem (P384 E384 H384)) data),
        discard (k_enc_from_bytes (DhKem (P521 E521 H512)) data),
        discard (k_enc_from_bytes (DhKem (K256 EK H256)) data),
        discard (k_enc_from_bytes (XWingDraft06 W S R) data),
        discard (k_enc_from_bytes (MlKem768 M768 S R) data),
        discard (k_enc_from_bytes (MlKem1024 M1024 S R) data)]"

definition fuzz_derive_key_pair where
  "fuzz_derive_key_pair LX LG E256 E384 E521 EK W M768 M1024 H256 H384 H512 S R data =
     in_order
       [discard (k_derive_key_pair (DhKem (X25519 LX H256 R)) data),
        discard (k_derive_key_pair (DhKem (X448 LG H512 R)) data),
        discard (k_derive_key_pair (DhKem (P256 E256 H256)) data),
        discard (k_derive_key_pair (DhKem (P384 E384 H384)) data),
        discard (k_derive_key_pair (DhKem (P521 E521 H512)) data),
        discard (k_derive_key_pair (DhKem (K256 EK H256)) data),
        discard (k_derive_key_pair (XWingDraft06 W S R) data),
        discard (k_derive_key_pair (MlKem768 M768 S R) data),
        discard (k_derive_key_pair (MlKem1024 M1024 S R) data)]"

text \<open>The crates behave as documented, each at the sizes the instance uses.\<close>

definition crates_ok where
  "crates_ok LX LG E256 E384 E521 EK W M768 M1024 H256 H384 H512 S R \<longleftrightarrow>
     x25519_lib_ok LX \<and> x448_lib_ok LG \<and> ec_lib_ok E256 32 \<and> ec_lib_ok E384 48
   \<and> ec_lib_ok E521 66 \<and> ec_lib_ok EK 32 \<and> x_wing_lib_ok W \<and> ml_kem_lib_ok M768 1088 1184
   \<and> ml_kem_lib_ok M1024 1568 1568 \<and> hkdf_lib_ok H256 32 \<and> hkdf_lib_ok H384 48
   \<and> hkdf_lib_ok H512 64 \<and> shake_lib_ok S \<and> rng_ok R"

lemma parsers_exact_no_panic:
  assumes "parsers_exact K b"
  shows "discard (k_pk_from_bytes K b) = Ok ()" and "discard (k_enc_from_bytes K b) = Ok ()"
  using assms unfolding discard_Ok_iff parsers_exact_def by (auto split: outcome.splits)

lemma DhKem_derive_discard:
  "dh_contract D True pair \<Longrightarrow> discard (k_derive_key_pair (DhKem D) ikm) = Ok ()"
  using dh_contract.derive_no_panic [of D True pair ikm]
  by (auto simp: discard_Ok_iff DhKem_derive_key_pair_def outcome_simps)

lemma pq_derive_discard:
  assumes "shake_lib_ok S"
  shows "discard (k_derive_key_pair (XWingDraft06 W S R) ikm) = Ok ()"
    and "discard (k_derive_key_pair (ml_kem_variant M P S R) ikm) = Ok ()"
  using derive_label_eq [OF assms]
  by (simp_all add: XWingDraft06_def XWing_derive_key_pair_def ml_kem_variant_def
      ml_kem_derive_key_pair_def)

text \<open>The contracts of the nine KEMs under \<open>crates_ok\<close>.\<close>

lemma crates_contracts:
  assumes "crates_ok LX LG E256 E384 E521 EK W M768 M1024 H256 H384 H512 S R"
  shows "dh_contract (X25519 LX H256 R) True (x25519_pair LX)"
    and "dh_contract (X448 LG H512 R) True (x448_pair LG)"
    and "dh_contract (P256 E256 H256) True (nist_pair E256)"
    and "dh_contract (P384 E384 H384) True (nist_pair E384)"
    and "dh_contract (P521 E521 H512) True (nist_pair E521)"
    and "dh_contract (K256 EK H256) True (nist_pair EK)"
  using assms unfolding crates_ok_def
  by (auto intro!: x25519_contract_True x448_contract_True dh_contract_mono [OF p256.dh_contract_axioms]
      dh_contract_mono [OF p384.dh_contract_axioms] dh_contract_mono [OF p521.dh_contract_axioms]
      dh_contract_mono [OF k256.dh_contract_axioms])

lemma crates_parsers:
  assumes "crates_ok LX LG E256 E384 E521 EK W M768 M1024 H256 H384 H512 S R"
  shows "parsers_exact (DhKem (X25519 LX H256 R)) b" and "parsers_exact (DhKem (X448 LG H512 R)) b"
    and "parsers_exact (DhKem (P256 E256 H256)) b" and "parsers_exact (DhKem (P384 E384 H384)) b"
    and "parsers_exact (DhKem (P521 E521 H512)) b" and "parsers_exact (DhKem (K256 EK H256)) b"
    and "parsers_exact (XWingDraft06 W S R) b" and "parsers_exact (MlKem768 M768 S R) b"
    and "parsers_exact (MlKem1024 M1024 S R) b"
  using assms unfolding crates_ok_def
  by (simp_all add: x25519_parsers_exact x448_parsers_exact xwing_parsers_exact MlKem768_def
      MlKem1024_def ml_kem_parsers_exact nist_parsers_exact [of _ E256 H256]
      nist_parsers_exact [of _ E384 H384] nist_parsers_exact [of _ E521 H512]
      nist_parsers_exact [of _ EK H256] registered_nist_def nist_lens)

lemma fuzz_parsers_return:
  assumes "crates_ok LX LG E256 E384 E521 EK W M768 M1024 H256 H384 H512 S R"
  shows "fuzz_pk_from_bytes LX LG E256 E384 E521 EK W M768 M1024 H256 H384 H512 S R data = Ok ()"
    and "fuzz_enc_from_bytes LX LG E256 E384 E521 EK W M768 M1024 H256 H384 H512 S R data = Ok ()"
  unfolding fuzz_pk_from_bytes_def fuzz_enc_from_bytes_def
  by (simp_all add: crates_parsers [OF assms, THEN parsers_exact_no_panic(1)]
      crates_parsers [OF assms, THEN parsers_exact_no_panic(2)] del: DhKem_simps)

lemma fuzz_derive_returns:
  assumes "crates_ok LX LG E256 E384 E521 EK W M768 M1024 H256 H384 H512 S R"
  shows "fuzz_derive_key_pair LX LG E256 E384 E521 EK W M768 M1024 H256 H384 H512 S R data = Ok ()"
proof -
  have "shake_lib_ok S" using assms unfolding crates_ok_def by simp
  then show ?thesis
    unfolding fuzz_derive_key_pair_def MlKem768_def MlKem1024_def
    by (simp add: crates_contracts [OF assms, THEN DhKem_derive_discard] pq_derive_discard
        del: DhKem_simps)
qed

end
