(* ===== verification/Hpke_Input_Theorems.thy ===== *)
theory Hpke_Input_Theorems
  imports Hpke_Channel_Theorems Hpke_Fuzz
begin

text \<open>
  What holds of keys and messages that come from outside: the invariant of a private key, the
  outcome of opening and of parsing arbitrary bytes, and the deterministic encapsulation that
  the interoperability builds add.
\<close>

lemmas demo_p256_suite = demo_p256_registered demo_p256_libs demo_kdf_registered demo_kdf_lib
  demo_registered demo_limit

section \<open>Private keys\<close>

text \<open>
  C29: the type invariant of a DHKEM private key. Over every group, each way to make a private key
  (generation, derivation, parsing) stores beside the scalar exactly the public-key bytes that a
  recomputation from the scalar gives, of the registered length, and the public key returned with
  it is the one of the scalar; zeroizing or dropping a key never fails, keeps these bytes and replaces the
  scalar by one fixed value that no longer depends on it.
\<close>

theorem dh_private_key_invariant:
  assumes "D \<in> registered_nist L H" and "ec_lib_ok L (d_PRIVATE_KEY_LEN D)"
    and "hkdf_lib_ok H (f_HASH_LEN (d_Kdf D))"
    and "x25519_lib_ok LX" and "x448_lib_ok LG" and "hkdf_lib_ok H2 32" and "hkdf_lib_ok H5 64"
    and "rng_ok R"
  shows "keys_coherent D \<and> zeroize_erases D
     \<and> keys_coherent (X25519 LX H2 R) \<and> zeroize_erases (X25519 LX H2 R)
     \<and> keys_coherent (X448 LG H5 R) \<and> zeroize_erases (X448 LG H5 R)"
proof -
  obtain P where D: "D = nist_curve L P"
    using assms(1) unfolding registered_nist_def P256_def P384_def P521_def K256_def by blast
  then have "ec_lib_ok L (np_nsk P)" using assms(2) by (simp add: nist_simps)
  then obtain one where "ec_from_slice L ((replicate (np_nsk P) 0)[np_nsk P - 1 := 1]) = Some one"
    using ec_lib_okD(7) by blast
  then have "zeroize_erases D"
    by (intro zeroize_erasesI [of _ "NistPrivateKeyWrap one"])
      (simp add: D nist_simps nist_zeroize_def)
  moreover have "zeroize_erases (X25519 LX H2 R)" "zeroize_erases (X448 LG H5 R)"
    by (rule zeroize_erasesI, simp add: X25519_simps X25519_zeroize_def X448_simps X448_zeroize_def)+
  moreover have "keys_coherent D" "keys_coherent (X25519 LX H2 R)" "keys_coherent (X448 LG H5 R)"
    using dh_contract.keys_coherent [OF registered_nist_contract [OF assms(1-3)] TrueI]
      dh_contract.keys_coherent [OF x25519_contract_True [OF assms(4,6,8)] TrueI]
      dh_contract.keys_coherent [OF x448_contract_True [OF assms(5,7,8)] TrueI] .
  ultimately show ?thesis by blast
qed

theorem dh_private_key_invariant_witness:
  "key_coherent demo_p256 (demo_p256_sk 3)
     \<and> (\<exists>blank. DhPrivateKey_zeroize demo_p256 (demo_p256_sk 3)
           = Ok \<lparr> dh_sk = blank, pk_bytes = 4 # replicate 63 0 @ [3] \<rparr>
         \<and> DhPrivateKey_zeroize demo_p256 (demo_p256_sk 5)
           = Ok \<lparr> dh_sk = blank, pk_bytes = 4 # replicate 63 0 @ [5] \<rparr>)"
proof -
  note inv = dh_private_key_invariant [OF demo_p256_registered demo_p256_libs toy_x25519_ok
      toy_x448_ok toy_hkdf_ok toy_hkdf_ok toy_rng_ok]
  have "DhKem_generate demo_p256 1 = (Ok (demo_p256_sk 3, demo_p256_pk 3), Suc 1)"
    using demo_p256_generate [of 1] by simp
  moreover have "pk_bytes (demo_p256_sk w) = 4 # replicate 63 0 @ [w]" for w
    by (simp add: demo_p256_sk_def)
  ultimately show ?thesis
    using inv unfolding keys_coherent_def zeroize_erases_def by metis
qed

section \<open>Opening arbitrary bytes\<close>

text \<open>
  The opening side is total. Over the SEC1 groups, with any private key, any encapsulated key
  and any ciphertext, the four opening methods return: decapsulation's error when it fails, and
  otherwise a plaintext or \<open>OpenError\<close>. The only errors are \<open>InvalidPublicKey\<close>,
  \<open>EncapError\<close> and \<open>OpenError\<close>; no input makes them panic.
\<close>

theorem nist_open_outcomes:
  assumes "D \<in> registered_nist L H" and "ec_lib_ok L (d_PRIVATE_KEY_LEN D)"
    and "hkdf_lib_ok H (f_HASH_LEN (d_Kdf D))"
    and "F \<in> registered_kdfs G" and "hkdf_lib_ok G (f_HASH_LEN F)"
    and "A \<in> registered_aeads C" and "aead_lib_ok C (a_KEY_LEN A) p_max"
  shows "open_outcome_ok (DhKem_decap D enc sk) (open_base (DhKem D) F A enc sk info aad ct)
     \<and> open_outcome_ok (DhKem_decap D enc sk) (open_psk (DhKem D) F A enc sk info aad ct psk)
     \<and> open_outcome_ok (DhKem_auth_decap D enc sk pk_s) (open_auth (DhKem D) F A enc sk info aad ct pk_s)
     \<and> open_outcome_ok (DhKem_auth_decap D enc sk pk_s)
         (open_auth_psk (DhKem D) F A enc sk info aad ct psk pk_s)
     \<and> errors_in {InvalidPublicKey, EncapError} (DhKem_decap D enc sk)
     \<and> errors_in {InvalidPublicKey, EncapError} (DhKem_auth_decap D enc sk pk_s)"
proof -
  note contract = registered_nist_contract [OF assms(1-3)]
  note auth = dhkem_suite [OF contract assms(4-7)]
  note suite = hpke_auth_sealing_suite.axioms(2) [OF auth]
  have "errors_in {InvalidPublicKey, EncapError} (DhKem_decap D enc sk)"
      "errors_in {InvalidPublicKey, EncapError} (DhKem_auth_decap D enc sk pk_s)"
    using dh_contract.decap_err [OF contract TrueI] dh_contract.auth_decap_err [OF contract TrueI]
    by (simp_all add: errors_in_def)
  then show ?thesis
    using hpke_sealing_suite.open_outcomes [OF suite TrueI]
      hpke_auth_sealing_suite.open_auth_outcomes [OF auth TrueI]
    unfolding DhKem_simps by simp
qed

theorem nist_open_outcomes_witness:
  "open_base (DhKem demo_p256) demo_kdf demo_aead (DhEncappedKey [2, 0]) (demo_p256_sk 1) [8] [9] [1]
     = Err InvalidPublicKey"
proof -
  have "DhKem_decap demo_p256 (DhEncappedKey [2, 0]) (demo_p256_sk 1) = Err InvalidPublicKey"
    by (simp add: DhKem_decap_def demo_p256_def P256_def nist_simps nist_pk_from_bytes_def)
  then show ?thesis
    using conjunct1 [OF nist_open_outcomes [OF demo_p256_suite, of "DhEncappedKey [2, 0]"
        "demo_p256_sk 1" "[8]" "[9]" "[1]"]]
    by (simp add: open_outcome_ok_def)
qed


lemma toy_crates:
  "crates_ok toy_x25519 toy_x448 (toy_ec 32) (toy_ec 48) (toy_ec 66) (toy_ec 32) toy_x_wing
     (toy_ml_kem 1088 1184) (toy_ml_kem 1568 1568) (toy_hkdf 32) (toy_hkdf 48) (toy_hkdf 64) toy_shake
     toy_rng"
  unfolding crates_ok_def by (simp add: toy_ok)


text \<open>
  C39: the parsers are exact on every input. For each of the nine KEMs and any bytes, an
  encapsulated key is accepted exactly when it has the registered length and is kept unchanged,
  otherwise the error is \<open>InvalidEncappedKey\<close>; an accepted public or private key has its
  registered length, a rejected one gives \<open>InvalidPublicKey\<close> or
  \<open>InvalidPrivateKey\<close>; nothing panics.
\<close>

theorem kem_parsers_exact:
  assumes "crates_ok LX LG E256 E384 E521 EK W M768 M1024 H256 H384 H512 S R"
  shows "parsers_exact (DhKem (X25519 LX H256 R)) b \<and> parsers_exact (DhKem (X448 LG H512 R)) b
     \<and> parsers_exact (DhKem (P256 E256 H256)) b \<and> parsers_exact (DhKem (P384 E384 H384)) b
     \<and> parsers_exact (DhKem (P521 E521 H512)) b \<and> parsers_exact (DhKem (K256 EK H256)) b
     \<and> parsers_exact (XWingDraft06 W S R) b \<and> parsers_exact (MlKem768 M768 S R) b
     \<and> parsers_exact (MlKem1024 M1024 S R) b"
  using crates_parsers [OF assms] by blast

theorem kem_parsers_exact_witness:
  "k_enc_from_bytes (MlKem768 (toy_ml_kem 1088 1184) toy_shake toy_rng) [1, 2] = Err InvalidEncappedKey"
proof -
  let ?K = "MlKem768 (toy_ml_kem 1088 1184) toy_shake toy_rng"
  have "parsers_exact ?K [1, 2]" using kem_parsers_exact [OF toy_crates, of "[1, 2]"] by blast
  moreover have "k_ENCAPPED_KEY_LEN ?K = 1088"
    by (simp add: MlKem768_def ml_kem_variant_def params_768_def)
  ultimately show ?thesis
    unfolding parsers_exact_def by (cases "k_enc_from_bytes ?K [1, 2]") simp_all
qed

section \<open>Deterministic encapsulation\<close>

text \<open>
  Deterministic encapsulation interoperates with decapsulation. For recipient and sender key
  pairs of the crate, \<open>encap_with_ikm\<close> and its authenticated variant report the failure of
  the derivation of the ephemeral key, or exchange a secret exactly as the randomised operations
  do; and they return what the randomised operations return when the generator yields the
  derived pair.
\<close>

theorem nist_encap_with_ikm:
  assumes "D \<in> registered_nist L H" and "ec_lib_ok L (d_PRIVATE_KEY_LEN D)"
    and "hkdf_lib_ok H (f_HASH_LEN (d_Kdf D))"
    and "DhKem_generate D r0 = (Ok (sk_r, pk_r), r1) \<or> DhKem_derive_key_pair D ikm0 = Ok (sk_r, pk_r)"
    and "DhKem_generate D r2 = (Ok (sk_s, pk_s), r3) \<or> DhKem_derive_key_pair D ikm1 = Ok (sk_s, pk_s)"
  shows "ikm_exchange_ok D sk_r pk_r sk_s pk_s ikm
     \<and> (\<forall>r kp r'. d_derive D ikm = Ok kp \<and> d_generate D r = (kp, r') \<longrightarrow>
          encap_with_ikm D pk_r ikm = fst (DhKem_encap D r pk_r)
        \<and> auth_encap_with_ikm D pk_r sk_s ikm = fst (DhKem_auth_encap D r pk_r sk_s))"
proof -
  note contract = registered_nist_contract [OF assms(1-3)]
  show ?thesis
    by (intro conjI allI impI; (elim conjE)?; (rule encap_with_ikm_eq; assumption)?)
      (rule dh_contract.ikm_exchange_outcome [OF contract TrueI
        dh_contract.made_key_pair [OF contract TrueI assms(4)]
        dh_contract.made_key_pair [OF contract TrueI assms(5)]])
qed

theorem nist_encap_with_ikm_witness:
  "ikm_exchange_ok demo_p256 (demo_p256_sk 1) (demo_p256_pk 1) (demo_p256_sk 3) (demo_p256_pk 3) [7]"
proof -
  have "DhKem_generate demo_p256 0 = (Ok (demo_p256_sk 1, demo_p256_pk 1), Suc 0)"
    and "DhKem_generate demo_p256 1 = (Ok (demo_p256_sk 3, demo_p256_pk 3), Suc 1)"
    using demo_p256_generate [of 0] demo_p256_generate [of 1] by simp_all
  from nist_encap_with_ikm [OF demo_p256_registered demo_p256_libs disjI1 [OF this(1)]
      disjI1 [OF this(2)], of "[7]"]
  show ?thesis by blast
qed

end
