(* ===== verification/Hpke_Binding.thy ===== *)
theory Hpke_Binding
  imports Hpke_Input_Theorems
begin

text \<open>
  What the hashed inputs bind. The labels and suite identifiers of \<open>src/kdf.rs\<close> keep the
  inputs of any two labelled calls apart; the key schedule of \<open>src/lib.rs\<close> and the
  decapsulation of \<open>src/kem/dh.rs\<close> hash everything the parties should agree on. Equality
  of two derived secrets therefore gives equality of all that went into them, or two different
  inputs of HKDF with the same output. No assumption that such a collision is hard to find is
  made: it is one side of a disjunction, at inputs that are named.
\<close>

section \<open>The inputs of the hash\<close>

text \<open>The strings \<open>labeled_extract\<close> and \<open>labeled_expand\<close> hand to HKDF.\<close>

definition extract_input :: "bytes \<Rightarrow> string \<Rightarrow> bytes \<Rightarrow> bytes" where
  "extract_input suite label ikm = HPKE_v1 @ suite @ ascii label @ ikm"

definition expand_input :: "nat \<Rightarrow> bytes \<Rightarrow> string \<Rightarrow> bytes \<Rightarrow> bytes" where
  "expand_input n suite label info =
     to_be_bytes (word_of_nat n :: u16) @ HPKE_v1 @ suite @ ascii label @ info"

lemma ascii_simps: "ascii [] = []" "ascii (c # cs) = of_char c # ascii cs"
  by (simp_all add: ascii_def)

lemma extract_input_inj:
  "length s = length s' \<Longrightarrow> extract_input s l x = extract_input s' l x' \<longleftrightarrow> s = s' \<and> x = x'"
  by (auto simp: extract_input_def)

lemma expand_input_inj:
  "length s = length s' \<Longrightarrow> expand_input n s l x = expand_input n s' l x' \<longleftrightarrow> s = s' \<and> x = x'"
  by (auto simp: expand_input_def)

section \<open>Domain separation\<close>

text \<open>Every label of the crate, by the function it is given to.\<close>

definition extract_labels :: "string list" where
  "extract_labels = [''eae_prk'', ''dkp_prk'', ''psk_id_hash'', ''info_hash'', ''secret'']"

definition expand_labels :: "string list" where
  "expand_labels = [''shared_secret'', ''sk'', ''candidate'', ''key'', ''base_nonce'', ''exp'', ''sec'']"

text \<open>No label is a proper prefix of another one, so that what follows a label is determined.\<close>

definition prefix_free :: "string list \<Rightarrow> bool" where
  "prefix_free ls \<longleftrightarrow> (\<forall>l \<in> set ls. \<forall>l' \<in> set ls. l \<noteq> l' \<longrightarrow>
     take (min (length l) (length l')) l \<noteq> take (min (length l) (length l')) l')"

lemma labels_prefix_free: "prefix_free extract_labels" "prefix_free expand_labels"
  unfolding prefix_free_def extract_labels_def expand_labels_def by simp_all

lemma ascii_inj: "ascii s = ascii t \<longleftrightarrow> s = t"
proof -
  have "unat (of_char c :: u8) = of_char c" for c
  proof -
    have "(of_char c :: u8) = word_of_nat (of_char c)" by (simp add: of_nat_of_char)
    moreover have "(of_char c :: nat) < 2 ^ 8" using nat_of_char_less_256 [of c] by simp
    ultimately show ?thesis by (simp only: unsigned_of_nat) (simp add: take_bit_nat_eq_self)
  qed
  then have "inj (of_char :: char \<Rightarrow> u8)"
    by (metis injI of_char_eq_iff)
  then show ?thesis unfolding ascii_def by (rule inj_map_eq_map)
qed

lemma prefix_freeD:
  assumes "prefix_free ls" and "l \<in> set ls" and "l' \<in> set ls" and "ascii l @ x = ascii l' @ x'"
  shows "l = l' \<and> x = x'"
proof -
  let ?n = "min (length l) (length l')"
  have "take ?n (ascii l @ x) = take ?n (ascii l' @ x')" by (simp only: assms(4))
  then have "ascii (take ?n l) = ascii (take ?n l')" by (simp add: ascii_def take_map)
  then have "l = l'" using assms(1-3) by (auto simp: prefix_free_def ascii_inj)
  with assms(4) show ?thesis by simp
qed

text \<open>A suite identifier of a KEM or of a whole suite, followed by anything.\<close>

lemma suite_append_eq:
  assumes "s = kem_suite_id i \<or> s = ciphersuite K F A"
    and "s' = kem_suite_id i' \<or> s' = ciphersuite K' F' A'" and "s @ x = s' @ x'"
  shows "s = s' \<and> x = x'"
proof -
  have hd: "hd (kem_suite_id j @ u) = 75" "hd (ciphersuite J G B @ u) = 72" for j J G B u
    by (simp_all add: kem_suite_id_def ciphersuite_eq ascii_simps splice_def)
  have "hd (s @ x) = hd (s' @ x')" by (simp only: assms(3))
  then have "length s = length s'" using assms(1,2) by (auto simp: hd)
  with assms(3) show ?thesis by simp
qed

lemma suite_kinds_differ: "kem_suite_id i \<noteq> ciphersuite K F A"
proof
  assume "kem_suite_id i = ciphersuite K F A"
  then have "length (kem_suite_id i) = length (ciphersuite K F A)" by (rule arg_cong)
  then show False by simp
qed

text \<open>A KDF that returns what it is told to hash.\<close>

definition recording_kdf :: kdf where
  "recording_kdf = \<lparr> f_ID = 0, f_HASH_LEN = 32, f_extract = (\<lambda>salt ps. concat ps),
     f_expand = (\<lambda>prk ps n. Ok (concat ps)) \<rparr>"

lemma recording_simps:
  "labeled_extract recording_kdf salt s (ascii l) ikm = extract_input s l ikm"
  "n \<le> 65535 \<Longrightarrow> labeled_expand recording_kdf prk s (ascii l) info n = Ok (expand_input n s l info)"
  by (simp_all add: labeled_extract_def labeled_expand_def recording_kdf_def extract_input_def
      expand_input_def u16_try_from_def)

lemma extract_input_separated:
  assumes "s = kem_suite_id i \<or> s = ciphersuite K F A"
    and "s' = kem_suite_id i' \<or> s' = ciphersuite K' F' A'"
    and "prefix_free ls" and "l \<in> set ls" and "l' \<in> set ls"
  shows "extract_input s l x = extract_input s' l' x' \<longleftrightarrow> s = s' \<and> l = l' \<and> x = x'"
proof
  assume "extract_input s l x = extract_input s' l' x'"
  then have "s @ ascii l @ x = s' @ ascii l' @ x'" by (simp add: extract_input_def)
  from suite_append_eq [OF assms(1,2) this] have "s = s'" and "ascii l @ x = ascii l' @ x'" by blast+
  with prefix_freeD [OF assms(3-5)] show "s = s' \<and> l = l' \<and> x = x'" by blast
qed simp

lemma expand_input_separated:
  assumes "s = kem_suite_id i \<or> s = ciphersuite K F A"
    and "s' = kem_suite_id i' \<or> s' = ciphersuite K' F' A'"
    and "prefix_free ls" and "l \<in> set ls" and "l' \<in> set ls" and "n \<le> 65535" and "n' \<le> 65535"
  shows "expand_input n s l x = expand_input n' s' l' x' \<longleftrightarrow> s = s' \<and> l = l' \<and> x = x' \<and> n = n'"
proof -
  have "n < 65536" "n' < 65536" using assms(6,7) by simp_all
  then have "(word_of_nat n :: u16) = word_of_nat n' \<longleftrightarrow> n = n'"
    by (metis unat_word_of_nat_u16)
  moreover have "expand_input n s l x = expand_input n' s' l' x' \<longleftrightarrow>
      (word_of_nat n :: u16) = word_of_nat n' \<and> extract_input s l x = extract_input s' l' x'"
    unfolding expand_input_def extract_input_def
    by (subst append_eq_append_conv) (simp_all only: length_u16_be u16_be_inj simp_thms)
  ultimately show ?thesis
    unfolding extract_input_separated [OF assms(1-5)] by blast
qed

text \<open>
  C31: labelled derivations are domain separated. Whatever the suites of two calls, of a KEM or of
  a ciphersuite, and whatever two labels of the crate, the bytes that \<open>labeled_extract\<close> hands to
  the hash determine suite, label and key material, and those of \<open>labeled_expand\<close> determine
  suite, label, info and output length: two calls hash the same string only if they are the same
  call.
\<close>

theorem labelled_inputs_separated:
  assumes "s = kem_suite_id i \<or> s = ciphersuite K F A"
    and "s' = kem_suite_id i' \<or> s' = ciphersuite K' F' A'"
    and "l \<in> set extract_labels" and "l' \<in> set extract_labels"
    and "m \<in> set expand_labels" and "m' \<in> set expand_labels" and "n \<le> 65535" and "n' \<le> 65535"
  shows "(labeled_extract recording_kdf salt s (ascii l) x
        = labeled_extract recording_kdf salt' s' (ascii l') x' \<longleftrightarrow> s = s' \<and> l = l' \<and> x = x')
     \<and> (labeled_expand recording_kdf prk s (ascii m) y n
        = labeled_expand recording_kdf prk' s' (ascii m') y' n'
        \<longleftrightarrow> s = s' \<and> m = m' \<and> y = y' \<and> n = n')"
  using extract_input_separated [OF assms(1,2) labels_prefix_free(1) assms(3,4)]
    expand_input_separated [OF assms(1,2) labels_prefix_free(2) assms(5-8)]
  by (simp add: recording_simps assms(7,8))

theorem labelled_inputs_separated_witness:
  "labeled_extract recording_kdf [] (kem_suite_id 0x20) (ascii ''secret'') [1]
     \<noteq> labeled_extract recording_kdf [] (ciphersuite (DhKem demo_p256) demo_kdf demo_aead)
         (ascii ''secret'') [1]
   \<and> labeled_expand recording_kdf [] (kem_suite_id 0x20) (ascii ''sk'') [7] 32
     \<noteq> labeled_expand recording_kdf [] (ciphersuite (DhKem demo_p256) demo_kdf demo_aead)
         (ascii ''sec'') [7] 32"
proof -
  have "''secret'' \<in> set extract_labels" "''sk'' \<in> set expand_labels" "''sec'' \<in> set expand_labels"
    by (simp_all add: extract_labels_def expand_labels_def)
  from labelled_inputs_separated [OF disjI1 [OF refl] disjI2 [OF refl] this(1,1,2,3), of 32 32 "[]"
      "0x20" "[1]" "[]" "DhKem demo_p256" demo_kdf demo_aead "[1]" "[]" "[7]" "[]" "[7]"]
  show ?thesis
    using suite_kinds_differ [of "0x20" "DhKem demo_p256" demo_kdf demo_aead] by simp
qed

section \<open>Collisions\<close>

text \<open>
  Two different inputs with equal outputs. For extraction the salts have the same length, since
  HMAC pads short keys; for expansion the output has at least sixteen bytes.
\<close>

definition extract_collision :: "kdf \<Rightarrow> bytes \<times> bytes \<Rightarrow> bytes \<times> bytes \<Rightarrow> bool" where
  "extract_collision F x y \<longleftrightarrow>
     x \<noteq> y \<and> length (fst x) = length (fst y) \<and> f_extract F (fst x) [snd x] = f_extract F (fst y) [snd y]"

definition expand_collision :: "kdf \<Rightarrow> nat \<Rightarrow> bytes \<times> bytes \<Rightarrow> bytes \<times> bytes \<Rightarrow> bool" where
  "expand_collision F n x y \<longleftrightarrow>
     x \<noteq> y \<and> 16 \<le> n \<and> is_ok (f_expand F (fst x) [snd x] n)
     \<and> f_expand F (fst x) [snd x] n = f_expand F (fst y) [snd y] n"

context kdf_contract
begin

lemma labeled_extract_ikm:
  "lawful \<Longrightarrow> labeled_extract F salt s (ascii l) x = f_extract F salt [extract_input s l x]"
  by (simp add: labeled_extract_eq extract_input_def)

text \<open>Equal extractions come from equal inputs or are a collision.\<close>

lemma extract_binds:
  assumes "lawful" and "length salt = length salt'" and "length s = length s'"
    and "labeled_extract F salt s (ascii l) x = labeled_extract F salt' s' (ascii l) x'"
  shows "salt = salt' \<and> s = s' \<and> x = x'
     \<or> extract_collision F (salt, extract_input s l x) (salt', extract_input s' l x')"
  using assms(2-4) extract_input_inj [OF assms(3), of l x x']
  unfolding labeled_extract_ikm [OF assms(1)] by (auto simp: extract_collision_def)

lemma labeled_expand_OkD:
  assumes "lawful" and "labeled_expand F prk s (ascii l) x n = Ok out"
  shows "n \<le> 255 * f_HASH_LEN F" and "length out = n"
    and "f_expand F prk [expand_input n s l x] n = Ok out"
proof -
  show n: "n \<le> 255 * f_HASH_LEN F"
    using assms(2) labeled_expand_too_long [of n prk s "ascii l" x] by (cases "n \<le> 255 * f_HASH_LEN F") auto
  then show eq: "f_expand F prk [expand_input n s l x] n = Ok out"
    using assms labeled_expand_eq [OF assms(1) n, of prk s "ascii l" x] by (simp add: expand_input_def)
  then have "\<not> length prk < f_HASH_LEN F"
    using expand_short_prk [OF assms(1) n, of prk] by auto
  then show "length out = n"
    using expand_ok [OF assms(1) n, of prk] eq by (metis not_less outcome.inject(1))
qed

lemma expand_binds:
  assumes "lawful" and "length s = length s'" and "16 \<le> length out"
    and "labeled_expand F prk s (ascii l) x n = Ok out"
    and "labeled_expand F prk' s' (ascii l) x' n' = Ok out"
  shows "prk = prk' \<and> s = s' \<and> x = x' \<and> n = n'
     \<or> expand_collision F n (prk, expand_input n s l x) (prk', expand_input n s' l x')"
  using assms(3) labeled_expand_OkD [OF assms(1,4)] labeled_expand_OkD [OF assms(1,5)]
    expand_input_inj [OF assms(2), of n l x x']
  by (auto simp: expand_collision_def)

end

section \<open>The key schedule\<close>

text \<open>A call of either key schedule, and its parts.\<close>

datatype ks_call =
    Without_psk PskFreeMode bytes bytes
  | With_psk PskMode bytes bytes Psk

fun run_ks ::
    "('r, 'pk, 'sk, 'enc, 'ss, 'z) kem_scheme \<Rightarrow> kdf \<Rightarrow> ('c, 'y) aead_scheme \<Rightarrow> ks_call \<Rightarrow>
     'c Context res" where
  "run_ks K F A (Without_psk M ss info) = key_schedule_psk_free M K F A ss info"
| "run_ks K F A (With_psk M ss info psk) = key_schedule_psk M K F A ss info psk"

fun ks_mode :: "ks_call \<Rightarrow> u8" where
  "ks_mode (Without_psk M ss info) = psk_free_mode_byte M"
| "ks_mode (With_psk M ss info psk) = psk_mode_byte M"

fun ks_ss :: "ks_call \<Rightarrow> bytes" where
  "ks_ss (Without_psk M ss info) = ss"
| "ks_ss (With_psk M ss info psk) = ss"

fun ks_info :: "ks_call \<Rightarrow> bytes" where
  "ks_info (Without_psk M ss info) = info"
| "ks_info (With_psk M ss info psk) = info"

fun ks_psk :: "ks_call \<Rightarrow> bytes \<times> bytes" where
  "ks_psk (Without_psk M ss info) = ([], [])"
| "ks_psk (With_psk M ss info psk) = (psk_secret psk, psk_id psk)"

lemma ks_call_eq_iff:
  "c = c' \<longleftrightarrow> ks_mode c = ks_mode c' \<and> ks_ss c = ks_ss c' \<and> ks_info c = ks_info c' \<and> ks_psk c = ks_psk c'"
  by (cases c; cases c') (auto simp: mode_bytes_distinct mode_bytes_distinct(3) [THEN not_sym])

lemma run_ks_eq:
  "run_ks K F A c =
     derive_context (ks_mode c) K F A (ks_ss c) (ks_info c) (fst (ks_psk c)) (snd (ks_psk c))"
  by (cases c) (simp_all add: key_schedule_psk_free_eq key_schedule_psk_eq)

text \<open>The inputs of the three extractions of a call, and of an expansion under a label.\<close>

definition ks_extractions ::
    "('r, 'pk, 'sk, 'enc, 'ss, 'z) kem_scheme \<Rightarrow> kdf \<Rightarrow> ('c, 'y) aead_scheme \<Rightarrow> ks_call \<Rightarrow>
     (bytes \<times> bytes) list" where
  "ks_extractions K F A c =
     (let suite = ciphersuite K F A in
      [(ks_ss c, extract_input suite ''secret'' (fst (ks_psk c))),
       ([], extract_input suite ''psk_id_hash'' (snd (ks_psk c))),
       ([], extract_input suite ''info_hash'' (ks_info c))])"

definition ks_expansion ::
    "('r, 'pk, 'sk, 'enc, 'ss, 'z) kem_scheme \<Rightarrow> kdf \<Rightarrow> ('c, 'y) aead_scheme \<Rightarrow> ks_call \<Rightarrow>
     string \<Rightarrow> nat \<Rightarrow> bytes \<times> bytes" where
  "ks_expansion K F A c label n =
     (let out = map (\<lambda>(salt, ikm). f_extract F salt [ikm]) (ks_extractions K F A c)
      in (out ! 0, expand_input n (ciphersuite K F A) label (ks_mode c # out ! 1 @ out ! 2)))"

text \<open>
  Two calls collide: one of the three extractions does, or the expansion of the exporter secret
  or of the key.
\<close>

definition ks_collision ::
    "('r, 'pk, 'sk, 'enc, 'ss, 'z) kem_scheme \<Rightarrow> ('r', 'pk', 'sk', 'enc', 'ss', 'z') kem_scheme \<Rightarrow> kdf \<Rightarrow>
     ('c, 'y) aead_scheme \<Rightarrow> ('c', 'y') aead_scheme \<Rightarrow> ks_call \<Rightarrow> ks_call \<Rightarrow> bool" where
  "ks_collision K K' F A A' c c' \<longleftrightarrow>
     (\<exists>i < 3. extract_collision F (ks_extractions K F A c ! i) (ks_extractions K' F A' c' ! i))
   \<or> expand_collision F (f_HASH_LEN F) (ks_expansion K F A c ''exp'' (f_HASH_LEN F))
       (ks_expansion K' F A' c' ''exp'' (f_HASH_LEN F))
   \<or> expand_collision F (a_KEY_LEN A) (ks_expansion K F A c ''key'' (a_KEY_LEN A))
       (ks_expansion K' F A' c' ''key'' (a_KEY_LEN A))"

context kdf_contract
begin

lemma run_ks_OkD:
  assumes "lawful" and "run_ks K F A c = Ok ctx"
  shows "labeled_expand F (labeled_extract F (ks_ss c) (ciphersuite K F A) (ascii ''secret'') (fst (ks_psk c)))
          (ciphersuite K F A) (ascii ''exp'')
          (ks_mode c # labeled_extract F [] (ciphersuite K F A) (ascii ''psk_id_hash'') (snd (ks_psk c))
            @ labeled_extract F [] (ciphersuite K F A) (ascii ''info_hash'') (ks_info c))
          (f_HASH_LEN F) = Ok (exporter_secret ctx)"
    and "labeled_expand F (labeled_extract F (ks_ss c) (ciphersuite K F A) (ascii ''secret'') (fst (ks_psk c)))
          (ciphersuite K F A) (ascii ''key'')
          (ks_mode c # labeled_extract F [] (ciphersuite K F A) (ascii ''psk_id_hash'') (snd (ks_psk c))
            @ labeled_extract F [] (ciphersuite K F A) (ascii ''info_hash'') (ks_info c))
          (a_KEY_LEN A) = Ok (raw_key ctx)"
  using assms(2)
  by (auto simp: run_ks_eq derive_context_def Let_def outcome_simps Context_new_def
      labeled_expand_pieces_concat [OF assms(1)])

lemma ks_expansion_eq:
  assumes "lawful"
  shows "ks_expansion K F A c label n =
     (labeled_extract F (ks_ss c) (ciphersuite K F A) (ascii ''secret'') (fst (ks_psk c)),
      expand_input n (ciphersuite K F A) label (ks_mode c
        # labeled_extract F [] (ciphersuite K F A) (ascii ''psk_id_hash'') (snd (ks_psk c))
        @ labeled_extract F [] (ciphersuite K F A) (ascii ''info_hash'') (ks_info c)))"
  by (simp add: ks_expansion_def ks_extractions_def Let_def labeled_extract_ikm [OF assms])

text \<open>One expansion of two calls with equal results.\<close>

lemma ks_label_binds:
  assumes "lawful" and "length (ks_ss c) = length (ks_ss c')" and "16 \<le> length out"
    and "labeled_expand F (labeled_extract F (ks_ss c) s (ascii ''secret'') (fst (ks_psk c))) s (ascii l)
          (ks_mode c # labeled_extract F [] s (ascii ''psk_id_hash'') (snd (ks_psk c))
            @ labeled_extract F [] s (ascii ''info_hash'') (ks_info c)) n = Ok out"
    and "labeled_expand F (labeled_extract F (ks_ss c') s' (ascii ''secret'') (fst (ks_psk c'))) s' (ascii l)
          (ks_mode c' # labeled_extract F [] s' (ascii ''psk_id_hash'') (snd (ks_psk c'))
            @ labeled_extract F [] s' (ascii ''info_hash'') (ks_info c')) n' = Ok out"
    and "s = ciphersuite K F A" and "s' = ciphersuite K' F A'"
  shows "c = c' \<and> s = s'
     \<or> (\<exists>i < 3. extract_collision F (ks_extractions K F A c ! i) (ks_extractions K' F A' c' ! i))
     \<or> expand_collision F n (ks_expansion K F A c l n) (ks_expansion K' F A' c' l n)"
proof -
  have len: "length s = length s'" using assms(6,7) by simp
  from expand_binds [OF assms(1) len assms(3-5)] consider
      (coll) "expand_collision F n (ks_expansion K F A c l n) (ks_expansion K' F A' c' l n)"
    | (eq) "labeled_extract F (ks_ss c) s (ascii ''secret'') (fst (ks_psk c))
          = labeled_extract F (ks_ss c') s' (ascii ''secret'') (fst (ks_psk c'))"
      "ks_mode c = ks_mode c'" "s = s'"
      "labeled_extract F [] s (ascii ''psk_id_hash'') (snd (ks_psk c))
          = labeled_extract F [] s' (ascii ''psk_id_hash'') (snd (ks_psk c'))"
      "labeled_extract F [] s (ascii ''info_hash'') (ks_info c)
          = labeled_extract F [] s' (ascii ''info_hash'') (ks_info c')"
    unfolding ks_expansion_eq [OF assms(1)] assms(6,7)
    by (auto simp: labeled_extract_length [OF assms(1)])
  then show ?thesis
  proof cases
    case eq
    from extract_binds [OF assms(1,2) len eq(1)] extract_binds [OF assms(1) refl len eq(4)]
      extract_binds [OF assms(1) refl len eq(5)] eq(2,3)
    have "c = c' \<and> s = s'
       \<or> extract_collision F (ks_extractions K F A c ! 0) (ks_extractions K' F A' c' ! 0)
       \<or> extract_collision F (ks_extractions K F A c ! 1) (ks_extractions K' F A' c' ! 1)
       \<or> extract_collision F (ks_extractions K F A c ! 2) (ks_extractions K' F A' c' ! 2)"
      by (auto simp: ks_extractions_def Let_def ks_call_eq_iff [of c c'] prod_eq_iff assms(6,7))
    moreover have "(0 :: nat) < 3" "(1 :: nat) < 3" "(2 :: nat) < 3" by simp_all
    ultimately show ?thesis by blast
  qed blast
qed

lemma ks_binds:
  assumes "lawful" and "run_ks K F A c = Ok ctx" and "run_ks K' F A' c' = Ok ctx'"
    and "length (ks_ss c) = length (ks_ss c')"
    and "exporter_secret ctx = exporter_secret ctx' \<or> raw_key ctx = raw_key ctx' \<and> 16 \<le> a_KEY_LEN A"
  shows "c = c' \<and> ciphersuite K F A = ciphersuite K' F A' \<or> ks_collision K K' F A A' c c'"
proof -
  note d = run_ks_OkD [OF assms(1,2)] and d' = run_ks_OkD [OF assms(1,3)]
  from assms(5) show ?thesis
  proof (elim disjE conjE)
    assume eq: "exporter_secret ctx = exporter_secret ctx'"
    have "16 \<le> length (exporter_secret ctx')"
      using labeled_expand_OkD(2) [OF assms(1) d'(1)] hash_len_ge by simp
    from ks_label_binds [OF assms(1,4) this d(1) [unfolded eq] d'(1) refl refl]
    show ?thesis unfolding ks_collision_def by blast
  next
    assume eq: "raw_key ctx = raw_key ctx'" and "16 \<le> a_KEY_LEN A"
    then have "16 \<le> length (raw_key ctx')"
      using labeled_expand_OkD(2) [OF assms(1) d(2)] by simp
    from ks_label_binds [OF assms(1,4) this d(2) [unfolded eq] d'(2) refl refl]
    show ?thesis unfolding ks_collision_def by blast
  qed
qed

end

text \<open>
  C32: the key schedule binds all its inputs. If two runs of the key schedule, in whatever modes
  and for whatever KEMs and AEADs, with one registered KDF and shared secrets of one length, end in
  the same exporter secret or in the same key of at least 16 bytes, then mode, shared secret, info, PSK, PSK identifier and the identifiers of the
  suite are all equal, or the inputs of one of the five HKDF calls involved are a collision.
\<close>

theorem key_schedule_binding:
  assumes "F \<in> registered_kdfs G" and "hkdf_lib_ok G (f_HASH_LEN F)"
    and "run_ks K F A c = Ok ctx" and "run_ks K' F A' c' = Ok ctx'"
    and "length (ks_ss c) = length (ks_ss c')"
    and "exporter_secret ctx = exporter_secret ctx' \<or> raw_key ctx = raw_key ctx' \<and> 16 \<le> a_KEY_LEN A"
  shows "c = c' \<and> k_ID K = k_ID K' \<and> a_ID A = a_ID A' \<or> ks_collision K K' F A A' c c'"
  using kdf_contract.ks_binds [OF registered_kdf_contract [OF assms(1,2)] TrueI assms(3-6)]
  by (simp add: ciphersuite_eq)

text \<open>The checksum that stands for a hash in the demonstrations does collide.\<close>

lemma demo_info_hash:
  "labeled_extract demo_kdf [] s (ascii ''info_hash'') [4, 3]
   = labeled_extract demo_kdf [] s (ascii ''info_hash'') [3]"
  by (simp add: demo_kdf_def HkdfSha256_def HkdfSha384_def HkdfSha512_def hkdf_impl_def
      labeled_extract_def hkdf_extract_def toy_hkdf_def checksum_def HPKE_v1_def ascii_simps)

lemma demo_ks_exporters:
  "run_ks K demo_kdf A (Without_psk M ss [4, 3]) = run_ks K demo_kdf A (Without_psk M ss [3])"
  by (simp add: key_schedule_psk_free_def demo_info_hash)

theorem key_schedule_binding_witness:
  "ks_collision (DhKem demo_p256) (DhKem demo_p256) demo_kdf demo_aead demo_aead
     (Without_psk BaseModeTag [1, 2] [3]) (Without_psk BaseModeTag [1, 2] [4, 3])"
proof -
  let ?run = "run_ks (DhKem demo_p256) demo_kdf demo_aead"
  note total = key_schedule_suite.key_schedule_psk_free_total [OF key_schedule_registered
      [OF demo_kdf_registered demo_kdf_lib demo_registered demo_limit] TrueI]
  obtain ctx where c: "?run (Without_psk BaseModeTag [1, 2] [3]) = Ok ctx"
    using total [of BaseModeTag "DhKem demo_p256" "[1, 2]" "[3]"] by auto
  have c': "?run (Without_psk BaseModeTag [1, 2] [4, 3]) = Ok ctx"
    unfolding demo_ks_exporters by (rule c)
  from key_schedule_binding [OF demo_kdf_registered demo_kdf_lib c c' _ disjI1 [OF refl]]
  show ?thesis by simp
qed

end
