(* ===== verification/Hpke_Transcript.thy ===== *)
theory Hpke_Transcript
  imports Hpke_Binding
begin

text \<open>
  What decapsulation and the contexts it leads to bind: the secret of a DHKEM is bound to the
  encapsulated key, the recipient, the sender and the Diffie-Hellman outputs, and the secrets
  that a recipient exports to the whole transcript, in all four modes. As in
  \<open>Hpke_Binding\<close> the alternative is a collision of HKDF at named inputs.
\<close>

section \<open>Decapsulation\<close>

text \<open>A call of either decapsulation, the keys it is about and its Diffie-Hellman output.\<close>

datatype ('pk, 'sk) decap_call =
    Decap DhEncappedKey "'sk DhPrivateKey"
  | Auth_decap DhEncappedKey "'sk DhPrivateKey" "'pk DhPublicKey"

fun run_decap ::
    "('r, 'pk, 'sk, 'z) dh_core_scheme \<Rightarrow> ('pk, 'sk) decap_call \<Rightarrow> DhSharedSecret res" where
  "run_decap D (Decap enc sk) = DhKem_decap D enc sk"
| "run_decap D (Auth_decap enc sk pk_s) = DhKem_auth_decap D enc sk pk_s"

fun decap_parties :: "('r, 'pk, 'sk, 'z) dh_core_scheme \<Rightarrow> ('pk, 'sk) decap_call \<Rightarrow> bytes list" where
  "decap_parties D (Decap enc sk) = [dh_enc enc, pk_bytes sk]"
| "decap_parties D (Auth_decap enc sk pk_s) = [dh_enc enc, pk_bytes sk, d_pk_as_ref D (dh_pk pk_s)]"

fun decap_dh :: "('r, 'pk, 'sk, 'z) dh_core_scheme \<Rightarrow> ('pk, 'sk) decap_call \<Rightarrow> bytes res" where
  "decap_dh D (Decap enc sk) =
     try_bind (d_pk_from_bytes D (dh_enc enc)) (d_dh D (dh_sk sk))"
| "decap_dh D (Auth_decap enc sk pk_s) =
     try_bind (d_pk_from_bytes D (dh_enc enc)) (\<lambda>pk_e.
     try_bind (d_dh D (dh_sk sk) pk_e) (\<lambda>dh1.
     try_bind (d_dh D (dh_sk sk) (dh_pk pk_s)) (\<lambda>dh2. Ok (dh1 @ dh2))))"

text \<open>The keys have the registered length (C29); an encapsulated key that parses has it.\<close>

fun decap_wf :: "('r, 'pk, 'sk, 'z) dh_core_scheme \<Rightarrow> ('pk, 'sk) decap_call \<Rightarrow> bool" where
  "decap_wf D (Decap enc sk) \<longleftrightarrow> length (pk_bytes sk) = d_PUBLIC_KEY_LEN D"
| "decap_wf D (Auth_decap enc sk pk_s) \<longleftrightarrow> length (pk_bytes sk) = d_PUBLIC_KEY_LEN D
     \<and> length (d_pk_as_ref D (dh_pk pk_s)) = d_PUBLIC_KEY_LEN D"

text \<open>The inputs of the extraction and of the expansion, from the Diffie-Hellman output.\<close>

definition eae_extraction :: "('r, 'pk, 'sk, 'z) dh_core_scheme \<Rightarrow> bytes \<Rightarrow> bytes \<times> bytes" where
  "eae_extraction D z = ([], extract_input (suite_id D) ''eae_prk'' z)"

definition eae_expansion ::
    "('r, 'pk, 'sk, 'z) dh_core_scheme \<Rightarrow> bytes \<Rightarrow> bytes list \<Rightarrow> bytes \<times> bytes" where
  "eae_expansion D z ctx =
     (f_extract (d_Kdf D) [] [snd (eae_extraction D z)],
      expand_input (d_SHARED_SECRET_LEN D) (suite_id D) ''shared_secret'' (concat ctx))"

definition decap_collision ::
    "('r, 'pk, 'sk, 'z) dh_core_scheme \<Rightarrow> ('pk, 'sk) decap_call \<Rightarrow> ('pk, 'sk) decap_call \<Rightarrow> bool" where
  "decap_collision D c c' \<longleftrightarrow>
     (\<exists>z z'. decap_dh D c = Ok z \<and> decap_dh D c' = Ok z'
        \<and> (extract_collision (d_Kdf D) (eae_extraction D z) (eae_extraction D z')
         \<or> expand_collision (d_Kdf D) (d_SHARED_SECRET_LEN D) (eae_expansion D z (decap_parties D c))
             (eae_expansion D z' (decap_parties D c'))))"

definition decap_binding :: "('r, 'pk, 'sk, 'z) dh_core_scheme \<Rightarrow> bool" where
  "decap_binding D \<longleftrightarrow>
     (\<forall>c c' ss. decap_wf D c \<longrightarrow> decap_wf D c' \<longrightarrow> run_decap D c = Ok ss \<longrightarrow> run_decap D c' = Ok ss \<longrightarrow>
        decap_parties D c = decap_parties D c' \<and> decap_dh D c = decap_dh D c' \<or> decap_collision D c c')"

lemma decap_bindingD:
  assumes "decap_binding D" and "decap_wf D c" and "decap_wf D c'"
    and "run_decap D c = Ok ss" and "run_decap D c' = Ok ss"
  shows "decap_parties D c = decap_parties D c' \<and> decap_dh D c = decap_dh D c' \<or> decap_collision D c c'"
  using assms unfolding decap_binding_def by blast

text \<open>Lists of blocks of one length are determined by their concatenation.\<close>

lemma concat_blocks_inj:
  assumes "0 < k" and "\<forall>x \<in> set xs. length x = k" and "\<forall>y \<in> set ys. length y = k"
    and "concat xs = concat ys"
  shows "xs = ys"
  using assms(2-4)
proof (induction xs arbitrary: ys)
  case Nil
  then show ?case using assms(1) by (cases ys) simp_all
next
  case (Cons x xs)
  have "ys \<noteq> []" using Cons.prems(1,3) assms(1) by (intro notI) simp
  then obtain y ys' where ys: "ys = y # ys'" by (cases ys) simp_all
  have "length x = length y" using Cons.prems(1,2) by (simp add: ys)
  moreover have "x @ concat xs = y @ concat ys'" using Cons.prems(3) by (simp add: ys)
  ultimately have "x = y \<and> concat xs = concat ys'" by simp
  moreover have "concat xs = concat ys' \<Longrightarrow> xs = ys'"
    using Cons.prems(1,2) by (intro Cons.IH) (simp_all add: ys)
  ultimately show ?case by (simp add: ys)
qed

context dh_contract
begin

lemma run_decap_OkD:
  assumes "lawful" and "run_decap D c = Ok ss"
  shows "\<exists>z pk_e. decap_dh D c = Ok z \<and> d_pk_from_bytes D (hd (decap_parties D c)) = Ok pk_e
     \<and> labeled_expand (d_Kdf D) (labeled_extract (d_Kdf D) [] (suite_id D) (ascii ''eae_prk'') z)
          (suite_id D) (ascii ''shared_secret'') (concat (decap_parties D c)) (d_SHARED_SECRET_LEN D)
        = Ok (dh_ss ss)"
proof (cases c)
  case (Decap enc sk)
  then show ?thesis
    using assms(2) by (auto simp: DhKem_decap_def outcome_simps extract_and_expand_def Let_def
        kdf.labeled_expand_pieces_concat [OF assms(1)])
next
  case (Auth_decap enc sk pk_s)
  then show ?thesis
    using assms(2) by (auto simp: DhKem_auth_decap_def try_bind_Ok_iff extract_and_expand_def Let_def
        extract_and_expand_pieces_eq [OF assms(1)] kdf.labeled_expand_pieces_concat [OF assms(1)])
qed

lemma run_decap_length:
  "lawful \<Longrightarrow> run_decap D c = Ok ss \<Longrightarrow> length (dh_ss ss) = d_SHARED_SECRET_LEN D"
  using run_decap_OkD kdf.labeled_expand_OkD(2) by blast

lemma decap_binds:
  assumes "lawful" and pk_len: "\<And>b pk. d_pk_from_bytes D b = Ok pk \<Longrightarrow> length b = d_PUBLIC_KEY_LEN D"
    and "0 < d_PUBLIC_KEY_LEN D" and "16 \<le> d_SHARED_SECRET_LEN D"
  shows "decap_binding D"
  unfolding decap_binding_def
proof (intro allI impI)
  fix c c' ss
  assume wf: "decap_wf D c" "decap_wf D c'" and run: "run_decap D c = Ok ss" "run_decap D c' = Ok ss"
  from run_decap_OkD [OF assms(1) run(1)] obtain z pk where z: "decap_dh D c = Ok z"
    and pk: "d_pk_from_bytes D (hd (decap_parties D c)) = Ok pk"
    and ex: "labeled_expand (d_Kdf D) (labeled_extract (d_Kdf D) [] (suite_id D) (ascii ''eae_prk'') z)
          (suite_id D) (ascii ''shared_secret'') (concat (decap_parties D c)) (d_SHARED_SECRET_LEN D)
        = Ok (dh_ss ss)" by blast
  from run_decap_OkD [OF assms(1) run(2)] obtain z' pk' where z': "decap_dh D c' = Ok z'"
    and pk': "d_pk_from_bytes D (hd (decap_parties D c')) = Ok pk'"
    and ex': "labeled_expand (d_Kdf D) (labeled_extract (d_Kdf D) [] (suite_id D) (ascii ''eae_prk'') z')
          (suite_id D) (ascii ''shared_secret'') (concat (decap_parties D c')) (d_SHARED_SECRET_LEN D)
        = Ok (dh_ss ss)" by blast
  have len: "16 \<le> length (dh_ss ss)"
    using kdf.labeled_expand_OkD(2) [OF assms(1) ex] assms(4) by simp
  have "\<forall>x \<in> set (decap_parties D c). length x = d_PUBLIC_KEY_LEN D"
    "\<forall>x \<in> set (decap_parties D c'). length x = d_PUBLIC_KEY_LEN D"
    using wf pk_len [OF pk] pk_len [OF pk'] by (cases c; cases c'; simp)+
  note blocks = concat_blocks_inj [OF assms(3) this]
  from kdf.expand_binds [OF assms(1) refl len ex ex']
  show "decap_parties D c = decap_parties D c' \<and> decap_dh D c = decap_dh D c' \<or> decap_collision D c c'"
  proof
    assume "expand_collision (d_Kdf D) (d_SHARED_SECRET_LEN D)
        (labeled_extract (d_Kdf D) [] (suite_id D) (ascii ''eae_prk'') z,
         expand_input (d_SHARED_SECRET_LEN D) (suite_id D) ''shared_secret'' (concat (decap_parties D c)))
        (labeled_extract (d_Kdf D) [] (suite_id D) (ascii ''eae_prk'') z',
         expand_input (d_SHARED_SECRET_LEN D) (suite_id D) ''shared_secret'' (concat (decap_parties D c')))"
    then show ?thesis
      using z z' by (simp add: decap_collision_def eae_expansion_def eae_extraction_def
          kdf.labeled_extract_ikm [OF assms(1)])
  next
    assume eq: "labeled_extract (d_Kdf D) [] (suite_id D) (ascii ''eae_prk'') z
        = labeled_extract (d_Kdf D) [] (suite_id D) (ascii ''eae_prk'') z' \<and> suite_id D = suite_id D
        \<and> concat (decap_parties D c) = concat (decap_parties D c')
        \<and> d_SHARED_SECRET_LEN D = d_SHARED_SECRET_LEN D"
    with kdf.extract_binds [OF assms(1) refl refl, of "[]" "suite_id D" "''eae_prk''" z z'] blocks z z'
    show ?thesis by (auto simp: decap_collision_def eae_extraction_def)
  qed
qed

end

text \<open>Every group of the crate.\<close>

lemma crates_decap_binding:
  assumes "crates_ok LX LG E256 E384 E521 EK W M768 M1024 H256 H384 H512 S R"
  shows "decap_binding (X25519 LX H256 R)" and "decap_binding (X448 LG H512 R)"
    and "decap_binding (P256 E256 H256)" and "decap_binding (P384 E384 H384)"
    and "decap_binding (P521 E521 H512)" and "decap_binding (K256 EK H256)"
proof -
  note c = crates_contracts [OF assms]
  show "decap_binding (X25519 LX H256 R)"
    by (rule dh_contract.decap_binds [OF c(1) TrueI])
      (auto simp: X25519_simps X25519_pk_from_bytes_def split: if_splits)
  show "decap_binding (X448 LG H512 R)"
    by (rule dh_contract.decap_binds [OF c(2) TrueI])
      (auto simp: X448_simps X448_pk_from_bytes_def split: if_splits)
  show "decap_binding (P256 E256 H256)"
    by (rule dh_contract.decap_binds [OF c(3) TrueI])
      (auto simp: P256_def nist_simps nist_pk_from_bytes_def split: if_splits)
  show "decap_binding (P384 E384 H384)"
    by (rule dh_contract.decap_binds [OF c(4) TrueI])
      (auto simp: P384_def nist_simps nist_pk_from_bytes_def split: if_splits)
  show "decap_binding (P521 E521 H512)"
    by (rule dh_contract.decap_binds [OF c(5) TrueI])
      (auto simp: P521_def nist_simps nist_pk_from_bytes_def split: if_splits)
  show "decap_binding (K256 EK H256)"
    by (rule dh_contract.decap_binds [OF c(6) TrueI])
      (auto simp: K256_def nist_simps nist_pk_from_bytes_def split: if_splits)
qed

text \<open>
  C33: the secret of a DHKEM binds the exchange. Over each of the six groups, if two
  decapsulations, plain or authenticated, return the same secret, then they agree on the
  encapsulated key, on the recipient's public key, on whether there is a sender and on its public
  key, and on the Diffie-Hellman outputs, or the extraction or the expansion of \<open>ExtractAndExpand\<close>
  has two different inputs with the same output. In particular a plain and an authenticated
  exchange never share a secret without a collision.
\<close>

theorem decapsulation_binding:
  assumes "crates_ok LX LG E256 E384 E521 EK W M768 M1024 H256 H384 H512 S R"
  shows "decap_binding (X25519 LX H256 R) \<and> decap_binding (X448 LG H512 R)
     \<and> decap_binding (P256 E256 H256) \<and> decap_binding (P384 E384 H384)
     \<and> decap_binding (P521 E521 H512) \<and> decap_binding (K256 EK H256)"
  using crates_decap_binding [OF assms] by blast

text \<open>The checksum that stands for a hash sees the first and the last byte only.\<close>

lemma demo_labeled:
  "labeled_extract (HkdfSha256 (toy_hkdf 32)) [] s l x = replicate 32 (checksum (HPKE_v1 @ s @ l @ x))"
  "n \<le> 8160 \<Longrightarrow> labeled_expand (HkdfSha256 (toy_hkdf 32)) (replicate 32 k) s l x n =
     Ok (replicate n (k + k + checksum (to_be_bytes (word_of_nat n :: u16) @ HPKE_v1 @ s @ l @ x)))"
  by (simp_all add: labeled_extract_def labeled_expand_def HkdfSha256_def hkdf_impl_def hkdf_extract_def
      hkdf_expand_def toy_hkdf_def u16_try_from_def checksum_def)

lemma demo_checksums:
  "x \<noteq> [] \<Longrightarrow> checksum (HPKE_v1 @ s @ l @ x) = 72 + last x"
  "x \<noteq> [] \<Longrightarrow> checksum (to_be_bytes (32 :: u16) @ HPKE_v1 @ s @ l @ x) = last x"
  by (simp_all add: checksum_def HPKE_v1_def ascii_simps to_be_bytes_def upt_rec)

definition demo_enc :: DhEncappedKey where
  "demo_enc = DhEncappedKey (4 # replicate 63 0 @ [1])"

lemma demo_parse:
  "d_pk_from_bytes demo_p256 (dh_enc demo_enc)
     = Ok \<lparr> nist_pk_point = 1, nist_pk_encoded = 4 # replicate 63 0 @ [1] \<rparr>"
  by (simp add: demo_enc_def demo_p256_def P256_def nist_simps nist_pk_from_bytes_def nist_make_pk_def
      toy_ec_def)

lemma demo_extract_and_expand:
  assumes "z \<noteq> []" and "ctx \<noteq> []" and "last ctx \<noteq> []" and "length ctx \<le> 12"
  shows "extract_and_expand demo_p256 z ctx =
     (let k = 72 + last z in Ok (replicate 32 (k + k + last (last ctx))))"
proof -
  have "concat ctx \<noteq> []" and l: "last (concat ctx) = last (last ctx)"
    using assms(2,3) by (induction ctx) (auto split: if_splits)
  then show ?thesis
    using assms(1,4)
    by (simp add: extract_and_expand_def demo_p256_def P256_def nist_simps Let_def
        kdf_contract.labeled_expand_pieces_concat [OF registered_kdf_contract
          [OF demo_kdf_registered demo_kdf_lib, unfolded demo_kdf_def] TrueI]
        demo_labeled demo_checksums del: concat_eq_Nil_conv)
qed

lemma demo_as_ref: "d_pk_as_ref demo_p256 = nist_pk_encoded"
  by (simp add: demo_p256_def P256_def nist_simps)

lemma demo_decaps:
  "run_decap demo_p256 (Decap demo_enc (demo_p256_sk 1)) = Ok (DhSharedSecret (replicate 32 147))"
  "run_decap demo_p256 (Auth_decap demo_enc (demo_p256_sk 1) (demo_p256_pk 1))
     = Ok (DhSharedSecret (replicate 32 147))"
  by (simp_all add: DhKem_decap_def DhKem_auth_decap_def demo_parse demo_p256_dh demo_extract_and_expand
      dh_contract.extract_and_expand_pieces_eq [OF demo_p256_contract TrueI] demo_as_ref
      demo_p256_sk_def demo_p256_pk_def Let_def)

theorem decapsulation_binding_witness:
  "decap_collision demo_p256 (Decap demo_enc (demo_p256_sk 1))
     (Auth_decap demo_enc (demo_p256_sk 1) (demo_p256_pk 1))"
proof -
  have "decap_binding demo_p256"
    using decapsulation_binding [OF toy_crates] unfolding demo_p256_def by blast
  moreover have "decap_wf demo_p256 (Decap demo_enc (demo_p256_sk 1))"
    "decap_wf demo_p256 (Auth_decap demo_enc (demo_p256_sk 1) (demo_p256_pk 1))"
    by (simp_all add: demo_p256_def P256_def nist_simps demo_p256_sk_def demo_p256_pk_def)
  ultimately have "decap_parties demo_p256 (Decap demo_enc (demo_p256_sk 1))
        = decap_parties demo_p256 (Auth_decap demo_enc (demo_p256_sk 1) (demo_p256_pk 1))
     \<or> decap_collision demo_p256 (Decap demo_enc (demo_p256_sk 1))
          (Auth_decap demo_enc (demo_p256_sk 1) (demo_p256_pk 1))"
    using decap_bindingD demo_decaps by blast
  then show ?thesis by simp
qed

section \<open>The transcript of a recipient\<close>

text \<open>A recipient's side of each mode, with its single-shot export.\<close>

datatype ('pk, 'sk) receiver_call =
    Recv_base DhEncappedKey "'sk DhPrivateKey" bytes
  | Recv_psk DhEncappedKey "'sk DhPrivateKey" bytes Psk
  | Recv_auth DhEncappedKey "'sk DhPrivateKey" bytes "'pk DhPublicKey"
  | Recv_auth_psk DhEncappedKey "'sk DhPrivateKey" bytes Psk "'pk DhPublicKey"

fun run_export ::
    "('r, 'pk, 'sk, ('pk, 'sk, 'z) dh_ext) dh_core_scheme \<Rightarrow> kdf \<Rightarrow> ('c, 'y) aead_scheme \<Rightarrow>
     ('pk, 'sk) receiver_call \<Rightarrow> bytes \<Rightarrow> nat \<Rightarrow> bytes res" where
  "run_export D F A (Recv_base enc sk info) ectx n =
     receiver_export_base (DhKem D) F A enc sk info ectx n"
| "run_export D F A (Recv_psk enc sk info psk) ectx n =
     receiver_export_psk (DhKem D) F A enc sk info psk ectx n"
| "run_export D F A (Recv_auth enc sk info pk_s) ectx n =
     receiver_export_auth (DhKem D) F A enc sk info pk_s ectx n"
| "run_export D F A (Recv_auth_psk enc sk info psk pk_s) ectx n =
     receiver_export_auth_psk (DhKem D) F A enc sk info psk pk_s ectx n"

fun recv_decap :: "('pk, 'sk) receiver_call \<Rightarrow> ('pk, 'sk) decap_call" where
  "recv_decap (Recv_base enc sk info) = Decap enc sk"
| "recv_decap (Recv_psk enc sk info psk) = Decap enc sk"
| "recv_decap (Recv_auth enc sk info pk_s) = Auth_decap enc sk pk_s"
| "recv_decap (Recv_auth_psk enc sk info psk pk_s) = Auth_decap enc sk pk_s"

fun recv_ks :: "('pk, 'sk) receiver_call \<Rightarrow> bytes \<Rightarrow> ks_call" where
  "recv_ks (Recv_base enc sk info) ss = Without_psk BaseModeTag ss info"
| "recv_ks (Recv_psk enc sk info psk) ss = With_psk PskModeTag ss info psk"
| "recv_ks (Recv_auth enc sk info pk_s) ss = Without_psk AuthModeTag ss info"
| "recv_ks (Recv_auth_psk enc sk info psk pk_s) ss = With_psk AuthPskModeTag ss info psk"

text \<open>
  What a recipient takes part in: the mode, the public values of the exchange, the info and the
  PSK with its identifier.
\<close>

definition transcript ::
    "('r, 'pk, 'sk, 'z) dh_core_scheme \<Rightarrow> ('pk, 'sk) receiver_call \<Rightarrow>
     u8 \<times> bytes list \<times> bytes \<times> bytes \<times> bytes" where
  "transcript D c =
     (ks_mode (recv_ks c []), decap_parties D (recv_decap c), ks_info (recv_ks c []), ks_psk (recv_ks c []))"

text \<open>
  The collision that two exports with one result would give: in the exports, in the key schedules
  on the decapsulated secrets, or in the decapsulations.
\<close>

definition export_collision ::
    "('r, 'pk, 'sk, ('pk, 'sk, 'z) dh_ext) dh_core_scheme \<Rightarrow> kdf \<Rightarrow> ('c, 'y) aead_scheme \<Rightarrow>
     ('c', 'y') aead_scheme \<Rightarrow> nat \<Rightarrow> ('pk, 'sk) receiver_call \<Rightarrow> bytes \<Rightarrow>
     ('pk, 'sk) receiver_call \<Rightarrow> bytes \<Rightarrow> bool" where
  "export_collision D F A A' n c ectx c' ectx' \<longleftrightarrow>
     (\<exists>ss ss' ctx ctx'. run_decap D (recv_decap c) = Ok ss \<and> run_decap D (recv_decap c') = Ok ss'
        \<and> run_ks (DhKem D) F A (recv_ks c (dh_ss ss)) = Ok ctx
        \<and> run_ks (DhKem D) F A' (recv_ks c' (dh_ss ss')) = Ok ctx'
        \<and> (expand_collision F n
             (exporter_secret ctx, expand_input n (ciphersuite (DhKem D) F A) ''sec'' ectx)
             (exporter_secret ctx', expand_input n (ciphersuite (DhKem D) F A') ''sec'' ectx')
         \<or> ks_collision (DhKem D) (DhKem D) F A A' (recv_ks c (dh_ss ss)) (recv_ks c' (dh_ss ss'))
         \<or> decap_collision D (recv_decap c) (recv_decap c')))"

lemma run_export_OkD:
  assumes "run_export D F A c ectx n = Ok out"
  shows "\<exists>ss ctx. run_decap D (recv_decap c) = Ok ss
     \<and> run_ks (DhKem D) F A (recv_ks c (dh_ss ss)) = Ok ctx
     \<and> labeled_expand F (exporter_secret ctx) (ciphersuite (DhKem D) F A) (ascii ''sec'') ectx n = Ok out"
  using assms
  by (cases c) (auto simp: receiver_export_base_def receiver_export_psk_def receiver_export_auth_def
      receiver_export_auth_psk_def setup_receiver_base_def setup_receiver_psk_def
      setup_receiver_auth_def setup_receiver_auth_psk_def outcome_simps Context_export_def)

lemma recv_ks_parts:
  "ks_mode (recv_ks c ss) = ks_mode (recv_ks c [])" "ks_info (recv_ks c ss) = ks_info (recv_ks c [])"
  "ks_psk (recv_ks c ss) = ks_psk (recv_ks c [])" "ks_ss (recv_ks c ss) = ss"
  by (cases c; simp)+

lemma export_binds:
  assumes "dh_contract D True pair" and "kdf_contract F True" and "decap_binding D"
    and "decap_wf D (recv_decap c)" and "decap_wf D (recv_decap c')"
    and "run_export D F A c ectx n = Ok out" and "run_export D F A' c' ectx' n' = Ok out"
    and "16 \<le> length out"
  shows "transcript D c = transcript D c' \<and> ectx = ectx' \<and> n = n' \<and> a_ID A = a_ID A'
     \<or> export_collision D F A A' n c ectx c' ectx'"
proof -
  let ?K = "DhKem D"
  from run_export_OkD [OF assms(6)] obtain ss ctx where ss: "run_decap D (recv_decap c) = Ok ss"
    and ks: "run_ks ?K F A (recv_ks c (dh_ss ss)) = Ok ctx"
    and ex: "labeled_expand F (exporter_secret ctx) (ciphersuite ?K F A) (ascii ''sec'') ectx n = Ok out"
    by blast
  from run_export_OkD [OF assms(7)] obtain ss' ctx' where ss': "run_decap D (recv_decap c') = Ok ss'"
    and ks': "run_ks ?K F A' (recv_ks c' (dh_ss ss')) = Ok ctx'"
    and ex': "labeled_expand F (exporter_secret ctx') (ciphersuite ?K F A') (ascii ''sec'') ectx' n' = Ok out"
    by blast
  note coll = ss ss' ks ks'
  have len: "length (dh_ss ss) = d_SHARED_SECRET_LEN D" "length (dh_ss ss') = d_SHARED_SECRET_LEN D"
    using dh_contract.run_decap_length [OF assms(1) TrueI] ss ss' by blast+
  show ?thesis
  proof (rule ccontr)
    assume no: "\<not> ?thesis"
    then have none: "\<not> export_collision D F A A' n c ectx c' ectx'" by blast
    have "exporter_secret ctx = exporter_secret ctx'" and e: "ectx = ectx'" "n = n'"
        "ciphersuite ?K F A = ciphersuite ?K F A'"
      using kdf_contract.expand_binds [OF assms(2) TrueI _ assms(8) ex ex'] coll none
      unfolding export_collision_def by auto
    then have "recv_ks c (dh_ss ss) = recv_ks c' (dh_ss ss')"
      using kdf_contract.ks_binds [OF assms(2) TrueI ks ks'] coll none len
      unfolding export_collision_def by (auto simp: recv_ks_parts)
    then have p: "dh_ss ss = dh_ss ss'" "ks_mode (recv_ks c []) = ks_mode (recv_ks c' [])"
        "ks_info (recv_ks c []) = ks_info (recv_ks c' [])" "ks_psk (recv_ks c []) = ks_psk (recv_ks c' [])"
      using recv_ks_parts by metis+
    then have "ss' = ss" by (cases ss; cases ss') simp
    then have "decap_parties D (recv_decap c) = decap_parties D (recv_decap c')"
      using decap_bindingD [OF assms(3-5) ss] ss' coll none unfolding export_collision_def by blast
    with p e no show False by (simp add: transcript_def ciphersuite_eq)
  qed
qed

definition export_binding ::
    "('r, 'pk, 'sk, ('pk, 'sk, 'z) dh_ext) dh_core_scheme \<Rightarrow> kdf \<Rightarrow> ('c, 'y) aead_scheme \<Rightarrow>
     ('c', 'y') aead_scheme \<Rightarrow> bool" where
  "export_binding D F A A' \<longleftrightarrow>
     (\<forall>c c' ectx ectx' n n' out. decap_wf D (recv_decap c) \<longrightarrow> decap_wf D (recv_decap c') \<longrightarrow>
        run_export D F A c ectx n = Ok out \<longrightarrow> run_export D F A' c' ectx' n' = Ok out \<longrightarrow>
        16 \<le> length out \<longrightarrow>
        transcript D c = transcript D c' \<and> ectx = ectx' \<and> n = n' \<and> a_ID A = a_ID A'
        \<or> export_collision D F A A' n c ectx c' ectx')"

lemma export_bindingI:
  assumes "dh_contract D True pair" and "decap_binding D"
    and "F \<in> registered_kdfs G" and "hkdf_lib_ok G (f_HASH_LEN F)"
  shows "export_binding D F A A'"
  unfolding export_binding_def
  using export_binds [OF assms(1) registered_kdf_contract [OF assms(3,4)] assms(2)] by blast

text \<open>
  C34: an exported secret binds the transcript. Over each of the six groups, with any registered
  KDF and any two AEADs, when two recipients, each in any of the four modes, export the same
  sixteen bytes or more, then they took part in the same exchange: equal modes, encapsulated keys,
  recipient keys, sender keys, info strings, pre-shared keys and identifiers, AEADs, exporter
  contexts and lengths; or two different inputs of HKDF, among those the two runs hash, have the
  same output.
\<close>

theorem exported_secret_binds_transcript:
  assumes "crates_ok LX LG E256 E384 E521 EK W M768 M1024 H256 H384 H512 S R"
    and "F \<in> registered_kdfs G" and "hkdf_lib_ok G (f_HASH_LEN F)"
  shows "export_binding (X25519 LX H256 R) F A A' \<and> export_binding (X448 LG H512 R) F A A'
     \<and> export_binding (P256 E256 H256) F A A' \<and> export_binding (P384 E384 H384) F A A'
     \<and> export_binding (P521 E521 H512) F A A' \<and> export_binding (K256 EK H256) F A A'"
  using crates_contracts [OF assms(1), THEN export_bindingI, OF _ assms(2,3)]
    crates_decap_binding [OF assms(1)] by blast

lemma demo_expand_cong:
  assumes "checksum (concat is1) = checksum (concat is2)"
  shows "f_expand demo_kdf p is1 n = f_expand demo_kdf p is2 n"
  using assms by (simp add: demo_kdf_def HkdfSha256_def hkdf_impl_def hkdf_expand_def toy_hkdf_def
      del: concat_eq_Nil_conv)

lemma demo_first_info_byte:
  assumes "x \<noteq> []"
  shows "labeled_expand demo_kdf p s l (m # x) n = labeled_expand demo_kdf p s l (m' # x) n"
proof -
  have "checksum (concat [to_be_bytes (w :: u16), HPKE_v1, s, l, v # x]) = hd (to_be_bytes w) + last x"
    for w v
    using assms by (simp add: checksum_def HPKE_v1_def ascii_simps to_be_bytes_def upt_rec)
  then show ?thesis
    unfolding labeled_expand_def by (intro arg_cong2 [where f = try_bind] refl ext demo_expand_cong) simp
qed

lemma demo_mode_ignored:
  "run_ks K demo_kdf A (Without_psk M ss info) = run_ks K demo_kdf A (Without_psk M' ss info)"
proof -
  note kdf = registered_kdf_contract [OF demo_kdf_registered demo_kdf_lib]
  have "labeled_extract demo_kdf [] s l x \<noteq> []" for s l x
    by (simp add: demo_kdf_def demo_labeled)
  then show ?thesis
    unfolding run_ks_eq derive_context_def Let_def
    by (simp add: kdf_contract.labeled_expand_pieces_concat [OF kdf TrueI]
        demo_first_info_byte [where m = "psk_free_mode_byte M" and m' = "psk_free_mode_byte M'"])
qed

theorem exported_secret_binds_transcript_witness:
  "\<exists>out. run_export demo_p256 demo_kdf demo_aead (Recv_base demo_enc (demo_p256_sk 1) [8]) [9] 32 = Ok out
     \<and> run_export demo_p256 demo_kdf demo_aead
         (Recv_auth demo_enc (demo_p256_sk 1) [8] (demo_p256_pk 1)) [9] 32 = Ok out
     \<and> export_collision demo_p256 demo_kdf demo_aead demo_aead 32
         (Recv_base demo_enc (demo_p256_sk 1) [8]) [9]
         (Recv_auth demo_enc (demo_p256_sk 1) [8] (demo_p256_pk 1)) [9]"
proof -
  let ?c = "Recv_base demo_enc (demo_p256_sk 1) [8]"
  let ?c' = "Recv_auth demo_enc (demo_p256_sk 1) [8] (demo_p256_pk 1)"
  note ks = key_schedule_registered [OF demo_kdf_registered demo_kdf_lib demo_registered demo_limit]
  have bind: "export_binding demo_p256 demo_kdf demo_aead demo_aead"
    using exported_secret_binds_transcript [OF toy_crates demo_kdf_registered demo_kdf_lib]
    unfolding demo_p256_def by blast
  obtain ctx where ctx: "run_ks (DhKem demo_p256) demo_kdf demo_aead
        (Without_psk BaseModeTag (replicate 32 147) [8]) = Ok ctx"
      "length (exporter_secret ctx) = f_HASH_LEN demo_kdf"
    using key_schedule_suite.key_schedule_psk_free_total [OF ks TrueI] by fastforce
  note ctx' = ctx(1) [unfolded demo_mode_ignored [of _ _ BaseModeTag _ _ AuthModeTag]]
  obtain out where out: "Context_export (DhKem demo_p256) demo_kdf demo_aead ctx [9] 32 = Ok out"
      "length out = 32"
    using key_schedule_suite.export_cases(2) [OF ks TrueI ctx(2), of 32]
    by (auto simp: demo_kdf_def const_simps)
  have run: "run_export demo_p256 demo_kdf demo_aead ?c [9] 32 = Ok out"
      "run_export demo_p256 demo_kdf demo_aead ?c' [9] 32 = Ok out"
    using demo_decaps ctx ctx' out
    by (simp_all add: receiver_export_base_def receiver_export_auth_def setup_receiver_base_def
        setup_receiver_auth_def)
  have wf: "decap_wf demo_p256 (recv_decap ?c)" "decap_wf demo_p256 (recv_decap ?c')"
    by (simp_all add: demo_p256_def P256_def nist_simps demo_p256_sk_def demo_p256_pk_def)
  have "transcript demo_p256 ?c \<noteq> transcript demo_p256 ?c'"
    by (simp add: transcript_def)
  moreover have "16 \<le> length out" using out(2) by simp
  ultimately show ?thesis
    using bind run wf unfolding export_binding_def by blast
qed

end
