(* ===== verification/Hpke_Mode_Theorems.thy ===== *)
theory Hpke_Mode_Theorems
  imports Hpke_Transcript
begin

text \<open>
  The end-to-end properties of \<open>Hpke<K, F, A>\<close> for every KEM, KDF and AEAD of the crate: the
  modes open what they seal, exports agree, a channel carries any stream, and opening is total.
  Each is stated once for the unauthenticated modes of any KEM and once for the authenticated
  modes of a DHKEM, and proved from the contracts of the suite.
\<close>

section \<open>The statements, for one suite\<close>

text \<open>A key pair as it comes out of the crate.\<close>

definition kem_made :: "('r, 'pk, 'sk, 'enc, 'ss, 'z) kem_scheme \<Rightarrow> 'sk \<Rightarrow> 'pk \<Rightarrow> bool" where
  "kem_made K sk pk \<longleftrightarrow>
     (\<exists>r r'. k_generate K r = (Ok (sk, pk), r')) \<or> (\<exists>ikm. k_derive_key_pair K ikm = Ok (sk, pk))"

definition seals_and_opens ::
    "('r, 'pk, 'sk, 'enc, 'ss, 'z) kem_scheme \<Rightarrow> kdf \<Rightarrow>
     ('c, ('c, 'y) sealing_aead_ext) aead_scheme \<Rightarrow> nat \<Rightarrow> bool" where
  "seals_and_opens K F A p_max \<longleftrightarrow>
     (\<forall>sk pk r info aad pt psk. kem_made K sk pk \<longrightarrow>
        seal_open_ok (k_encap K r pk) p_max (a_TAG_LEN A) aad pt (seal_base K F A r pk info aad pt)
          (\<lambda>enc ct. open_base K F A enc sk info aad ct)
      \<and> seal_open_ok (k_encap K r pk) p_max (a_TAG_LEN A) aad pt (seal_psk K F A r pk info aad pt psk)
          (\<lambda>enc ct. open_psk K F A enc sk info aad ct psk))"

definition auth_seals_and_opens ::
    "('r, 'pk, 'sk, 'enc, 'ss, ('r, 'pk, 'sk, 'enc, 'ss, 'z) auth_kem_ext) kem_scheme \<Rightarrow> kdf \<Rightarrow>
     ('c, ('c, 'y) sealing_aead_ext) aead_scheme \<Rightarrow> nat \<Rightarrow> bool" where
  "auth_seals_and_opens K F A p_max \<longleftrightarrow>
     (\<forall>sk pk sk_s pk_s r info aad pt psk. kem_made K sk pk \<longrightarrow> kem_made K sk_s pk_s \<longrightarrow>
        seal_open_ok (k_auth_encap K r pk sk_s) p_max (a_TAG_LEN A) aad pt
          (seal_auth K F A r pk info aad pt sk_s) (\<lambda>enc ct. open_auth K F A enc sk info aad ct pk_s)
      \<and> seal_open_ok (k_auth_encap K r pk sk_s) p_max (a_TAG_LEN A) aad pt
          (seal_auth_psk K F A r pk info aad pt psk sk_s)
          (\<lambda>enc ct. open_auth_psk K F A enc sk info aad ct psk pk_s))"

definition exports_agree ::
    "('r, 'pk, 'sk, 'enc, 'ss, 'z) kem_scheme \<Rightarrow> kdf \<Rightarrow> ('c, 'y) aead_scheme \<Rightarrow> bool" where
  "exports_agree K F A \<longleftrightarrow>
     (\<forall>sk pk r info psk ectx n. kem_made K sk pk \<longrightarrow>
        export_ok (k_encap K r pk) (f_HASH_LEN F) n (send_export_base K F A r pk info ectx n)
          (\<lambda>enc. receiver_export_base K F A enc sk info ectx n)
      \<and> export_ok (k_encap K r pk) (f_HASH_LEN F) n (send_export_psk K F A r pk info psk ectx n)
          (\<lambda>enc. receiver_export_psk K F A enc sk info psk ectx n))"

definition auth_exports_agree ::
    "('r, 'pk, 'sk, 'enc, 'ss, ('r, 'pk, 'sk, 'enc, 'ss, 'z) auth_kem_ext) kem_scheme \<Rightarrow> kdf \<Rightarrow>
     ('c, 'y) aead_scheme \<Rightarrow> bool" where
  "auth_exports_agree K F A \<longleftrightarrow>
     (\<forall>sk pk sk_s pk_s r info psk ectx n. kem_made K sk pk \<longrightarrow> kem_made K sk_s pk_s \<longrightarrow>
        export_ok (k_auth_encap K r pk sk_s) (f_HASH_LEN F) n (send_export_auth K F A r pk info sk_s ectx n)
          (\<lambda>enc. receiver_export_auth K F A enc sk info pk_s ectx n)
      \<and> export_ok (k_auth_encap K r pk sk_s) (f_HASH_LEN F) n
          (send_export_auth_psk K F A r pk info psk sk_s ectx n)
          (\<lambda>enc. receiver_export_auth_psk K F A enc sk info psk pk_s ectx n))"

text \<open>
  A channel that setup created: when setup returns, every stream within the limits is sealed and
  the recipient's setup succeeds and opens it, in order; when it fails, encapsulation did.
\<close>

definition channel_ok ::
    "('ss \<times> 'enc) res \<times> 'r \<Rightarrow> nat \<Rightarrow> ('c, ('c, 'y) sealing_aead_ext) aead_scheme \<Rightarrow>
     ('enc \<times> 'c SenderContext) res \<times> 'r \<Rightarrow> ('enc \<Rightarrow> 'c ReceiverContext res) \<Rightarrow> bool" where
  "channel_ok encap_out p_max A started receiver =
     (case fst started of
        Ok (enc, tx) \<Rightarrow>
          (\<forall>ms. (\<forall>m \<in> set ms. length (fst m) \<le> p_max \<and> length (snd m) \<le> p_max) \<longrightarrow>
             length ms < 2 ^ 64 \<longrightarrow>
             (\<exists>cts tx' rx rx'. seal_run A tx ms = (map Ok cts, tx') \<and> receiver enc = Ok rx
                \<and> open_run A rx (zip (map fst ms) cts) = (map (Ok \<circ> snd) ms, rx')))
      | Err e \<Rightarrow> fst encap_out = Err e
      | Panic \<Rightarrow> False)"

definition channels_stream ::
    "('r, 'pk, 'sk, 'enc, 'ss, 'z) kem_scheme \<Rightarrow> kdf \<Rightarrow>
     ('c, ('c, 'y) sealing_aead_ext) aead_scheme \<Rightarrow> nat \<Rightarrow> bool" where
  "channels_stream K F A p_max \<longleftrightarrow>
     (\<forall>sk pk r info psk. kem_made K sk pk \<longrightarrow>
        channel_ok (k_encap K r pk) p_max A (setup_sender_base K F A r pk info)
          (\<lambda>enc. setup_receiver_base K F A enc sk info)
      \<and> channel_ok (k_encap K r pk) p_max A (setup_sender_psk K F A r pk info psk)
          (\<lambda>enc. setup_receiver_psk K F A enc sk info psk))"

definition auth_channels_stream ::
    "('r, 'pk, 'sk, 'enc, 'ss, ('r, 'pk, 'sk, 'enc, 'ss, 'z) auth_kem_ext) kem_scheme \<Rightarrow> kdf \<Rightarrow>
     ('c, ('c, 'y) sealing_aead_ext) aead_scheme \<Rightarrow> nat \<Rightarrow> bool" where
  "auth_channels_stream K F A p_max \<longleftrightarrow>
     (\<forall>sk pk sk_s pk_s r info psk. kem_made K sk pk \<longrightarrow> kem_made K sk_s pk_s \<longrightarrow>
        channel_ok (k_auth_encap K r pk sk_s) p_max A (setup_sender_auth K F A r pk info sk_s)
          (\<lambda>enc. setup_receiver_auth K F A enc sk info pk_s)
      \<and> channel_ok (k_auth_encap K r pk sk_s) p_max A (setup_sender_auth_psk K F A r pk info psk sk_s)
          (\<lambda>enc. setup_receiver_auth_psk K F A enc sk info psk pk_s))"

definition opening_total ::
    "('r, 'pk, 'sk, 'enc, 'ss, 'z) kem_scheme \<Rightarrow> kdf \<Rightarrow>
     ('c, ('c, 'y) sealing_aead_ext) aead_scheme \<Rightarrow> bool" where
  "opening_total K F A \<longleftrightarrow>
     (\<forall>enc sk info aad ct psk.
        open_outcome_ok (k_decap K enc sk) (open_base K F A enc sk info aad ct)
      \<and> open_outcome_ok (k_decap K enc sk) (open_psk K F A enc sk info aad ct psk))"

definition auth_opening_total ::
    "('r, 'pk, 'sk, 'enc, 'ss, ('r, 'pk, 'sk, 'enc, 'ss, 'z) auth_kem_ext) kem_scheme \<Rightarrow> kdf \<Rightarrow>
     ('c, ('c, 'y) sealing_aead_ext) aead_scheme \<Rightarrow> bool" where
  "auth_opening_total K F A \<longleftrightarrow>
     (\<forall>enc sk pk_s info aad ct psk.
        open_outcome_ok (k_auth_decap K enc sk pk_s) (open_auth K F A enc sk info aad ct pk_s)
      \<and> open_outcome_ok (k_auth_decap K enc sk pk_s) (open_auth_psk K F A enc sk info aad ct psk pk_s))"

section \<open>They hold of every suite that keeps its contracts\<close>

context sealing_aead_contract
begin

lemma setup_channel:
  assumes "lawful" and ks: "\<And>s. \<exists>ctx. ks s = Ok ctx \<and> context_wf ctx \<and> seq ctx = 0"
    and np: "fst e \<noteq> Panic" and agree: "\<And>ss enc r'. e = (Ok (ss, enc), r') \<Longrightarrow> dec enc = Ok ss"
  shows "channel_ok e p_max A (sender_setup K e ks) (\<lambda>enc. receiver_setup K (dec enc) ks)"
proof (cases rule: sender_setup_cases [of ks "\<lambda>ctx. context_wf ctx \<and> seq ctx = 0" e K, OF ks np, case_names ok err])
  case (err x r')
  then show ?thesis by (simp add: channel_ok_def)
next
  case (ok ss enc ctx r')
  have rcv: "receiver_setup K (dec enc) ks = Ok (ReceiverContext ctx)"
    using setup_agree [of e dec, OF agree ok(2)] by simp
  have "\<exists>cts tx' rx rx'. seal_run A (SenderContext ctx) ms = (map Ok cts, tx')
      \<and> receiver_setup K (dec enc) ks = Ok rx
      \<and> open_run A rx (zip (map fst ms) cts) = (map (Ok \<circ> snd) ms, rx')"
    if lim: "\<forall>m \<in> set ms. length (fst m) \<le> p_max \<and> length (snd m) \<le> p_max" and n: "length ms < 2 ^ 64" for ms
  proof -
    have wf: "context_wf ctx" and n': "unat (seq ctx) + length ms < 2 ^ 64" using ok(3) n by simp_all
    have "length aad \<le> p_max \<and> length pt \<le> p_max" if "(aad, pt) \<in> set ms" for aad pt
      using bspec [OF lim that] by simp
    from stream_total [OF assms(1) wf this n'] obtain cts ctx'
      where run: "seal_run A (SenderContext ctx) ms = (map Ok cts, SenderContext ctx')" by blast
    with stream [OF assms(1) wf run] rcv show ?thesis by blast
  qed
  then show ?thesis using ok(2) by (simp add: channel_ok_def)
qed

end

context kem_contract
begin

lemma made_pair: "lawful \<Longrightarrow> kem_made K sk pk \<Longrightarrow> pair sk pk"
  unfolding kem_made_def using generate_pair derive_pair by blast

end

context hpke_sealing_suite
begin

lemma channel_base:
  assumes "lawful" and "pair sk pk"
  shows "channel_ok (k_encap K r pk) p_max A (setup_sender_base K F A r pk info)
     (\<lambda>enc. setup_receiver_base K F A enc sk info)"
  unfolding setup_eq
  by (rule aead.setup_channel ks.psk_free_total(1) kem.encap_no_panic
      kem.decap_encap assms | assumption)+

lemma channel_psk:
  assumes "lawful" and "pair sk pk"
  shows "channel_ok (k_encap K r pk) p_max A (setup_sender_psk K F A r pk info psk)
     (\<lambda>enc. setup_receiver_psk K F A enc sk info psk)"
  unfolding setup_eq
  by (rule aead.setup_channel ks.psk_total(1) kem.encap_no_panic
      kem.decap_encap assms | assumption)+

lemma suite_modes:
  assumes "lawful"
  shows "seals_and_opens K F A p_max" and "exports_agree K F A" and "channels_stream K F A p_max"
    and "opening_total K F A"
  unfolding seals_and_opens_def exports_agree_def channels_stream_def opening_total_def
  by (intro allI impI conjI;
      (rule seal_open_base seal_open_psk export_base export_psk channel_base channel_psk
        open_outcomes kem.made_pair assms | assumption)+)+

end

context hpke_auth_sealing_suite
begin

lemma channel_auth:
  assumes "lawful" and "pair sk pk" and "pair sk_s pk_s"
  shows "channel_ok (k_auth_encap K r pk sk_s) p_max A (setup_sender_auth K F A r pk info sk_s)
     (\<lambda>enc. setup_receiver_auth K F A enc sk info pk_s)"
  unfolding setup_eq
  by (rule aead.setup_channel ks.psk_free_total(1) auth.auth_encap_no_panic
      auth.auth_decap_encap assms | assumption)+

lemma channel_auth_psk:
  assumes "lawful" and "pair sk pk" and "pair sk_s pk_s"
  shows "channel_ok (k_auth_encap K r pk sk_s) p_max A (setup_sender_auth_psk K F A r pk info psk sk_s)
     (\<lambda>enc. setup_receiver_auth_psk K F A enc sk info psk pk_s)"
  unfolding setup_eq
  by (rule aead.setup_channel ks.psk_total(1) auth.auth_encap_no_panic
      auth.auth_decap_encap assms | assumption)+

lemma suite_auth_modes:
  assumes "lawful"
  shows "auth_seals_and_opens K F A p_max" and "auth_exports_agree K F A"
    and "auth_channels_stream K F A p_max" and "auth_opening_total K F A"
  unfolding auth_seals_and_opens_def auth_exports_agree_def auth_channels_stream_def
    auth_opening_total_def
  by (intro allI impI conjI;
      (rule seal_open_auth seal_open_auth_psk export_auth export_auth_psk channel_auth channel_auth_psk
        open_auth_outcomes kem.made_pair assms | assumption)+)+

end

section \<open>Exports need no cipher\<close>

context hpke_suite
begin

lemma suite_exports: "lawful \<Longrightarrow> exports_agree K F A"
  unfolding exports_agree_def by (simp add: export_base export_psk kem.made_pair)

end

context hpke_auth_suite
begin

lemma suite_auth_exports: "lawful \<Longrightarrow> auth_exports_agree K F A"
  unfolding auth_exports_agree_def by (simp add: export_auth export_auth_psk kem.made_pair)

end

text \<open>A suite that keeps its KDF and KEM keeps them with \<open>ExportOnly\<close> as its AEAD.\<close>

lemma export_only_suite:
  assumes "hpke_sealing_suite K pair F A True p_max"
  shows "exports_agree K F ExportOnly"
proof -
  have "hpke_suite K pair F ExportOnly True"
    using assms export_only.aead_contract_axioms
    by (simp add: hpke_sealing_suite_def hpke_suite_def key_schedule_suite_def)
  then show ?thesis by (rule hpke_suite.suite_exports) simp
qed

lemma export_only_auth_suite:
  assumes "hpke_auth_sealing_suite K pair F A True p_max"
  shows "auth_exports_agree K F ExportOnly"
proof -
  have "hpke_auth_suite K pair F ExportOnly True"
    using assms export_only.aead_contract_axioms
    by (simp add: hpke_auth_sealing_suite_def hpke_auth_suite_def hpke_suite_def key_schedule_suite_def)
  then show ?thesis by (rule hpke_auth_suite.suite_auth_exports) simp
qed

section \<open>Using them\<close>

lemma auth_seals_and_opensD:
  assumes "auth_seals_and_opens K F A p_max" and "kem_made K sk pk" and "kem_made K sk_s pk_s"
  shows "seal_open_ok (k_auth_encap K r pk sk_s) p_max (a_TAG_LEN A) aad pt
          (seal_auth K F A r pk info aad pt sk_s) (\<lambda>enc ct. open_auth K F A enc sk info aad ct pk_s)"
    and "seal_open_ok (k_auth_encap K r pk sk_s) p_max (a_TAG_LEN A) aad pt
          (seal_auth_psk K F A r pk info aad pt psk sk_s)
          (\<lambda>enc ct. open_auth_psk K F A enc sk info aad ct psk pk_s)"
  using assms unfolding auth_seals_and_opens_def by blast+

lemma exports_agreeD:
  assumes "exports_agree K F A" and "kem_made K sk pk"
  shows "export_ok (k_encap K r pk) (f_HASH_LEN F) n (send_export_base K F A r pk info ectx n)
          (\<lambda>enc. receiver_export_base K F A enc sk info ectx n)"
    and "export_ok (k_encap K r pk) (f_HASH_LEN F) n (send_export_psk K F A r pk info psk ectx n)
          (\<lambda>enc. receiver_export_psk K F A enc sk info psk ectx n)"
  using assms unfolding exports_agree_def by blast+

lemma auth_channels_streamD:
  assumes "auth_channels_stream K F A p_max" and "kem_made K sk pk" and "kem_made K sk_s pk_s"
  shows "channel_ok (k_auth_encap K r pk sk_s) p_max A (setup_sender_auth K F A r pk info sk_s)
          (\<lambda>enc. setup_receiver_auth K F A enc sk info pk_s)"
    and "channel_ok (k_auth_encap K r pk sk_s) p_max A (setup_sender_auth_psk K F A r pk info psk sk_s)
          (\<lambda>enc. setup_receiver_auth_psk K F A enc sk info psk pk_s)"
  using assms unfolding auth_channels_stream_def by blast+

lemma channel_okD:
  assumes "channel_ok e p_max A started receiver" and "is_ok (fst e)"
    and "\<forall>m \<in> set ms. length (fst m) \<le> p_max \<and> length (snd m) \<le> p_max" and "length ms < 2 ^ 64"
  shows "\<exists>enc tx. fst started = Ok (enc, tx)
     \<and> (\<exists>cts tx' rx rx'. seal_run A tx ms = (map Ok cts, tx') \<and> receiver enc = Ok rx
          \<and> open_run A rx (zip (map fst ms) cts) = (map (Ok \<circ> snd) ms, rx'))"
  using assms by (auto simp: channel_ok_def split: outcome.splits)

lemma demo_p256_made:
  "kem_made (DhKem demo_p256) (demo_p256_sk 1) (demo_p256_pk 1)"
  "kem_made (DhKem demo_p256) (demo_p256_sk 3) (demo_p256_pk 3)"
  using demo_p256_generate [of 0] demo_p256_generate [of 1] unfolding kem_made_def DhKem_simps by auto

section \<open>Every suite of the crate\<close>

definition always_encapsulates :: "('r, 'pk, 'sk, 'enc, 'ss, 'z) kem_scheme \<Rightarrow> bool" where
  "always_encapsulates K \<longleftrightarrow> (\<forall>r pk. is_ok (fst (k_encap K r pk)))"

lemma crates_encapsulate:
  assumes "crates_ok LX LG E256 E384 E521 EK W M768 M1024 H256 H384 H512 S R"
  shows "always_encapsulates (XWingDraft06 W S R)" and "always_encapsulates (MlKem768 M768 S R)"
    and "always_encapsulates (MlKem1024 M1024 S R)"
proof -
  have "is_ok (fst (XWing_encap W r pk))" for r pk
    using XWing_encap_Ok [of W pk r] assms unfolding crates_ok_def
    by (cases "xw_encapsulate_with_rng W (xw_parsed pk) r") (auto split: prod.splits)
  then show "always_encapsulates (XWingDraft06 W S R)"
    by (simp add: always_encapsulates_def XWingDraft06_def)
  have "is_ok (fst (ml_kem_encap L r pk))" if "ml_kem_lib_ok L nenc npk" for L nenc npk r pk
    using ml_kem_encap_Ok [OF that, of pk r]
    by (cases "mk_encapsulate_with_rng L (mk_parsed pk) r") auto
  then show "always_encapsulates (MlKem768 M768 S R)" "always_encapsulates (MlKem1024 M1024 S R)"
    using assms unfolding crates_ok_def
    by (auto simp: always_encapsulates_def MlKem768_def MlKem1024_def ml_kem_variant_def)
qed

text \<open>The nine KEMs with one registered KDF and AEAD.\<close>

lemma crates_dh_suites:
  assumes "crates_ok LX LG E256 E384 E521 EK W M768 M1024 H256 H384 H512 S R"
    and "F \<in> registered_kdfs G" and "hkdf_lib_ok G (f_HASH_LEN F)"
    and "A \<in> registered_aeads C" and "aead_lib_ok C (a_KEY_LEN A) p_max"
  shows "hpke_auth_sealing_suite (DhKem (X25519 LX H256 R)) (DhKem_pair (X25519 LX H256 R) (x25519_pair LX)) F A True p_max"
    and "hpke_auth_sealing_suite (DhKem (X448 LG H512 R)) (DhKem_pair (X448 LG H512 R) (x448_pair LG)) F A True p_max"
    and "hpke_auth_sealing_suite (DhKem (P256 E256 H256)) (DhKem_pair (P256 E256 H256) (nist_pair E256)) F A True p_max"
    and "hpke_auth_sealing_suite (DhKem (P384 E384 H384)) (DhKem_pair (P384 E384 H384) (nist_pair E384)) F A True p_max"
    and "hpke_auth_sealing_suite (DhKem (P521 E521 H512)) (DhKem_pair (P521 E521 H512) (nist_pair E521)) F A True p_max"
    and "hpke_auth_sealing_suite (DhKem (K256 EK H256)) (DhKem_pair (K256 EK H256) (nist_pair EK)) F A True p_max"
  by (rule dhkem_suite [OF _ assms(2-5)], rule crates_contracts [OF assms(1)])+

lemma crates_pq_suites:
  assumes "crates_ok LX LG E256 E384 E521 EK W M768 M1024 H256 H384 H512 S R"
    and "F \<in> registered_kdfs G" and "hkdf_lib_ok G (f_HASH_LEN F)"
    and "A \<in> registered_aeads C" and "aead_lib_ok C (a_KEY_LEN A) p_max"
  shows "hpke_sealing_suite (XWingDraft06 W S R) (XWing_pair W) F A True p_max"
    and "hpke_sealing_suite (MlKem768 M768 S R) (ml_kem_pair M768) F A True p_max"
    and "hpke_sealing_suite (MlKem1024 M1024 S R) (ml_kem_pair M1024) F A True p_max"
proof -
  have ok: "x_wing_lib_ok W \<and> shake_lib_ok S \<and> rng_ok R"
      "ml_kem_lib_ok M768 1088 1184 \<and> shake_lib_ok S \<and> rng_ok R"
      "ml_kem_lib_ok M1024 1568 1568 \<and> shake_lib_ok S \<and> rng_ok R"
    using assms(1) unfolding crates_ok_def by simp_all
  show "hpke_sealing_suite (XWingDraft06 W S R) (XWing_pair W) F A True p_max"
    by (rule kem_suite [OF xwing.kem_contract_axioms ok(1) assms(2-5)])
  show "hpke_sealing_suite (MlKem768 M768 S R) (ml_kem_pair M768) F A True p_max"
    by (rule kem_suite [OF mlkem768.kem_contract_axioms ok(2) assms(2-5)])
  show "hpke_sealing_suite (MlKem1024 M1024 S R) (ml_kem_pair M1024) F A True p_max"
    by (rule kem_suite [OF mlkem1024.kem_contract_axioms ok(3) assms(2-5)])
qed

lemmas auth_suite_modes = hpke_auth_sealing_suite.suite_auth_modes [OF _ TrueI]
  hpke_sealing_suite.suite_modes [OF hpke_auth_sealing_suite.axioms(2) TrueI]

lemmas pq_suite_modes = hpke_sealing_suite.suite_modes [OF _ TrueI]

text \<open>
  C30: every suite opens what it seals. For each of the nine KEMs with any registered KDF and
  sealing AEAD, and any key pairs of the crate, info, associated data, plaintext and PSK: when
  sealing in the Base or PSK mode returns, opening with the recipient's key gives the plaintext
  back and the ciphertext is longer by the tag; when it fails, encapsulation failed or the message
  exceeds the limit of the cipher; it never panics. For the six Diffie-Hellman KEMs the same holds
  of the Auth and AuthPSK modes.
\<close>

theorem every_suite_roundtrip:
  assumes "crates_ok LX LG E256 E384 E521 EK W M768 M1024 H256 H384 H512 S R"
    and "F \<in> registered_kdfs G" and "hkdf_lib_ok G (f_HASH_LEN F)"
    and "A \<in> registered_aeads C" and "aead_lib_ok C (a_KEY_LEN A) p_max"
  shows "seals_and_opens (DhKem (X25519 LX H256 R)) F A p_max
     \<and> seals_and_opens (DhKem (X448 LG H512 R)) F A p_max
     \<and> seals_and_opens (DhKem (P256 E256 H256)) F A p_max
     \<and> seals_and_opens (DhKem (P384 E384 H384)) F A p_max
     \<and> seals_and_opens (DhKem (P521 E521 H512)) F A p_max
     \<and> seals_and_opens (DhKem (K256 EK H256)) F A p_max
     \<and> seals_and_opens (XWingDraft06 W S R) F A p_max
     \<and> seals_and_opens (MlKem768 M768 S R) F A p_max
     \<and> seals_and_opens (MlKem1024 M1024 S R) F A p_max
     \<and> auth_seals_and_opens (DhKem (X25519 LX H256 R)) F A p_max
     \<and> auth_seals_and_opens (DhKem (X448 LG H512 R)) F A p_max
     \<and> auth_seals_and_opens (DhKem (P256 E256 H256)) F A p_max
     \<and> auth_seals_and_opens (DhKem (P384 E384 H384)) F A p_max
     \<and> auth_seals_and_opens (DhKem (P521 E521 H512)) F A p_max
     \<and> auth_seals_and_opens (DhKem (K256 EK H256)) F A p_max"
  using crates_dh_suites [OF assms, THEN auth_suite_modes(1)]
    crates_dh_suites [OF assms, THEN auth_suite_modes(5)]
    crates_pq_suites [OF assms, THEN pq_suite_modes(1)]
  by blast

theorem every_suite_roundtrip_witness:
  "\<exists>enc ct. fst (seal_auth_psk (DhKem demo_p256) demo_kdf demo_aead 2 (demo_p256_pk 1) [8] [9] [1, 2]
        \<lparr> psk_secret = replicate 32 7, psk_id = [9] \<rparr> (demo_p256_sk 3)) = Ok (enc, ct)
     \<and> open_auth_psk (DhKem demo_p256) demo_kdf demo_aead enc (demo_p256_sk 1) [8] [9] ct
         \<lparr> psk_secret = replicate 32 7, psk_id = [9] \<rparr> (demo_p256_pk 3) = Ok [1, 2]"
proof -
  have all: "auth_seals_and_opens (DhKem demo_p256) demo_kdf demo_aead 100"
    using every_suite_roundtrip [OF toy_crates demo_kdf_registered demo_kdf_lib demo_registered demo_limit]
    unfolding demo_p256_def by blast
  have "is_ok (fst (k_auth_encap (DhKem demo_p256) 2 (demo_p256_pk 1) (demo_p256_sk 3)))"
    using demo_p256_auth_encap by simp
  from seal_open_okD [OF auth_seals_and_opensD(2) [OF all demo_p256_made] this] show ?thesis by simp
qed

text \<open>With one of the ciphers, and without one: \<open>ExportOnly\<close> is an AEAD of every suite.\<close>

definition every_export_agrees ::
    "('r, 'pk, 'sk, 'enc, 'ss, 'z) kem_scheme \<Rightarrow> kdf \<Rightarrow> ('c, 'y) aead_scheme \<Rightarrow> bool" where
  "every_export_agrees K F A \<longleftrightarrow> exports_agree K F A \<and> exports_agree K F ExportOnly"

definition every_auth_export_agrees ::
    "('r, 'pk, 'sk, 'enc, 'ss, ('r, 'pk, 'sk, 'enc, 'ss, 'z) auth_kem_ext) kem_scheme \<Rightarrow> kdf \<Rightarrow>
     ('c, 'y) aead_scheme \<Rightarrow> bool" where
  "every_auth_export_agrees K F A \<longleftrightarrow> auth_exports_agree K F A \<and> auth_exports_agree K F ExportOnly"

lemma suite_every_export:
  assumes "hpke_sealing_suite K pair F A True p_max"
  shows "every_export_agrees K F A"
  using pq_suite_modes(2) [OF assms] export_only_suite [OF assms] by (simp add: every_export_agrees_def)

lemma auth_suite_every_export:
  assumes "hpke_auth_sealing_suite K pair F A True p_max"
  shows "every_export_agrees K F A" and "every_auth_export_agrees K F A"
  using suite_every_export [OF hpke_auth_sealing_suite.axioms(2) [OF assms]]
    auth_suite_modes(2) [OF assms] export_only_auth_suite [OF assms]
  by (simp_all add: every_auth_export_agrees_def)

text \<open>
  C35: exported secrets agree in every suite. For each of the nine KEMs with any registered KDF and
  each of the four AEADs, \<open>ExportOnly\<close> included: when the sender's single-shot export in the
  Base or PSK mode returns, the recipient's export gives the same bytes, exactly as many as asked
  for; it fails only when encapsulation does or above \<open>255 * Nh\<close> bytes, and never panics. For the
  six Diffie-Hellman KEMs the same holds of the Auth and AuthPSK modes. \<open>A\<close> ranges over the three
  ciphers; \<open>ExportOnly\<close> is the second half of \<open>every_export_agrees\<close>.
\<close>

theorem every_suite_exports_agree:
  assumes "crates_ok LX LG E256 E384 E521 EK W M768 M1024 H256 H384 H512 S R"
    and "F \<in> registered_kdfs G" and "hkdf_lib_ok G (f_HASH_LEN F)"
    and "A \<in> registered_aeads C" and "aead_lib_ok C (a_KEY_LEN A) p_max"
  shows "every_export_agrees (DhKem (X25519 LX H256 R)) F A
     \<and> every_export_agrees (DhKem (X448 LG H512 R)) F A
     \<and> every_export_agrees (DhKem (P256 E256 H256)) F A
     \<and> every_export_agrees (DhKem (P384 E384 H384)) F A
     \<and> every_export_agrees (DhKem (P521 E521 H512)) F A
     \<and> every_export_agrees (DhKem (K256 EK H256)) F A
     \<and> every_export_agrees (XWingDraft06 W S R) F A
     \<and> every_export_agrees (MlKem768 M768 S R) F A
     \<and> every_export_agrees (MlKem1024 M1024 S R) F A
     \<and> every_auth_export_agrees (DhKem (X25519 LX H256 R)) F A
     \<and> every_auth_export_agrees (DhKem (X448 LG H512 R)) F A
     \<and> every_auth_export_agrees (DhKem (P256 E256 H256)) F A
     \<and> every_auth_export_agrees (DhKem (P384 E384 H384)) F A
     \<and> every_auth_export_agrees (DhKem (P521 E521 H512)) F A
     \<and> every_auth_export_agrees (DhKem (K256 EK H256)) F A"
  using crates_dh_suites [OF assms, THEN auth_suite_every_export(1)]
    crates_dh_suites [OF assms, THEN auth_suite_every_export(2)]
    crates_pq_suites [OF assms, THEN suite_every_export]
  by blast

theorem every_suite_exports_agree_witness:
  "(\<exists>enc out. fst (send_export_base (DhKem demo_p256) demo_kdf demo_aead 1 (demo_p256_pk 1) [8] [9] 100)
       = Ok (enc, out)
     \<and> receiver_export_base (DhKem demo_p256) demo_kdf demo_aead enc (demo_p256_sk 1) [8] [9] 100 = Ok out
     \<and> length out = 100)
   \<and> (\<exists>enc out. fst (send_export_base (DhKem demo_p256) demo_kdf ExportOnly 1 (demo_p256_pk 1) [8] [9] 100)
       = Ok (enc, out)
     \<and> receiver_export_base (DhKem demo_p256) demo_kdf ExportOnly enc (demo_p256_sk 1) [8] [9] 100 = Ok out
     \<and> length out = 100)"
proof -
  have "every_export_agrees (DhKem demo_p256) demo_kdf demo_aead"
    using every_suite_exports_agree [OF toy_crates demo_kdf_registered demo_kdf_lib demo_registered demo_limit]
    unfolding demo_p256_def by blast
  then have all: "exports_agree (DhKem demo_p256) demo_kdf demo_aead"
      "exports_agree (DhKem demo_p256) demo_kdf ExportOnly"
    by (simp_all add: every_export_agrees_def)
  have enc: "is_ok (fst (k_encap (DhKem demo_p256) 1 (demo_p256_pk 1)))"
    using demo_p256_encap by simp
  have len: "(100 :: nat) \<le> 255 * f_HASH_LEN demo_kdf" by (simp add: demo_kdf_def const_simps)
  show ?thesis
    by (intro conjI export_okD [OF exports_agreeD(1) [OF all(1) demo_p256_made(1)] enc len]
        export_okD [OF exports_agreeD(1) [OF all(2) demo_p256_made(1)] enc len])
qed

text \<open>
  C36: a channel of any suite carries a stream. For each of the nine KEMs with any registered KDF
  and sealing AEAD, after setup of a sender in the Base or PSK mode returns an encapsulated key
  and a context, any list of fewer than 2 to the power 64 messages within the limit of the cipher
  seals to ciphertexts, the recipient's setup on the encapsulated key succeeds, and the context it
  returns opens the ciphertexts to the messages, in order; setup fails only when encapsulation
  does, and the post-quantum encapsulations never do. For the six Diffie-Hellman KEMs the same
  holds of the Auth and AuthPSK modes.
\<close>

theorem every_channel_streams:
  assumes "crates_ok LX LG E256 E384 E521 EK W M768 M1024 H256 H384 H512 S R"
    and "F \<in> registered_kdfs G" and "hkdf_lib_ok G (f_HASH_LEN F)"
    and "A \<in> registered_aeads C" and "aead_lib_ok C (a_KEY_LEN A) p_max"
  shows "channels_stream (DhKem (X25519 LX H256 R)) F A p_max
     \<and> channels_stream (DhKem (X448 LG H512 R)) F A p_max
     \<and> channels_stream (DhKem (P256 E256 H256)) F A p_max
     \<and> channels_stream (DhKem (P384 E384 H384)) F A p_max
     \<and> channels_stream (DhKem (P521 E521 H512)) F A p_max
     \<and> channels_stream (DhKem (K256 EK H256)) F A p_max
     \<and> channels_stream (XWingDraft06 W S R) F A p_max \<and> always_encapsulates (XWingDraft06 W S R)
     \<and> channels_stream (MlKem768 M768 S R) F A p_max \<and> always_encapsulates (MlKem768 M768 S R)
     \<and> channels_stream (MlKem1024 M1024 S R) F A p_max \<and> always_encapsulates (MlKem1024 M1024 S R)
     \<and> auth_channels_stream (DhKem (X25519 LX H256 R)) F A p_max
     \<and> auth_channels_stream (DhKem (X448 LG H512 R)) F A p_max
     \<and> auth_channels_stream (DhKem (P256 E256 H256)) F A p_max
     \<and> auth_channels_stream (DhKem (P384 E384 H384)) F A p_max
     \<and> auth_channels_stream (DhKem (P521 E521 H512)) F A p_max
     \<and> auth_channels_stream (DhKem (K256 EK H256)) F A p_max"
  using crates_dh_suites [OF assms, THEN auth_suite_modes(3)]
    crates_dh_suites [OF assms, THEN auth_suite_modes(7)]
    crates_pq_suites [OF assms, THEN pq_suite_modes(3)] crates_encapsulate [OF assms(1)]
  by blast

theorem every_channel_streams_witness:
  "\<exists>enc tx. fst (setup_sender_auth (DhKem demo_p256) demo_kdf demo_aead 2 (demo_p256_pk 1) [8] (demo_p256_sk 3))
        = Ok (enc, tx)
     \<and> (\<exists>cts rx tx' rx'. seal_run demo_aead tx [([1], [7, 8]), ([], [9])] = (map Ok cts, tx')
        \<and> setup_receiver_auth (DhKem demo_p256) demo_kdf demo_aead enc (demo_p256_sk 1) [8] (demo_p256_pk 3)
            = Ok rx
        \<and> open_run demo_aead rx (zip [[1], []] cts) = ([Ok [7, 8], Ok [9]], rx'))"
proof -
  have all: "auth_channels_stream (DhKem demo_p256) demo_kdf demo_aead 100"
    using every_channel_streams [OF toy_crates demo_kdf_registered demo_kdf_lib demo_registered demo_limit]
    unfolding demo_p256_def by blast
  let ?ms = "[([1], [7, 8]), ([], [9])] :: (bytes \<times> bytes) list"
  have lim: "\<forall>m \<in> set ?ms. length (fst m) \<le> 100 \<and> length (snd m) \<le> 100" "length ?ms < 2 ^ 64"
    by simp_all
  have enc: "is_ok (fst (k_auth_encap (DhKem demo_p256) 2 (demo_p256_pk 1) (demo_p256_sk 3)))"
    using demo_p256_auth_encap by simp
  from channel_okD [OF auth_channels_streamD(1) [OF all demo_p256_made] enc lim]
  show ?thesis by simp
qed

section \<open>Opening arbitrary bytes\<close>

definition decap_errors :: "HpkeError set \<Rightarrow> ('r, 'pk, 'sk, 'enc, 'ss, 'z) kem_scheme \<Rightarrow> bool" where
  "decap_errors E K \<longleftrightarrow> (\<forall>enc sk. errors_in E (k_decap K enc sk))"

definition auth_decap_errors ::
    "HpkeError set \<Rightarrow> ('r, 'pk, 'sk, 'enc, 'ss, ('r, 'pk, 'sk, 'enc, 'ss, 'z) auth_kem_ext) kem_scheme \<Rightarrow>
     bool" where
  "auth_decap_errors E K \<longleftrightarrow> (\<forall>enc sk pk_s. errors_in E (k_auth_decap K enc sk pk_s))"

lemma dh_decap_errors:
  assumes "dh_contract D True pair"
  shows "decap_errors {InvalidPublicKey, EncapError} (DhKem D)"
    and "auth_decap_errors {InvalidPublicKey, EncapError} (DhKem D)"
  using dh_contract.decap_err [OF assms TrueI] dh_contract.auth_decap_err [OF assms TrueI]
  by (simp_all add: decap_errors_def auth_decap_errors_def errors_in_def)

lemma pq_decap_errors:
  assumes "crates_ok LX LG E256 E384 E521 EK W M768 M1024 H256 H384 H512 S R"
  shows "decap_errors {DecapError, InvalidEncappedKey} (XWingDraft06 W S R)"
    and "decap_errors {DecapError, InvalidEncappedKey} (MlKem768 M768 S R)"
    and "decap_errors {DecapError, InvalidEncappedKey} (MlKem1024 M1024 S R)"
proof -
  have "errors_in {DecapError, InvalidEncappedKey} (ml_kem_decap L enc sk)"
    if "ml_kem_lib_ok L nenc npk" for L nenc npk enc sk
    by (auto simp: errors_in_def ml_kem_decap_cases [OF that] split: option.splits)
  then show "decap_errors {DecapError, InvalidEncappedKey} (MlKem768 M768 S R)"
      "decap_errors {DecapError, InvalidEncappedKey} (MlKem1024 M1024 S R)"
    using assms unfolding crates_ok_def
    by (auto simp: decap_errors_def MlKem768_def MlKem1024_def ml_kem_variant_def)
  have ok: "x_wing_lib_ok W" using assms unfolding crates_ok_def by simp
  show "decap_errors {DecapError, InvalidEncappedKey} (XWingDraft06 W S R)"
    using x_wing_lib_okD(7) [OF ok]
    by (auto simp: decap_errors_def XWingDraft06_def errors_in_def XWing_decap_def outcome_simps)
qed

text \<open>
  C37: opening is total in every suite. For each of the nine KEMs with any registered KDF and
  sealing AEAD, and any private key, any encapsulated key and any ciphertext, opening in the Base
  or PSK mode returns: decapsulation's error when it fails, and otherwise a plaintext or
  \<open>OpenError\<close>; no input makes it panic. For the six Diffie-Hellman KEMs the same
  holds of the Auth and AuthPSK modes, with any sender key. The errors of decapsulation are
  \<open>InvalidPublicKey\<close> and \<open>EncapError\<close> over a group,
  \<open>DecapError\<close> and \<open>InvalidEncappedKey\<close> for the post-quantum KEMs.
\<close>

theorem every_opening_total:
  assumes "crates_ok LX LG E256 E384 E521 EK W M768 M1024 H256 H384 H512 S R"
    and "F \<in> registered_kdfs G" and "hkdf_lib_ok G (f_HASH_LEN F)"
    and "A \<in> registered_aeads C" and "aead_lib_ok C (a_KEY_LEN A) p_max"
    and "E = {InvalidPublicKey, EncapError}" and "E' = {DecapError, InvalidEncappedKey}"
  shows "opening_total (DhKem (X25519 LX H256 R)) F A \<and> decap_errors E (DhKem (X25519 LX H256 R))
     \<and> opening_total (DhKem (X448 LG H512 R)) F A \<and> decap_errors E (DhKem (X448 LG H512 R))
     \<and> opening_total (DhKem (P256 E256 H256)) F A \<and> decap_errors E (DhKem (P256 E256 H256))
     \<and> opening_total (DhKem (P384 E384 H384)) F A \<and> decap_errors E (DhKem (P384 E384 H384))
     \<and> opening_total (DhKem (P521 E521 H512)) F A \<and> decap_errors E (DhKem (P521 E521 H512))
     \<and> opening_total (DhKem (K256 EK H256)) F A \<and> decap_errors E (DhKem (K256 EK H256))
     \<and> opening_total (XWingDraft06 W S R) F A \<and> decap_errors E' (XWingDraft06 W S R)
     \<and> opening_total (MlKem768 M768 S R) F A \<and> decap_errors E' (MlKem768 M768 S R)
     \<and> opening_total (MlKem1024 M1024 S R) F A \<and> decap_errors E' (MlKem1024 M1024 S R)
     \<and> auth_opening_total (DhKem (X25519 LX H256 R)) F A \<and> auth_decap_errors E (DhKem (X25519 LX H256 R))
     \<and> auth_opening_total (DhKem (X448 LG H512 R)) F A \<and> auth_decap_errors E (DhKem (X448 LG H512 R))
     \<and> auth_opening_total (DhKem (P256 E256 H256)) F A \<and> auth_decap_errors E (DhKem (P256 E256 H256))
     \<and> auth_opening_total (DhKem (P384 E384 H384)) F A \<and> auth_decap_errors E (DhKem (P384 E384 H384))
     \<and> auth_opening_total (DhKem (P521 E521 H512)) F A \<and> auth_decap_errors E (DhKem (P521 E521 H512))
     \<and> auth_opening_total (DhKem (K256 EK H256)) F A \<and> auth_decap_errors E (DhKem (K256 EK H256))"
  unfolding assms(6,7)
  by (intro conjI; rule crates_dh_suites [OF assms(1-5), THEN auth_suite_modes(4)]
      crates_dh_suites [OF assms(1-5), THEN auth_suite_modes(8)]
      crates_pq_suites [OF assms(1-5), THEN pq_suite_modes(4)]
      crates_contracts [OF assms(1), THEN dh_decap_errors(1)]
      crates_contracts [OF assms(1), THEN dh_decap_errors(2)] pq_decap_errors [OF assms(1)])

theorem every_opening_total_witness:
  "open_base (DhKem demo_p256) demo_kdf demo_aead (DhEncappedKey [2, 0]) (demo_p256_sk 1) [8] [9] [1]
     = Err InvalidPublicKey"
proof -
  have "k_decap (DhKem demo_p256) (DhEncappedKey [2, 0]) (demo_p256_sk 1) = Err InvalidPublicKey"
    by (simp add: DhKem_decap_def demo_p256_def P256_def nist_simps nist_pk_from_bytes_def)
  moreover have "opening_total (DhKem demo_p256) demo_kdf demo_aead"
    using every_opening_total [OF toy_crates demo_kdf_registered demo_kdf_lib demo_registered
        demo_limit refl refl]
    unfolding demo_p256_def by blast
  then have "open_outcome_ok (k_decap (DhKem demo_p256) (DhEncappedKey [2, 0]) (demo_p256_sk 1))
      (open_base (DhKem demo_p256) demo_kdf demo_aead (DhEncappedKey [2, 0]) (demo_p256_sk 1) [8] [9] [1])"
    unfolding opening_total_def by blast
  ultimately show ?thesis by (simp add: open_outcome_ok_def del: DhKem_simps)
qed

end
