(* ===== verification/Hpke_Every_Channel.thy ===== *)
theory Hpke_Every_Channel
  imports Hpke_Channel_Spec Hpke_Mode_Theorems
begin

text \<open>
  Setup and session together: what a setup method returns, in any suite and any mode, is the two
  ends of the abstract channel of \<open>Hpke_Channel_Spec\<close>. The statement is made once for a
  setup and its encapsulation, proved from the contract of the cipher, and lifted to every mode
  of every suite by the contracts of the suites.
\<close>

section \<open>The statement\<close>

text \<open>
  One context at both ends: every run of a session seals under fresh nonces, is a run of the channel
  unless it has a forgery, and the two ends export alike; every behaviour of the channel is such a
  run.
\<close>

definition carries_channel ::
    "('r, 'pk, 'sk, 'enc, 'ss, 'z) kem_scheme \<Rightarrow> kdf \<Rightarrow>
     ('c, ('c, 'y) sealing_aead_ext) aead_scheme \<Rightarrow> nat \<Rightarrow> 'c Context \<Rightarrow> bool" where
  "carries_channel K F A p_max c0 \<longleftrightarrow>
     (\<forall>ss. session_run A c0 ss \<longrightarrow>
        (\<forall>m \<in> set (sent (last ss)).
           a_seal A (cipher c0) (s_nonce m) (s_aad m) (s_pt m) = Ok (s_ct m))
      \<and> distinct (map s_nonce (sent (last ss)))
      \<and> (channel_reachable (abs_session (last ss)) \<or> forgery_in A ss)
      \<and> (\<forall>ectx n. Sender_export K F A (tx_side (last ss)) ectx n
             = Receiver_export K F A (rx_side (last ss)) ectx n))
   \<and> (\<forall>c. channel_reachable c \<longrightarrow> channel_within p_max c \<longrightarrow>
        (\<exists>ss. session_run A c0 ss \<and> \<not> forgery_in A ss \<and> abs_session (last ss) = c))"

text \<open>A setup opens a channel: the two sides hold one new context, or encapsulation failed.\<close>

definition opens_channel ::
    "('r, 'pk, 'sk, 'enc, 'ss, 'z) kem_scheme \<Rightarrow> kdf \<Rightarrow>
     ('c, ('c, 'y) sealing_aead_ext) aead_scheme \<Rightarrow> nat \<Rightarrow> ('ss \<times> 'enc) res \<times> 'r \<Rightarrow>
     ('enc \<times> 'c SenderContext) res \<times> 'r \<Rightarrow> ('enc \<Rightarrow> 'c ReceiverContext res) \<Rightarrow> bool" where
  "opens_channel K F A p_max encap_out started receiver =
     (case fst started of
        Ok (enc, tx) \<Rightarrow>
          receiver enc = Ok (ReceiverContext (sender_inner tx)) \<and> seq (sender_inner tx) = 0
            \<and> carries_channel K F A p_max (sender_inner tx)
      | Err e \<Rightarrow> fst encap_out = Err e
      | Panic \<Rightarrow> False)"

definition setups_open_channels ::
    "('r, 'pk, 'sk, 'enc, 'ss, 'z) kem_scheme \<Rightarrow> kdf \<Rightarrow>
     ('c, ('c, 'y) sealing_aead_ext) aead_scheme \<Rightarrow> nat \<Rightarrow> bool" where
  "setups_open_channels K F A p_max \<longleftrightarrow>
     (\<forall>sk pk r info psk. kem_made K sk pk \<longrightarrow>
        opens_channel K F A p_max (k_encap K r pk) (setup_sender_base K F A r pk info)
          (\<lambda>enc. setup_receiver_base K F A enc sk info)
      \<and> opens_channel K F A p_max (k_encap K r pk) (setup_sender_psk K F A r pk info psk)
          (\<lambda>enc. setup_receiver_psk K F A enc sk info psk))"

definition auth_setups_open_channels ::
    "('r, 'pk, 'sk, 'enc, 'ss, ('r, 'pk, 'sk, 'enc, 'ss, 'z) auth_kem_ext) kem_scheme \<Rightarrow> kdf \<Rightarrow>
     ('c, ('c, 'y) sealing_aead_ext) aead_scheme \<Rightarrow> nat \<Rightarrow> bool" where
  "auth_setups_open_channels K F A p_max \<longleftrightarrow>
     (\<forall>sk pk sk_s pk_s r info psk. kem_made K sk pk \<longrightarrow> kem_made K sk_s pk_s \<longrightarrow>
        opens_channel K F A p_max (k_auth_encap K r pk sk_s) (setup_sender_auth K F A r pk info sk_s)
          (\<lambda>enc. setup_receiver_auth K F A enc sk info pk_s)
      \<and> opens_channel K F A p_max (k_auth_encap K r pk sk_s)
          (setup_sender_auth_psk K F A r pk info psk sk_s)
          (\<lambda>enc. setup_receiver_auth_psk K F A enc sk info psk pk_s))"

section \<open>A setup over a cipher that keeps its contract\<close>

lemma session_exports_agree:
  assumes "session_inv A c0 s"
  shows "Sender_export K F A (tx_side s) ectx n = Receiver_export K F A (rx_side s) ectx n"
  using assms by (rule session_invD) (simp add: Context_export_def)

context sealing_aead_contract
begin

lemma fresh_carries_channel:
  assumes "lawful" and "context_wf c0" and "seq c0 = 0"
  shows "carries_channel K F A p_max c0"
  unfolding carries_channel_def
proof (intro conjI allI impI ballI)
  fix ss ectx n m
  assume run: "session_run A c0 ss"
  have inv: "session_inv A c0 (last ss)"
    by (rule session_inv_reachable [OF nonce_range assms(2,3) session_run_reachable [OF run]])
  show "a_seal A (cipher c0) (s_nonce m) (s_aad m) (s_pt m) = Ok (s_ct m)" if "m \<in> set (sent (last ss))"
    by (rule session_inv_sealed [OF inv that])
  show "distinct (map s_nonce (sent (last ss)))"
    by (rule session_inv_nonces_distinct [OF nonce_range assms(2) inv])
  show "channel_reachable (abs_session (last ss)) \<or> forgery_in A ss"
    by (rule session_refines [OF assms run])
  show "Sender_export K F A (tx_side (last ss)) ectx n = Receiver_export K F A (rx_side (last ss)) ectx n"
    by (rule session_exports_agree [OF inv])
next
  fix c
  assume "channel_reachable c" and "channel_within p_max c"
  then show "\<exists>ss. session_run A c0 ss \<and> \<not> forgery_in A ss \<and> abs_session (last ss) = c"
    by (rule channel_realised [OF assms])
qed

lemma setup_opens_channel:
  assumes "lawful" and ks: "\<And>s. \<exists>ctx. ks s = Ok ctx \<and> context_wf ctx \<and> seq ctx = 0"
    and np: "fst e \<noteq> Panic" and agree: "\<And>ss enc r'. e = (Ok (ss, enc), r') \<Longrightarrow> dec enc = Ok ss"
  shows "opens_channel K F A p_max e (sender_setup K e ks) (\<lambda>enc. receiver_setup K (dec enc) ks)"
proof (cases rule: sender_setup_cases [of ks "\<lambda>ctx. context_wf ctx \<and> seq ctx = 0" e K, OF ks np, case_names ok err])
  case (err x r')
  then show ?thesis by (simp add: opens_channel_def)
next
  case (ok ss enc ctx r')
  have "receiver_setup K (dec enc) ks = Ok (ReceiverContext ctx)"
    using setup_agree [of e dec, OF agree ok(2)] by simp
  with ok(2,3) fresh_carries_channel [OF assms(1), of ctx K F] show ?thesis by (simp add: opens_channel_def)
qed

end

section \<open>Every mode of a suite\<close>

context hpke_sealing_suite
begin

lemma opens_base:
  assumes "lawful" and "pair sk pk"
  shows "opens_channel K F A p_max (k_encap K r pk) (setup_sender_base K F A r pk info)
     (\<lambda>enc. setup_receiver_base K F A enc sk info)"
  unfolding setup_eq
  by (rule aead.setup_opens_channel ks.psk_free_total(1) kem.encap_no_panic
      kem.decap_encap assms | assumption)+

lemma opens_psk:
  assumes "lawful" and "pair sk pk"
  shows "opens_channel K F A p_max (k_encap K r pk) (setup_sender_psk K F A r pk info psk)
     (\<lambda>enc. setup_receiver_psk K F A enc sk info psk)"
  unfolding setup_eq
  by (rule aead.setup_opens_channel ks.psk_total(1) kem.encap_no_panic
      kem.decap_encap assms | assumption)+

lemma suite_opens_channels:
  assumes "lawful"
  shows "setups_open_channels K F A p_max"
  unfolding setups_open_channels_def
  by (intro allI impI conjI; (rule opens_base opens_psk kem.made_pair assms | assumption)+)+

end

context hpke_auth_sealing_suite
begin

lemma opens_auth:
  assumes "lawful" and "pair sk pk" and "pair sk_s pk_s"
  shows "opens_channel K F A p_max (k_auth_encap K r pk sk_s) (setup_sender_auth K F A r pk info sk_s)
     (\<lambda>enc. setup_receiver_auth K F A enc sk info pk_s)"
  unfolding setup_eq
  by (rule aead.setup_opens_channel ks.psk_free_total(1) auth.auth_encap_no_panic
      auth.auth_decap_encap assms | assumption)+

lemma opens_auth_psk:
  assumes "lawful" and "pair sk pk" and "pair sk_s pk_s"
  shows "opens_channel K F A p_max (k_auth_encap K r pk sk_s)
     (setup_sender_auth_psk K F A r pk info psk sk_s)
     (\<lambda>enc. setup_receiver_auth_psk K F A enc sk info psk pk_s)"
  unfolding setup_eq
  by (rule aead.setup_opens_channel ks.psk_total(1) auth.auth_encap_no_panic
      auth.auth_decap_encap assms | assumption)+

lemma suite_opens_auth_channels:
  assumes "lawful"
  shows "auth_setups_open_channels K F A p_max"
  unfolding auth_setups_open_channels_def
  by (intro allI impI conjI; (rule opens_auth opens_auth_psk kem.made_pair assms | assumption)+)+

end

lemmas auth_suite_channels = hpke_auth_sealing_suite.suite_opens_auth_channels [OF _ TrueI]
  hpke_sealing_suite.suite_opens_channels [OF hpke_auth_sealing_suite.axioms(2) TrueI]

lemmas pq_suite_channels = hpke_sealing_suite.suite_opens_channels [OF _ TrueI]

section \<open>Using it\<close>

lemma auth_setups_open_channelsD:
  assumes "auth_setups_open_channels K F A p_max" and "kem_made K sk pk" and "kem_made K sk_s pk_s"
  shows "opens_channel K F A p_max (k_auth_encap K r pk sk_s) (setup_sender_auth K F A r pk info sk_s)
          (\<lambda>enc. setup_receiver_auth K F A enc sk info pk_s)"
    and "opens_channel K F A p_max (k_auth_encap K r pk sk_s)
          (setup_sender_auth_psk K F A r pk info psk sk_s)
          (\<lambda>enc. setup_receiver_auth_psk K F A enc sk info psk pk_s)"
  using assms unfolding auth_setups_open_channels_def by blast+

lemma opens_channelD:
  assumes "opens_channel K F A p_max e started receiver" and "is_ok (fst e)"
    and "channel_reachable c" and "channel_within p_max c"
  shows "\<exists>enc tx rx ss. fst started = Ok (enc, tx) \<and> receiver enc = Ok rx
     \<and> session_run A (sender_inner tx) ss \<and> tx_side (hd ss) = tx \<and> rx_side (hd ss) = rx
     \<and> abs_session (last ss) = c"
proof -
  from assms(1,2) obtain enc tx where ok: "fst started = Ok (enc, tx)"
      "receiver enc = Ok (ReceiverContext (sender_inner tx))"
    and carries: "carries_channel K F A p_max (sender_inner tx)"
    by (auto simp: opens_channel_def split: outcome.splits)
  from carries assms(3,4) obtain ss where ss: "session_run A (sender_inner tx) ss"
      "abs_session (last ss) = c"
    unfolding carries_channel_def by blast
  from ss(1) have "tx_side (hd ss) = tx" "rx_side (hd ss) = ReceiverContext (sender_inner tx)"
    by (auto simp: session_run_def session_start_def intro: SenderContext.expand)
  with ok ss show ?thesis by blast
qed

text \<open>A pre-shared key for the witness.\<close>

definition demo_psk :: Psk where
  "demo_psk = \<lparr> psk_secret = replicate 32 7, psk_id = [9] \<rparr>"

section \<open>The property\<close>

text \<open>
  C5: setup opens a channel. For each of the nine KEMs with any registered KDF and sealing AEAD,
  in the Base and the PSK mode and with any key pair of the crate: when the sender's setup
  returns, the recipient's setup on the encapsulated key returns the same new context, and the two
  are the ends of the abstract channel - in every session between them, whatever the network
  delivers and whatever calls fail, no nonce is used twice, what is received is what was sent, in
  order, unless the cipher accepts a forgery, and both ends export the same bytes at any moment;
  and every behaviour of the channel within the limits occurs. Setup fails only as encapsulation
  does. For the six Diffie-Hellman KEMs the same holds of the Auth and AuthPSK modes.
\<close>

theorem every_setup_opens_channel:
  assumes "crates_ok LX LG E256 E384 E521 EK W M768 M1024 H256 H384 H512 S R"
    and "F \<in> registered_kdfs G" and "hkdf_lib_ok G (f_HASH_LEN F)"
    and "A \<in> registered_aeads C" and "aead_lib_ok C (a_KEY_LEN A) p_max"
  shows "setups_open_channels (DhKem (X25519 LX H256 R)) F A p_max
     \<and> setups_open_channels (DhKem (X448 LG H512 R)) F A p_max
     \<and> setups_open_channels (DhKem (P256 E256 H256)) F A p_max
     \<and> setups_open_channels (DhKem (P384 E384 H384)) F A p_max
     \<and> setups_open_channels (DhKem (P521 E521 H512)) F A p_max
     \<and> setups_open_channels (DhKem (K256 EK H256)) F A p_max
     \<and> setups_open_channels (XWingDraft06 W S R) F A p_max
     \<and> setups_open_channels (MlKem768 M768 S R) F A p_max
     \<and> setups_open_channels (MlKem1024 M1024 S R) F A p_max
     \<and> auth_setups_open_channels (DhKem (X25519 LX H256 R)) F A p_max
     \<and> auth_setups_open_channels (DhKem (X448 LG H512 R)) F A p_max
     \<and> auth_setups_open_channels (DhKem (P256 E256 H256)) F A p_max
     \<and> auth_setups_open_channels (DhKem (P384 E384 H384)) F A p_max
     \<and> auth_setups_open_channels (DhKem (P521 E521 H512)) F A p_max
     \<and> auth_setups_open_channels (DhKem (K256 EK H256)) F A p_max"
  using crates_dh_suites [OF assms, THEN auth_suite_channels(1)]
    crates_dh_suites [OF assms, THEN auth_suite_channels(2)]
    crates_pq_suites [OF assms, THEN pq_suite_channels]
  by blast

theorem every_setup_opens_channel_witness:
  "\<exists>enc tx rx ss.
     fst (setup_sender_auth_psk (DhKem demo_p256) demo_kdf demo_aead 2 (demo_p256_pk 1) [8] demo_psk
       (demo_p256_sk 3)) = Ok (enc, tx)
     \<and> setup_receiver_auth_psk (DhKem demo_p256) demo_kdf demo_aead enc (demo_p256_sk 1) [8] demo_psk
         (demo_p256_pk 3) = Ok rx
     \<and> session_run demo_aead (sender_inner tx) ss \<and> tx_side (hd ss) = tx \<and> rx_side (hd ss) = rx
     \<and> abs_session (last ss) = demo_channel"
proof -
  have all: "auth_setups_open_channels (DhKem demo_p256) demo_kdf demo_aead 16"
    using every_setup_opens_channel [OF toy_crates demo_kdf_registered demo_kdf_lib demo_registered demo_lib_ok [of 16]]
    unfolding demo_p256_def by blast
  have enc: "is_ok (fst (k_auth_encap (DhKem demo_p256) 2 (demo_p256_pk 1) (demo_p256_sk 3)))"
    using demo_p256_auth_encap by simp
  show ?thesis
    by (rule opens_channelD [OF auth_setups_open_channelsD(2) [OF all demo_p256_made] enc demo_channel_ok])
qed

end
