(* ===== verification/Hpke_Rfc_Kem.thy ===== *)
theory Hpke_Rfc_Kem
  imports Hpke_Mode_Theorems
begin

text \<open>
  The abstract specification of the KEM and of setup: the pseudo-code of RFC 9180, sections 4.1
  and 5.1.1 to 5.1.4, and the proof that the code computes it. The RFC serialises the public key
  of a private key each time and concatenates Diffie-Hellman outputs and key encodings; the code
  reads the cached bytes of \<open>DhPrivateKey\<close> and hashes in pieces, so the refinement needs the
  invariant of a private key (C29).
\<close>

section \<open>Section 4.1: DHKEM\<close>

text \<open>
  \<open>DH\<close>, \<open>GenerateKeyPair\<close>, \<open>SerializePublicKey\<close>, \<open>DeserializePublicKey\<close> and \<open>pk\<close> are
  the operations of the group, with the validation of section 7.1.4.
\<close>

definition rfc_kem_suite_id :: "('r, 'pk, 'sk, 'z) dh_core_scheme \<Rightarrow> bytes" where
  "rfc_kem_suite_id D = ascii ''KEM'' @ i2osp (unat (d_ID D)) 2"

definition rfc_ExtractAndExpand ::
    "('r, 'pk, 'sk, 'z) dh_core_scheme \<Rightarrow> bytes \<Rightarrow> bytes \<Rightarrow> bytes res" where
  "rfc_ExtractAndExpand D dh kem_context =
     (let eae_prk = rfc_LabeledExtract (d_Kdf D) [] (rfc_kem_suite_id D) (ascii ''eae_prk'') dh
      in rfc_LabeledExpand (d_Kdf D) eae_prk (rfc_kem_suite_id D) (ascii ''shared_secret'') kem_context
           (d_SHARED_SECRET_LEN D))"

definition rfc_Encap ::
    "('r, 'pk, 'sk, 'z) dh_core_scheme \<Rightarrow> 'r \<Rightarrow> 'pk \<Rightarrow> (bytes \<times> bytes) res \<times> 'r" where
  "rfc_Encap D rng pkR =
     (case d_generate D rng of ((skE, pkE), rng') \<Rightarrow>
       (try_bind (d_dh D skE pkR) (\<lambda>dh.
          let enc = d_pk_to_bytes D pkE; pkRm = d_pk_to_bytes D pkR; kem_context = enc @ pkRm
          in try_bind (rfc_ExtractAndExpand D dh kem_context) (\<lambda>ss. Ok (ss, enc))), rng'))"

definition rfc_Decap :: "('r, 'pk, 'sk, 'z) dh_core_scheme \<Rightarrow> bytes \<Rightarrow> 'sk \<Rightarrow> bytes res" where
  "rfc_Decap D enc skR =
     try_bind (d_pk_from_bytes D enc) (\<lambda>pkE.
     try_bind (d_dh D skR pkE) (\<lambda>dh.
       let pkRm = d_pk_to_bytes D (d_sk_to_pk D skR); kem_context = enc @ pkRm
       in rfc_ExtractAndExpand D dh kem_context))"

definition rfc_AuthEncap ::
    "('r, 'pk, 'sk, 'z) dh_core_scheme \<Rightarrow> 'r \<Rightarrow> 'pk \<Rightarrow> 'sk \<Rightarrow> (bytes \<times> bytes) res \<times> 'r" where
  "rfc_AuthEncap D rng pkR skS =
     (case d_generate D rng of ((skE, pkE), rng') \<Rightarrow>
       (try_bind (d_dh D skE pkR) (\<lambda>dh1.
        try_bind (d_dh D skS pkR) (\<lambda>dh2.
          let dh = dh1 @ dh2; enc = d_pk_to_bytes D pkE; pkRm = d_pk_to_bytes D pkR;
              pkSm = d_pk_to_bytes D (d_sk_to_pk D skS); kem_context = enc @ pkRm @ pkSm
          in try_bind (rfc_ExtractAndExpand D dh kem_context) (\<lambda>ss. Ok (ss, enc)))), rng'))"

definition rfc_AuthDecap ::
    "('r, 'pk, 'sk, 'z) dh_core_scheme \<Rightarrow> bytes \<Rightarrow> 'sk \<Rightarrow> 'pk \<Rightarrow> bytes res" where
  "rfc_AuthDecap D enc skR pkS =
     try_bind (d_pk_from_bytes D enc) (\<lambda>pkE.
     try_bind (d_dh D skR pkE) (\<lambda>dh1.
     try_bind (d_dh D skR pkS) (\<lambda>dh2.
       let dh = dh1 @ dh2; pkRm = d_pk_to_bytes D (d_sk_to_pk D skR);
           pkSm = d_pk_to_bytes D pkS; kem_context = enc @ pkRm @ pkSm
       in rfc_ExtractAndExpand D dh kem_context)))"

text \<open>The newtypes of the code removed from a result.\<close>

definition plain_encapped ::
    "(DhSharedSecret \<times> DhEncappedKey) res \<times> 'r \<Rightarrow> (bytes \<times> bytes) res \<times> 'r" where
  "plain_encapped e = (map_ok (\<lambda>(ss, enc). (dh_ss ss, dh_enc enc)) (fst e), snd e)"

definition dhkem_refines ::
    "('r, 'pk, 'sk, ('pk, 'sk, 'z) dh_ext) dh_core_scheme \<Rightarrow> bool" where
  "dhkem_refines D \<longleftrightarrow>
     (\<forall>r pk_r sk_s. plain_encapped (DhKem_encap D r pk_r) = rfc_Encap D r (dh_pk pk_r)
        \<and> (key_coherent D sk_s \<longrightarrow>
             plain_encapped (DhKem_auth_encap D r pk_r sk_s) = rfc_AuthEncap D r (dh_pk pk_r) (dh_sk sk_s)))
   \<and> (\<forall>enc sk_r pk_s. key_coherent D sk_r \<longrightarrow>
        map_ok dh_ss (DhKem_decap D enc sk_r) = rfc_Decap D (dh_enc enc) (dh_sk sk_r)
      \<and> map_ok dh_ss (DhKem_auth_decap D enc sk_r pk_s)
          = rfc_AuthDecap D (dh_enc enc) (dh_sk sk_r) (dh_pk pk_s))"

lemma try_bind_Ok: "try_bind m Ok = m"
  by (cases m) simp_all

lemmas rfc_bind = map_ok_conv_try_bind try_bind_assoc try_bind_Ok

context dh_contract
begin

lemma suite_id_rfc: "suite_id D = rfc_kem_suite_id D"
  by (simp add: suite_id_def kem_suite_id_eq rfc_kem_suite_id_def to_be_bytes_i2osp)

lemma extract_and_expand_rfc:
  assumes "lawful" and "length ctx \<le> 12"
  shows "extract_and_expand D z ctx = rfc_ExtractAndExpand D z (concat ctx)"
  by (simp add: extract_and_expand_def rfc_ExtractAndExpand_def Let_def suite_id_rfc
      kdf.labeled_expand_pieces_concat [OF assms] kdf.labeled_expand_rfc [OF assms(1)]
      kdf.labeled_extract_rfc [OF assms(1)])

lemma encap_rfc:
  assumes "lawful"
  shows "plain_encapped (DhKem_encap D r pk_r) = rfc_Encap D r (dh_pk pk_r)"
  by (simp add: plain_encapped_def DhKem_encap_def encap_with_def rfc_Encap_def Let_def rfc_bind
      extract_and_expand_rfc [OF assms] as_ref_eq split: prod.splits)

lemma auth_encap_rfc:
  assumes "lawful" and "key_coherent D sk_s"
  shows "plain_encapped (DhKem_auth_encap D r pk_r sk_s) = rfc_AuthEncap D r (dh_pk pk_r) (dh_sk sk_s)"
  using assms(2)
  by (simp add: plain_encapped_def DhKem_auth_encap_def encap_with_def rfc_AuthEncap_def Let_def rfc_bind
      extract_and_expand_pieces_eq [OF assms(1)] extract_and_expand_rfc [OF assms(1)] as_ref_eq
      key_coherent_def split: prod.splits)

lemma decap_rfc:
  assumes "lawful" and "key_coherent D sk_r"
  shows "map_ok dh_ss (DhKem_decap D enc sk_r) = rfc_Decap D (dh_enc enc) (dh_sk sk_r)"
  using assms(2)
  by (simp add: DhKem_decap_def rfc_Decap_def Let_def rfc_bind extract_and_expand_rfc [OF assms(1)]
      key_coherent_def)

lemma auth_decap_rfc:
  assumes "lawful" and "key_coherent D sk_r"
  shows "map_ok dh_ss (DhKem_auth_decap D enc sk_r pk_s)
     = rfc_AuthDecap D (dh_enc enc) (dh_sk sk_r) (dh_pk pk_s)"
  using assms(2)
  by (simp add: DhKem_auth_decap_def rfc_AuthDecap_def Let_def rfc_bind as_ref_eq
      extract_and_expand_pieces_eq [OF assms(1)] extract_and_expand_rfc [OF assms(1)] key_coherent_def)

lemma dhkem_rfc: "lawful \<Longrightarrow> dhkem_refines D"
  unfolding dhkem_refines_def using encap_rfc auth_encap_rfc decap_rfc auth_decap_rfc by blast

end

section \<open>Sections 5.1.1 to 5.1.4: setup\<close>

text \<open>
  The sender's and the recipient's side of every mode: run the KEM, then \<open>KeySchedule\<close> with the
  suite identifier \<open>"HPKE" || kem_id || kdf_id || aead_id\<close>. The four modes differ in the KEM
  operation, the mode and the PSK.
\<close>

definition rfc_hpke_suite_id ::
    "('r, 'pk, 'sk, 'z) dh_core_scheme \<Rightarrow> kdf \<Rightarrow> ('c, 'y) aead_scheme \<Rightarrow> bytes" where
  "rfc_hpke_suite_id D F A =
     ascii ''HPKE'' @ i2osp (unat (d_ID D)) 2 @ i2osp (unat (f_ID F)) 2 @ i2osp (unat (a_ID A)) 2"

definition rfc_SetupS ::
    "('r, 'pk, 'sk, 'z) dh_core_scheme \<Rightarrow> kdf \<Rightarrow> ('c, 'y) aead_scheme \<Rightarrow> rfc_mode \<Rightarrow>
     (bytes \<times> bytes) res \<times> 'r \<Rightarrow> bytes \<Rightarrow> bytes \<Rightarrow> bytes \<Rightarrow> (bytes \<times> rfc_context) res \<times> 'r" where
  "rfc_SetupS D F A mode encapped info psk pid =
     (try_bind (fst encapped) (\<lambda>(shared_secret, enc).
        map_ok (\<lambda>ctx. (enc, ctx))
          (rfc_KeySchedule F (rfc_hpke_suite_id D F A) (a_KEY_LEN A) (a_NONCE_LEN A) mode shared_secret
             info psk pid)),
      snd encapped)"

definition rfc_SetupR ::
    "('r, 'pk, 'sk, 'z) dh_core_scheme \<Rightarrow> kdf \<Rightarrow> ('c, 'y) aead_scheme \<Rightarrow> rfc_mode \<Rightarrow>
     bytes res \<Rightarrow> bytes \<Rightarrow> bytes \<Rightarrow> bytes \<Rightarrow> rfc_context res" where
  "rfc_SetupR D F A mode decapped info psk pid =
     try_bind decapped (\<lambda>shared_secret.
       rfc_KeySchedule F (rfc_hpke_suite_id D F A) (a_KEY_LEN A) (a_NONCE_LEN A) mode shared_secret
         info psk pid)"

text \<open>The abstractions of the two results of setup.\<close>

definition abs_sender ::
    "('c, 'y) aead_scheme \<Rightarrow> (DhEncappedKey \<times> 'c SenderContext) res \<times> 'r \<Rightarrow>
     (bytes \<times> rfc_context) res \<times> 'r" where
  "abs_sender A st = (map_ok (\<lambda>(enc, tx). (dh_enc enc, abs_context A (sender_inner tx))) (fst st), snd st)"

definition abs_receiver :: "('c, 'y) aead_scheme \<Rightarrow> 'c ReceiverContext res \<Rightarrow> rfc_context res" where
  "abs_receiver A st = map_ok (\<lambda>rx. abs_context A (receiver_inner rx)) st"

definition setup_refines ::
    "('r, 'pk, 'sk, ('pk, 'sk, 'z) dh_ext) dh_core_scheme \<Rightarrow> kdf \<Rightarrow> ('c, 'y) aead_scheme \<Rightarrow> bool" where
  "setup_refines D F A \<longleftrightarrow>
     (\<forall>r pk_r sk_s info psk. key_coherent D sk_s \<longrightarrow> psk_valid psk \<longrightarrow>
        abs_sender A (setup_sender_base (DhKem D) F A r pk_r info)
          = rfc_SetupS D F A mode_base (rfc_Encap D r (dh_pk pk_r)) info [] []
      \<and> abs_sender A (setup_sender_psk (DhKem D) F A r pk_r info psk)
          = rfc_SetupS D F A mode_psk (rfc_Encap D r (dh_pk pk_r)) info (psk_secret psk) (psk_id psk)
      \<and> abs_sender A (setup_sender_auth (DhKem D) F A r pk_r info sk_s)
          = rfc_SetupS D F A mode_auth (rfc_AuthEncap D r (dh_pk pk_r) (dh_sk sk_s)) info [] []
      \<and> abs_sender A (setup_sender_auth_psk (DhKem D) F A r pk_r info psk sk_s)
          = rfc_SetupS D F A mode_auth_psk (rfc_AuthEncap D r (dh_pk pk_r) (dh_sk sk_s)) info
              (psk_secret psk) (psk_id psk))
   \<and> (\<forall>enc sk_r pk_s info psk. key_coherent D sk_r \<longrightarrow> psk_valid psk \<longrightarrow>
        abs_receiver A (setup_receiver_base (DhKem D) F A enc sk_r info)
          = rfc_SetupR D F A mode_base (rfc_Decap D (dh_enc enc) (dh_sk sk_r)) info [] []
      \<and> abs_receiver A (setup_receiver_psk (DhKem D) F A enc sk_r info psk)
          = rfc_SetupR D F A mode_psk (rfc_Decap D (dh_enc enc) (dh_sk sk_r)) info
              (psk_secret psk) (psk_id psk)
      \<and> abs_receiver A (setup_receiver_auth (DhKem D) F A enc sk_r info pk_s)
          = rfc_SetupR D F A mode_auth (rfc_AuthDecap D (dh_enc enc) (dh_sk sk_r) (dh_pk pk_s)) info [] []
      \<and> abs_receiver A (setup_receiver_auth_psk (DhKem D) F A enc sk_r info psk pk_s)
          = rfc_SetupR D F A mode_auth_psk (rfc_AuthDecap D (dh_enc enc) (dh_sk sk_r) (dh_pk pk_s)) info
              (psk_secret psk) (psk_id psk))"

text \<open>The argument that the four modes share.\<close>

lemma ciphersuite_rfc: "ciphersuite (DhKem D) F A = rfc_hpke_suite_id D F A"
  by (simp add: ciphersuite_eq rfc_hpke_suite_id_def to_be_bytes_i2osp)

lemma sender_setup_rfc:
  assumes "plain_encapped e = e'"
    and "\<And>s. map_ok (abs_context A) (ks s) =
      rfc_KeySchedule F (ciphersuite (DhKem D) F A) (a_KEY_LEN A) (a_NONCE_LEN A) m s info psk pid"
  shows "abs_sender A (sender_setup (DhKem D) e ks) = rfc_SetupS D F A m e' info psk pid"
proof -
  have "map_ok f (map_ok (abs_context A) (ks s)) = try_bind (ks s) (\<lambda>c. Ok (f (abs_context A c)))" for f s
    by (simp add: rfc_bind)
  then show ?thesis
    unfolding assms(1) [symmetric]
    by (cases e; cases "fst e") (auto simp: abs_sender_def sender_setup_def rfc_SetupS_def plain_encapped_def
        ciphersuite_rfc [symmetric] assms(2) [symmetric] rfc_bind split: prod.splits)
qed

lemma receiver_setup_rfc:
  assumes "map_ok dh_ss d = d'"
    and "\<And>s. map_ok (abs_context A) (ks s) =
      rfc_KeySchedule F (ciphersuite (DhKem D) F A) (a_KEY_LEN A) (a_NONCE_LEN A) m s info psk pid"
  shows "abs_receiver A (receiver_setup (DhKem D) d ks) = rfc_SetupR D F A m d' info psk pid"
  unfolding assms(1) [symmetric]
  by (simp add: abs_receiver_def receiver_setup_def rfc_SetupR_def ciphersuite_rfc [symmetric]
      assms(2) [symmetric] rfc_bind)

lemma setup_rfc:
  assumes "dh_contract D True pair" and "key_schedule_suite F A True"
  shows "setup_refines D F A"
proof -
  note ks = key_schedule_suite.key_schedule_psk_free_rfc [OF assms(2) TrueI, where K = "DhKem D"]
    key_schedule_suite.key_schedule_psk_rfc [OF assms(2) TrueI, where K = "DhKem D"]
  note modes = psk_free_abs_def psk_abs_def
  note e = dh_contract.encap_rfc [OF assms(1) TrueI] and ae = dh_contract.auth_encap_rfc [OF assms(1) TrueI]
  note d = dh_contract.decap_rfc [OF assms(1) TrueI] and ad = dh_contract.auth_decap_rfc [OF assms(1) TrueI]
  show ?thesis
    unfolding setup_refines_def setup_eq DhKem_simps
    by (intro conjI allI impI sender_setup_rfc receiver_setup_rfc)
      (simp_all add: e ae d ad ks modes)
qed

lemma crates_dhkem_rfc:
  assumes "crates_ok LX LG E256 E384 E521 EK W M768 M1024 H256 H384 H512 S R"
  shows "dhkem_refines (X25519 LX H256 R)" and "dhkem_refines (X448 LG H512 R)"
    and "dhkem_refines (P256 E256 H256)" and "dhkem_refines (P384 E384 H384)"
    and "dhkem_refines (P521 E521 H512)" and "dhkem_refines (K256 EK H256)"
  by (rule dh_contract.dhkem_rfc [OF _ TrueI], rule crates_contracts [OF assms])+

section \<open>The properties\<close>

definition exchanges_agree ::
    "('r, 'pk, 'sk, ('pk, 'sk, 'z) dh_ext) dh_core_scheme \<Rightarrow> bool" where
  "exchanges_agree D \<longleftrightarrow>
     (\<forall>r sk_r pk_r sk_s pk_s. kem_made (DhKem D) sk_r pk_r \<longrightarrow> kem_made (DhKem D) sk_s pk_s \<longrightarrow>
        kem_exchange_ok D (fst (DhKem_encap D r pk_r)) (\<lambda>enc. DhKem_decap D enc sk_r)
      \<and> kem_exchange_ok D (fst (DhKem_auth_encap D r pk_r sk_s)) (\<lambda>enc. DhKem_auth_decap D enc sk_r pk_s))"

lemma dh_exchanges_agree:
  assumes "dh_contract D True pair"
  shows "exchanges_agree D"
proof -
  have "dh_contract.key_pair D pair sk pk" if "kem_made (DhKem D) sk pk" for sk pk
    using kem_contract.made_pair [OF auth_kem_contract.axioms(1) [OF dhkem_auth_kem_contract [OF assms]]
        TrueI that]
    by (simp add: dh_contract.DhKem_pair_eq [OF assms])
  then show ?thesis
    unfolding exchanges_agree_def
    using dh_contract.exchange_outcome [OF assms TrueI] dh_contract.auth_exchange_outcome [OF assms TrueI]
    by blast
qed

text \<open>
  C9: decapsulation inverts encapsulation. Over each of the six groups, for key pairs of the crate:
  when encapsulation to the recipient's public key returns a secret and an encapsulated key, the
  recipient's decapsulation returns the same secret, of the registered length, as is the
  encapsulated key; otherwise the error is \<open>EncapError\<close>, and it never panics. The authenticated
  variants agree in the same way, with a key pair of the crate for the sender.
\<close>

theorem dh_exchange:
  assumes "crates_ok LX LG E256 E384 E521 EK W M768 M1024 H256 H384 H512 S R"
  shows "exchanges_agree (X25519 LX H256 R) \<and> exchanges_agree (X448 LG H512 R)
     \<and> exchanges_agree (P256 E256 H256) \<and> exchanges_agree (P384 E384 H384)
     \<and> exchanges_agree (P521 E521 H512) \<and> exchanges_agree (K256 EK H256)"
  by (intro conjI; rule dh_exchanges_agree, rule crates_contracts [OF assms])

theorem dh_exchange_witness:
  "\<exists>ss enc. fst (DhKem_auth_encap demo_p256 2 (demo_p256_pk 1) (demo_p256_sk 3)) = Ok (ss, enc)
     \<and> DhKem_auth_decap demo_p256 enc (demo_p256_sk 1) (demo_p256_pk 3) = Ok ss"
proof -
  have "exchanges_agree demo_p256"
    using dh_exchange [OF toy_crates] unfolding demo_p256_def by blast
  then have "kem_exchange_ok demo_p256 (fst (DhKem_auth_encap demo_p256 2 (demo_p256_pk 1) (demo_p256_sk 3)))
      (\<lambda>enc. DhKem_auth_decap demo_p256 enc (demo_p256_sk 1) (demo_p256_pk 3))"
    using demo_p256_made unfolding exchanges_agree_def by blast
  then show ?thesis
    using demo_p256_auth_encap by (auto simp: kem_exchange_ok_def split: outcome.splits)
qed

text \<open>
  C10: the KEM is the DHKEM of RFC 9180. Over each of the six groups and for every input, including
  bytes that do not parse and exchanges that are rejected, \<open>encap\<close>, \<open>decap\<close>, \<open>auth_encap\<close> and
  \<open>auth_decap\<close> return what the pseudo-code of section 4.1 returns, provided the private keys whose
  cached bytes they read are coherent, as every constructor makes them.
\<close>

theorem dhkem_is_rfc_DHKEM:
  assumes "crates_ok LX LG E256 E384 E521 EK W M768 M1024 H256 H384 H512 S R"
  shows "dhkem_refines (X25519 LX H256 R) \<and> dhkem_refines (X448 LG H512 R)
     \<and> dhkem_refines (P256 E256 H256) \<and> dhkem_refines (P384 E384 H384)
     \<and> dhkem_refines (P521 E521 H512) \<and> dhkem_refines (K256 EK H256)"
  using crates_dhkem_rfc [OF assms] by blast

lemma demo_p256_coherent: "key_coherent demo_p256 (demo_p256_sk 1)" "key_coherent demo_p256 (demo_p256_sk 3)"
  by (simp_all add: key_coherent_def demo_p256_def P256_def nist_simps demo_p256_sk_def nist_sk_to_pk_def
      nist_make_pk_def toy_ec_def)

theorem dhkem_is_rfc_DHKEM_witness:
  "rfc_Decap demo_p256 (4 # replicate 63 0 @ [1]) (NistPrivateKeyWrap 1) = Ok (replicate 32 147)"
proof -
  have "dhkem_refines demo_p256"
    using dhkem_is_rfc_DHKEM [OF toy_crates] unfolding demo_p256_def by blast
  then have "map_ok dh_ss (DhKem_decap demo_p256 demo_enc (demo_p256_sk 1))
      = rfc_Decap demo_p256 (dh_enc demo_enc) (dh_sk (demo_p256_sk 1))"
    using demo_p256_coherent(1) unfolding dhkem_refines_def by blast
  then show ?thesis
    using demo_decaps(1) by (simp add: demo_enc_def demo_p256_sk_def)
qed

text \<open>
  C11: setup is the setup of RFC 9180. Over each of the six groups, with any registered KDF and
  any AEAD, \<open>ExportOnly\<close> included, the eight setup methods of \<open>Hpke\<close> return the encapsulated key and the context that
  \<open>SetupBaseS\<close> to \<open>SetupAuthPSKR\<close> of section 5.1 return, and fail where these fail, for coherent
  private keys and every PSK that \<open>Psk::new\<close> accepts.
\<close>

theorem setup_is_rfc_Setup:
  assumes "crates_ok LX LG E256 E384 E521 EK W M768 M1024 H256 H384 H512 S R"
    and "F \<in> registered_kdfs G" and "hkdf_lib_ok G (f_HASH_LEN F)"
    and "A \<in> registered_aeads C" and "aead_lib_ok C (a_KEY_LEN A) p_max"
  shows "setup_refines (X25519 LX H256 R) F A \<and> setup_refines (X448 LG H512 R) F A
     \<and> setup_refines (P256 E256 H256) F A \<and> setup_refines (P384 E384 H384) F A
     \<and> setup_refines (P521 E521 H512) F A \<and> setup_refines (K256 EK H256) F A
     \<and> setup_refines (X25519 LX H256 R) F ExportOnly \<and> setup_refines (X448 LG H512 R) F ExportOnly
     \<and> setup_refines (P256 E256 H256) F ExportOnly \<and> setup_refines (P384 E384 H384) F ExportOnly
     \<and> setup_refines (P521 E521 H512) F ExportOnly \<and> setup_refines (K256 EK H256) F ExportOnly"
  by (intro conjI; (rule setup_rfc [OF _ key_schedule_registered [OF assms(2-5)]]
        | rule setup_rfc [OF _ key_schedule_export_only [OF assms(2,3)]]),
      rule crates_contracts [OF assms(1)])

theorem setup_is_rfc_Setup_witness:
  "abs_receiver demo_aead (setup_receiver_psk (DhKem demo_p256) demo_kdf demo_aead demo_enc (demo_p256_sk 1)
      [8] \<lparr> psk_secret = replicate 32 7, psk_id = [9] \<rparr>)
   = rfc_SetupR demo_p256 demo_kdf demo_aead mode_psk (Ok (replicate 32 147)) [8] (replicate 32 7) [9]"
proof -
  let ?psk = "\<lparr> psk_secret = replicate 32 7, psk_id = [9] \<rparr> :: Psk"
  have ref: "setup_refines demo_p256 demo_kdf demo_aead"
    using setup_is_rfc_Setup [OF toy_crates demo_kdf_registered demo_kdf_lib demo_registered demo_limit]
    unfolding demo_p256_def by blast
  have "psk_valid ?psk" by (simp add: psk_valid_def MIN_PSK_LEN_def)
  with ref demo_p256_coherent(1)
  have "abs_receiver demo_aead (setup_receiver_psk (DhKem demo_p256) demo_kdf demo_aead demo_enc
        (demo_p256_sk 1) [8] ?psk)
      = rfc_SetupR demo_p256 demo_kdf demo_aead mode_psk (rfc_Decap demo_p256 (dh_enc demo_enc)
          (dh_sk (demo_p256_sk 1))) [8] (psk_secret ?psk) (psk_id ?psk)"
    unfolding setup_refines_def by blast
  moreover have "map_ok dh_ss (DhKem_decap demo_p256 demo_enc (demo_p256_sk 1))
      = rfc_Decap demo_p256 (dh_enc demo_enc) (dh_sk (demo_p256_sk 1))"
    by (rule dh_contract.decap_rfc [OF demo_p256_contract TrueI demo_p256_coherent(1)])
  ultimately show ?thesis using demo_decaps(1) by simp
qed

end
