(* ===== verification/Hpke_Every_Kem.thy ===== *)
theory Hpke_Every_Kem
  imports Hpke_Rfc_Kem
begin

text \<open>
  Properties of keys, derivation and decapsulation for all the KEMs of the crate at once: the six
  Diffie-Hellman groups and the three post-quantum KEMs. Each is stated for one KEM or group,
  proved from its contract, and then read off for the instances.
\<close>

section \<open>Keys on the wire\<close>

text \<open>
  \<open>kem_made\<close> is a key pair that \<open>generate\<close> or \<open>derive_key_pair\<close> returned. Its halves have the
  registered lengths and come back from their bytes unchanged, caches included.
\<close>

definition keys_roundtrip :: "('r, 'pk, 'sk, 'enc, 'ss, 'z) kem_scheme \<Rightarrow> bool" where
  "keys_roundtrip K \<longleftrightarrow>
     (\<forall>sk pk. kem_made K sk pk \<longrightarrow>
        k_sk_from_bytes K (k_sk_to_bytes K sk) = Ok sk
      \<and> k_pk_from_bytes K (k_pk_to_bytes K pk) = Ok pk
      \<and> length (k_sk_to_bytes K sk) = k_PRIVATE_KEY_LEN K
      \<and> length (k_pk_to_bytes K pk) = k_PUBLIC_KEY_LEN K
      \<and> k_pk_as_ref K pk = k_pk_to_bytes K pk)"

lemma dh_made_pair:
  assumes "dh_contract D True pair" and "kem_made (DhKem D) sk pk"
  shows "dh_contract.key_pair D pair sk pk"
  using kem_contract.made_pair [OF auth_kem_contract.axioms(1) [OF dhkem_auth_kem_contract [OF assms(1)]]
      TrueI assms(2)]
  by (simp add: dh_contract.DhKem_pair_eq [OF assms(1)])

lemma dh_keys_roundtrip:
  assumes "dh_contract D True pair"
  shows "keys_roundtrip (DhKem D)"
  unfolding keys_roundtrip_def
proof (intro allI impI)
  fix sk pk
  assume "kem_made (DhKem D) sk pk"
  with assms have kp: "dh_contract.key_pair D pair sk pk" by (rule dh_made_pair)
  then have "pair (dh_sk sk) (dh_pk pk)" by (simp add: dh_contract.key_pair_def [OF assms])
  with kp show "k_sk_from_bytes (DhKem D) (k_sk_to_bytes (DhKem D) sk) = Ok sk
      \<and> k_pk_from_bytes (DhKem D) (k_pk_to_bytes (DhKem D) pk) = Ok pk
      \<and> length (k_sk_to_bytes (DhKem D) sk) = k_PRIVATE_KEY_LEN (DhKem D)
      \<and> length (k_pk_to_bytes (DhKem D) pk) = k_PUBLIC_KEY_LEN (DhKem D)
      \<and> k_pk_as_ref (DhKem D) pk = k_pk_to_bytes (DhKem D) pk"
    using dh_contract.sk_roundtrip [OF assms TrueI kp] dh_contract.pk_roundtrip [OF assms TrueI kp]
      dh_contract.sk_length [OF assms TrueI] dh_contract.pk_length [OF assms TrueI]
      dh_contract.as_ref_eq [OF assms]
    by (simp add: DhKem_sk_to_bytes_def DhKem_pk_to_bytes_def DhPublicKey_as_ref_def)
qed

text \<open>The post-quantum key pairs of the crate.\<close>

lemma pq_made_pairs:
  assumes "crates_ok LX LG E256 E384 E521 EK W M768 M1024 H256 H384 H512 S R"
  shows "kem_made (XWingDraft06 W S R) sk pk \<Longrightarrow> XWing_pair W sk pk"
    and "kem_made (MlKem768 M768 S R) sk' pk' \<Longrightarrow> ml_kem_pair M768 sk' pk'"
    and "kem_made (MlKem1024 M1024 S R) sk'' pk'' \<Longrightarrow> ml_kem_pair M1024 sk'' pk''"
  using assms unfolding crates_ok_def
  by (auto intro: kem_contract.made_pair [OF xwing.kem_contract_axioms]
      kem_contract.made_pair [OF mlkem768.kem_contract_axioms]
      kem_contract.made_pair [OF mlkem1024.kem_contract_axioms])

lemma xwing_keys_wire:
  assumes "x_wing_lib_ok L" and "XWing_pair L sk pk" and "K = XWingDraft06 L S R"
  shows "k_sk_from_bytes K (k_sk_to_bytes K sk) = Ok sk \<and> k_pk_from_bytes K (k_pk_to_bytes K pk) = Ok pk
     \<and> length (k_sk_to_bytes K sk) = k_PRIVATE_KEY_LEN K \<and> length (k_pk_to_bytes K pk) = k_PUBLIC_KEY_LEN K
     \<and> k_pk_as_ref K pk = k_pk_to_bytes K pk"
  using XWing_sk_roundtrip [OF assms(1,2)] x_wing_lib_okD(2,3,4) [OF assms(1)] assms(2)
  by (auto simp: assms(3) XWingDraft06_def XWing_pair_def keypair_from_seed_def Let_def)

lemma ml_kem_keys_wire:
  assumes "ml_kem_lib_ok L nenc (mp_npk P)" and "ml_kem_pair L sk pk" and "K = ml_kem_variant L P S R"
  shows "k_sk_from_bytes K (k_sk_to_bytes K sk) = Ok sk \<and> k_pk_from_bytes K (k_pk_to_bytes K pk) = Ok pk
     \<and> length (k_sk_to_bytes K sk) = k_PRIVATE_KEY_LEN K \<and> length (k_pk_to_bytes K pk) = k_PUBLIC_KEY_LEN K
     \<and> k_pk_as_ref K pk = k_pk_to_bytes K pk"
  using ml_kem_key_roundtrip [OF assms(1,2)] ml_kem_lib_okD(1) [OF assms(1)] assms(2)
  by (simp add: assms(3) ml_kem_variant_def ml_kem_pair_iff)

lemma pq_keys_roundtrip:
  assumes "crates_ok LX LG E256 E384 E521 EK W M768 M1024 H256 H384 H512 S R"
  shows "keys_roundtrip (XWingDraft06 W S R)" and "keys_roundtrip (MlKem768 M768 S R)"
    and "keys_roundtrip (MlKem1024 M1024 S R)"
proof -
  note made = pq_made_pairs [OF assms]
  have ok: "x_wing_lib_ok W" "ml_kem_lib_ok M768 1088 (mp_npk params_768)"
      "ml_kem_lib_ok M1024 1568 (mp_npk params_1024)"
    using assms unfolding crates_ok_def by (simp_all add: params_768_def params_1024_def)
  show "keys_roundtrip (XWingDraft06 W S R)"
    unfolding keys_roundtrip_def using xwing_keys_wire [OF ok(1) made(1) refl] by blast
  show "keys_roundtrip (MlKem768 M768 S R)" "keys_roundtrip (MlKem1024 M1024 S R)"
    unfolding keys_roundtrip_def
    using ml_kem_keys_wire [OF ok(2) made(2) MlKem768_def] ml_kem_keys_wire [OF ok(3) made(3) MlKem1024_def]
    by blast+
qed

text \<open>
  C15: keys survive serialisation. For each of the nine KEMs and every key pair that \<open>generate\<close>
  or \<open>derive_key_pair\<close> returned, serialising and parsing gives back both halves unchanged, the
  cached public bytes of a DHKEM key and the cached decapsulation key of a post-quantum one
  included; the serialised forms have the registered lengths, and \<open>as_ref\<close> of a public key is its
  serialisation.
\<close>

theorem every_key_roundtrip:
  assumes "crates_ok LX LG E256 E384 E521 EK W M768 M1024 H256 H384 H512 S R"
  shows "keys_roundtrip (DhKem (X25519 LX H256 R)) \<and> keys_roundtrip (DhKem (X448 LG H512 R))
     \<and> keys_roundtrip (DhKem (P256 E256 H256)) \<and> keys_roundtrip (DhKem (P384 E384 H384))
     \<and> keys_roundtrip (DhKem (P521 E521 H512)) \<and> keys_roundtrip (DhKem (K256 EK H256))
     \<and> keys_roundtrip (XWingDraft06 W S R) \<and> keys_roundtrip (MlKem768 M768 S R)
     \<and> keys_roundtrip (MlKem1024 M1024 S R)"
  by (intro conjI pq_keys_roundtrip [OF assms]; rule dh_keys_roundtrip, rule crates_contracts [OF assms])

theorem every_key_roundtrip_witness:
  "k_sk_from_bytes (DhKem demo_p256) (k_sk_to_bytes (DhKem demo_p256) (demo_p256_sk 3)) = Ok (demo_p256_sk 3)
   \<and> (\<exists>sk pk. fst (k_generate (XWingDraft06 toy_x_wing toy_shake toy_rng) 3) = Ok (sk, pk)
        \<and> XWing_sk_from_bytes toy_x_wing (XWing_sk_to_bytes sk) = Ok sk)"
proof -
  let ?X = "XWingDraft06 toy_x_wing toy_shake toy_rng"
  have all: "keys_roundtrip (DhKem demo_p256)" "keys_roundtrip ?X"
    using every_key_roundtrip [OF toy_crates] unfolding demo_p256_def by blast+
  obtain sk pk r' where g: "k_generate ?X 3 = (Ok (sk, pk), r')"
    using XWing_generate_pair [OF toy_rng_ok, of toy_x_wing 3] by (auto simp: XWingDraft06_def)
  then have "kem_made ?X sk pk" unfolding kem_made_def by blast
  with all(2) have "k_sk_from_bytes ?X (k_sk_to_bytes ?X sk) = Ok sk"
    unfolding keys_roundtrip_def by blast
  then have "XWing_sk_from_bytes toy_x_wing (XWing_sk_to_bytes sk) = Ok sk"
    by (simp add: XWingDraft06_def)
  with g all(1) demo_p256_made(2) show ?thesis
    unfolding keys_roundtrip_def by (intro conjI exI [of _ sk] exI [of _ pk]) simp_all
qed

section \<open>Derivation of keys\<close>

text \<open>
  Derivation fails with one error only, and what it returns is a key pair: what is encapsulated to
  the public half, the private half decapsulates. A KEM that does not sample by rejection never
  fails.
\<close>

definition derives_pairs :: "('r, 'pk, 'sk, 'enc, 'ss, 'z) kem_scheme \<Rightarrow> bool" where
  "derives_pairs K \<longleftrightarrow>
     (\<forall>ikm. case k_derive_key_pair K ikm of
        Ok (sk, pk) \<Rightarrow> (\<forall>r ss enc r'. k_encap K r pk = (Ok (ss, enc), r') \<longrightarrow> k_decap K enc sk = Ok ss)
      | Err e \<Rightarrow> e = DeriveKeyPairError
      | Panic \<Rightarrow> False)"

definition always_derives :: "('r, 'pk, 'sk, 'enc, 'ss, 'z) kem_scheme \<Rightarrow> bool" where
  "always_derives K \<longleftrightarrow> (\<forall>ikm. is_ok (k_derive_key_pair K ikm))"

context kem_contract
begin

lemma derives_pairs_if:
  assumes "lawful" and "\<And>ikm. errors_in {DeriveKeyPairError} (k_derive_key_pair K ikm)"
    and "\<And>ikm. k_derive_key_pair K ikm \<noteq> Panic"
  shows "derives_pairs K"
  unfolding derives_pairs_def
proof
  fix ikm
  show "case k_derive_key_pair K ikm of
        Ok (sk, pk) \<Rightarrow> (\<forall>r ss enc r'. k_encap K r pk = (Ok (ss, enc), r') \<longrightarrow> k_decap K enc sk = Ok ss)
      | Err e \<Rightarrow> e = DeriveKeyPairError | Panic \<Rightarrow> False"
    using assms(2,3) [of ikm] derive_pair [OF assms(1), of ikm] decap_encap [OF assms(1)]
    by (auto simp: errors_in_def split: outcome.splits)
qed

lemma derives_pairs_always:
  assumes "lawful" and "always_derives K"
  shows "derives_pairs K"
proof (rule derives_pairs_if [OF assms(1)])
  fix ikm
  obtain kp where "k_derive_key_pair K ikm = Ok kp"
    using assms(2) unfolding always_derives_def is_ok_iff by blast
  then show "errors_in {DeriveKeyPairError} (k_derive_key_pair K ikm)"
    and "k_derive_key_pair K ikm \<noteq> Panic"
    by (simp_all add: errors_in_def)
qed

end

lemma dh_derives_pairs:
  assumes "dh_contract D True pair" and "\<And>ikm. errors_in {DeriveKeyPairError} (d_derive D ikm)"
  shows "derives_pairs (DhKem D)"
proof (rule kem_contract.derives_pairs_if
    [OF auth_kem_contract.axioms(1) [OF dhkem_auth_kem_contract [OF assms(1)]] TrueI])
  fix ikm
  show "errors_in {DeriveKeyPairError} (k_derive_key_pair (DhKem D) ikm)"
    and "k_derive_key_pair (DhKem D) ikm \<noteq> Panic"
    using assms(2) [of ikm] dh_contract.derive_no_panic [OF assms(1) TrueI, of ikm]
    by (auto simp: errors_in_def DhKem_derive_key_pair_def outcome_simps)
qed

lemma nist_derive_errors:
  assumes "D \<in> registered_nist L H" and "dh_contract D True (nist_pair L)"
  shows "errors_in {DeriveKeyPairError} (d_derive D ikm)"
proof -
  obtain P where D: "D = nist_curve L P" and P: "0 < np_nsk P" "np_nsk P \<le> 255 * 32"
    using assms(1) unfolding registered_nist_def P256_def P384_def P521_def K256_def by fastforce
  have "kdf_contract (np_kdf P) True" using assms(2) by (simp add: dh_contract_def D nist_simps)
  from nist_derive_cases [OF this P, of L ikm] show ?thesis
    by (auto simp: errors_in_def D nist_simps)
qed

lemma dh_always_derives:
  assumes "\<And>ikm. \<exists>kp. d_derive D ikm = Ok kp"
  shows "always_derives (DhKem D)"
  unfolding always_derives_def
proof
  fix ikm
  obtain kp where "d_derive D ikm = Ok kp" using assms by blast
  then show "is_ok (k_derive_key_pair (DhKem D) ikm)"
    by (cases kp) (simp add: DhKem_derive_key_pair_def)
qed

lemma montgomery_derives:
  assumes "hkdf_lib_ok H 32" and "hkdf_lib_ok H' 64"
  shows "always_derives (DhKem (X25519 L H R))" and "always_derives (DhKem (X448 L' H' R))"
    and "errors_in {DeriveKeyPairError} (d_derive (X25519 L H R) ikm)"
    and "errors_in {DeriveKeyPairError} (d_derive (X448 L' H' R) ikm)"
proof -
  have 1: "\<exists>kp. d_derive (X25519 L H R) ikm = Ok kp" for ikm
    using X25519_derive_ok [OF assms(1), of L R ikm] by (auto simp: X25519_simps)
  have 2: "\<exists>kp. d_derive (X448 L' H' R) ikm = Ok kp" for ikm
    using X448_derive_ok [OF assms(2), of L' R ikm] by (auto simp: X448_simps)
  show "always_derives (DhKem (X25519 L H R))" "always_derives (DhKem (X448 L' H' R))"
    by (rule dh_always_derives, rule 1) (rule dh_always_derives, rule 2)
  show "errors_in {DeriveKeyPairError} (d_derive (X25519 L H R) ikm)"
    and "errors_in {DeriveKeyPairError} (d_derive (X448 L' H' R) ikm)"
    using 1 [of ikm] 2 [of ikm] by (auto simp: errors_in_def)
qed

lemma pq_derives:
  assumes "crates_ok LX LG E256 E384 E521 EK W M768 M1024 H256 H384 H512 S R"
    and "K = XWingDraft06 W S R" and "K768 = MlKem768 M768 S R" and "K1024 = MlKem1024 M1024 S R"
  shows "always_derives K \<and> derives_pairs K" and "always_derives K768 \<and> derives_pairs K768"
    and "always_derives K1024 \<and> derives_pairs K1024"
proof -
  have S: "shake_lib_ok S" and ok: "x_wing_lib_ok W \<and> shake_lib_ok S \<and> rng_ok R"
      "ml_kem_lib_ok M768 1088 1184 \<and> shake_lib_ok S \<and> rng_ok R"
      "ml_kem_lib_ok M1024 1568 1568 \<and> shake_lib_ok S \<and> rng_ok R"
    using assms(1) unfolding crates_ok_def by simp_all
  have d: "is_ok (k_derive_key_pair K ikm)" "is_ok (k_derive_key_pair K768 ikm)"
      "is_ok (k_derive_key_pair K1024 ikm)" for ikm
    by (simp_all add: assms(2-4) XWingDraft06_def XWing_derive_key_pair_def MlKem768_def MlKem1024_def
        ml_kem_variant_def ml_kem_derive_key_pair_def derive_label_eq [OF S])
  then have a: "always_derives K" "always_derives K768" "always_derives K1024"
    by (simp_all add: always_derives_def)
  then show "always_derives K \<and> derives_pairs K" "always_derives K768 \<and> derives_pairs K768"
    "always_derives K1024 \<and> derives_pairs K1024"
    unfolding assms(2-4)
    using kem_contract.derives_pairs_always [OF xwing.kem_contract_axioms ok(1)]
      kem_contract.derives_pairs_always [OF mlkem768.kem_contract_axioms ok(2)]
      kem_contract.derives_pairs_always [OF mlkem1024.kem_contract_axioms ok(3)] by blast+
qed

text \<open>
  C14: derivation is total and gives key pairs. For each of the nine KEMs and any input key
  material, \<open>derive_key_pair\<close> never panics and fails, if at all, with \<open>DeriveKeyPairError\<close>; the
  keys it returns belong together, so that what is encapsulated to the public key is decapsulated
  by the private one. X25519, X448, X-Wing and ML-KEM, which do not sample by rejection, never fail.
\<close>

theorem every_derivation_total:
  assumes "crates_ok LX LG E256 E384 E521 EK W M768 M1024 H256 H384 H512 S R"
  shows "derives_pairs (DhKem (X25519 LX H256 R)) \<and> always_derives (DhKem (X25519 LX H256 R))
     \<and> derives_pairs (DhKem (X448 LG H512 R)) \<and> always_derives (DhKem (X448 LG H512 R))
     \<and> derives_pairs (DhKem (P256 E256 H256)) \<and> derives_pairs (DhKem (P384 E384 H384))
     \<and> derives_pairs (DhKem (P521 E521 H512)) \<and> derives_pairs (DhKem (K256 EK H256))
     \<and> derives_pairs (XWingDraft06 W S R) \<and> always_derives (XWingDraft06 W S R)
     \<and> derives_pairs (MlKem768 M768 S R) \<and> always_derives (MlKem768 M768 S R)
     \<and> derives_pairs (MlKem1024 M1024 S R) \<and> always_derives (MlKem1024 M1024 S R)"
proof -
  note dh = crates_contracts [OF assms]
  have H: "hkdf_lib_ok H256 32" "hkdf_lib_ok H512 64" using assms unfolding crates_ok_def by simp_all
  have nist: "P256 E256 H256 \<in> registered_nist E256 H256" "P384 E384 H384 \<in> registered_nist E384 H384"
      "P521 E521 H512 \<in> registered_nist E521 H512" "K256 EK H256 \<in> registered_nist EK H256"
    by (simp_all add: registered_nist_def)
  show ?thesis
    using montgomery_derives(1,2) [OF H] pq_derives [OF assms refl refl refl]
      dh_derives_pairs [OF dh(1) montgomery_derives(3) [OF H]]
      dh_derives_pairs [OF dh(2) montgomery_derives(4) [OF H]]
      dh_derives_pairs [OF dh(3) nist_derive_errors [OF nist(1) dh(3)]]
      dh_derives_pairs [OF dh(4) nist_derive_errors [OF nist(2) dh(4)]]
      dh_derives_pairs [OF dh(5) nist_derive_errors [OF nist(3) dh(5)]]
      dh_derives_pairs [OF dh(6) nist_derive_errors [OF nist(4) dh(6)]]
    by (intro conjI) (assumption | simp only:)+
qed

theorem every_derivation_total_witness:
  "is_ok (k_derive_key_pair (DhKem (X448 toy_x448 (toy_hkdf 64) toy_rng)) [1, 2, 3])
   \<and> derives_pairs (DhKem demo_p256)"
  using every_derivation_total [OF toy_crates] unfolding demo_p256_def always_derives_def by blast

section \<open>Decapsulation of arbitrary bytes\<close>

text \<open>
  The outcome of decapsulation as a function of its inputs. Over a group: the bytes must parse and
  each exchange must be accepted. For a post-quantum KEM: the key must have its decapsulation key,
  which a scrubbed one has not, and the ciphertext its length.
\<close>

definition decap_exact :: "('r, 'pk, 'sk, 'z) dh_core_scheme \<Rightarrow> bool" where
  "decap_exact D \<longleftrightarrow>
     (\<forall>enc sk pk_s. case d_pk_from_bytes D (dh_enc enc) of
        Ok pk_e \<Rightarrow>
          (if is_ok (d_dh D (dh_sk sk) pk_e) then is_ok (DhKem_decap D enc sk)
           else DhKem_decap D enc sk = Err EncapError)
        \<and> (if is_ok (d_dh D (dh_sk sk) pk_e) \<and> is_ok (d_dh D (dh_sk sk) (dh_pk pk_s))
           then is_ok (DhKem_auth_decap D enc sk pk_s)
           else DhKem_auth_decap D enc sk pk_s = Err EncapError)
      | Err e \<Rightarrow> e = InvalidPublicKey \<and> DhKem_decap D enc sk = Err InvalidPublicKey
          \<and> DhKem_auth_decap D enc sk pk_s = Err InvalidPublicKey
      | Panic \<Rightarrow> False)"

definition pq_decap_exact ::
    "('sk \<Rightarrow> bool) \<Rightarrow> ('r, 'pk, 'sk, 'enc, 'ss, 'z) kem_scheme \<Rightarrow> bool" where
  "pq_decap_exact usable K \<longleftrightarrow>
     (\<forall>enc sk. if \<not> usable sk then k_decap K enc sk = Err DecapError
        else if length (k_enc_as_ref K enc) \<noteq> k_ENCAPPED_KEY_LEN K
        then k_decap K enc sk = Err InvalidEncappedKey
        else is_ok (k_decap K enc sk))"

lemma decap_exact_malformed:
  assumes "decap_exact D" and "d_pk_from_bytes D (dh_enc enc) = Err e"
  shows "DhKem_auth_decap D enc sk pk_s = Err InvalidPublicKey"
  using assms(1) unfolding decap_exact_def
  by (elim allE [of _ enc] allE [of _ sk] allE [of _ pk_s]) (simp add: assms(2))

lemma pq_decap_exact_length:
  assumes "pq_decap_exact usable K" and "usable sk" and "length (k_enc_as_ref K enc) \<noteq> k_ENCAPPED_KEY_LEN K"
  shows "k_decap K enc sk = Err InvalidEncappedKey"
  using assms unfolding pq_decap_exact_def by (elim allE [of _ enc] allE [of _ sk]) simp

context dh_contract
begin

lemma dh_cases:
  obtains (accepted) x where "d_dh D sk pk = Ok x" | (rejected) "d_dh D sk pk = Err EncapError"
  using dh_no_panic [of sk pk] dh_err [of sk pk] by (cases "d_dh D sk pk") auto

lemma eae_accepts:
  "lawful \<Longrightarrow> \<exists>ss. extract_and_expand D z [a, b] = Ok ss"
  "lawful \<Longrightarrow> \<exists>ss. extract_and_expand_pieces D [x, y] [a, b, c] = Ok ss"
  using extract_and_expand_ok [of "[a, b]" z] extract_and_expand_ok [of "[a, b, c]" "concat [x, y]"]
    extract_and_expand_pieces_eq [of "[x, y]" "[a, b, c]"] by auto

lemma decap_after_parse:
  assumes "lawful" and "d_pk_from_bytes D (dh_enc enc) = Ok pk_e"
  shows "DhKem_decap D enc sk = Err EncapError \<and> d_dh D (dh_sk sk) pk_e = Err EncapError
     \<or> is_ok (DhKem_decap D enc sk) \<and> is_ok (d_dh D (dh_sk sk) pk_e)"
proof (cases rule: dh_cases [of "dh_sk sk" pk_e])
  case (accepted z)
  obtain ss where "extract_and_expand D z [dh_enc enc, pk_bytes sk] = Ok ss"
    using eae_accepts(1) [OF assms(1)] by blast
  with accepted assms(2) show ?thesis by (simp add: DhKem_decap_def)
qed (use assms(2) in \<open>simp add: DhKem_decap_def\<close>)

lemma auth_decap_after_parse:
  assumes "lawful" and "d_pk_from_bytes D (dh_enc enc) = Ok pk_e"
  shows "if is_ok (d_dh D (dh_sk sk) pk_e) \<and> is_ok (d_dh D (dh_sk sk) (dh_pk pk_s))
     then is_ok (DhKem_auth_decap D enc sk pk_s) else DhKem_auth_decap D enc sk pk_s = Err EncapError"
proof (cases rule: dh_cases [of "dh_sk sk" pk_e])
  case (accepted x)
  note first = accepted
  show ?thesis
  proof (cases rule: dh_cases [of "dh_sk sk" "dh_pk pk_s"])
    case (accepted y)
    obtain ss where "extract_and_expand_pieces D [x, y]
        [dh_enc enc, pk_bytes sk, d_pk_as_ref D (dh_pk pk_s)] = Ok ss"
      using eae_accepts(2) [OF assms(1)] by blast
    with first accepted assms(2) show ?thesis by (simp add: DhKem_auth_decap_def)
  qed (use first assms(2) in \<open>simp add: DhKem_auth_decap_def\<close>)
qed (use assms(2) in \<open>simp add: DhKem_auth_decap_def\<close>)

lemma decap_is_exact:
  assumes "lawful"
  shows "decap_exact D"
  unfolding decap_exact_def
proof (intro allI)
  fix enc sk pk_s
  consider (parses) pk_e where "d_pk_from_bytes D (dh_enc enc) = Ok pk_e"
    | (malformed) "d_pk_from_bytes D (dh_enc enc) = Err InvalidPublicKey"
    using pk_from_bytes_no_panic [of "dh_enc enc"] pk_from_bytes_err [of "dh_enc enc"]
    by (cases "d_pk_from_bytes D (dh_enc enc)") auto
  then show "case d_pk_from_bytes D (dh_enc enc) of
      Ok pk_e \<Rightarrow>
        (if is_ok (d_dh D (dh_sk sk) pk_e) then is_ok (DhKem_decap D enc sk)
         else DhKem_decap D enc sk = Err EncapError)
      \<and> (if is_ok (d_dh D (dh_sk sk) pk_e) \<and> is_ok (d_dh D (dh_sk sk) (dh_pk pk_s))
         then is_ok (DhKem_auth_decap D enc sk pk_s)
         else DhKem_auth_decap D enc sk pk_s = Err EncapError)
    | Err e \<Rightarrow> e = InvalidPublicKey \<and> DhKem_decap D enc sk = Err InvalidPublicKey
        \<and> DhKem_auth_decap D enc sk pk_s = Err InvalidPublicKey
    | Panic \<Rightarrow> False"
  proof cases
    case parses
    with decap_after_parse [OF assms parses, of sk] auth_decap_after_parse [OF assms parses, of sk pk_s]
    show ?thesis by auto
  qed (simp add: DhKem_decap_def DhKem_auth_decap_def)
qed

end

lemma XWing_decap_outcome:
  assumes "x_wing_lib_ok W"
  shows "if \<not> xw_dk sk \<noteq> None then XWing_decap W enc sk = Err DecapError
     else if length (xw_enc enc) \<noteq> 1120 then XWing_decap W enc sk = Err InvalidEncappedKey
     else is_ok (XWing_decap W enc sk)"
proof (cases "xw_dk sk")
  case None
  then show ?thesis using XWing_decap_cases(1) [OF assms] by simp
next
  case (Some dk)
  show ?thesis
  proof (cases "xw_decapsulate_slice W dk (xw_enc enc)")
    case None
    with Some show ?thesis
      using x_wing_lib_okD(6) [OF assms] XWing_decap_cases(2) [OF assms Some] by simp
  next
    case (Some ss)
    have "length (xw_enc enc) = 1120" using Some x_wing_lib_okD(6) [OF assms, of dk "xw_enc enc"] by auto
    with \<open>xw_dk sk = Some dk\<close> Some show ?thesis using XWing_decap_cases(3) [OF assms] by simp
  qed
qed

lemma xwing_decap_exact:
  assumes "x_wing_lib_ok W"
  shows "pq_decap_exact (\<lambda>sk. xw_dk sk \<noteq> None) (XWingDraft06 W S R)"
  using XWing_decap_outcome [OF assms] x_wing_lib_okD(1) [OF assms]
  by (simp add: pq_decap_exact_def XWingDraft06_def)

lemma ml_kem_decap_exact:
  assumes "ml_kem_lib_ok L (mp_nenc P) npk"
  shows "pq_decap_exact (\<lambda>sk. mk_dk sk \<noteq> None) (ml_kem_variant L P S R)"
proof -
  have "length b = mp_nenc P \<longleftrightarrow> (\<exists>ct. mk_ct_try_from L b = Some ct)" for b
    using ml_kem_lib_okD(3) [OF assms, of b] by auto
  then show ?thesis
    by (auto simp: pq_decap_exact_def ml_kem_variant_def ml_kem_decap_cases [OF assms]
        split: option.splits)
qed

text \<open>
  C12: decapsulation is total and its errors are exact. Over each of the six groups, on any private
  key and any bytes, decapsulation fails with \<open>InvalidPublicKey\<close> exactly when the bytes are not a
  public key, with \<open>EncapError\<close> exactly when they are but the exchange is rejected - in the
  authenticated variant, when either exchange is - and otherwise returns a secret. For X-Wing and
  ML-KEM it fails with \<open>DecapError\<close> exactly on a key whose decapsulation key is gone, with
  \<open>InvalidEncappedKey\<close> exactly on another length, and otherwise returns a secret. Nothing panics.
\<close>

theorem every_decapsulation_exact:
  assumes "crates_ok LX LG E256 E384 E521 EK W M768 M1024 H256 H384 H512 S R"
  shows "decap_exact (X25519 LX H256 R) \<and> decap_exact (X448 LG H512 R)
     \<and> decap_exact (P256 E256 H256) \<and> decap_exact (P384 E384 H384)
     \<and> decap_exact (P521 E521 H512) \<and> decap_exact (K256 EK H256)
     \<and> pq_decap_exact (\<lambda>sk. xw_dk sk \<noteq> None) (XWingDraft06 W S R)
     \<and> pq_decap_exact (\<lambda>sk. mk_dk sk \<noteq> None) (MlKem768 M768 S R)
     \<and> pq_decap_exact (\<lambda>sk. mk_dk sk \<noteq> None) (MlKem1024 M1024 S R)"
proof -
  have ok: "x_wing_lib_ok W" "ml_kem_lib_ok M768 (mp_nenc params_768) 1184"
      "ml_kem_lib_ok M1024 (mp_nenc params_1024) 1568"
    using assms unfolding crates_ok_def by (simp_all add: params_768_def params_1024_def)
  show ?thesis
    unfolding MlKem768_def MlKem1024_def
    by (intro conjI xwing_decap_exact [OF ok(1)] ml_kem_decap_exact [OF ok(2)] ml_kem_decap_exact [OF ok(3)];
        rule dh_contract.decap_is_exact [OF _ TrueI], rule crates_contracts [OF assms])
qed

theorem every_decapsulation_exact_witness:
  "DhKem_auth_decap demo_p256 (DhEncappedKey [2, 0]) (demo_p256_sk 1) (demo_p256_pk 3) = Err InvalidPublicKey
   \<and> k_decap (XWingDraft06 toy_x_wing toy_shake toy_rng) (XWingEncappedKey [1])
       (fst (keypair_from_seed toy_x_wing (replicate 32 9))) = Err InvalidEncappedKey"
proof -
  have all: "decap_exact demo_p256"
      "pq_decap_exact (\<lambda>sk. xw_dk sk \<noteq> None) (XWingDraft06 toy_x_wing toy_shake toy_rng)"
    using every_decapsulation_exact [OF toy_crates] unfolding demo_p256_def by blast+
  have bad: "d_pk_from_bytes demo_p256 (dh_enc (DhEncappedKey [2, 0])) = Err InvalidPublicKey"
    by (simp add: demo_p256_def P256_def nist_simps nist_pk_from_bytes_def)
  have "DhKem_auth_decap demo_p256 (DhEncappedKey [2, 0]) (demo_p256_sk 1) (demo_p256_pk 3)
      = Err InvalidPublicKey"
    by (rule decap_exact_malformed [OF all(1) bad])
  moreover have "k_decap (XWingDraft06 toy_x_wing toy_shake toy_rng) (XWingEncappedKey [1])
      (fst (keypair_from_seed toy_x_wing (replicate 32 9))) = Err InvalidEncappedKey"
    by (rule pq_decap_exact_length [OF all(2)])
      (simp_all add: keypair_from_seed_def Let_def XWingDraft06_def toy_x_wing_def)
  ultimately show ?thesis by simp
qed

section \<open>X25519 and X448\<close>

text \<open>
  C16: Montgomery private keys are canonical. Any 32 bytes are an X25519 key and any 56 bytes an
  X448 key, stored clamped as RFC 7748 requires - for X25519 the three low bits and the top bit
  clear and bit 254 set, for X448 the two low bits clear and the top bit set - so that serialising
  and loading again changes nothing; any other length is \<open>InvalidPrivateKey\<close>.
\<close>

theorem montgomery_private_keys_canonical:
  assumes "x25519_lib_ok L"
  shows "(if length b = 32
     then \<exists>sk. X25519_sk_from_bytes L b = Ok sk
        \<and> (let w = X25519_sk_to_bytes L sk
           in w = x25519_clamp b \<and> w ! 0 AND 7 = 0 \<and> w ! 31 AND 0x80 = 0 \<and> w ! 31 AND 0x40 = 0x40
              \<and> X25519_sk_from_bytes L w = Ok sk)
     else X25519_sk_from_bytes L b = Err InvalidPrivateKey)
   \<and> (if length b = 56
     then \<exists>sk. X448_sk_from_bytes b = Ok sk
        \<and> (let w = X448_sk_to_bytes sk
           in w = x448_clamp b \<and> w ! 0 AND 3 = 0 \<and> w ! 55 AND 0x80 = 0x80
              \<and> X448_sk_from_bytes w = Ok sk)
     else X448_sk_from_bytes b = Err InvalidPrivateKey)"
proof
  show "if length b = 32
     then \<exists>sk. X25519_sk_from_bytes L b = Ok sk
        \<and> (let w = X25519_sk_to_bytes L sk
           in w = x25519_clamp b \<and> w ! 0 AND 7 = 0 \<and> w ! 31 AND 0x80 = 0 \<and> w ! 31 AND 0x40 = 0x40
              \<and> X25519_sk_from_bytes L w = Ok sk)
     else X25519_sk_from_bytes L b = Err InvalidPrivateKey"
    by (simp add: X25519_sk_from_bytes_def X25519_sk_to_bytes_def x25519_lib_okD [OF assms]
        x25519_clamp_idem x25519_clamp_bits Let_def)
  show "if length b = 56
     then \<exists>sk. X448_sk_from_bytes b = Ok sk
        \<and> (let w = X448_sk_to_bytes sk
           in w = x448_clamp b \<and> w ! 0 AND 3 = 0 \<and> w ! 55 AND 0x80 = 0x80
              \<and> X448_sk_from_bytes w = Ok sk)
     else X448_sk_from_bytes b = Err InvalidPrivateKey"
    by (simp add: X448_sk_from_bytes_def x448_clamp_idem x448_clamp_bits Let_def)
qed

theorem montgomery_private_keys_canonical_witness:
  "\<exists>sk. X448_sk_from_bytes (replicate 56 0xFF) = Ok sk \<and> X448_sk_to_bytes sk ! 0 AND 3 = 0
     \<and> X448_sk_from_bytes (X448_sk_to_bytes sk) = Ok sk"
  using montgomery_private_keys_canonical [OF toy_x25519_ok, of "replicate 56 0xFF"]
  by (auto simp: Let_def)

text \<open>
  C17: the all-zero shared secret never gets through. Decapsulation over X25519 succeeds exactly
  when the bytes have the length of a public key and the exchange of that key, its top bit masked,
  with the recipient's scalar is not the all-zero string; over X448, exactly when the bytes have
  their length and the exchange is not all zero. Neither panics (RFC 9180, section 7.1.4).
\<close>

theorem montgomery_decap_rejects_zero:
  assumes "x25519_lib_ok L" and "x448_lib_ok L'" and "hkdf_lib_ok H 32" and "hkdf_lib_ok H' 64"
    and "rng_ok R"
  shows "(is_ok (DhKem_decap (X25519 L H R) enc sk) \<longleftrightarrow>
       length (dh_enc enc) = 32
     \<and> xs_diffie_hellman L (x25519_sk (dh_sk sk))
         ((dh_enc enc)[31 := dh_enc enc ! 31 AND 0x7F]) \<noteq> replicate 32 0)
     \<and> DhKem_decap (X25519 L H R) enc sk \<noteq> Panic
     \<and> (is_ok (DhKem_decap (X448 L' H' R) enc sk') \<longleftrightarrow>
       length (dh_enc enc) = 56
     \<and> x448_scalar_mult L' (x448_sk (dh_sk sk')) (dh_enc enc) \<noteq> replicate 56 0)
     \<and> DhKem_decap (X448 L' H' R) enc sk' \<noteq> Panic"
proof -
  have "\<exists>ss. extract_and_expand (X25519 L H R) z [dh_enc enc, pk_bytes sk] = Ok ss" for z
    using x25519.eae_accepts(1) [of L H R z "dh_enc enc" "pk_bytes sk"] assms by blast
  then have 1: "is_ok (DhKem_decap (X25519 L H R) enc sk) \<longleftrightarrow> length (dh_enc enc) = 32
     \<and> xs_diffie_hellman L (x25519_sk (dh_sk sk))
         ((dh_enc enc)[31 := dh_enc enc ! 31 AND 0x7F]) \<noteq> replicate 32 0"
    by (auto simp: DhKem_decap_def is_ok_iff outcome_simps X25519_simps X25519_pk_from_bytes_def
        X25519_dh_def x25519_lib_okD [OF assms(1)] Let_def)
  have "\<exists>ss. extract_and_expand (X448 L' H' R) z [dh_enc enc, pk_bytes sk'] = Ok ss" for z
    using x448.eae_accepts(1) [of L' H' R z "dh_enc enc" "pk_bytes sk'"] assms by blast
  then have 2: "is_ok (DhKem_decap (X448 L' H' R) enc sk') \<longleftrightarrow> length (dh_enc enc) = 56
     \<and> x448_scalar_mult L' (x448_sk (dh_sk sk')) (dh_enc enc) \<noteq> replicate 56 0"
    by (auto simp: DhKem_decap_def is_ok_iff outcome_simps X448_simps X448_pk_from_bytes_def
        X448_dh_def x448_lib_okD(3) [OF assms(2)] Let_def)
  show ?thesis
    using 1 2 x25519.decap_no_panic [of L H R enc sk] x448.decap_no_panic [of L' H' R enc sk'] assms
    by blast
qed

theorem montgomery_decap_rejects_zero_witness:
  "\<not> is_ok (DhKem_decap (X25519 toy_x25519 (toy_hkdf 32) toy_rng) (DhEncappedKey (replicate 32 0))
     (from_sk (X25519 toy_x25519 (toy_hkdf 32) toy_rng) (X25519PrivateKeyWrap (replicate 32 0))))"
  unfolding montgomery_decap_rejects_zero [OF toy_x25519_ok toy_x448_ok toy_hkdf_ok toy_hkdf_ok toy_rng_ok,
      THEN conjunct1]
  by (simp add: from_sk_def Let_def toy_x25519_def toy_x25519_pk_def pad_id add_bytes_zero)

section \<open>Post-quantum exchanges\<close>

definition exchange_total :: "('r, 'pk, 'sk, 'enc, 'ss, 'z) kem_scheme \<Rightarrow> bool" where
  "exchange_total K \<longleftrightarrow>
     (\<forall>r sk pk. kem_made K sk pk \<longrightarrow>
        (\<exists>ss enc. fst (k_encap K r pk) = Ok (ss, enc) \<and> k_decap K enc sk = Ok ss
           \<and> length (k_ss_as_ref K ss) = k_SHARED_SECRET_LEN K
           \<and> length (k_enc_as_ref K enc) = k_ENCAPPED_KEY_LEN K
           \<and> k_enc_from_bytes K (k_enc_as_ref K enc) = Ok enc))"

lemma xwing_exchange_total:
  assumes "x_wing_lib_ok L" and "XWing_pair L sk pk" and "K = XWingDraft06 L S R"
  shows "\<exists>ss enc. fst (k_encap K r pk) = Ok (ss, enc) \<and> k_decap K enc sk = Ok ss
     \<and> length (k_ss_as_ref K ss) = k_SHARED_SECRET_LEN K
     \<and> length (k_enc_as_ref K enc) = k_ENCAPPED_KEY_LEN K
     \<and> k_enc_from_bytes K (k_enc_as_ref K enc) = Ok enc"
proof -
  obtain ct s r' where e: "xw_encapsulate_with_rng L (xw_parsed pk) r = ((ct, s), r')"
    by (metis surj_pair)
  note enc = XWing_encap_Ok [OF assms(1) e]
  show ?thesis
    using enc XWing_decap_encap [OF assms(1,2) enc] x_wing_lib_okD(1,9,10) [OF assms(1)] e
    by (simp add: assms(3) XWingDraft06_def)
qed

lemma ml_kem_exchange_total:
  assumes "ml_kem_lib_ok L (mp_nenc P) npk" and "ml_kem_pair L sk pk" and "K = ml_kem_variant L P S R"
  shows "\<exists>ss enc. fst (k_encap K r pk) = Ok (ss, enc) \<and> k_decap K enc sk = Ok ss
     \<and> length (k_ss_as_ref K ss) = k_SHARED_SECRET_LEN K
     \<and> length (k_enc_as_ref K enc) = k_ENCAPPED_KEY_LEN K
     \<and> k_enc_from_bytes K (k_enc_as_ref K enc) = Ok enc"
proof -
  obtain ct s r' where e: "mk_encapsulate_with_rng L (mk_parsed pk) r = ((ct, s), r')"
    by (metis surj_pair)
  note enc = ml_kem_encap_Ok [OF assms(1) e]
  show ?thesis
    using enc ml_kem_decap_encap [OF assms(1,2) enc] ml_kem_lib_okD(7) [OF assms(1) e]
    by (simp add: assms(3) ml_kem_variant_def ml_kem_enc_from_bytes_def)
qed

text \<open>
  C18: the post-quantum KEMs are correct and total. For X-Wing, ML-KEM-768 and ML-KEM-1024 and every
  key pair that the crate generated or derived, encapsulation always succeeds, with a secret and a
  ciphertext of the registered lengths; the ciphertext survives its wire form, and decapsulation of
  it gives the same secret.
\<close>

theorem pq_exchanges_total:
  assumes "crates_ok LX LG E256 E384 E521 EK W M768 M1024 H256 H384 H512 S R"
  shows "exchange_total (XWingDraft06 W S R) \<and> exchange_total (MlKem768 M768 S R)
     \<and> exchange_total (MlKem1024 M1024 S R)"
proof -
  note made = pq_made_pairs [OF assms]
  have ok: "x_wing_lib_ok W" "ml_kem_lib_ok M768 (mp_nenc params_768) 1184"
      "ml_kem_lib_ok M1024 (mp_nenc params_1024) 1568"
    using assms unfolding crates_ok_def by (simp_all add: params_768_def params_1024_def)
  show ?thesis
    unfolding exchange_total_def
    by (intro conjI allI impI; rule xwing_exchange_total [OF ok(1) made(1) refl]
        ml_kem_exchange_total [OF ok(2) made(2) MlKem768_def]
        ml_kem_exchange_total [OF ok(3) made(3) MlKem1024_def]; assumption)
qed

theorem pq_exchanges_total_witness:
  "\<exists>sk pk ss enc. fst (XWing_generate toy_x_wing toy_rng 3) = Ok (sk, pk)
     \<and> fst (XWing_encap toy_x_wing 4 pk) = Ok (ss, enc) \<and> XWing_decap toy_x_wing enc sk = Ok ss
     \<and> length (xw_enc enc) = 1120"
proof -
  let ?X = "XWingDraft06 toy_x_wing toy_shake toy_rng"
  obtain sk pk r' where g: "XWing_generate toy_x_wing toy_rng 3 = (Ok (sk, pk), r')"
    using XWing_generate_pair [OF toy_rng_ok, of toy_x_wing 3] by blast
  then have "k_generate ?X 3 = (Ok (sk, pk), r')" by (simp add: XWingDraft06_def)
  then have "kem_made ?X sk pk" unfolding kem_made_def by blast
  moreover have "exchange_total ?X" using pq_exchanges_total [OF toy_crates] by blast
  ultimately have "\<exists>ss enc. fst (k_encap ?X 4 pk) = Ok (ss, enc) \<and> k_decap ?X enc sk = Ok ss
      \<and> length (k_enc_as_ref ?X enc) = k_ENCAPPED_KEY_LEN ?X"
    unfolding exchange_total_def by blast
  with g show ?thesis by (simp add: XWingDraft06_def toy_x_wing_def)
qed

section \<open>Deterministic encapsulation\<close>





end
