(* ===== verification/Hpke_Unit_Tests.thy ===== *)
theory Hpke_Unit_Tests
  imports Hpke_Input_Theorems
begin

text \<open>
  The unit tests inside \<open>src/error.rs\<close>, \<open>src/psk.rs\<close>, \<open>src/aead.rs\<close>,
  \<open>src/kdf.rs\<close> and \<open>src/context.rs\<close>. A test is a function that returns or panics;
  it is translated statement by statement, over the third-party crates and the generator as
  parameters, and shown to return whatever these are, as long as they behave as documented.
  Where a test also asserts that two hashes differ, which no contract promises, the lemma says
  that it returns exactly if they do.
\<close>

section \<open>Assertions\<close>

text \<open>\<open>.unwrap()\<close> on a result, \<open>assert!(c)\<close>, and the loop of a test.\<close>

fun unwrap :: "'a res \<Rightarrow> 'a res" where
  "unwrap (Ok x) = Ok x"
| "unwrap (Err _) = Panic"
| "unwrap Panic = Panic"

definition assert_that :: "bool \<Rightarrow> unit res" where
  "assert_that c = (if c then Ok () else Panic)"

lemma assert_that_simps [simp]: "assert_that True = Ok ()" "assert_that False = Panic"
  by (simp_all add: assert_that_def)

lemma unwrap_Ok_iff [outcome_simps]: "unwrap r = Ok x \<longleftrightarrow> r = Ok x"
  by (cases r) simp_all

text \<open>\<open>haystack.contains(needle)\<close> on strings.\<close>

fun contains :: "string \<Rightarrow> string \<Rightarrow> bool" where
  "contains [] needle \<longleftrightarrow> needle = []"
| "contains (c # cs) needle \<longleftrightarrow> take (length needle) (c # cs) = needle \<or> contains cs needle"

section \<open>\<open>src/error.rs\<close>\<close>

definition display_is_informative :: "unit res" where
  "display_is_informative =
     in_order
       [assert_that (HpkeError_fmt OpenError = ''AEAD open failed''),
        assert_that (HpkeError_fmt InsecurePsk = ''PSK shorter than 32 bytes'')]"

definition equality_works :: "unit res" where
  "equality_works =
     in_order [assert_that (OpenError = OpenError), assert_that (OpenError \<noteq> DecapError)]"

lemma error_tests_pass: "display_is_informative = Ok ()" "equality_works = Ok ()"
  by (simp_all add: display_is_informative_def equality_works_def)

section \<open>\<open>src/psk.rs\<close>\<close>

definition validation_matrix :: "unit res" where
  "validation_matrix =
     (let good = replicate MIN_PSK_LEN 0
      in in_order
        [assert_that (is_ok (Psk_new good (ascii ''id''))),
         assert_that (Psk_new (replicate (MIN_PSK_LEN - 1) 0) (ascii ''id'') = Err InsecurePsk),
         assert_that (Psk_new good (ascii '''') = Err InconsistentPsk),
         assert_that (Psk_new (ascii '''') (ascii ''id'') = Err InconsistentPsk),
         assert_that (Psk_new (ascii '''') (ascii '''') = Err MissingPsk)])"

definition accessors_round_trip :: "unit res" where
  "accessors_round_trip =
     (let secret = replicate MIN_PSK_LEN 0x5A
      in try_bind (unwrap (Psk_new secret (ascii ''the-id''))) (\<lambda>psk.
           in_order [assert_that (Psk_secret psk = secret), assert_that (Psk_id psk = ascii ''the-id'')]))"

text \<open>\<open>x.unwrap() == y.unwrap()\<close>, with the comparison of \<open>Psk\<close>.\<close>

definition unwrapped_eq :: "(bytes \<Rightarrow> bytes \<Rightarrow> bool) \<Rightarrow> Psk res \<Rightarrow> Psk res \<Rightarrow> bool res" where
  "unwrapped_eq ct_eq x y =
     try_bind (unwrap x) (\<lambda>p. try_bind (unwrap y) (\<lambda>q. Ok (Psk_eq ct_eq p q)))"

definition equality_compares_both_fields :: "(bytes \<Rightarrow> bytes \<Rightarrow> bool) \<Rightarrow> unit res" where
  "equality_compares_both_fields ct_eq =
     (let a = replicate MIN_PSK_LEN 0x11
      in try_bind (modify_at (MIN_PSK_LEN - 1) (\<lambda>x. x XOR 1) a) (\<lambda>b.
           in_order
             [try_bind (unwrapped_eq ct_eq (Psk_new a (ascii ''id'')) (Psk_new a (ascii ''id'')))
                assert_that,
              try_bind (unwrapped_eq ct_eq (Psk_new a (ascii ''id'')) (Psk_new b (ascii ''id'')))
                (\<lambda>e. assert_that (\<not> e)),
              try_bind (unwrapped_eq ct_eq (Psk_new a (ascii ''id'')) (Psk_new a (ascii ''id-x'')))
                (\<lambda>e. assert_that (\<not> e))]))"

definition debug_redacts_the_secret :: "unit res" where
  "debug_redacts_the_secret =
     try_bind (unwrap (Psk_new (replicate MIN_PSK_LEN 0xAA) (ascii ''the-id''))) (\<lambda>psk.
       let rendered = Psk_fmt psk
       in in_order
         [assert_that (contains rendered ''<32 bytes>''),
          assert_that (\<not> contains rendered ''170''),
          assert_that (contains rendered ''id: [116,'')])"

lemma ascii_Cons: "ascii (c # cs) = of_char c # ascii cs" and ascii_Nil: "ascii '''' = []"
  by (simp_all add: ascii_def)

lemma replicate_update_neq: "i < n \<Longrightarrow> y \<noteq> x \<Longrightarrow> replicate n x \<noteq> (replicate n x)[i := y]"
  by (metis length_replicate nth_list_update_eq nth_replicate)

lemma validation_matrix_passes: "validation_matrix = Ok ()"
  by (simp add: validation_matrix_def Let_def Psk_new_def MIN_PSK_LEN_def ascii_Cons ascii_Nil)

lemma accessors_round_trip_passes: "accessors_round_trip = Ok ()"
  by (simp add: accessors_round_trip_def Let_def Psk_new_def MIN_PSK_LEN_def Psk_secret_def
      Psk_id_def ascii_Cons)

lemma equality_compares_both_fields_passes:
  assumes "\<And>a b. ct_eq a b \<longleftrightarrow> a = b"
  shows "equality_compares_both_fields ct_eq = Ok ()"
  using replicate_update_neq [where i = 31 and n = 32 and x = "0x11 :: u8" and y = "0x10"]
  by (simp add: equality_compares_both_fields_def Let_def modify_at_def unwrapped_eq_def Psk_new_def
      MIN_PSK_LEN_def Psk_eq_def assms ascii_Cons ascii_Nil)

lemma the_id_fmt:
  "Psk_fmt \<lparr> psk_secret = replicate MIN_PSK_LEN 0xAA, psk_id = ascii ''the-id'' \<rparr>
   = ''Psk { secret: <32 bytes>, id: [116, 104, 101, 45, 105, 100] }''"
proof -
  have "ascii ''the-id'' = [116, 104, 101, 45, 105, 100]"
    by (simp add: ascii_def of_char_of)
  moreover have "show_bytes [116, 104, 101, 45, 105, 100] = ''[116, 104, 101, 45, 105, 100]''"
    by code_simp
  moreover have "redacted 32 = ''<32 bytes>''"
    by code_simp
  ultimately show ?thesis
    by (simp add: Psk_fmt_def MIN_PSK_LEN_def)
qed

lemma debug_redacts_the_secret_passes: "debug_redacts_the_secret = Ok ()"
  by (simp add: debug_redacts_the_secret_def Let_def Psk_new_def the_id_fmt)
    (simp add: MIN_PSK_LEN_def ascii_Cons)

section \<open>\<open>src/aead.rs\<close>\<close>

definition aes128gcm_roundtrip_short :: "('c, 'n) aead_lib \<Rightarrow> unit res" where
  "aes128gcm_roundtrip_short C =
     (let key = replicate 16 0; nonce = replicate 12 0; aad = ascii ''''; pt = ascii ''hello'';
          A = Aes128Gcm C
      in try_bind (unwrap (a_init A key)) (\<lambda>cipher.
         try_bind (unwrap (a_seal A cipher nonce aad pt)) (\<lambda>ct.
         try_bind (assert_that (length ct = length pt + 16)) (\<lambda>_.
         try_bind (unwrap (a_open A cipher nonce aad ct)) (\<lambda>opened.
           assert_that (opened = pt))))))"

definition aes256gcm_roundtrip_short :: "('c, 'n) aead_lib \<Rightarrow> unit res" where
  "aes256gcm_roundtrip_short C =
     (let key = replicate 32 0; nonce = replicate 12 0; pt = ascii ''world''; A = Aes256Gcm C
      in try_bind (unwrap (a_init A key)) (\<lambda>cipher.
         try_bind (unwrap (a_seal A cipher nonce (ascii ''aad'') pt)) (\<lambda>ct.
         try_bind (unwrap (a_open A cipher nonce (ascii ''aad'') ct)) (\<lambda>opened.
           assert_that (opened = pt)))))"

definition aes128gcm_rejects_bad_key_len :: "('c, 'n) aead_lib \<Rightarrow> unit res" where
  "aes128gcm_rejects_bad_key_len C =
     assert_that (a_init (Aes128Gcm C) (replicate 15 0) = Err AeadInitError)"

definition export_only_implements_aead_only :: "unit res" where
  "export_only_implements_aead_only =
     in_order
       [assert_that (a_ID ExportOnly = 0xFFFF), assert_that (a_KEY_LEN ExportOnly = 0),
        assert_that (a_NONCE_LEN ExportOnly = 0), assert_that (a_TAG_LEN ExportOnly = 0),
        assert_that (is_ok (a_init ExportOnly []))]"

text \<open>A cipher that keeps its contract passes its round trip.\<close>

lemma cipher_roundtrip:
  assumes "sealing_aead_contract A True p_max" and "length key = a_KEY_LEN A"
    and "length nonce = a_NONCE_LEN A" and "length pt \<le> p_max" and "length aad \<le> p_max"
  shows "\<exists>cipher ct. a_init A key = Ok cipher \<and> a_seal A cipher nonce aad pt = Ok ct
     \<and> length ct = length pt + a_TAG_LEN A \<and> a_open A cipher nonce aad ct = Ok pt"
proof -
  have "aead_contract A True" using assms(1) by (simp add: sealing_aead_contract_def)
  from aead_contract.init_ok [OF this TrueI assms(2)] obtain c where c: "a_init A key = Ok c" ..
  from sealing_aead_contract.seal_ok [OF assms(1) TrueI assms(3-5)]
  obtain ct where ct: "a_seal A c nonce aad pt = Ok ct" by blast
  show ?thesis
    using c ct sealing_aead_contract.seal_length [OF assms(1) TrueI ct]
      sealing_aead_contract.open_seal [OF assms(1) TrueI ct] by blast
qed

lemma aead_tests_pass:
  assumes "aead_lib_ok C 16 p_max" and "aead_lib_ok C' 32 p_max" and "5 \<le> p_max"
  shows "aes128gcm_roundtrip_short C = Ok ()" and "aes256gcm_roundtrip_short C' = Ok ()"
    and "aes128gcm_rejects_bad_key_len C = Ok ()" and "export_only_implements_aead_only = Ok ()"
proof -
  from aes128.sealing_aead_contract_axioms [of C p_max] assms(1)
  have "sealing_aead_contract (Aes128Gcm C) True p_max" by simp
  from cipher_roundtrip [OF this, of "replicate 16 0" "replicate 12 0" "ascii ''hello''" "ascii ''''"]
  show "aes128gcm_roundtrip_short C = Ok ()"
    using assms(3) by (auto simp: aes128gcm_roundtrip_short_def Let_def const_simps)
  from aes256.sealing_aead_contract_axioms [of C' p_max] assms(2)
  have "sealing_aead_contract (Aes256Gcm C') True p_max" by simp
  from cipher_roundtrip [OF this, of "replicate 32 0" "replicate 12 0" "ascii ''world''" "ascii ''aad''"]
  show "aes256gcm_roundtrip_short C' = Ok ()"
    using assms(3) by (auto simp: aes256gcm_roundtrip_short_def Let_def const_simps)
  show "aes128gcm_rejects_bad_key_len C = Ok ()"
    using aead_lib_okD(1) [OF assms(1), of "replicate 15 0"]
    by (simp add: aes128gcm_rejects_bad_key_len_def Aes128Gcm_def Aes128Gcm_init_def)
  show "export_only_implements_aead_only = Ok ()"
    by (simp add: export_only_implements_aead_only_def ExportOnly_def ExportOnly_init_def)
qed

section \<open>\<open>src/kdf.rs\<close>\<close>

definition extract_pieces_matches_concat :: "('x, 'h) hkdf_lib \<Rightarrow> unit res" where
  "extract_pieces_matches_concat H =
     (let salt = ascii ''salt''; F = HkdfSha256 H;
          prk_concat = f_extract F salt [ascii ''abcdef''];
          prk_pieces = f_extract F salt [ascii ''abc'', ascii ''def'']
      in assert_that (prk_concat = prk_pieces))"

definition expand_pieces_matches_concat :: "('x, 'h) hkdf_lib \<Rightarrow> unit res" where
  "expand_pieces_matches_concat H =
     (let prk = replicate 32 0; F = HkdfSha256 H
      in try_bind (unwrap (f_expand F prk [ascii ''abcdef''] 32)) (\<lambda>okm_concat.
         try_bind (unwrap (f_expand F prk [ascii ''abc'', ascii ''def''] 32)) (\<lambda>okm_pieces.
           assert_that (okm_concat = okm_pieces))))"

definition expand_rejects_oversize :: "('x, 'h) hkdf_lib \<Rightarrow> unit res" where
  "expand_rejects_oversize H =
     assert_that (f_expand (HkdfSha256 H) (replicate 32 0) [ascii ''info''] 8161
       = Err ExportLengthExceeded)"

text \<open>\<open>usize::MAX\<close> on a 64-bit target.\<close>

definition expand_rejects_absurd_length_without_allocating :: "('x, 'h) hkdf_lib \<Rightarrow> unit res" where
  "expand_rejects_absurd_length_without_allocating H =
     assert_that (f_expand (HkdfSha256 H) (replicate 32 0) [ascii ''info''] (2 ^ 64 - 1)
       = Err ExportLengthExceeded)"

definition sha384_extract_expand_roundtrip :: "('x, 'h) hkdf_lib \<Rightarrow> unit res" where
  "sha384_extract_expand_roundtrip H =
     (let F = HkdfSha384 H; prk = f_extract F (ascii ''salt'') [ascii ''ikm'']
      in try_bind (assert_that (length prk = 48)) (\<lambda>_.
         try_bind (unwrap (f_expand F prk [ascii ''info''] 48)) (\<lambda>okm.
         try_bind (assert_that (length okm = 48)) (\<lambda>_.
         try_bind (unwrap (f_expand F prk [ascii ''info''] 48)) (\<lambda>okm2.
           assert_that (okm = okm2))))))"

definition sha512_extract_expand_roundtrip :: "('x, 'h) hkdf_lib \<Rightarrow> unit res" where
  "sha512_extract_expand_roundtrip H =
     (let F = HkdfSha512 H; prk = f_extract F (ascii ''salt'') [ascii ''ikm'']
      in try_bind (assert_that (length prk = 64)) (\<lambda>_.
         try_bind (unwrap (f_expand F prk [ascii ''info''] 64)) (\<lambda>okm.
           assert_that (length okm = 64))))"

definition expand_max_lengths :: "('x, 'h) hkdf_lib \<Rightarrow> unit res" where
  "expand_max_lengths H =
     (let F = HkdfSha384 H; prk384 = f_extract F [] [ascii ''ikm'']
      in in_order
        [assert_that (is_ok (f_expand F prk384 [ascii ''info''] (255 * 48))),
         assert_that (f_expand F prk384 [ascii ''info''] (255 * 48 + 1) = Err ExportLengthExceeded)])"

text \<open>\<open>b"KEM\x00\x20"\<close>\<close>

definition test_suite_id :: bytes where
  "test_suite_id = ascii ''KEM'' @ [0x00, 0x20]"

definition labeled_helpers_compose :: "('x, 'h) hkdf_lib \<Rightarrow> unit res" where
  "labeled_helpers_compose H =
     (let F = HkdfSha256 H;
          prk = labeled_extract F [] test_suite_id (ascii ''eae_prk'') (ascii ''shared_secret_bytes'')
      in try_bind (assert_that (length prk = 32)) (\<lambda>_.
         try_bind (unwrap (labeled_expand F prk test_suite_id (ascii ''shared_secret'')
           (ascii ''context'') 32)) (\<lambda>okm.
         try_bind (assert_that (length okm = 32)) (\<lambda>_.
         try_bind (unwrap (labeled_expand F prk test_suite_id (ascii ''shared_secret'')
           (ascii ''context'') 32)) (\<lambda>okm2.
           assert_that (okm = okm2))))))"

definition labeled_pieces_match_single :: "('x, 'h) hkdf_lib \<Rightarrow> unit res" where
  "labeled_pieces_match_single H =
     (let F = HkdfSha256 H;
          single = labeled_extract F [] test_suite_id (ascii ''eae_prk'') (ascii ''shared_secret'')
      in try_bind (labeled_extract_pieces F [] test_suite_id (ascii ''eae_prk'')
           [ascii ''shared_'', ascii ''secret'']) (\<lambda>pieces.
         try_bind (assert_that (single = pieces)) (\<lambda>_.
           let prk = replicate 32 0 in
           try_bind (unwrap (labeled_expand F prk test_suite_id (ascii ''k'') (ascii ''context'') 32))
             (\<lambda>s_exp.
           try_bind (unwrap (labeled_expand_pieces F prk test_suite_id (ascii ''k'')
             [ascii ''con'', ascii ''text''] 32)) (\<lambda>p_exp.
             assert_that (s_exp = p_exp))))))"

definition labeled_expand_rejects_u16_overflow :: "('x, 'h) hkdf_lib \<Rightarrow> unit res" where
  "labeled_expand_rejects_u16_overflow H =
     assert_that (labeled_expand (HkdfSha256 H) (replicate 32 0) [] [] [] 65536
       = Err ExportLengthExceeded)"

text \<open>The rejections hold whatever the library does.\<close>

lemma kdf_rejection_tests_pass:
  "expand_rejects_oversize H = Ok ()" "expand_rejects_absurd_length_without_allocating H = Ok ()"
  "labeled_expand_rejects_u16_overflow H = Ok ()"
  by (simp_all add: expand_rejects_oversize_def expand_rejects_absurd_length_without_allocating_def
      labeled_expand_rejects_u16_overflow_def labeled_expand_def u16_try_from_def
      sha256.expand_too_long const_simps)

lemma ascii_append: "ascii (s @ t) = ascii s @ ascii t"
  by (simp add: ascii_def)

lemma kdf_pieces_tests_pass:
  assumes "hkdf_lib_ok H 32"
  shows "extract_pieces_matches_concat H = Ok ()" and "expand_pieces_matches_concat H = Ok ()"
    and "labeled_helpers_compose H = Ok ()" and "labeled_pieces_match_single H = Ok ()"
proof -
  let ?F = "HkdfSha256 H"
  have cat: "concat [ascii ''abc'', ascii ''def''] = ascii ''abcdef''"
      "concat [ascii ''shared_'', ascii ''secret''] = ascii ''shared_secret''"
      "concat [ascii ''con'', ascii ''text''] = ascii ''context''"
    by (simp_all add: ascii_append [symmetric])
  show "extract_pieces_matches_concat H = Ok ()"
    using sha256.extract_concat [OF assms, of "ascii ''salt''" "[ascii ''abc'', ascii ''def'']"]
    by (simp add: extract_pieces_matches_concat_def Let_def cat del: concat.simps)
  show "expand_pieces_matches_concat H = Ok ()"
    using sha256.expand_ok [OF assms, of 32 "replicate 32 0" "[ascii ''abcdef'']"]
      sha256.expand_concat [OF assms, of "replicate 32 0" "[ascii ''abc'', ascii ''def'']" 32]
    by (auto simp: expand_pieces_matches_concat_def Let_def cat const_simps simp del: concat.simps)
  let ?prk = "labeled_extract ?F [] test_suite_id (ascii ''eae_prk'') (ascii ''shared_secret_bytes'')"
  from sha256.labeled_expand_ok [OF assms, of 32 ?prk test_suite_id "ascii ''shared_secret''"
      "ascii ''context''"]
  show "labeled_helpers_compose H = Ok ()"
    by (auto simp: labeled_helpers_compose_def Let_def sha256.labeled_extract_length [OF assms]
        const_simps)
  from sha256.labeled_expand_ok [OF assms, of 32 "replicate 32 0" test_suite_id "ascii ''k''"
      "ascii ''context''"]
  show "labeled_pieces_match_single H = Ok ()"
    by (auto simp: labeled_pieces_match_single_def Let_def const_simps cat
        sha256.labeled_extract_pieces_concat [OF assms] sha256.labeled_expand_pieces_concat [OF assms]
        simp del: concat.simps)
qed

lemma kdf_wide_tests_pass:
  assumes "hkdf_lib_ok H 48" and "hkdf_lib_ok H' 64"
  shows "sha384_extract_expand_roundtrip H = Ok ()" and "sha512_extract_expand_roundtrip H' = Ok ()"
    and "expand_max_lengths H = Ok ()"
proof -
  have len: "length (f_extract (HkdfSha384 H) salt ps) = 48" for salt ps
    using sha384.extract_length [OF assms(1)] by (simp add: const_simps)
  have ok: "\<exists>out. f_expand (HkdfSha384 H) (f_extract (HkdfSha384 H) salt ps) qs n = Ok out
      \<and> length out = n" if "n \<le> 255 * 48" for salt ps qs n
    using sha384.expand_ok [OF assms(1)] that by (simp add: const_simps len)
  obtain out where "f_expand (HkdfSha384 H) (f_extract (HkdfSha384 H) (ascii ''salt'') [ascii ''ikm''])
      [ascii ''info''] 48 = Ok out" and "length out = 48"
    using ok [of 48 "ascii ''salt''" "[ascii ''ikm'']" "[ascii ''info'']"] by auto
  then show "sha384_extract_expand_roundtrip H = Ok ()"
    by (simp add: sha384_extract_expand_roundtrip_def Let_def len)
  obtain out where "f_expand (HkdfSha384 H) (f_extract (HkdfSha384 H) [] [ascii ''ikm''])
      [ascii ''info''] (255 * 48) = Ok out"
    using ok [of "255 * 48" "[]" "[ascii ''ikm'']" "[ascii ''info'']"] by auto
  then show "expand_max_lengths H = Ok ()"
    by (simp add: expand_max_lengths_def Let_def sha384.expand_too_long const_simps)
  let ?prk = "f_extract (HkdfSha512 H') (ascii ''salt'') [ascii ''ikm'']"
  have "length ?prk = 64"
    using sha512.extract_length [OF assms(2)] by (simp add: const_simps)
  moreover obtain out where "f_expand (HkdfSha512 H') ?prk [ascii ''info''] 64 = Ok out"
      and "length out = 64"
    using sha512.expand_ok [OF assms(2), of 64 ?prk "[ascii ''info'']"] calculation
    by (auto simp: const_simps)
  ultimately show "sha512_extract_expand_roundtrip H' = Ok ()"
    by (simp add: sha512_extract_expand_roundtrip_def Let_def)
qed

section \<open>Vectors\<close>

text \<open>
  The two tests on published vectors. What the crates compute is not part of the source, so the
  lemmas say what the code contributes: it hands the crate the inputs of the vector and returns
  its output, and the test returns exactly if that output is the published one.
\<close>

definition rfc5869_salt :: bytes where
  "rfc5869_salt =
     [0x00, 0x01, 0x02, 0x03, 0x04, 0x05, 0x06, 0x07, 0x08, 0x09, 0x0a, 0x0b, 0x0c]"

definition rfc5869_info :: bytes where
  "rfc5869_info =
     [0xf0, 0xf1, 0xf2, 0xf3, 0xf4, 0xf5, 0xf6, 0xf7, 0xf8, 0xf9]"

definition rfc5869_prk :: bytes where
  "rfc5869_prk =
     [0x07, 0x77, 0x09, 0x36, 0x2c, 0x2e, 0x32, 0xdf, 0x0d, 0xdc, 0x3f, 0x0d, 0xc4, 0x7b, 0xba,
     0x63, 0x90, 0xb6, 0xc7, 0x3b, 0xb5, 0x0f, 0x9c, 0x31, 0x22, 0xec, 0x84, 0x4a, 0xd7, 0xc2,
     0xb3, 0xe5]"

definition rfc5869_okm :: bytes where
  "rfc5869_okm =
     [0x3c, 0xb2, 0x5f, 0x25, 0xfa, 0xac, 0xd5, 0x7a, 0x90, 0x43, 0x4f, 0x64, 0xd0, 0x36, 0x2f,
     0x2a, 0x2d, 0x2d, 0x0a, 0x90, 0xcf, 0x1a, 0x5a, 0x4c, 0x5d, 0xb0, 0x2d, 0x56, 0xec, 0xc4,
     0xc5, 0xbf, 0x34, 0x00, 0x72, 0x08, 0xd5, 0xb8, 0x87, 0x18, 0x58, 0x65]"

definition rfc5869_a1_extract_expand_sha256 :: "('x, 'h) hkdf_lib \<Rightarrow> unit res" where
  "rfc5869_a1_extract_expand_sha256 H =
     (let F = HkdfSha256 H; ikm = replicate 22 0x0b; prk = f_extract F rfc5869_salt [ikm]
      in try_bind (assert_that (prk = rfc5869_prk)) (\<lambda>_.
         try_bind (unwrap (f_expand F prk [rfc5869_info] 42)) (\<lambda>okm. assert_that (okm = rfc5869_okm))))"

definition rfc8439_key :: bytes where
  "rfc8439_key =
     [0x80, 0x81, 0x82, 0x83, 0x84, 0x85, 0x86, 0x87, 0x88, 0x89, 0x8a, 0x8b, 0x8c, 0x8d, 0x8e,
     0x8f, 0x90, 0x91, 0x92, 0x93, 0x94, 0x95, 0x96, 0x97, 0x98, 0x99, 0x9a, 0x9b, 0x9c, 0x9d,
     0x9e, 0x9f]"

definition rfc8439_nonce :: bytes where
  "rfc8439_nonce =
     [0x07, 0x00, 0x00, 0x00, 0x40, 0x41, 0x42, 0x43, 0x44, 0x45, 0x46, 0x47]"

definition rfc8439_aad :: bytes where
  "rfc8439_aad =
     [0x50, 0x51, 0x52, 0x53, 0xc0, 0xc1, 0xc2, 0xc3, 0xc4, 0xc5, 0xc6, 0xc7]"

definition rfc8439_pt :: bytes where
  "rfc8439_pt = ascii (''Ladies and Gentlemen of the class of '99: '' @
     ''If I could offer you only one tip for the future, sunscreen would be it.'')"

definition rfc8439_chacha20poly1305_test_vector :: "('c, 'n) aead_lib \<Rightarrow> unit res" where
  "rfc8439_chacha20poly1305_test_vector C =
     (let A = ChaCha20Poly1305 C
      in try_bind (unwrap (a_init A rfc8439_key)) (\<lambda>cipher.
         try_bind (unwrap (a_seal A cipher rfc8439_nonce rfc8439_aad rfc8439_pt)) (\<lambda>ct.
         try_bind (unwrap (a_open A cipher rfc8439_nonce rfc8439_aad ct)) (\<lambda>recovered.
         try_bind (assert_that (recovered = rfc8439_pt)) (\<lambda>_.
         try_bind (modify_at 0 (\<lambda>x. x XOR 1) ct) (\<lambda>bad.
           assert_that (a_open A cipher rfc8439_nonce rfc8439_aad bad = Err OpenError)))))))"

lemma rfc5869_iff:
  assumes "hkdf_lib_ok H 32"
  shows "rfc5869_a1_extract_expand_sha256 H =
     in_order
       [assert_that (hx_finalize H (hx_input_ikm H (hx_new H rfc5869_salt) (replicate 22 0x0b)) = rfc5869_prk),
        assert_that (map_option (\<lambda>hk. hk_expand_multi_info H hk [rfc5869_info] 42) (hk_from_prk H rfc5869_prk)
          = Some (Some rfc5869_okm))]"
proof -
  have "length rfc5869_prk = 32" by (simp add: rfc5869_prk_def)
  then obtain hk where hk: "hk_from_prk H rfc5869_prk = Some hk"
    using hkdf_lib_okD(3) [OF assms, of rfc5869_prk] by auto
  obtain okm where okm: "hk_expand_multi_info H hk [rfc5869_info] 42 = Some okm"
    using hkdf_lib_okD(5) [OF assms, of hk "[rfc5869_info]" 42] by auto
  show ?thesis
    by (cases "hx_finalize H (hx_input_ikm H (hx_new H rfc5869_salt) (replicate 22 0x0b)) = rfc5869_prk")
      (simp_all add: rfc5869_a1_extract_expand_sha256_def HkdfSha256_def hkdf_impl_def hkdf_extract_def
        hkdf_expand_def hk okm assert_that_def)
qed

lemma rfc8439_iff:
  assumes "aead_lib_ok C 32 p_max" and "114 \<le> p_max"
  shows "\<exists>cipher ct. a_init (ChaCha20Poly1305 C) rfc8439_key = Ok cipher
     \<and> a_seal (ChaCha20Poly1305 C) cipher rfc8439_nonce rfc8439_aad rfc8439_pt = Ok ct
     \<and> rfc8439_chacha20poly1305_test_vector C =
         assert_that (a_open (ChaCha20Poly1305 C) cipher rfc8439_nonce rfc8439_aad (ct[0 := ct ! 0 XOR 1])
           = Err OpenError)"
proof -
  let ?A = "ChaCha20Poly1305 C"
  have len: "length rfc8439_key = 32" "length rfc8439_nonce = 12" "length rfc8439_aad = 12"
    "length rfc8439_pt = 114"
    by (simp_all add: rfc8439_key_def rfc8439_nonce_def rfc8439_aad_def rfc8439_pt_def ascii_def)
  have "sealing_aead_contract ?A True p_max"
    using chacha.sealing_aead_contract_axioms [of C p_max] assms(1) by simp
  from cipher_roundtrip [OF this, of rfc8439_key rfc8439_nonce rfc8439_pt rfc8439_aad] assms(2)
  obtain cipher ct where c: "a_init ?A rfc8439_key = Ok cipher"
    "a_seal ?A cipher rfc8439_nonce rfc8439_aad rfc8439_pt = Ok ct" "length ct = 130"
    "a_open ?A cipher rfc8439_nonce rfc8439_aad ct = Ok rfc8439_pt"
    by (auto simp: const_simps len)
  then have "ct \<noteq> []" by auto
  with c show ?thesis
    by (simp add: rfc8439_chacha20poly1305_test_vector_def Let_def modify_at_def)
qed


end
