(* ===== verification/Hpke_Context_Tests.thy ===== *)
theory Hpke_Context_Tests
  imports Hpke_Unit_Tests
begin

text \<open>
  The unit tests inside \<open>src/context.rs\<close>, over the suite X25519, HKDF-SHA256 and
  ChaCha20-Poly1305. An operation on \<open>&mut\<close> returns the context with its result, so a test
  threads its contexts through.
\<close>

section \<open>The tests\<close>

definition new_test_ctx :: "('c, 'n) aead_lib \<Rightarrow> u8 \<Rightarrow> u8 \<Rightarrow> u8 \<Rightarrow> 'c Context res" where
  "new_test_ctx C key nonce exporter =
     unwrap (Context_new (ChaCha20Poly1305 C) (replicate 32 key) (replicate MAX_NONCE_LEN nonce)
       (replicate 32 exporter))"

text \<open>The body of \<open>for i in 0..3\<close>, on the values still to come; \<open>format!("msg-{i}")\<close>.\<close>

fun seal_open_loop ::
    "('c, 'n) aead_lib \<Rightarrow> 'c Context \<Rightarrow> 'c Context \<Rightarrow> nat list \<Rightarrow> ('c Context \<times> 'c Context) res" where
  "seal_open_loop C sender receiver [] = Ok (sender, receiver)"
| "seal_open_loop C sender receiver (i # js) =
     (let A = ChaCha20Poly1305 C; pt = ascii (''msg-'' @ show_nat i);
          (sealed, sender) = Context_seal A sender (ascii ''aad'') pt
      in try_bind (unwrap sealed) (\<lambda>ct.
           let (opened, receiver) = Context_open A receiver (ascii ''aad'') ct
           in try_bind (unwrap opened) (\<lambda>recovered.
              try_bind (assert_that (recovered = pt)) (\<lambda>_.
                seal_open_loop C sender receiver js))))"

definition seal_open_roundtrip_with_known_state :: "('c, 'n) aead_lib \<Rightarrow> unit res" where
  "seal_open_roundtrip_with_known_state C =
     (let A = ChaCha20Poly1305 C; key = replicate 32 0x42; bn = replicate MAX_NONCE_LEN 0x77;
          es = replicate 32 0
      in try_bind (unwrap (Context_new A key bn es)) (\<lambda>sender.
         try_bind (unwrap (Context_new A key bn es)) (\<lambda>receiver.
           let (sealed, sender) = Context_seal A sender (ascii ''aad'') (ascii ''message'')
           in try_bind (unwrap sealed) (\<lambda>ct.
             let (opened, receiver) = Context_open A receiver (ascii ''aad'') ct
             in try_bind (unwrap opened) (\<lambda>pt.
                try_bind (assert_that (pt = ascii ''message'')) (\<lambda>_.
                try_bind (assert_that (Context_sequence_number sender = 1)) (\<lambda>_.
                try_bind (assert_that (Context_sequence_number receiver = 1)) (\<lambda>_.
                try_bind (seal_open_loop C sender receiver [0..<3]) (\<lambda>(sender, receiver).
                  assert_that (Context_sequence_number sender = 4))))))))))"

definition export_is_deterministic ::
    "'s x25519_lib \<Rightarrow> ('x, 'h) hkdf_lib \<Rightarrow> 'r rng \<Rightarrow> ('c, 'n) aead_lib \<Rightarrow> unit res" where
  "export_is_deterministic L H R C =
     (let K = DhKem (X25519 L H R); F = HkdfSha256 H; A = ChaCha20Poly1305 C
      in try_bind (new_test_ctx C 0 0 1) (\<lambda>ctx.
         try_bind (unwrap (Context_export K F A ctx (ascii ''context'') 32)) (\<lambda>a.
         try_bind (unwrap (Context_export K F A ctx (ascii ''context'') 32)) (\<lambda>b.
         try_bind (assert_that (a = b)) (\<lambda>_.
         try_bind (assert_that (length a = 32)) (\<lambda>_.
         try_bind (unwrap (Context_export K F A ctx (ascii ''different'') 32)) (\<lambda>c.
           assert_that (a \<noteq> c))))))))"

definition export_length_bound ::
    "'s x25519_lib \<Rightarrow> ('x, 'h) hkdf_lib \<Rightarrow> 'r rng \<Rightarrow> ('c, 'n) aead_lib \<Rightarrow> unit res" where
  "export_length_bound L H R C =
     try_bind (new_test_ctx C 0 0 1) (\<lambda>ctx.
       assert_that (Context_export (DhKem (X25519 L H R)) (HkdfSha256 H) (ChaCha20Poly1305 C) ctx
         (ascii ''ctx'') 8161 = Err ExportLengthExceeded))"

definition nonce_derivation_xors_seq_into_base_nonce :: "('c, 'n) aead_lib \<Rightarrow> unit res" where
  "nonce_derivation_xors_seq_into_base_nonce C =
     (let A = ChaCha20Poly1305 C
      in try_bind (new_test_ctx C 0 0 0) (\<lambda>ctx.
         try_bind (compute_nonce A ctx) (\<lambda>n0.
         try_bind (assert_that (n0 = [0, 0, 0, 0, 0, 0, 0, 0, 0, 0, 0, 0])) (\<lambda>_.
         let ctx = set_seq_for_test ctx 1 in
         try_bind (compute_nonce A ctx) (\<lambda>n1.
         try_bind (assert_that (n1 = [0, 0, 0, 0, 0, 0, 0, 0, 0, 0, 0, 1])) (\<lambda>_.
         let ctx = set_seq_for_test ctx 256 in
         try_bind (compute_nonce A ctx) (\<lambda>n256.
         try_bind (assert_that (n256 = [0, 0, 0, 0, 0, 0, 0, 0, 0, 0, 1, 0])) (\<lambda>_.
         let ctx = set_seq_for_test ctx 0x0102030405060708 in
         try_bind (compute_nonce A ctx) (\<lambda>n_large.
           assert_that (n_large = [0, 0, 0, 0, 1, 2, 3, 4, 5, 6, 7, 8]))))))))))"

definition seal_rejects_at_message_limit :: "('c, 'n) aead_lib \<Rightarrow> unit res" where
  "seal_rejects_at_message_limit C =
     try_bind (new_test_ctx C 0x42 0x77 0) (\<lambda>ctx.
       let ctx = set_seq_for_test ctx u64_MAX;
           (r, ctx) = Context_seal (ChaCha20Poly1305 C) ctx (ascii ''aad'') (ascii ''hello'')
       in assert_that (r = Err MessageLimitReached))"

definition seal_succeeds_before_message_limit_then_fails :: "('c, 'n) aead_lib \<Rightarrow> unit res" where
  "seal_succeeds_before_message_limit_then_fails C =
     (let A = ChaCha20Poly1305 C
      in try_bind (new_test_ctx C 0x42 0x77 0) (\<lambda>ctx.
           let ctx = set_seq_for_test ctx (u64_MAX - 1);
               (r, ctx) = Context_seal A ctx (ascii ''aad'') (ascii ''hello'')
           in try_bind (assert_that (is_ok r)) (\<lambda>_.
              let (r, ctx) = Context_seal A ctx (ascii ''aad'') (ascii ''hello'')
              in assert_that (r = Err MessageLimitReached))))"

definition open_rejects_at_message_limit :: "('c, 'n) aead_lib \<Rightarrow> unit res" where
  "open_rejects_at_message_limit C =
     (let A = ChaCha20Poly1305 C
      in try_bind (new_test_ctx C 0x42 0x77 0) (\<lambda>ctx.
         try_bind (new_test_ctx C 0x42 0x77 0) (\<lambda>sibling.
           let (sealed, sibling) = Context_seal A sibling (ascii ''aad'') (ascii ''hello'')
           in try_bind (unwrap sealed) (\<lambda>ct.
             let ctx = set_seq_for_test ctx u64_MAX;
                 (r, ctx) = Context_open A ctx (ascii ''aad'') ct
             in assert_that (r = Err MessageLimitReached)))))"

section \<open>They pass\<close>

lemma chacha_range: "assert_nonce_range (ChaCha20Poly1305 C)"
  by (simp add: assert_nonce_range_def SEQ_LEN_def MAX_NONCE_LEN_def const_simps)

text \<open>The context every test starts from.\<close>

lemma Context_new_chacha:
  assumes "aead_lib_ok C 32 p_max" and "length key = 32" and "length bn = 12"
  shows "\<exists>c. Context_new (ChaCha20Poly1305 C) key bn es =
     Ok \<lparr> cipher = c, base_nonce = bn, exporter_secret = es, seq = 0, raw_key = key \<rparr>"
proof -
  obtain c where "a_init (ChaCha20Poly1305 C) key = Ok c"
    using chacha.init_ok [OF assms(1), of key] assms(2) by (auto simp: const_simps)
  with assms(3) show ?thesis
    by (auto simp: Context_new_Ok_iff const_simps)
qed

lemma new_test_ctx_Ok:
  assumes "aead_lib_ok C 32 p_max"
  shows "\<exists>c. new_test_ctx C key nonce exporter =
     Ok \<lparr> cipher = c, base_nonce = replicate 12 nonce, exporter_secret = replicate 32 exporter,
          seq = 0, raw_key = replicate 32 key \<rparr>"
  using Context_new_chacha [OF assms, of "replicate 32 key" "replicate 12 nonce" "replicate 32 exporter"]
  by (auto simp: new_test_ctx_def MAX_NONCE_LEN_def)

text \<open>Sealing under a context and opening under its copy: both counters move by one.\<close>

lemma seal_then_open:
  assumes "aead_lib_ok C 32 p_max" and "context_wf ctx" and "seq ctx \<noteq> u64_MAX"
    and "length aad \<le> p_max" and "length pt \<le> p_max"
  shows "\<exists>ct. Context_seal (ChaCha20Poly1305 C) ctx aad pt = (Ok ct, ctx\<lparr>seq := seq ctx + 1\<rparr>)
     \<and> Context_open (ChaCha20Poly1305 C) ctx aad ct = (Ok pt, ctx\<lparr>seq := seq ctx + 1\<rparr>)"
proof -
  let ?n = "nonce_at (ChaCha20Poly1305 C) (base_nonce ctx) (seq ctx)"
  have "length ?n = a_NONCE_LEN (ChaCha20Poly1305 C)"
    using assms(2) by (intro length_nonce_at chacha_range) (simp add: context_wf_def MAX_NONCE_LEN_def)
  from chacha.seal_ok [OF assms(1) this assms(5,4)]
  obtain ct where ct: "a_seal (ChaCha20Poly1305 C) (cipher ctx) ?n aad pt = Ok ct" by blast
  with chacha.open_seal [OF assms(1) ct] assms(3) show ?thesis
    by (simp add: Context_seal_eq [OF chacha_range assms(2)] Context_open_eq [OF chacha_range assms(2)])
qed

lemma length_show_digit: "i < 10 \<Longrightarrow> length (show_nat i) = 1"
  by (subst show_nat.simps) simp

lemma seal_open_loop_Ok:
  assumes "aead_lib_ok C 32 p_max" and "5 \<le> p_max" and "context_wf ctx"
    and "\<And>i. i \<in> set js \<Longrightarrow> i < 10" and "unat (seq ctx) + length js < 2 ^ 64"
  shows "\<exists>ctx'. seal_open_loop C ctx ctx js = Ok (ctx', ctx')
     \<and> unat (seq ctx') = unat (seq ctx) + length js"
  using assms(3-5)
proof (induction js arbitrary: ctx)
  case Nil
  then show ?case by simp
next
  case (Cons i js)
  have ne: "seq ctx \<noteq> u64_MAX"
    using Cons.prems(3) by (auto simp: unat_u64_MAX)
  have len: "length (ascii (''msg-'' @ show_nat i)) \<le> p_max" "length (ascii ''aad'') \<le> p_max"
    using Cons.prems(2) [of i] assms(2) by (simp_all add: length_show_digit)
  from seal_then_open [OF assms(1) Cons.prems(1) ne len(2,1)] obtain ct where
    "Context_seal (ChaCha20Poly1305 C) ctx (ascii ''aad'') (ascii (''msg-'' @ show_nat i))
       = (Ok ct, ctx\<lparr>seq := seq ctx + 1\<rparr>)"
    "Context_open (ChaCha20Poly1305 C) ctx (ascii ''aad'') ct
       = (Ok (ascii (''msg-'' @ show_nat i)), ctx\<lparr>seq := seq ctx + 1\<rparr>)" by blast
  moreover have "\<exists>ctx'. seal_open_loop C (ctx\<lparr>seq := seq ctx + 1\<rparr>) (ctx\<lparr>seq := seq ctx + 1\<rparr>) js
      = Ok (ctx', ctx') \<and> unat (seq ctx') = unat (seq (ctx\<lparr>seq := seq ctx + 1\<rparr>)) + length js"
    using Cons.prems u64_succ [OF ne] by (intro Cons.IH) (auto simp: context_wf_def)
  ultimately show ?case
    using u64_succ [OF ne] by (auto simp: Let_def)
qed

lemma seal_open_roundtrip_passes:
  assumes "aead_lib_ok C 32 p_max" and "7 \<le> p_max"
  shows "seal_open_roundtrip_with_known_state C = Ok ()"
proof -
  obtain c where new: "Context_new (ChaCha20Poly1305 C) (replicate 32 0x42) (replicate MAX_NONCE_LEN 0x77)
      (replicate 32 0) = Ok \<lparr> cipher = c, base_nonce = replicate MAX_NONCE_LEN 0x77,
        exporter_secret = replicate 32 0, seq = 0, raw_key = replicate 32 0x42 \<rparr>" (is "_ = Ok ?ctx")
    using Context_new_chacha [OF assms(1), of "replicate 32 0x42" "replicate MAX_NONCE_LEN 0x77"]
    by (auto simp: MAX_NONCE_LEN_def)
  define ctx where "ctx = ?ctx"
  have wf: "context_wf ctx" and s0: "seq ctx = 0"
    by (simp_all add: ctx_def context_wf_def)
  have "seq ctx \<noteq> u64_MAX" by (simp add: s0 u64_MAX_def)
  from seal_then_open [OF assms(1) wf this, of "ascii ''aad''" "ascii ''message''"] assms(2) s0
  obtain ct where
    step: "Context_seal (ChaCha20Poly1305 C) ctx (ascii ''aad'') (ascii ''message'') = (Ok ct, ctx\<lparr>seq := 1\<rparr>)"
      "Context_open (ChaCha20Poly1305 C) ctx (ascii ''aad'') ct = (Ok (ascii ''message''), ctx\<lparr>seq := 1\<rparr>)"
    by auto
  from seal_open_loop_Ok [OF assms(1), of "ctx\<lparr>seq := 1\<rparr>" "[0..<3]"] assms(2) wf
  obtain ctx' where run: "seal_open_loop C (ctx\<lparr>seq := 1\<rparr>) (ctx\<lparr>seq := 1\<rparr>) [0..<3] = Ok (ctx', ctx')"
    and "unat (seq ctx') = 4"
    by (auto simp: context_wf_def)
  then have "seq ctx' = 4"
    by (simp add: word_unat_eq_iff)
  with new step run show ?thesis
    unfolding ctx_def [symmetric]
    by (simp add: seal_open_roundtrip_with_known_state_def Let_def Context_sequence_number_def
        del: upt.simps)
qed

text \<open>The export test returns exactly if the two exported values differ.\<close>

lemma export_is_deterministic_iff:
  assumes "aead_lib_ok C 32 p_max" and "hkdf_lib_ok H 32"
  shows "\<exists>ctx a c. new_test_ctx C 0 0 1 = Ok ctx
     \<and> Context_export (DhKem (X25519 L H R)) (HkdfSha256 H) (ChaCha20Poly1305 C) ctx (ascii ''context'') 32 = Ok a
     \<and> Context_export (DhKem (X25519 L H R)) (HkdfSha256 H) (ChaCha20Poly1305 C) ctx (ascii ''different'') 32 = Ok c
     \<and> export_is_deterministic L H R C = assert_that (a \<noteq> c)"
proof -
  let ?exp = "\<lambda>ctx ec. Context_export (DhKem (X25519 L H R)) (HkdfSha256 H) (ChaCha20Poly1305 C) ctx ec 32"
  obtain ctx where ctx: "new_test_ctx C 0 0 1 = Ok ctx" "length (exporter_secret ctx) = 32"
    using new_test_ctx_Ok [OF assms(1), of 0 0 1] by fastforce
  have ok: "\<exists>out. ?exp ctx ec = Ok out \<and> length out = 32" for ec
    using sha256.labeled_expand_ok [OF assms(2), of 32 "exporter_secret ctx"] ctx(2)
    by (simp add: Context_export_def const_simps)
  obtain a where a: "?exp ctx (ascii ''context'') = Ok a" "length a = 32" using ok by blast
  obtain c where c: "?exp ctx (ascii ''different'') = Ok c" using ok by blast
  from ctx a c show ?thesis
    by (simp add: export_is_deterministic_def Let_def)
qed

lemma export_length_bound_passes:
  assumes "aead_lib_ok C 32 p_max"
  shows "export_length_bound L H R C = Ok ()"
  using new_test_ctx_Ok [OF assms, of 0 0 1]
  by (auto simp: export_length_bound_def Context_export_def sha256.labeled_expand_too_long const_simps)

text \<open>The four vectors of the nonce: on a zero base nonce it is the counter, in twelve bytes.\<close>

lemma compute_nonce_zero_base:
  assumes "base_nonce ctx = replicate 12 0"
  shows "compute_nonce (ChaCha20Poly1305 C) ctx = Ok ([0, 0, 0, 0] @ to_be_bytes (seq ctx))"
proof -
  have "xor_bytes (replicate 8 0) (to_be_bytes (seq ctx)) = to_be_bytes (seq ctx)"
    by (rule nth_equalityI) (simp_all add: xor_bytes_def)
  with assms show ?thesis
    by (simp add: compute_nonce_def chacha_range Let_def slice_to_def copy_into_def splice_def
        MAX_NONCE_LEN_def SEQ_LEN_def const_simps numeral_eq_Suc)
qed

lemma u64_be_vectors:
  "to_be_bytes (0 :: u64) = [0, 0, 0, 0, 0, 0, 0, 0]"
  "to_be_bytes (1 :: u64) = [0, 0, 0, 0, 0, 0, 0, 1]"
  "to_be_bytes (256 :: u64) = [0, 0, 0, 0, 0, 0, 1, 0]"
  "to_be_bytes (0x0102030405060708 :: u64) = [1, 2, 3, 4, 5, 6, 7, 8]"
  by code_simp+

lemma nonce_derivation_passes:
  assumes "aead_lib_ok C 32 p_max"
  shows "nonce_derivation_xors_seq_into_base_nonce C = Ok ()"
proof -
  obtain ctx where ctx: "new_test_ctx C 0 0 0 = Ok ctx" "base_nonce ctx = replicate 12 0" "seq ctx = 0"
    using new_test_ctx_Ok [OF assms, of 0 0 0] by fastforce
  then have "compute_nonce (ChaCha20Poly1305 C) ctx = Ok ([0, 0, 0, 0] @ to_be_bytes (0 :: u64))"
      "compute_nonce (ChaCha20Poly1305 C) (set_seq_for_test ctx s) = Ok ([0, 0, 0, 0] @ to_be_bytes s)"
      "set_seq_for_test (set_seq_for_test ctx s) t = set_seq_for_test ctx t" for s t
    by (simp_all add: compute_nonce_zero_base set_seq_for_test_def)
  with ctx(1) show ?thesis
    by (simp add: nonce_derivation_xors_seq_into_base_nonce_def Let_def u64_be_vectors)
qed

text \<open>The tests at the message limit.\<close>

lemma message_limit_tests_pass:
  fixes C :: "('c, 'n) aead_lib"
  assumes "aead_lib_ok C 32 p_max" and "5 \<le> p_max"
  shows "seal_rejects_at_message_limit C = Ok ()"
    and "seal_succeeds_before_message_limit_then_fails C = Ok ()"
    and "open_rejects_at_message_limit C = Ok ()"
proof -
  obtain ctx where ctx: "new_test_ctx C 0x42 0x77 0 = Ok ctx" "context_wf ctx" "seq ctx = 0"
    using new_test_ctx_Ok [OF assms(1), of "0x42" "0x77" 0] by (fastforce simp: context_wf_def MAX_NONCE_LEN_def)
  have limit: "Context_seal A (set_seq_for_test ctx u64_MAX) aad pt
        = (Err MessageLimitReached, set_seq_for_test ctx u64_MAX)"
      "Context_open A (set_seq_for_test ctx u64_MAX) aad pt
        = (Err MessageLimitReached, set_seq_for_test ctx u64_MAX)"
    for A :: "'c sealing_aead" and aad pt
    by (simp_all add: Context_seal_def Context_open_def set_seq_for_test_def)
  from ctx(1) limit show "seal_rejects_at_message_limit C = Ok ()"
    by (simp add: seal_rejects_at_message_limit_def Let_def)
  let ?last = "set_seq_for_test ctx (u64_MAX - 1)"
  have last: "context_wf ?last" "seq ?last = u64_MAX - 1" "u64_MAX - 1 \<noteq> u64_MAX"
      "?last\<lparr>seq := u64_MAX\<rparr> = set_seq_for_test ctx u64_MAX"
    using ctx(2) by (simp_all add: set_seq_for_test_def context_wf_def u64_MAX_def)
  obtain ct where "Context_seal (ChaCha20Poly1305 C) ?last (ascii ''aad'') (ascii ''hello'')
      = (Ok ct, set_seq_for_test ctx u64_MAX)"
    using seal_then_open [OF assms(1) last(1), of "ascii ''aad''" "ascii ''hello''"] last assms(2) by auto
  with ctx(1) limit show "seal_succeeds_before_message_limit_then_fails C = Ok ()"
    by (simp add: seal_succeeds_before_message_limit_then_fails_def Let_def)
  have "seq ctx \<noteq> u64_MAX" by (simp add: ctx(3) u64_MAX_def)
  from seal_then_open [OF assms(1) ctx(2) this, of "ascii ''aad''" "ascii ''hello''"] assms(2)
  obtain ct ctx' where "Context_seal (ChaCha20Poly1305 C) ctx (ascii ''aad'') (ascii ''hello'') = (Ok ct, ctx')"
    by auto
  with ctx(1) limit show "open_rejects_at_message_limit C = Ok ()"
    by (simp add: open_rejects_at_message_limit_def Let_def)
qed

end
