(* ===== verification/Hpke_Suite_Tests.thy ===== *)
theory Hpke_Suite_Tests
  imports Hpke_Rfc_Kem Hpke_Context_Tests
begin

text \<open>
  The tests that run whole suites: the macros of \<open>tests/roundtrip.rs\<close>, which are generic in
  KEM, KDF and AEAD, the unit test of \<open>src/lib.rs\<close>, and the tests of \<open>tests/negative.rs\<close>
  that follow one context or one PSK through a sequence of calls. A test returns or panics; its
  generator is the state \<open>r\<close>. Every roundtrip test returns in every suite in which encapsulation to
  a generated key succeeds, as it always does for the post-quantum KEMs; a test that asserts that
  the cipher rejects a message, or that two secrets differ, returns exactly if they do.
\<close>

section \<open>Calls that return a new state\<close>

text \<open>\<open>f(&mut state, ..).unwrap()\<close>: the rest of the test goes on from the state the call leaves.\<close>

definition unwrap_with :: "'a res \<times> 's \<Rightarrow> ('a \<Rightarrow> 's \<Rightarrow> 'b res) \<Rightarrow> 'b res" where
  "unwrap_with out k = (case out of (res, s) \<Rightarrow> try_bind (unwrap res) (\<lambda>x. k x s))"

lemma unwrap_with_Ok: "fst out = Ok x \<Longrightarrow> unwrap_with out k = k x (snd out)"
  by (cases out) (simp add: unwrap_with_def)

lemma unwrap_with_pair [simp]: "unwrap_with (res, s) k = try_bind (unwrap res) (\<lambda>x. k x s)"
  by (simp add: unwrap_with_def)

section \<open>\<open>tests/roundtrip.rs\<close>: sealing\<close>

text \<open>The body of \<open>for i in 0..3\<close>, on the values still to come.\<close>

fun channel_loop ::
    "('c, ('c, 'y) sealing_aead_ext) aead_scheme \<Rightarrow> 'c SenderContext \<Rightarrow> 'c ReceiverContext \<Rightarrow>
     nat list \<Rightarrow> unit res" where
  "channel_loop A s rx [] = Ok ()"
| "channel_loop A s rx (i # js) =
     (let pt = ascii (''msg-'' @ show_nat i)
      in unwrap_with (Sender_seal A s (ascii ''aad'') pt) (\<lambda>ct s.
         unwrap_with (Receiver_open A rx (ascii ''aad'') ct) (\<lambda>recovered rx.
         try_bind (assert_that (recovered = pt)) (\<lambda>_. channel_loop A s rx js))))"

definition roundtrip_base_sealing ::
    "('r, 'pk, 'sk, 'enc, 'ss, 'z) kem_scheme \<Rightarrow> kdf \<Rightarrow>
     ('c, ('c, 'y) sealing_aead_ext) aead_scheme \<Rightarrow> 'r \<Rightarrow> unit res" where
  "roundtrip_base_sealing K F A r =
     unwrap_with (k_generate K r) (\<lambda>(sk_r, pk_r) r.
     unwrap_with (seal_base K F A r pk_r (ascii ''info'') (ascii ''aad'') (ascii ''hello'')) (\<lambda>(enc, ct) r.
     try_bind (unwrap (open_base K F A enc sk_r (ascii ''info'') (ascii ''aad'') ct)) (\<lambda>pt.
     try_bind (assert_that (pt = ascii ''hello'')) (\<lambda>_.
     unwrap_with (setup_sender_base K F A r pk_r (ascii ''info'')) (\<lambda>(enc2, s) r.
     try_bind (unwrap (setup_receiver_base K F A enc2 sk_r (ascii ''info''))) (\<lambda>rx.
     try_bind (channel_loop A s rx [0..<3]) (\<lambda>_.
     unwrap_with (send_export_base K F A r pk_r (ascii ''info'') (ascii ''ctx-A'') 32)
       (\<lambda>(enc3, send_secret) r.
     try_bind (unwrap (receiver_export_base K F A enc3 sk_r (ascii ''info'') (ascii ''ctx-A'') 32))
       (\<lambda>recv_secret. assert_that (send_secret = recv_secret))))))))))"

definition roundtrip_psk_sealing ::
    "('r, 'pk, 'sk, 'enc, 'ss, 'z) kem_scheme \<Rightarrow> kdf \<Rightarrow>
     ('c, ('c, 'y) sealing_aead_ext) aead_scheme \<Rightarrow> 'r \<Rightarrow> unit res" where
  "roundtrip_psk_sealing K F A r =
     unwrap_with (k_generate K r) (\<lambda>(sk_r, pk_r) r.
     try_bind (unwrap (Psk_new (replicate 32 0xCD) (ascii ''id''))) (\<lambda>psk.
     unwrap_with (seal_psk K F A r pk_r (ascii ''i'') (ascii ''a'') (ascii ''hi'') psk) (\<lambda>(enc, ct) r.
     try_bind (unwrap (open_psk K F A enc sk_r (ascii ''i'') (ascii ''a'') ct psk)) (\<lambda>pt.
     try_bind (assert_that (pt = ascii ''hi'')) (\<lambda>_.
       assert_that (Psk_new (replicate 16 0) (ascii ''id'') = Err InsecurePsk))))))"

definition roundtrip_auth_sealing ::
    "('r, 'pk, 'sk, 'enc, 'ss, ('r, 'pk, 'sk, 'enc, 'ss, 'z) auth_kem_ext) kem_scheme \<Rightarrow> kdf \<Rightarrow>
     ('c, ('c, 'y) sealing_aead_ext) aead_scheme \<Rightarrow> 'r \<Rightarrow> unit res" where
  "roundtrip_auth_sealing K F A r =
     unwrap_with (k_generate K r) (\<lambda>(sk_r, pk_r) r.
     unwrap_with (k_generate K r) (\<lambda>(sk_s, pk_s) r.
     unwrap_with (seal_auth K F A r pk_r (ascii ''i'') (ascii ''a'') (ascii ''hi'') sk_s) (\<lambda>(enc, ct) r.
     try_bind (unwrap (open_auth K F A enc sk_r (ascii ''i'') (ascii ''a'') ct pk_s)) (\<lambda>pt.
       assert_that (pt = ascii ''hi'')))))"

definition roundtrip_auth_psk_sealing ::
    "('r, 'pk, 'sk, 'enc, 'ss, ('r, 'pk, 'sk, 'enc, 'ss, 'z) auth_kem_ext) kem_scheme \<Rightarrow> kdf \<Rightarrow>
     ('c, ('c, 'y) sealing_aead_ext) aead_scheme \<Rightarrow> 'r \<Rightarrow> unit res" where
  "roundtrip_auth_psk_sealing K F A r =
     unwrap_with (k_generate K r) (\<lambda>(sk_r, pk_r) r.
     unwrap_with (k_generate K r) (\<lambda>(sk_s, pk_s) r.
     try_bind (unwrap (Psk_new (replicate 32 0xEF) (ascii ''id''))) (\<lambda>psk.
     unwrap_with (seal_auth_psk K F A r pk_r (ascii ''i'') (ascii ''a'') (ascii ''hi'') psk sk_s)
       (\<lambda>(enc, ct) r.
     try_bind (unwrap (open_auth_psk K F A enc sk_r (ascii ''i'') (ascii ''a'') ct psk pk_s)) (\<lambda>pt.
       assert_that (pt = ascii ''hi''))))))"

definition psk_validation_happens_at_construction :: "unit res" where
  "psk_validation_happens_at_construction =
     in_order
       [assert_that (Psk_new (replicate 32 0) (ascii '''') = Err InconsistentPsk),
        assert_that (Psk_new (ascii '''') (ascii ''id'') = Err InconsistentPsk),
        assert_that (Psk_new (ascii '''') (ascii '''') = Err MissingPsk),
        assert_that (Psk_new (ascii ''too short'') (ascii ''id'') = Err InsecurePsk)]"

section \<open>\<open>tests/roundtrip.rs\<close>: export-only suites\<close>

text \<open>The body of \<open>for &len in &[16, 32, 64]\<close>, on the lengths still to come.\<close>

fun export_lengths ::
    "('r, 'pk, 'sk, 'enc, 'ss, 'z) kem_scheme \<Rightarrow> kdf \<Rightarrow> 'sk \<Rightarrow> 'pk \<Rightarrow> 'r \<Rightarrow> nat list \<Rightarrow> unit res" where
  "export_lengths K F sk_r pk_r r [] = Ok ()"
| "export_lengths K F sk_r pk_r r (len # ls) =
     unwrap_with (send_export_base K F ExportOnly r pk_r (ascii ''info'') (ascii ''ctx'') len)
       (\<lambda>(enc, sender) r.
     try_bind (unwrap (receiver_export_base K F ExportOnly enc sk_r (ascii ''info'') (ascii ''ctx'') len))
       (\<lambda>receiver.
     try_bind (assert_that (sender = receiver)) (\<lambda>_.
     try_bind (assert_that (length sender = len)) (\<lambda>_. export_lengths K F sk_r pk_r r ls))))"

definition roundtrip_export_only_base ::
    "('r, 'pk, 'sk, 'enc, 'ss, 'z) kem_scheme \<Rightarrow> kdf \<Rightarrow> 'r \<Rightarrow> unit res" where
  "roundtrip_export_only_base K F r =
     unwrap_with (k_generate K r) (\<lambda>(sk_r, pk_r) r. export_lengths K F sk_r pk_r r [16, 32, 64])"

definition roundtrip_export_only_psk ::
    "('r, 'pk, 'sk, 'enc, 'ss, 'z) kem_scheme \<Rightarrow> kdf \<Rightarrow> 'r \<Rightarrow> unit res" where
  "roundtrip_export_only_psk K F r =
     unwrap_with (k_generate K r) (\<lambda>(sk_r, pk_r) r.
     try_bind (unwrap (Psk_new (replicate 32 0xA5) (ascii ''id''))) (\<lambda>psk.
     unwrap_with (send_export_psk K F ExportOnly r pk_r (ascii ''info'') psk (ascii ''ctx'') 32)
       (\<lambda>(enc, sender) r.
     try_bind (unwrap (receiver_export_psk K F ExportOnly enc sk_r (ascii ''info'') psk (ascii ''ctx'') 32))
       (\<lambda>receiver. assert_that (sender = receiver)))))"

definition roundtrip_export_only_auth ::
    "('r, 'pk, 'sk, 'enc, 'ss, ('r, 'pk, 'sk, 'enc, 'ss, 'z) auth_kem_ext) kem_scheme \<Rightarrow> kdf \<Rightarrow>
     'r \<Rightarrow> unit res" where
  "roundtrip_export_only_auth K F r =
     unwrap_with (k_generate K r) (\<lambda>(sk_r, pk_r) r.
     unwrap_with (k_generate K r) (\<lambda>(sk_s, pk_s) r.
     unwrap_with (send_export_auth K F ExportOnly r pk_r (ascii ''info'') sk_s (ascii ''ctx'') 32)
       (\<lambda>(enc, sender) r.
     try_bind (unwrap (receiver_export_auth K F ExportOnly enc sk_r (ascii ''info'') pk_s (ascii ''ctx'') 32))
       (\<lambda>receiver. assert_that (sender = receiver)))))"

definition roundtrip_export_only_auth_psk ::
    "('r, 'pk, 'sk, 'enc, 'ss, ('r, 'pk, 'sk, 'enc, 'ss, 'z) auth_kem_ext) kem_scheme \<Rightarrow> kdf \<Rightarrow>
     'r \<Rightarrow> unit res" where
  "roundtrip_export_only_auth_psk K F r =
     unwrap_with (k_generate K r) (\<lambda>(sk_r, pk_r) r.
     unwrap_with (k_generate K r) (\<lambda>(sk_s, pk_s) r.
     try_bind (unwrap (Psk_new (replicate 32 0xB7) (ascii ''id''))) (\<lambda>psk.
     unwrap_with (send_export_auth_psk K F ExportOnly r pk_r (ascii ''info'') psk sk_s (ascii ''ctx'') 48)
       (\<lambda>(enc, sender) r.
     try_bind (unwrap (receiver_export_auth_psk K F ExportOnly enc sk_r (ascii ''info'') psk pk_s
         (ascii ''ctx'') 48))
       (\<lambda>receiver. assert_that (sender = receiver))))))"

text \<open>The unit test of \<open>src/lib.rs\<close>.\<close>

definition export_only_suite_compiles ::
    "'s x25519_lib \<Rightarrow> ('x, 'h) hkdf_lib \<Rightarrow> 'r rng \<Rightarrow> 'r \<Rightarrow> unit res" where
  "export_only_suite_compiles L H R r =
     (let Kem = DhKem (X25519 L H R); F = HkdfSha256 H
      in unwrap_with (k_generate Kem r) (\<lambda>(sk_r, pk_r) r.
         unwrap_with (send_export_base Kem F ExportOnly r pk_r (ascii ''info'') (ascii ''ctx'') 32)
           (\<lambda>(enc, sec) r.
         try_bind (unwrap (receiver_export_base Kem F ExportOnly enc sk_r (ascii ''info'') (ascii ''ctx'') 32))
           (\<lambda>recv. assert_that (sec = recv)))))"

section \<open>The roundtrip tests pass\<close>

text \<open>Key generation and encapsulation to generated keys succeed, whatever the generator returns.\<close>

definition reaches :: "('r, 'pk, 'sk, 'enc, 'ss, 'z) kem_scheme \<Rightarrow> bool" where
  "reaches K \<longleftrightarrow> (\<forall>r. is_ok (fst (k_generate K r)))
     \<and> (\<forall>r sk pk. kem_made K sk pk \<longrightarrow> is_ok (fst (k_encap K r pk)))"

definition auth_reaches ::
    "('r, 'pk, 'sk, 'enc, 'ss, ('r, 'pk, 'sk, 'enc, 'ss, 'z) auth_kem_ext) kem_scheme \<Rightarrow> bool" where
  "auth_reaches K \<longleftrightarrow> (\<forall>r. is_ok (fst (k_generate K r)))
     \<and> (\<forall>r sk pk sk_s pk_s. kem_made K sk pk \<longrightarrow> kem_made K sk_s pk_s
          \<longrightarrow> is_ok (fst (k_auth_encap K r pk sk_s)))"

lemma generated:
  assumes "\<forall>r. is_ok (fst (k_generate K r))"
  obtains sk pk where "fst (k_generate K r) = Ok (sk, pk)" and "kem_made K sk pk"
proof -
  obtain out r' where g: "k_generate K r = (out, r')" by (cases "k_generate K r")
  with assms [rule_format, of r] obtain sk pk where "out = Ok (sk, pk)" by (cases out) auto
  with g that [of sk pk] show thesis unfolding kem_made_def by auto
qed

lemma reachesE:
  assumes "reaches K"
  obtains sk pk where "fst (k_generate K r) = Ok (sk, pk)" and "kem_made K sk pk"
    and "\<And>r. is_ok (fst (k_encap K r pk))"
proof -
  from assms have "\<forall>r. is_ok (fst (k_generate K r))" by (simp add: reaches_def)
  then obtain sk pk where "fst (k_generate K r) = Ok (sk, pk)" "kem_made K sk pk" by (rule generated)
  with assms that show thesis unfolding reaches_def by blast
qed

lemma auth_reachesE:
  assumes "auth_reaches K"
  obtains sk pk sk_s pk_s where "fst (k_generate K r) = Ok (sk, pk)" and "kem_made K sk pk"
    and "fst (k_generate K (snd (k_generate K r))) = Ok (sk_s, pk_s)" and "kem_made K sk_s pk_s"
    and "\<And>r. is_ok (fst (k_auth_encap K r pk sk_s))"
proof -
  from assms have g: "\<forall>r. is_ok (fst (k_generate K r))" by (simp add: auth_reaches_def)
  from g obtain sk pk where 1: "fst (k_generate K r) = Ok (sk, pk)" "kem_made K sk pk" by (rule generated)
  from g obtain sk_s pk_s where 2: "fst (k_generate K (snd (k_generate K r))) = Ok (sk_s, pk_s)"
    "kem_made K sk_s pk_s" by (rule generated)
  from assms 1(2) 2(2) have "is_ok (fst (k_auth_encap K r pk sk_s))" for r
    unfolding auth_reaches_def by blast
  with 1 2 that show thesis by blast
qed

lemma Psk_new_test: "Psk_new (replicate 32 b) (ascii ''id'')
    = Ok \<lparr> psk_secret = replicate 32 b, psk_id = ascii ''id'' \<rparr>"
  "Psk_new (replicate 16 b) (ascii ''id'') = Err InsecurePsk"
  by (simp_all add: Psk_new_def MIN_PSK_LEN_def ascii_Cons)

text \<open>The loop alternates the calls that a stream makes one after the other.\<close>

lemma channel_loop_Ok:
  assumes "seal_run A tx (map (\<lambda>i. (ascii ''aad'', ascii (''msg-'' @ show_nat i))) js) = (map Ok cts, tx')"
    and "open_run A rx (zip (map (\<lambda>i. ascii ''aad'') js) cts)
      = (map (\<lambda>i. Ok (ascii (''msg-'' @ show_nat i))) js, rx')"
  shows "channel_loop A tx rx js = Ok ()"
  using assms
proof (induction js arbitrary: tx rx cts)
  case Nil
  then show ?case by simp
next
  case (Cons i js)
  obtain r tx1 where s: "Sender_seal A tx (ascii ''aad'') (ascii (''msg-'' @ show_nat i)) = (r, tx1)"
    by (cases "Sender_seal A tx (ascii ''aad'') (ascii (''msg-'' @ show_nat i))")
  from Cons.prems(1) s obtain ct cts' where cts: "cts = ct # cts'" "r = Ok ct"
    and run: "seal_run A tx1 (map (\<lambda>i. (ascii ''aad'', ascii (''msg-'' @ show_nat i))) js) = (map Ok cts', tx')"
    by (cases cts) (auto split: prod.splits)
  obtain p rx1 where o: "Receiver_open A rx (ascii ''aad'') ct = (p, rx1)"
    by (cases "Receiver_open A rx (ascii ''aad'') ct")
  from Cons.prems(2) o have "p = Ok (ascii (''msg-'' @ show_nat i))"
    and run': "open_run A rx1 (zip (map (\<lambda>i. ascii ''aad'') js) cts')
      = (map (\<lambda>i. Ok (ascii (''msg-'' @ show_nat i))) js, rx')"
    by (auto simp: cts split: prod.splits)
  with s o cts(2) Cons.IH [OF run run'] show ?case by (simp add: Let_def)
qed

lemma seals_and_opensD:
  assumes "seals_and_opens K F A p_max" and "kem_made K sk pk"
  shows "seal_open_ok (k_encap K r pk) p_max (a_TAG_LEN A) aad pt (seal_base K F A r pk info aad pt)
          (\<lambda>enc ct. open_base K F A enc sk info aad ct)"
    and "seal_open_ok (k_encap K r pk) p_max (a_TAG_LEN A) aad pt (seal_psk K F A r pk info aad pt psk)
          (\<lambda>enc ct. open_psk K F A enc sk info aad ct psk)"
  using assms unfolding seals_and_opens_def by blast+

lemma channels_streamD:
  assumes "channels_stream K F A p_max" and "kem_made K sk pk"
  shows "channel_ok (k_encap K r pk) p_max A (setup_sender_base K F A r pk info)
          (\<lambda>enc. setup_receiver_base K F A enc sk info)"
  using assms unfolding channels_stream_def by blast

lemma auth_exports_agreeD:
  assumes "auth_exports_agree K F A" and "kem_made K sk pk" and "kem_made K sk_s pk_s"
  shows "export_ok (k_auth_encap K r pk sk_s) (f_HASH_LEN F) n (send_export_auth K F A r pk info sk_s ectx n)
          (\<lambda>enc. receiver_export_auth K F A enc sk info pk_s ectx n)"
    and "export_ok (k_auth_encap K r pk sk_s) (f_HASH_LEN F) n
          (send_export_auth_psk K F A r pk info psk sk_s ectx n)
          (\<lambda>enc. receiver_export_auth_psk K F A enc sk info psk pk_s ectx n)"
  using assms unfolding auth_exports_agree_def by blast+

lemma roundtrip_base_passes:
  assumes "seals_and_opens K F A p_max" and "exports_agree K F A" and "channels_stream K F A p_max"
    and "reaches K" and "5 \<le> p_max" and "32 \<le> f_HASH_LEN F"
  shows "roundtrip_base_sealing K F A r = Ok ()"
proof -
  obtain sk pk where g: "fst (k_generate K r) = Ok (sk, pk)" and made: "kem_made K sk pk"
    and enc: "\<And>r. is_ok (fst (k_encap K r pk))"
    using assms(4) by (rule reachesE [of K r]) (rule that)
  define r1 where "r1 = snd (k_generate K r)"
  define sealed where "sealed = seal_base K F A r1 pk (ascii ''info'') (ascii ''aad'') (ascii ''hello'')"
  from seal_open_okD [OF seals_and_opensD(1) [OF assms(1) made] enc, of "ascii ''hello''" "ascii ''aad''" r1 "ascii ''info''"] assms(5)
  obtain enc1 ct where s: "fst sealed = Ok (enc1, ct)"
    "open_base K F A enc1 sk (ascii ''info'') (ascii ''aad'') ct = Ok (ascii ''hello'')"
    unfolding sealed_def by auto
  define started where "started = setup_sender_base K F A (snd sealed) pk (ascii ''info'')"
  let ?ms = "map (\<lambda>i. (ascii ''aad'', ascii (''msg-'' @ show_nat i))) [0..<3]"
  have lim: "\<forall>m \<in> set ?ms. length (fst m) \<le> p_max \<and> length (snd m) \<le> p_max"
    using assms(5) by (auto simp: length_show_digit)
  have "length ?ms < 2 ^ 64" by simp
  from channel_okD [OF channels_streamD [OF assms(3) made] enc lim this, of "snd sealed" "ascii ''info''"]
  obtain enc2 tx cts tx' rx rx' where c: "fst started = Ok (enc2, tx)"
    "seal_run A tx ?ms = (map Ok cts, tx')" "setup_receiver_base K F A enc2 sk (ascii ''info'') = Ok rx"
    "open_run A rx (zip (map fst ?ms) cts) = (map (Ok \<circ> snd) ?ms, rx')"
    unfolding started_def by blast
  have loop: "channel_loop A tx rx [0..<3] = Ok ()"
    by (rule channel_loop_Ok [OF c(2)]) (use c(4) in \<open>simp add: comp_def del: upt.simps\<close>)
  have "32 \<le> 255 * f_HASH_LEN F" using assms(6) by simp
  from export_okD [OF exports_agreeD(1) [OF assms(2) made] enc this, of "snd started" "ascii ''info''" "ascii ''ctx-A''"]
  obtain enc3 out where e: "fst (send_export_base K F A (snd started) pk (ascii ''info'') (ascii ''ctx-A'') 32)
      = Ok (enc3, out)" "receiver_export_base K F A enc3 sk (ascii ''info'') (ascii ''ctx-A'') 32 = Ok out"
    by blast
  show ?thesis
    unfolding roundtrip_base_sealing_def unwrap_with_Ok [OF g]
    by (simp add: r1_def [symmetric] sealed_def [symmetric] unwrap_with_Ok [OF s(1)] s(2) started_def [symmetric] unwrap_with_Ok [OF c(1)] c(3) loop
        unwrap_with_Ok [OF e(1)] e(2) del: upt.simps)
qed

lemma roundtrip_psk_passes:
  assumes "seals_and_opens K F A p_max" and "reaches K" and "5 \<le> p_max"
  shows "roundtrip_psk_sealing K F A r = Ok ()"
proof -
  obtain sk pk where g: "fst (k_generate K r) = Ok (sk, pk)" and made: "kem_made K sk pk"
    and enc: "\<And>r. is_ok (fst (k_encap K r pk))"
    using assms(2) by (rule reachesE [of K r]) (rule that)
  let ?psk = "\<lparr> psk_secret = replicate 32 0xCD, psk_id = ascii ''id'' \<rparr>"
  from seal_open_okD [OF seals_and_opensD(2) [OF assms(1) made] enc, of "ascii ''hi''" "ascii ''a''"
      "snd (k_generate K r)" "ascii ''i''" ?psk] assms(3)
  obtain enc ct where s: "fst (seal_psk K F A (snd (k_generate K r)) pk (ascii ''i'') (ascii ''a'') (ascii ''hi'') ?psk)
      = Ok (enc, ct)" "open_psk K F A enc sk (ascii ''i'') (ascii ''a'') ct ?psk = Ok (ascii ''hi'')" by auto
  show ?thesis
    unfolding roundtrip_psk_sealing_def unwrap_with_Ok [OF g]
    by (simp add: Psk_new_test unwrap_with_Ok [OF s(1)] s(2))
qed

lemma roundtrip_auth_passes:
  assumes "auth_seals_and_opens K F A p_max" and "auth_reaches K" and "5 \<le> p_max"
  shows "roundtrip_auth_sealing K F A r = Ok ()" and "roundtrip_auth_psk_sealing K F A r = Ok ()"
proof -
  obtain sk pk sk_s pk_s where g: "fst (k_generate K r) = Ok (sk, pk)" and made: "kem_made K sk pk"
    and g': "fst (k_generate K (snd (k_generate K r))) = Ok (sk_s, pk_s)" and made': "kem_made K sk_s pk_s"
    and enc: "\<And>r. is_ok (fst (k_auth_encap K r pk sk_s))"
    using assms(2) by (rule auth_reachesE [of K r]) (rule that)
  let ?r = "snd (k_generate K (snd (k_generate K r)))"
  let ?psk = "\<lparr> psk_secret = replicate 32 0xEF, psk_id = ascii ''id'' \<rparr>"
  note opens = auth_seals_and_opensD [OF assms(1) made made']
  from seal_open_okD [OF opens(1) enc, of "ascii ''hi''" "ascii ''a''" ?r "ascii ''i''"] assms(3)
  obtain enc ct where s: "fst (seal_auth K F A ?r pk (ascii ''i'') (ascii ''a'') (ascii ''hi'') sk_s)
      = Ok (enc, ct)" "open_auth K F A enc sk (ascii ''i'') (ascii ''a'') ct pk_s = Ok (ascii ''hi'')" by auto
  show "roundtrip_auth_sealing K F A r = Ok ()"
    unfolding roundtrip_auth_sealing_def unwrap_with_Ok [OF g]
    by (simp add: unwrap_with_Ok [OF g'] unwrap_with_Ok [OF s(1)] s(2))
  from seal_open_okD [OF opens(2) enc, of "ascii ''hi''" "ascii ''a''" ?r "ascii ''i''" ?psk] assms(3)
  obtain enc ct where t: "fst (seal_auth_psk K F A ?r pk (ascii ''i'') (ascii ''a'') (ascii ''hi'') ?psk sk_s)
      = Ok (enc, ct)" "open_auth_psk K F A enc sk (ascii ''i'') (ascii ''a'') ct ?psk pk_s = Ok (ascii ''hi'')"
    by auto
  show "roundtrip_auth_psk_sealing K F A r = Ok ()"
    unfolding roundtrip_auth_psk_sealing_def unwrap_with_Ok [OF g]
    by (simp add: unwrap_with_Ok [OF g'] Psk_new_test unwrap_with_Ok [OF t(1)] t(2))
qed

lemma psk_validation_passes: "psk_validation_happens_at_construction = Ok ()"
  by (simp add: psk_validation_happens_at_construction_def Psk_new_def MIN_PSK_LEN_def ascii_Cons ascii_Nil)

lemma export_lengths_Ok:
  assumes "exports_agree K F ExportOnly" and "kem_made K sk pk"
    and enc: "\<And>r. is_ok (fst (k_encap K r pk))" and "\<forall>len \<in> set ls. len \<le> 255 * f_HASH_LEN F"
  shows "export_lengths K F sk pk r ls = Ok ()"
  using assms(4)
proof (induction ls arbitrary: r)
  case Nil
  then show ?case by simp
next
  case (Cons len ls)
  have "len \<le> 255 * f_HASH_LEN F" using Cons.prems by simp
  from export_okD [OF exports_agreeD(1) [OF assms(1,2)] enc this, of r "ascii ''info''" "ascii ''ctx''"]
  obtain e out where "fst (send_export_base K F ExportOnly r pk (ascii ''info'') (ascii ''ctx'') len) = Ok (e, out)"
    "receiver_export_base K F ExportOnly e sk (ascii ''info'') (ascii ''ctx'') len = Ok out" "length out = len" by blast
  with Cons show ?case by (simp add: unwrap_with_Ok)
qed

lemma export_only_passes:
  assumes "exports_agree K F ExportOnly" and "reaches K" and "32 \<le> f_HASH_LEN F"
  shows "roundtrip_export_only_base K F r = Ok ()" and "roundtrip_export_only_psk K F r = Ok ()"
proof -
  obtain sk pk where g: "fst (k_generate K r) = Ok (sk, pk)" and made: "kem_made K sk pk"
    and enc: "\<And>r. is_ok (fst (k_encap K r pk))"
    using assms(2) by (rule reachesE [of K r]) (rule that)
  have "export_lengths K F sk pk r' [16, 32, 64] = Ok ()" for r'
    using assms(3) by (intro export_lengths_Ok [OF assms(1) made enc]) simp
  then show "roundtrip_export_only_base K F r = Ok ()"
    unfolding roundtrip_export_only_base_def unwrap_with_Ok [OF g] by simp
  let ?psk = "\<lparr> psk_secret = replicate 32 0xA5, psk_id = ascii ''id'' \<rparr>"
  have "32 \<le> 255 * f_HASH_LEN F" using assms(3) by simp
  from export_okD [OF exports_agreeD(2) [OF assms(1) made] enc this, of "snd (k_generate K r)" "ascii ''info''"
      ?psk "ascii ''ctx''"]
  obtain e out where s: "fst (send_export_psk K F ExportOnly (snd (k_generate K r)) pk (ascii ''info'') ?psk
      (ascii ''ctx'') 32) = Ok (e, out)"
    "receiver_export_psk K F ExportOnly e sk (ascii ''info'') ?psk (ascii ''ctx'') 32 = Ok out" by blast
  show "roundtrip_export_only_psk K F r = Ok ()"
    unfolding roundtrip_export_only_psk_def unwrap_with_Ok [OF g]
    by (simp add: Psk_new_test unwrap_with_Ok [OF s(1)] s(2))
qed

lemma export_only_auth_passes:
  assumes "auth_exports_agree K F ExportOnly" and "auth_reaches K" and "32 \<le> f_HASH_LEN F"
  shows "roundtrip_export_only_auth K F r = Ok ()" and "roundtrip_export_only_auth_psk K F r = Ok ()"
proof -
  obtain sk pk sk_s pk_s where g: "fst (k_generate K r) = Ok (sk, pk)" and made: "kem_made K sk pk"
    and g': "fst (k_generate K (snd (k_generate K r))) = Ok (sk_s, pk_s)" and made': "kem_made K sk_s pk_s"
    and enc: "\<And>r. is_ok (fst (k_auth_encap K r pk sk_s))"
    using assms(2) by (rule auth_reachesE [of K r]) (rule that)
  let ?r = "snd (k_generate K (snd (k_generate K r)))"
  let ?psk = "\<lparr> psk_secret = replicate 32 0xB7, psk_id = ascii ''id'' \<rparr>"
  have "32 \<le> 255 * f_HASH_LEN F" "48 \<le> 255 * f_HASH_LEN F" using assms(3) by simp_all
  note out = export_okD [OF auth_exports_agreeD(1) [OF assms(1) made made'] enc this(1)]
    export_okD [OF auth_exports_agreeD(2) [OF assms(1) made made'] enc this(2)]
  from out(1) [of ?r "ascii ''info''" "ascii ''ctx''"]
  obtain e x where s: "fst (send_export_auth K F ExportOnly ?r pk (ascii ''info'') sk_s (ascii ''ctx'') 32) = Ok (e, x)"
    "receiver_export_auth K F ExportOnly e sk (ascii ''info'') pk_s (ascii ''ctx'') 32 = Ok x" by blast
  show "roundtrip_export_only_auth K F r = Ok ()"
    unfolding roundtrip_export_only_auth_def unwrap_with_Ok [OF g]
    by (simp add: unwrap_with_Ok [OF g'] unwrap_with_Ok [OF s(1)] s(2))
  from out(2) [of ?r "ascii ''info''" ?psk "ascii ''ctx''"]
  obtain e x where t: "fst (send_export_auth_psk K F ExportOnly ?r pk (ascii ''info'') ?psk sk_s (ascii ''ctx'') 48)
      = Ok (e, x)" "receiver_export_auth_psk K F ExportOnly e sk (ascii ''info'') ?psk pk_s (ascii ''ctx'') 48 = Ok x"
    by blast
  show "roundtrip_export_only_auth_psk K F r = Ok ()"
    unfolding roundtrip_export_only_auth_psk_def unwrap_with_Ok [OF g]
    by (simp add: unwrap_with_Ok [OF g'] Psk_new_test unwrap_with_Ok [OF t(1)] t(2))
qed

section \<open>In every suite of the crate\<close>

text \<open>
  The tests of a suite, and of the export-only suite of a KEM and a KDF. The hypothesis \<open>reaches\<close>
  is outright for the post-quantum KEMs; a Diffie-Hellman encapsulation fails on an exchange that
  is zero, which the contract of the curve crate does not exclude, so it stays a hypothesis there.
\<close>

definition roundtrip_tests_pass ::
    "('r, 'pk, 'sk, 'enc, 'ss, 'z) kem_scheme \<Rightarrow> kdf \<Rightarrow>
     ('c, ('c, 'y) sealing_aead_ext) aead_scheme \<Rightarrow> bool" where
  "roundtrip_tests_pass K F A \<longleftrightarrow>
     (\<forall>r. roundtrip_base_sealing K F A r = Ok () \<and> roundtrip_psk_sealing K F A r = Ok ()
        \<and> roundtrip_export_only_base K F r = Ok () \<and> roundtrip_export_only_psk K F r = Ok ())"

definition auth_roundtrip_tests_pass ::
    "('r, 'pk, 'sk, 'enc, 'ss, ('r, 'pk, 'sk, 'enc, 'ss, 'z) auth_kem_ext) kem_scheme \<Rightarrow> kdf \<Rightarrow>
     ('c, ('c, 'y) sealing_aead_ext) aead_scheme \<Rightarrow> bool" where
  "auth_roundtrip_tests_pass K F A \<longleftrightarrow>
     (\<forall>r. roundtrip_auth_sealing K F A r = Ok () \<and> roundtrip_auth_psk_sealing K F A r = Ok ()
        \<and> roundtrip_export_only_auth K F r = Ok () \<and> roundtrip_export_only_auth_psk K F r = Ok ())"

lemma suite_roundtrip_tests:
  assumes "hpke_sealing_suite K pair F A True p_max" and "reaches K" and "5 \<le> p_max" and "32 \<le> f_HASH_LEN F"
  shows "roundtrip_tests_pass K F A"
  unfolding roundtrip_tests_pass_def
  using roundtrip_base_passes [OF pq_suite_modes(1,2,3) [OF assms(1)] assms(2-4)]
    roundtrip_psk_passes [OF pq_suite_modes(1) [OF assms(1)] assms(2,3)]
    export_only_passes [OF export_only_suite [OF assms(1)] assms(2,4)] by simp

lemma suite_auth_roundtrip_tests:
  assumes "hpke_auth_sealing_suite K pair F A True p_max" and "auth_reaches K" and "5 \<le> p_max"
    and "32 \<le> f_HASH_LEN F"
  shows "auth_roundtrip_tests_pass K F A"
  unfolding auth_roundtrip_tests_pass_def
  using roundtrip_auth_passes [OF auth_suite_modes(1) [OF assms(1)] assms(2,3)]
    export_only_auth_passes [OF export_only_auth_suite [OF assms(1)] assms(2,4)] by simp

text \<open>The nine KEMs.\<close>

lemma dh_generates: "\<forall>r. is_ok (fst (k_generate (DhKem D) r))"
proof
  fix r
  obtain sk pk r' where "DhKem_generate D r = (Ok (sk, pk), r')" using DhKem_generate_total [of D r] by blast
  then show "is_ok (fst (k_generate (DhKem D) r))" by simp
qed

lemma pq_reaches:
  assumes "crates_ok LX LG E256 E384 E521 EK W M768 M1024 H256 H384 H512 S R"
  shows "reaches (XWingDraft06 W S R)" and "reaches (MlKem768 M768 S R)" and "reaches (MlKem1024 M1024 S R)"
proof -
  have R: "rng_ok R" using assms by (simp add: crates_ok_def)
  have "is_ok (fst (XWing_generate W R r))" "is_ok (fst (ml_kem_generate M768 R r))"
    "is_ok (fst (ml_kem_generate M1024 R r))" for r
    using XWing_generate_pair [OF R, of W r] ml_kem_generate_pair [OF R, of M768 r]
      ml_kem_generate_pair [OF R, of M1024 r] by auto
  then show "reaches (XWingDraft06 W S R)" "reaches (MlKem768 M768 S R)" "reaches (MlKem1024 M1024 S R)"
    using crates_encapsulate [OF assms]
    by (simp_all add: reaches_def always_encapsulates_def XWingDraft06_def MlKem768_def MlKem1024_def
        ml_kem_variant_def)
qed

lemma registered_hash_len: "F \<in> registered_kdfs G \<Longrightarrow> 32 \<le> f_HASH_LEN F"
  by (auto simp: registered_kdfs_def const_simps)

lemma roundtrip_tests:
  assumes "crates_ok LX LG E256 E384 E521 EK W M768 M1024 H256 H384 H512 S R"
    and "F \<in> registered_kdfs G" and "hkdf_lib_ok G (f_HASH_LEN F)"
    and "A \<in> registered_aeads C" and "aead_lib_ok C (a_KEY_LEN A) p_max" and "5 \<le> p_max"
  shows "roundtrip_tests_pass (XWingDraft06 W S R) F A"
    and "roundtrip_tests_pass (MlKem768 M768 S R) F A" and "roundtrip_tests_pass (MlKem1024 M1024 S R) F A"
  by (rule suite_roundtrip_tests, rule crates_pq_suites [OF assms(1-5)], rule pq_reaches [OF assms(1)],
      rule assms(6), rule registered_hash_len [OF assms(2)])+

lemma dh_roundtrip_tests:
  assumes "dh_contract D True pair" and "F \<in> registered_kdfs G" and "hkdf_lib_ok G (f_HASH_LEN F)"
    and "A \<in> registered_aeads C" and "aead_lib_ok C (a_KEY_LEN A) p_max" and "5 \<le> p_max"
  shows "reaches (DhKem D) \<Longrightarrow> roundtrip_tests_pass (DhKem D) F A"
    and "auth_reaches (DhKem D) \<Longrightarrow> auth_roundtrip_tests_pass (DhKem D) F A"
proof -
  have suite: "hpke_auth_sealing_suite (DhKem D) (DhKem_pair D pair) F A True p_max"
    by (rule dhkem_suite [OF assms(1-5)])
  note len = assms(6) registered_hash_len [OF assms(2)]
  show "reaches (DhKem D) \<Longrightarrow> roundtrip_tests_pass (DhKem D) F A"
    by (rule suite_roundtrip_tests [OF hpke_auth_sealing_suite.axioms(2) [OF suite] _ len])
  show "auth_reaches (DhKem D) \<Longrightarrow> auth_roundtrip_tests_pass (DhKem D) F A"
    by (rule suite_auth_roundtrip_tests [OF suite _ len])
qed

lemma export_only_suite_compiles_passes:
  assumes "x25519_lib_ok L" and "hkdf_lib_ok H 32" and "rng_ok R" and "reaches (DhKem (X25519 L H R))"
  shows "export_only_suite_compiles L H R r = Ok ()"
proof -
  let ?K = "DhKem (X25519 L H R)" and ?F = "HkdfSha256 H"
  have kem: "kem_contract ?K (DhKem_pair (X25519 L H R) (x25519_pair L)) True"
    using dhkem_auth_kem_contract [OF x25519_contract_True [OF assms(1-3)]] by (simp add: auth_kem_contract_def)
  have "key_schedule_suite ?F ExportOnly True"
    using registered_kdf_contract [of ?F H] assms(2) export_only.aead_contract_axioms
    by (simp add: key_schedule_suite_def registered_kdfs_def const_simps)
  with kem have agree: "exports_agree ?K ?F ExportOnly"
    by (intro hpke_suite.suite_exports) (simp_all add: hpke_suite_def)
  obtain sk pk where g: "fst (k_generate ?K r) = Ok (sk, pk)" and made: "kem_made ?K sk pk"
    and enc: "\<And>r. is_ok (fst (k_encap ?K r pk))"
    using assms(4) by (rule reachesE [of ?K r]) (rule that)
  have "32 \<le> 255 * f_HASH_LEN ?F" by (simp add: const_simps)
  from export_okD [OF exports_agreeD(1) [OF agree made] enc this, of "snd (k_generate ?K r)" "ascii ''info''"
      "ascii ''ctx''"]
  obtain e out where x: "fst (send_export_base ?K ?F ExportOnly (snd (k_generate ?K r)) pk (ascii ''info'')
      (ascii ''ctx'') 32) = Ok (e, out)"
    "receiver_export_base ?K ?F ExportOnly e sk (ascii ''info'') (ascii ''ctx'') 32 = Ok out" by blast
  show ?thesis
    unfolding export_only_suite_compiles_def Let_def unwrap_with_Ok [OF g]
    by (simp add: unwrap_with_Ok [OF x(1)] x(2) del: DhKem_simps)
qed

section \<open>\<open>tests/negative.rs\<close>\<close>

text \<open>The macro \<open>negative_psk!\<close>, generic in the suite.\<close>

definition negative_psk ::
    "('r, 'pk, 'sk, 'enc, 'ss, 'z) kem_scheme \<Rightarrow> kdf \<Rightarrow>
     ('c, ('c, 'y) sealing_aead_ext) aead_scheme \<Rightarrow> 'r \<Rightarrow> unit res" where
  "negative_psk K F A r =
     unwrap_with (k_generate K r) (\<lambda>(sk_r, pk_r) r.
     let psk_bytes = replicate 32 0x11; other_bytes = replicate 32 0x22;
         info = ascii ''info''; aad = ascii ''aad''
     in
     try_bind (unwrap (Psk_new psk_bytes (ascii ''id''))) (\<lambda>psk.
     try_bind (unwrap (Psk_new other_bytes (ascii ''id''))) (\<lambda>wrong_secret.
     try_bind (unwrap (Psk_new psk_bytes (ascii ''id-x''))) (\<lambda>wrong_id.
     unwrap_with (seal_psk K F A r pk_r info aad (ascii ''secret'') psk) (\<lambda>(enc, ct) r.
     try_bind (unwrap (open_psk K F A enc sk_r info aad ct psk)) (\<lambda>pt.
     in_order
       [assert_that (pt = ascii ''secret''),
        assert_that (open_psk K F A enc sk_r info aad ct wrong_secret = Err OpenError),
        assert_that (open_psk K F A enc sk_r info aad ct wrong_id = Err OpenError),
        assert_that (Psk_new (ascii '''') (ascii '''') = Err MissingPsk),
        assert_that (Psk_new psk_bytes (ascii '''') = Err InconsistentPsk),
        assert_that (Psk_new (ascii '''') (ascii ''id'') = Err InconsistentPsk),
        assert_that (Psk_new (replicate 31 0) (ascii ''id'') = Err InsecurePsk)]))))))"

definition failed_open_preserves_sequence_and_replay_is_rejected ::
    "'s x25519_lib \<Rightarrow> ('x, 'h) hkdf_lib \<Rightarrow> ('c, 'n) aead_lib \<Rightarrow> 'r rng \<Rightarrow> 'r \<Rightarrow> unit res" where
  "failed_open_preserves_sequence_and_replay_is_rejected L H C R r =
     (let Kem = DhKem (X25519 L H R); F = HkdfSha256 H; A = ChaCha20Poly1305 C; aad = ascii ''aad''
      in unwrap_with (k_generate Kem r) (\<lambda>(sk_r, pk_r) r.
         unwrap_with (setup_sender_base Kem F A r pk_r (ascii ''info'')) (\<lambda>(enc, sender) r.
         try_bind (unwrap (setup_receiver_base Kem F A enc sk_r (ascii ''info''))) (\<lambda>receiver.
         unwrap_with (Sender_seal A sender aad (ascii ''m0'')) (\<lambda>ct0 sender.
         unwrap_with (Sender_seal A sender aad (ascii ''m1'')) (\<lambda>ct1 sender.
         let (r1, receiver) = Receiver_open A receiver aad ct1 in
         try_bind (assert_that (r1 = Err OpenError)) (\<lambda>_.
         unwrap_with (Receiver_open A receiver aad ct0) (\<lambda>p0 receiver.
         try_bind (assert_that (p0 = ascii ''m0'')) (\<lambda>_.
         let (r3, receiver) = Receiver_open A receiver aad ct0 in
         try_bind (assert_that (r3 = Err OpenError)) (\<lambda>_.
         unwrap_with (Receiver_open A receiver aad ct1) (\<lambda>p1 receiver.
           assert_that (p1 = ascii ''m1''))))))))))))"

definition consecutive_seals_never_repeat_a_nonce ::
    "'s x25519_lib \<Rightarrow> ('x, 'h) hkdf_lib \<Rightarrow> ('c, 'n) aead_lib \<Rightarrow> 'r rng \<Rightarrow> 'r \<Rightarrow> unit res" where
  "consecutive_seals_never_repeat_a_nonce L H C R r =
     (let Kem = DhKem (X25519 L H R); F = HkdfSha256 H; A = ChaCha20Poly1305 C; aad = ascii ''aad'';
          pt = ascii ''same plaintext''
      in unwrap_with (k_generate Kem r) (\<lambda>(sk_r, pk_r) r.
         unwrap_with (setup_sender_base Kem F A r pk_r (ascii ''info'')) (\<lambda>(enc, sender) r.
         unwrap_with (Sender_seal A sender aad pt) (\<lambda>a sender.
         unwrap_with (Sender_seal A sender aad pt) (\<lambda>b sender.
         try_bind (assert_that (a \<noteq> b)) (\<lambda>_.
         try_bind (unwrap (setup_receiver_base Kem F A enc sk_r (ascii ''info''))) (\<lambda>receiver.
         unwrap_with (Receiver_open A receiver aad a) (\<lambda>p receiver.
         try_bind (assert_that (p = pt)) (\<lambda>_.
         unwrap_with (Receiver_open A receiver aad b) (\<lambda>q receiver.
           assert_that (q = pt)))))))))))"

definition export_is_separated_by_context_info_and_length ::
    "'s x25519_lib \<Rightarrow> ('x, 'h) hkdf_lib \<Rightarrow> 'r rng \<Rightarrow> 'r \<Rightarrow> unit res" where
  "export_is_separated_by_context_info_and_length L H R r =
     (let Kem = DhKem (X25519 L H R); F = HkdfSha256 H; info = ascii ''info''; ctx = ascii ''ctx''
      in unwrap_with (k_generate Kem r) (\<lambda>(sk_r, pk_r) r.
         unwrap_with (send_export_base Kem F ExportOnly r pk_r info ctx 32) (\<lambda>(enc, base) r.
         let recv = receiver_export_base Kem F ExportOnly enc sk_r in
         try_bind (unwrap (recv info (ascii ''ctx-x'') 32)) (\<lambda>other_ctx.
         try_bind (assert_that (base \<noteq> other_ctx)) (\<lambda>_.
         try_bind (unwrap (recv (ascii ''info-x'') ctx 32)) (\<lambda>other_info.
         try_bind (assert_that (base \<noteq> other_info)) (\<lambda>_.
         try_bind (unwrap (recv info ctx 16)) (\<lambda>short.
         try_bind (slice_to 16 base) (\<lambda>prefix.
         in_order
           [assert_that (short \<noteq> prefix), assert_that (is_ok (recv info ctx (255 * 32))),
            assert_that (recv info ctx (255 * 32 + 1) = Err ExportLengthExceeded)])))))))))"


text \<open>A channel in the Base mode, right after setup.\<close>

context hpke_suite
begin

lemma started_base:
  assumes "lawful" and "kem_made K sk pk" and "is_ok (fst (k_encap K r pk))"
  shows "\<exists>enc ctx. fst (setup_sender_base K F A r pk info) = Ok (enc, SenderContext ctx)
     \<and> setup_receiver_base K F A enc sk info = Ok (ReceiverContext ctx) \<and> context_wf ctx \<and> seq ctx = 0"
proof (cases rule: sender_setup_cases [of "\<lambda>s. key_schedule_psk_free BaseModeTag K F A s info"
      "\<lambda>ctx. context_wf ctx \<and> seq ctx = 0" "k_encap K r pk" K, OF ks.psk_free_total(1) [OF assms(1)],
      case_names np ok err])
  case np
  then show ?case using assms(3) by (cases "fst (k_encap K r pk)") auto
next
  case (ok ss enc ctx r')
  then have st: "setup_sender_base K F A r pk info = (Ok (enc, SenderContext ctx), r')"
    by (simp add: setup_eq)
  from setup_base_agree [OF assms(1) kem.made_pair [OF assms(1,2)] st] st ok(3) show ?thesis by simp
next
  case (err e r')
  with assms(3) show ?thesis by simp
qed

end

context sealing_aead_contract
begin

text \<open>Two messages sealed at the start of a session, and what the recipient makes of them.\<close>

lemma two_seals:
  assumes "lawful" and "context_wf ctx" and "seq ctx = 0"
    and "length aad \<le> p_max" and "length m0 \<le> p_max" and "length m1 \<le> p_max"
  obtains ct0 ct1 where "Context_seal A ctx aad m0 = (Ok ct0, ctx\<lparr>seq := 1\<rparr>)"
    and "Context_seal A (ctx\<lparr>seq := 1\<rparr>) aad m1 = (Ok ct1, ctx\<lparr>seq := 2\<rparr>)"
    and "Context_open A ctx aad ct0 = (Ok m0, ctx\<lparr>seq := 1\<rparr>)"
    and "Context_open A (ctx\<lparr>seq := 1\<rparr>) aad ct1 = (Ok m1, ctx\<lparr>seq := 2\<rparr>)"
proof -
  have ne: "seq ctx \<noteq> u64_MAX" "seq (ctx\<lparr>seq := 1\<rparr>) \<noteq> u64_MAX" using assms(3) by (simp_all add: u64_MAX_def)
  have wf: "context_wf (ctx\<lparr>seq := 1\<rparr>)" using assms(2) by (simp add: context_wf_def)
  from seal_succeeds [OF assms(1,2) ne(1) assms(5,4)] assms(3)
  obtain ct0 where 0: "Context_seal A ctx aad m0 = (Ok ct0, ctx\<lparr>seq := 1\<rparr>)" by auto
  from seal_succeeds [OF assms(1) wf ne(2) assms(6,4)]
  obtain ct1 where 1: "Context_seal A (ctx\<lparr>seq := 1\<rparr>) aad m1 = (Ok ct1, ctx\<lparr>seq := 2\<rparr>)" by auto
  from that [OF 0 1] open_after_seal [OF assms(1,2) 0] open_after_seal [OF assms(1) wf 1] show thesis by simp
qed

text \<open>A delivery before the limit is rejected, without effect, exactly if the cipher rejects it.\<close>

lemma rejected_iff:
  assumes "context_wf ctx" and "seq ctx \<noteq> u64_MAX"
  shows "fst (Context_open A ctx aad ct) = Err OpenError
     \<longleftrightarrow> a_open A (cipher ctx) (nonce_at A (base_nonce ctx) (seq ctx)) aad ct = Err OpenError"
    and "fst (Context_open A ctx aad ct) = Err OpenError \<Longrightarrow> snd (Context_open A ctx aad ct) = ctx"
  using assms(2) by (simp_all add: Context_open_eq [OF nonce_range assms(1)] split: outcome.splits)

end


text \<open>The suite of the tests.\<close>

lemma x25519_chacha_suite:
  assumes "x25519_lib_ok L" and "hkdf_lib_ok H 32" and "rng_ok R" and "aead_lib_ok C 32 p_max"
  shows "hpke_auth_sealing_suite (DhKem (X25519 L H R)) (DhKem_pair (X25519 L H R) (x25519_pair L))
     (HkdfSha256 H) (ChaCha20Poly1305 C) True p_max"
  by (rule dhkem_suite [where G = H and C = C, OF x25519_contract_True [OF assms(1-3)]])
    (simp_all add: registered_kdfs_def registered_aeads_def const_simps assms(2,4))

lemma x25519_chacha_started:
  assumes "x25519_lib_ok L" and "hkdf_lib_ok H 32" and "rng_ok R" and "aead_lib_ok C 32 p_max"
    and "reaches (DhKem (X25519 L H R))"
  obtains sk pk enc ctx where "fst (k_generate (DhKem (X25519 L H R)) r) = Ok (sk, pk)"
    and "fst (setup_sender_base (DhKem (X25519 L H R)) (HkdfSha256 H) (ChaCha20Poly1305 C)
           (snd (k_generate (DhKem (X25519 L H R)) r)) pk info) = Ok (enc, SenderContext ctx)"
    and "setup_receiver_base (DhKem (X25519 L H R)) (HkdfSha256 H) (ChaCha20Poly1305 C) enc sk info
           = Ok (ReceiverContext ctx)"
    and "context_wf ctx" and "seq ctx = 0"
proof -
  let ?K = "DhKem (X25519 L H R)"
  obtain sk pk where g: "fst (k_generate ?K r) = Ok (sk, pk)" and made: "kem_made ?K sk pk"
    and enc: "\<And>r. is_ok (fst (k_encap ?K r pk))"
    using assms(5) by (rule reachesE [of ?K r]) (rule that)
  have "hpke_suite ?K (DhKem_pair (X25519 L H R) (x25519_pair L)) (HkdfSha256 H) (ChaCha20Poly1305 C) True"
    using x25519_chacha_suite [OF assms(1-4)]
    by (simp add: hpke_auth_sealing_suite_def hpke_auth_suite_def)
  from hpke_suite.started_base [OF this TrueI made enc] g that show thesis by blast
qed

text \<open>
  The counter of the recipient is where the test says it is, so the test returns exactly if the
  cipher rejects each message under the nonce of the other.
\<close>

lemma failed_open_iff:
  fixes C :: "('c, 'n) aead_lib" and L :: "'s x25519_lib" and H :: "('x, 'h) hkdf_lib" and R :: "'r rng"
  defines "A \<equiv> ChaCha20Poly1305 C"
  assumes "x25519_lib_ok L" and "hkdf_lib_ok H 32" and "rng_ok R" and "aead_lib_ok C 32 p_max"
    and "reaches (DhKem (X25519 L H R))" and "5 \<le> p_max"
  shows "\<exists>ctx ct0 ct1. seq ctx = 0
     \<and> Context_seal A ctx (ascii ''aad'') (ascii ''m0'') = (Ok ct0, ctx\<lparr>seq := 1\<rparr>)
     \<and> Context_seal A (ctx\<lparr>seq := 1\<rparr>) (ascii ''aad'') (ascii ''m1'') = (Ok ct1, ctx\<lparr>seq := 2\<rparr>)
     \<and> failed_open_preserves_sequence_and_replay_is_rejected L H C R r =
         in_order
           [assert_that (a_open A (cipher ctx) (nonce_at A (base_nonce ctx) 0) (ascii ''aad'') ct1 = Err OpenError),
            assert_that (a_open A (cipher ctx) (nonce_at A (base_nonce ctx) 1) (ascii ''aad'') ct0 = Err OpenError)]"
proof -
  let ?aad = "ascii ''aad''"
  obtain sk pk enc ctx where st:
    "fst (k_generate (DhKem (X25519 L H R)) r) = Ok (sk, pk)"
    "fst (setup_sender_base (DhKem (X25519 L H R)) (HkdfSha256 H) A
       (snd (k_generate (DhKem (X25519 L H R)) r)) pk (ascii ''info'')) = Ok (enc, SenderContext ctx)"
    "setup_receiver_base (DhKem (X25519 L H R)) (HkdfSha256 H) A enc sk (ascii ''info'') = Ok (ReceiverContext ctx)"
    and wf: "context_wf ctx" and s0: "seq ctx = 0"
    by (rule x25519_chacha_started [OF assms(2-6), of r "ascii ''info''", folded A_def]) (rule that)
  have aead: "sealing_aead_contract A True p_max"
    unfolding A_def by (rule registered_aead_contract [where C = C])
      (simp_all add: registered_aeads_def const_simps assms(5))
  have p: "length ?aad \<le> p_max" "length (ascii ''m0'') \<le> p_max" "length (ascii ''m1'') \<le> p_max"
    using assms(7) by simp_all
  obtain ct0 ct1 where c:
    "Context_seal A ctx ?aad (ascii ''m0'') = (Ok ct0, ctx\<lparr>seq := 1\<rparr>)"
    "Context_seal A (ctx\<lparr>seq := 1\<rparr>) ?aad (ascii ''m1'') = (Ok ct1, ctx\<lparr>seq := 2\<rparr>)"
    "Context_open A ctx ?aad ct0 = (Ok (ascii ''m0''), ctx\<lparr>seq := 1\<rparr>)"
    "Context_open A (ctx\<lparr>seq := 1\<rparr>) ?aad ct1 = (Ok (ascii ''m1''), ctx\<lparr>seq := 2\<rparr>)"
    by (rule sealing_aead_contract.two_seals [OF aead TrueI wf s0 p])
  have ne: "seq ctx \<noteq> u64_MAX" "seq (ctx\<lparr>seq := 1\<rparr>) \<noteq> u64_MAX" and wf1: "context_wf (ctx\<lparr>seq := 1\<rparr>)"
    using s0 wf by (simp_all add: u64_MAX_def context_wf_def)
  obtain r1 x1 where o1: "Context_open A ctx ?aad ct1 = (r1, x1)" by (cases "Context_open A ctx ?aad ct1")
  obtain r3 x3 where o3: "Context_open A (ctx\<lparr>seq := 1\<rparr>) ?aad ct0 = (r3, x3)"
    by (cases "Context_open A (ctx\<lparr>seq := 1\<rparr>) ?aad ct0")
  note rej = sealing_aead_contract.rejected_iff [OF aead wf ne(1), of ?aad ct1]
    sealing_aead_contract.rejected_iff [OF aead wf1 ne(2), of ?aad ct0]
  have "failed_open_preserves_sequence_and_replay_is_rejected L H C R r =
      in_order [assert_that (r1 = Err OpenError), assert_that (r3 = Err OpenError)]"
    using rej(2,4) o1 o3 unfolding failed_open_preserves_sequence_and_replay_is_rejected_def Let_def
      A_def [symmetric] unwrap_with_Ok [OF st(1)]
    by (cases "r1 = Err OpenError"; cases "r3 = Err OpenError")
      (simp_all add: unwrap_with_Ok [OF st(2)] st(3) c del: DhKem_simps)
  moreover have "r1 = Err OpenError \<longleftrightarrow> a_open A (cipher ctx) (nonce_at A (base_nonce ctx) 0) ?aad ct1 = Err OpenError"
    "r3 = Err OpenError \<longleftrightarrow> a_open A (cipher ctx) (nonce_at A (base_nonce ctx) 1) ?aad ct0 = Err OpenError"
    using rej(1,3) o1 o3 s0 by simp_all
  ultimately show ?thesis
    using s0 c(1,2) by (intro exI [of _ ctx] exI [of _ ct0] exI [of _ ct1]) (simp only: simp_thms)
qed

lemma consecutive_seals_iff:
  fixes C :: "('c, 'n) aead_lib" and L :: "'s x25519_lib" and H :: "('x, 'h) hkdf_lib" and R :: "'r rng"
  defines "A \<equiv> ChaCha20Poly1305 C"
  assumes "x25519_lib_ok L" and "hkdf_lib_ok H 32" and "rng_ok R" and "aead_lib_ok C 32 p_max"
    and "reaches (DhKem (X25519 L H R))" and "14 \<le> p_max"
  shows "\<exists>ctx a b. seq ctx = 0
     \<and> Context_seal A ctx (ascii ''aad'') (ascii ''same plaintext'') = (Ok a, ctx\<lparr>seq := 1\<rparr>)
     \<and> Context_seal A (ctx\<lparr>seq := 1\<rparr>) (ascii ''aad'') (ascii ''same plaintext'') = (Ok b, ctx\<lparr>seq := 2\<rparr>)
     \<and> consecutive_seals_never_repeat_a_nonce L H C R r = assert_that (a \<noteq> b)"
proof -
  let ?aad = "ascii ''aad''" and ?pt = "ascii ''same plaintext''"
  obtain sk pk enc ctx where st:
    "fst (k_generate (DhKem (X25519 L H R)) r) = Ok (sk, pk)"
    "fst (setup_sender_base (DhKem (X25519 L H R)) (HkdfSha256 H) A
       (snd (k_generate (DhKem (X25519 L H R)) r)) pk (ascii ''info'')) = Ok (enc, SenderContext ctx)"
    "setup_receiver_base (DhKem (X25519 L H R)) (HkdfSha256 H) A enc sk (ascii ''info'') = Ok (ReceiverContext ctx)"
    and wf: "context_wf ctx" and s0: "seq ctx = 0"
    by (rule x25519_chacha_started [OF assms(2-6), of r "ascii ''info''", folded A_def]) (rule that)
  have aead: "sealing_aead_contract A True p_max"
    unfolding A_def by (rule registered_aead_contract [where C = C])
      (simp_all add: registered_aeads_def const_simps assms(5))
  have p: "length ?aad \<le> p_max" "length ?pt \<le> p_max" using assms(7) by simp_all
  obtain a b where c:
    "Context_seal A ctx ?aad ?pt = (Ok a, ctx\<lparr>seq := 1\<rparr>)"
    "Context_seal A (ctx\<lparr>seq := 1\<rparr>) ?aad ?pt = (Ok b, ctx\<lparr>seq := 2\<rparr>)"
    "Context_open A ctx ?aad a = (Ok ?pt, ctx\<lparr>seq := 1\<rparr>)"
    "Context_open A (ctx\<lparr>seq := 1\<rparr>) ?aad b = (Ok ?pt, ctx\<lparr>seq := 2\<rparr>)"
    by (rule sealing_aead_contract.two_seals [OF aead TrueI wf s0 p(1,2,2)])
  have "consecutive_seals_never_repeat_a_nonce L H C R r = assert_that (a \<noteq> b)"
    unfolding consecutive_seals_never_repeat_a_nonce_def Let_def
      A_def [symmetric] unwrap_with_Ok [OF st(1)]
    by (cases "a = b") (simp_all add: unwrap_with_Ok [OF st(2)] st(3) c del: DhKem_simps)
  then show ?thesis using s0 c(1,2) by blast
qed


text \<open>
  With the right PSK the message opens and malformed PSKs are refused; the test returns exactly if
  the two wrong PSKs are refused. They differ from the right one, so by C32 a key schedule that
  gave them the same key would exhibit a collision.
\<close>

lemma negative_psk_iff:
  assumes "seals_and_opens K F A p_max" and "reaches K" and "6 \<le> p_max"
  shows "\<exists>sk enc ct. (let psk = \<lparr> psk_secret = replicate 32 0x11, psk_id = ascii ''id'' \<rparr>;
        open_with = (\<lambda>psk. open_psk K F A enc sk (ascii ''info'') (ascii ''aad'') ct psk)
      in open_with psk = Ok (ascii ''secret'')
       \<and> negative_psk K F A r =
           in_order
             [assert_that (open_with (psk\<lparr>psk_secret := replicate 32 0x22\<rparr>) = Err OpenError),
              assert_that (open_with (psk\<lparr>psk_id := ascii ''id-x''\<rparr>) = Err OpenError)])"
proof -
  obtain sk pk where g: "fst (k_generate K r) = Ok (sk, pk)" and made: "kem_made K sk pk"
    and enc: "\<And>r. is_ok (fst (k_encap K r pk))"
    using assms(2) by (rule reachesE [of K r]) (rule that)
  let ?psk = "\<lparr> psk_secret = replicate 32 0x11, psk_id = ascii ''id'' \<rparr> :: Psk"
  have idx: "Psk_new (replicate 32 0x11) (ascii ''id-x'')
      = Ok \<lparr> psk_secret = replicate 32 0x11, psk_id = ascii ''id-x'' \<rparr>"
    by (simp add: Psk_new_def MIN_PSK_LEN_def ascii_Cons)
  have bad: "Psk_new (ascii '''') (ascii '''') = Err MissingPsk" "Psk_new (replicate 32 0x11) (ascii '''') = Err InconsistentPsk"
    "Psk_new (ascii '''') (ascii ''id'') = Err InconsistentPsk" "Psk_new (replicate 31 0) (ascii ''id'') = Err InsecurePsk"
    by (simp_all add: Psk_new_def MIN_PSK_LEN_def ascii_Cons ascii_Nil)
  from seal_open_okD [OF seals_and_opensD(2) [OF assms(1) made] enc, of "ascii ''secret''" "ascii ''aad''"
      "snd (k_generate K r)" "ascii ''info''" ?psk] assms(3)
  obtain enc ct where s: "fst (seal_psk K F A (snd (k_generate K r)) pk (ascii ''info'') (ascii ''aad'')
        (ascii ''secret'') ?psk) = Ok (enc, ct)"
      "open_psk K F A enc sk (ascii ''info'') (ascii ''aad'') ct ?psk = Ok (ascii ''secret'')" by auto
  have "negative_psk K F A r =
      in_order
        [assert_that (open_psk K F A enc sk (ascii ''info'') (ascii ''aad'') ct (?psk\<lparr>psk_secret := replicate 32 0x22\<rparr>)
           = Err OpenError),
         assert_that (open_psk K F A enc sk (ascii ''info'') (ascii ''aad'') ct (?psk\<lparr>psk_id := ascii ''id-x''\<rparr>)
           = Err OpenError)]"
    unfolding negative_psk_def unwrap_with_Ok [OF g]
    by (simp add: Let_def Psk_new_test idx bad unwrap_with_Ok [OF s(1)] s(2))
  with s(2) show ?thesis by (auto simp: Let_def)
qed

text \<open>Lengths up to \<open>255 * Nh\<close> are served and one more is refused; the rest is separation of hashes.\<close>

lemma receiver_export_served:
  assumes "hpke_suite K pair F A True" and "k_decap K enc sk = Ok ss"
  shows "n \<le> 255 * f_HASH_LEN F \<Longrightarrow> \<exists>out. receiver_export_base K F A enc sk info ectx n = Ok out \<and> length out = n"
    and "255 * f_HASH_LEN F < n \<Longrightarrow> receiver_export_base K F A enc sk info ectx n = Err ExportLengthExceeded"
proof -
  have ks: "key_schedule_suite F A True" using assms(1) by (simp add: hpke_suite_def)
  from key_schedule_suite.psk_free_total(2) [OF this TrueI] obtain ctx where
    ctx: "key_schedule_psk_free BaseModeTag K F A (k_ss_as_ref K ss) info = Ok ctx"
      "length (exporter_secret ctx) = f_HASH_LEN F" by blast
  then have "receiver_export_base K F A enc sk info ectx n = Context_export K F A ctx ectx n"
    by (simp add: one_shot_eq setup_eq one_shot_receiver_export_def receiver_setup_def assms(2))
  with key_schedule_suite.export_cases [OF ks TrueI ctx(2)]
  show "n \<le> 255 * f_HASH_LEN F \<Longrightarrow> \<exists>out. receiver_export_base K F A enc sk info ectx n = Ok out \<and> length out = n"
    and "255 * f_HASH_LEN F < n \<Longrightarrow> receiver_export_base K F A enc sk info ectx n = Err ExportLengthExceeded"
    by simp_all
qed


lemma export_is_separated_iff:
  assumes "x25519_lib_ok L" and "hkdf_lib_ok H 32" and "rng_ok R" and "reaches (DhKem (X25519 L H R))"
  shows "\<exists>enc sk base other_ctx other_info short.
    (let recv = receiver_export_base (DhKem (X25519 L H R)) (HkdfSha256 H) ExportOnly enc sk
     in recv (ascii ''info'') (ascii ''ctx'') 32 = Ok base
      \<and> recv (ascii ''info'') (ascii ''ctx-x'') 32 = Ok other_ctx
      \<and> recv (ascii ''info-x'') (ascii ''ctx'') 32 = Ok other_info
      \<and> recv (ascii ''info'') (ascii ''ctx'') 16 = Ok short)
      \<and> export_is_separated_by_context_info_and_length L H R r =
          in_order [assert_that (base \<noteq> other_ctx), assert_that (base \<noteq> other_info),
            assert_that (short \<noteq> take 16 base)]"
proof -
  let ?K = "DhKem (X25519 L H R)" and ?F = "HkdfSha256 H" and ?D = "X25519 L H R"
  have auth: "auth_kem_contract ?K (DhKem_pair ?D (x25519_pair L)) True"
    by (rule dhkem_auth_kem_contract [OF x25519_contract_True [OF assms(1-3)]])
  then have kem: "kem_contract ?K (DhKem_pair ?D (x25519_pair L)) True" by (simp add: auth_kem_contract_def)
  have "key_schedule_suite ?F ExportOnly True"
    using registered_kdf_contract [of ?F H] assms(2) export_only.aead_contract_axioms
    by (simp add: key_schedule_suite_def registered_kdfs_def const_simps)
  with kem have suite: "hpke_suite ?K (DhKem_pair ?D (x25519_pair L)) ?F ExportOnly True"
    by (simp add: hpke_suite_def)
  obtain sk pk where g: "fst (k_generate ?K r) = Ok (sk, pk)" and made: "kem_made ?K sk pk"
    and ok: "\<And>r. is_ok (fst (k_encap ?K r pk))"
    using assms(4) by (rule reachesE [of ?K r]) (rule that)
  define r1 where "r1 = snd (k_generate ?K r)"
  obtain ss enc r2 where e: "k_encap ?K r1 pk = (Ok (ss, enc), r2)"
    using ok [of r1] by (cases "k_encap ?K r1 pk"; cases "fst (k_encap ?K r1 pk)") auto
  have dec: "k_decap ?K enc sk = Ok ss"
    by (rule kem_contract.decap_encap [OF kem TrueI kem_contract.made_pair [OF kem TrueI made] e])
  have nh: "f_HASH_LEN ?F = 32" by (simp add: const_simps)
  note served = receiver_export_served [OF suite dec, unfolded nh]
  let ?recv = "receiver_export_base ?K ?F ExportOnly enc sk"
  obtain base where b: "?recv (ascii ''info'') (ascii ''ctx'') 32 = Ok base" "length base = 32"
    using served(1) [of 32 "ascii ''info''" "ascii ''ctx''"] by auto
  obtain other_ctx where c: "?recv (ascii ''info'') (ascii ''ctx-x'') 32 = Ok other_ctx"
    using served(1) [of 32 "ascii ''info''" "ascii ''ctx-x''"] by auto
  obtain other_info where i: "?recv (ascii ''info-x'') (ascii ''ctx'') 32 = Ok other_info"
    using served(1) [of 32 "ascii ''info-x''" "ascii ''ctx''"] by auto
  obtain short where s: "?recv (ascii ''info'') (ascii ''ctx'') 16 = Ok short"
    using served(1) [of 16 "ascii ''info''" "ascii ''ctx''"] by auto
  have top: "is_ok (?recv (ascii ''info'') (ascii ''ctx'') 8160)"
    "?recv (ascii ''info'') (ascii ''ctx'') 8161 = Err ExportLengthExceeded"
    using served(1) [of 8160 "ascii ''info''" "ascii ''ctx''"] served(2) [of 8161 "ascii ''info''" "ascii ''ctx''"]
    by auto
  have sent: "fst (send_export_base ?K ?F ExportOnly r1 pk (ascii ''info'') (ascii ''ctx'') 32) = Ok (enc, base)"
    using b(1) by (auto simp: one_shot_eq setup_eq one_shot_send_export_def sender_setup_def e
        one_shot_receiver_export_def receiver_setup_def dec outcome_simps simp del: DhKem_simps)
  have "export_is_separated_by_context_info_and_length L H R r =
      in_order [assert_that (base \<noteq> other_ctx), assert_that (base \<noteq> other_info),
        assert_that (short \<noteq> take 16 base)]"
    unfolding export_is_separated_by_context_info_and_length_def Let_def unwrap_with_Ok [OF g]
    by (simp add: r1_def [symmetric] unwrap_with_Ok [OF sent] c i s top b(2) slice_to_def del: DhKem_simps)
  with b(1) c i s show ?thesis unfolding Let_def by blast
qed


end
