(* ===== verification/Hpke_Kat.thy ===== *)
theory Hpke_Kat
  imports Hpke_Suite_Tests Hpke_Every_Kem
begin

text \<open>
  The known-answer tests of \<open>tests/kat.rs\<close>: the vector format, the runners and the macros that
  select vectors. The crate \<open>hex\<close> is a parameter, the list of vectors stands for the JSON files.
  The abstract specification is a vector that the pseudo-code of RFC 9180 computes; the theorem is
  that a test passes exactly when the vectors it selects are such.
\<close>

section \<open>The vectors\<close>

record CiphertextKAT =
  v_aad :: string
  v_ct :: string
  v_pt :: string

record ExportsKAT =
  v_exporter_context :: string
  v_L :: nat
  v_exported_value :: string

record HpkeTestVector =
  v_mode :: u8
  v_kem_id :: u16
  v_kdf_id :: u16
  v_aead_id :: u16
  v_info :: string
  v_ikmR :: string
  v_ikmS :: "string option"
  v_ikmE :: string
  v_skRm :: string
  v_psk :: "string option"
  v_psk_id :: "string option"
  v_pkRm :: string
  v_pkEm :: string
  v_enc :: string
  v_shared_secret :: string
  v_key :: string
  v_base_nonce :: string
  v_exporter_secret :: string
  v_encryptions :: "CiphertextKAT list"
  v_exports :: "ExportsKAT list"

text \<open>\<open>hex::decode\<close>, from the crate \<open>hex\<close>.\<close>

type_synonym hex = "string \<Rightarrow> bytes option"




section \<open>The runners\<close>
















section \<open>The specification of a vector\<close>

text \<open>A vector with its hexadecimal strings decoded.\<close>

record kat =
  w_mode :: u8
  w_info :: bytes
  w_ikmR :: bytes
  w_ikmS :: bytes
  w_ikmE :: bytes
  w_skRm :: bytes
  w_psk :: bytes
  w_psk_id :: bytes
  w_pkRm :: bytes
  w_pkEm :: bytes
  w_enc :: bytes
  w_shared_secret :: bytes
  w_key :: bytes
  w_base_nonce :: bytes
  w_exporter_secret :: bytes
  w_encryptions :: "(bytes \<times> bytes \<times> bytes) list"
  w_exports :: "(bytes \<times> nat \<times> bytes) list"

definition decodes_to :: "hex \<Rightarrow> string \<Rightarrow> bytes \<Rightarrow> bool" where
  "decodes_to hx s b \<longleftrightarrow> hx s = Some b"

definition opt_decodes_to :: "hex \<Rightarrow> string option \<Rightarrow> bytes \<Rightarrow> bool" where
  "opt_decodes_to hx s b \<longleftrightarrow> (if s = None \<or> s = Some [] then b = [] else decodes_to hx (the s) b)"

definition export_decodes :: "hex \<Rightarrow> ExportsKAT \<Rightarrow> bytes \<times> nat \<times> bytes \<Rightarrow> bool" where
  "export_decodes hx ex = (\<lambda>(ectx, n, x). decodes_to hx (v_exporter_context ex) ectx \<and> n = v_L ex
     \<and> decodes_to hx (v_exported_value ex) x)"


text \<open>What the runners of all modes decode; then what one kind of runner decodes besides.\<close>

definition kat_decodes :: "hex \<Rightarrow> HpkeTestVector \<Rightarrow> kat \<Rightarrow> bool" where
  "kat_decodes hx v w \<longleftrightarrow> w_mode w = v_mode v
     \<and> decodes_to hx (v_info v) (w_info w) \<and> decodes_to hx (v_ikmR v) (w_ikmR w)
     \<and> opt_decodes_to hx (v_psk v) (w_psk w) \<and> opt_decodes_to hx (v_psk_id v) (w_psk_id w)
     \<and> decodes_to hx (v_enc v) (w_enc w) \<and> decodes_to hx (v_key v) (w_key w)
     \<and> decodes_to hx (v_base_nonce v) (w_base_nonce w)
     \<and> decodes_to hx (v_exporter_secret v) (w_exporter_secret w)"

definition kat_base_decodes :: "hex \<Rightarrow> HpkeTestVector \<Rightarrow> kat \<Rightarrow> bool" where
  "kat_base_decodes hx v w \<longleftrightarrow> kat_decodes hx v w
     \<and> decodes_to hx (v_pkRm v) (w_pkRm w) \<and> decodes_to hx (v_skRm v) (w_skRm w)
     \<and> decodes_to hx (v_ikmE v) (w_ikmE w) \<and> decodes_to hx (v_pkEm v) (w_pkEm w)
     \<and> decodes_to hx (v_shared_secret v) (w_shared_secret w)
     \<and> list_all2 (export_decodes hx) (v_exports v) (w_exports w)"

definition kat_auth_decodes :: "hex \<Rightarrow> HpkeTestVector \<Rightarrow> kat \<Rightarrow> bool" where
  "kat_auth_decodes hx v w \<longleftrightarrow> kat_decodes hx v w
     \<and> v_ikmS v \<noteq> None \<and> decodes_to hx (the (v_ikmS v)) (w_ikmS w)"


definition kat_context :: "kat \<Rightarrow> rfc_context" where
  "kat_context w = \<lparr> rfc_key = w_key w, rfc_base_nonce = w_base_nonce w, rfc_seq = 0,
     rfc_exporter_secret = w_exporter_secret w \<rparr>"

definition rfc_schedule_recorded ::
    "('r, 'pk, 'sk, 'z) dh_core_scheme \<Rightarrow> kdf \<Rightarrow> ('c, 'y) aead_scheme \<Rightarrow> kat \<Rightarrow> bytes \<Rightarrow> bool" where
  "rfc_schedule_recorded D F A w ss \<longleftrightarrow>
     (let ks = rfc_KeySchedule F (rfc_hpke_suite_id D F A) (a_KEY_LEN A) (a_NONCE_LEN A)
      in if w_mode w = 0 then ks mode_base ss (w_info w) [] [] = Ok (kat_context w)
         else if w_mode w = 2 then ks mode_auth ss (w_info w) [] [] = Ok (kat_context w)
         else 32 \<le> length (w_psk w)
           \<and> ks (if w_mode w = 1 then mode_psk else mode_auth_psk) ss (w_info w) (w_psk w) (w_psk_id w)
               = Ok (kat_context w))"

definition rfc_exports_recorded ::
    "('r, 'pk, 'sk, 'z) dh_core_scheme \<Rightarrow> kdf \<Rightarrow> ('c, 'y) aead_scheme \<Rightarrow> kat \<Rightarrow> bool" where
  "rfc_exports_recorded D F A w \<longleftrightarrow>
     (\<forall>(ectx, n, x) \<in> set (w_exports w). rfc_Export F (rfc_hpke_suite_id D F A) (kat_context w) ectx n = Ok x)"


text \<open>
  A vector of the modes Base and PSK, and one of the authenticated modes. \<open>skRm\<close> is compared
  as a key and not as bytes, since the crate stores the scalars of X25519 and X448 clamped.
\<close>

definition rfc_vector ::
    "('r, 'pk, 'sk, ('pk, 'sk, 'z) dh_ext) dh_core_scheme \<Rightarrow> kdf \<Rightarrow> ('c, 'y) aead_scheme \<Rightarrow> kat \<Rightarrow> bool" where
  "rfc_vector D F A w \<longleftrightarrow> (w_mode w = 0 \<or> w_mode w = 1)
     \<and> (case d_derive D (w_ikmR w) of Ok (skR, pkR) \<Rightarrow>
          w_pkRm w = d_pk_to_bytes D pkR
        \<and> map_ok (d_sk_to_bytes D) (d_sk_from_bytes D (w_skRm w)) = Ok (d_sk_to_bytes D skR)
        \<and> rfc_Decap D (w_enc w) skR = Ok (w_shared_secret w) | _ \<Rightarrow> False)
     \<and> map_ok (\<lambda>(skE, pkE). d_pk_to_bytes D pkE) (d_derive D (w_ikmE w)) = Ok (w_pkEm w)
     \<and> length (w_enc w) = d_PUBLIC_KEY_LEN D
     \<and> rfc_schedule_recorded D F A w (w_shared_secret w) \<and> rfc_exports_recorded D F A w"

definition rfc_auth_vector ::
    "('r, 'pk, 'sk, ('pk, 'sk, 'z) dh_ext) dh_core_scheme \<Rightarrow> kdf \<Rightarrow> ('c, 'y) aead_scheme \<Rightarrow> kat \<Rightarrow> bool" where
  "rfc_auth_vector D F A w \<longleftrightarrow> (w_mode w = 2 \<or> w_mode w = 3)
     \<and> length (w_enc w) = d_PUBLIC_KEY_LEN D
     \<and> (case (d_derive D (w_ikmR w), d_derive D (w_ikmS w)) of
          (Ok (skR, pkR), Ok (skS, pkS)) \<Rightarrow>
            (case rfc_AuthDecap D (w_enc w) skR pkS of
               Ok ss \<Rightarrow> rfc_schedule_recorded D F A w ss | _ \<Rightarrow> False)
        | _ \<Rightarrow> False)"

section \<open>What a runner computes\<close>



lemma unwrap_with_Ok_iff [outcome_simps]:
  "unwrap_with out k = Ok y \<longleftrightarrow> (\<exists>x s. out = (Ok x, s) \<and> k x s = Ok y)"
  by (cases out; cases "fst out") (auto simp: unwrap_with_def)




text \<open>The ciphertexts, each under the nonce of its number.\<close>

definition opens_at ::
    "('c, ('c, 'y) sealing_aead_ext) aead_scheme \<Rightarrow> 'c Context \<Rightarrow> nat \<Rightarrow> bytes \<times> bytes \<times> bytes \<Rightarrow> bool" where
  "opens_at A ctx i = (\<lambda>(aad, ct, pt). i < 2 ^ 64 - 1
     \<and> a_open A (cipher ctx) (nonce_at A (base_nonce ctx) (word_of_nat i)) aad ct = Ok pt)"

lemma opens_at_seq [simp]: "opens_at A (ctx\<lparr>seq := n\<rparr>) = opens_at A ctx"
  by (simp add: opens_at_def fun_eq_iff)



text \<open>The key schedule of a vector, for any shared secret.\<close>

definition kat_schedule ::
    "('r, 'pk, 'sk, 'enc, 'ss, 'z) kem_scheme \<Rightarrow> kdf \<Rightarrow> ('c, 'y) aead_scheme \<Rightarrow> kat \<Rightarrow> bytes \<Rightarrow>
     'c Context res" where
  "kat_schedule K F A w s =
     (if w_mode w = 0 \<or> w_mode w = 2 then derive_context (w_mode w) K F A s (w_info w) [] []
      else if psk_valid \<lparr> psk_secret = w_psk w, psk_id = w_psk_id w \<rparr>
      then derive_context (w_mode w) K F A s (w_info w) (w_psk w) (w_psk_id w) else Panic)"




lemma assert_that_Ok_iff [outcome_simps]: "assert_that c = Ok x \<longleftrightarrow> c"
  by (simp add: assert_that_def)







section \<open>The runners accept the vectors of the RFC\<close>















text \<open>The ciphertexts of a vector do not matter to the rest of it.\<close>

lemma encryptions_irrelevant [simp]:
  "kat_context (w\<lparr>w_encryptions := ds\<rparr>) = kat_context w"
  "kat_decodes hx v (w\<lparr>w_encryptions := ds\<rparr>) = kat_decodes hx v w"
  "kat_base_decodes hx v (w\<lparr>w_encryptions := ds\<rparr>) = kat_base_decodes hx v w"
  "kat_auth_decodes hx v (w\<lparr>w_encryptions := ds\<rparr>) = kat_auth_decodes hx v w"
  "rfc_schedule_recorded D F A (w\<lparr>w_encryptions := ds\<rparr>) = rfc_schedule_recorded D F A w"
  "rfc_exports_recorded D F A (w\<lparr>w_encryptions := ds\<rparr>) = rfc_exports_recorded D F A w"
  "rfc_vector D F A (w\<lparr>w_encryptions := ds\<rparr>) = rfc_vector D F A w"
  "rfc_auth_vector D F A (w\<lparr>w_encryptions := ds\<rparr>) = rfc_auth_vector D F A w"
  "kat_schedule K F A (w\<lparr>w_encryptions := ds\<rparr>) = kat_schedule K F A w"
  by (simp_all add: kat_context_def kat_decodes_def kat_base_decodes_def kat_auth_decodes_def
      rfc_schedule_recorded_def rfc_exports_recorded_def rfc_vector_def rfc_auth_vector_def
      kat_schedule_def fun_eq_iff Let_def cong: outcome.case_cong)






section \<open>The authenticated runner\<close>








section \<open>The property\<close>





















end
