(* ===== verification/Hpke_Kem_Tests.thy ===== *)
theory Hpke_Kem_Tests
  imports Hpke_Unit_Tests
begin

text \<open>
  The unit tests inside \<open>src/kem/dh.rs\<close> and \<open>src/kem/pq.rs\<close>. The system generator
  is the state \<open>r\<close> of the generator parameter, so "it passes" is said of every state.

  A Diffie-Hellman test that unwraps an encapsulation passes exactly if that encapsulation does
  not meet an all-zero exchange; a test that asserts that derived keys differ passes exactly if
  they do. The lemmas state both as equivalences.
\<close>

section \<open>Keys of the Montgomery groups\<close>

definition x25519_rejects_small_order_zero_pk ::
    "'s x25519_lib \<Rightarrow> ('x, 'h) hkdf_lib \<Rightarrow> 'r rng \<Rightarrow> 'r \<Rightarrow> unit res" where
  "x25519_rejects_small_order_zero_pk L H R r =
     (let Suite = DhKem (X25519 L H R)
      in try_bind (unwrap (k_pk_from_bytes Suite (replicate 32 0))) (\<lambda>pk_zero.
           let (e, r') = k_encap Suite r pk_zero
           in assert_that (e = Err EncapError)))"

definition x448_sk_from_bytes_clamps_per_rfc7748 ::
    "('sc, 'pt) x448_lib \<Rightarrow> ('x, 'h) hkdf_lib \<Rightarrow> 'r rng \<Rightarrow> 'r \<Rightarrow> unit res" where
  "x448_sk_from_bytes_clamps_per_rfc7748 L H R r =
     (let D = X448 L H R;
          unclamped = (replicate 56 0x55)[0 := 0xFF, 55 := 0x55];
          clamped = unclamped[0 := unclamped ! 0 AND 0xFC];
          clamped = clamped[55 := clamped ! 55 OR 0x80]
      in try_bind (unwrap (d_sk_from_bytes D unclamped)) (\<lambda>sk_u.
         try_bind (unwrap (d_sk_from_bytes D clamped)) (\<lambda>sk_c.
         try_bind (assert_that (d_pk_as_ref D (d_sk_to_pk D sk_u) = d_pk_as_ref D (d_sk_to_pk D sk_c)))
           (\<lambda>_.
         let ((sk, pk_peer), r') = d_generate D r in
         try_bind (unwrap (d_dh D sk_u pk_peer)) (\<lambda>a.
         try_bind (unwrap (d_dh D sk_c pk_peer)) (\<lambda>b.
           assert_that (a = b)))))))"

definition x25519_pk_from_bytes_masks_high_bit ::
    "'s x25519_lib \<Rightarrow> ('x, 'h) hkdf_lib \<Rightarrow> 'r rng \<Rightarrow> 'r \<Rightarrow> unit res" where
  "x25519_pk_from_bytes_masks_high_bit L H R r =
     (let D = X25519 L H R; ((sk, pk_c), r') = d_generate D r
      in try_bind (copy_into 0 32 (d_pk_as_ref D pk_c) (replicate 32 0)) (\<lambda>tampered.
         try_bind (modify_at 31 (\<lambda>b. b OR 0x80) tampered) (\<lambda>tampered.
         try_bind (unwrap (d_pk_from_bytes D tampered)) (\<lambda>pk.
           assert_that (d_pk_as_ref D pk = d_pk_as_ref D pk_c)))))"

text \<open>\<open>assert_clamped\<close>, and the test that calls it.\<close>

definition assert_clamped :: "bytes \<Rightarrow> unit res" where
  "assert_clamped b =
     in_order
       [assert_that (b ! 0 AND 0x07 = 0), assert_that (b ! 31 AND 0x80 = 0),
        assert_that (b ! 31 AND 0x40 = 0x40)]"

definition x25519_sk_serialization_is_canonical ::
    "'s x25519_lib \<Rightarrow> ('x, 'h) hkdf_lib \<Rightarrow> 'r rng \<Rightarrow> 'r \<Rightarrow> unit res" where
  "x25519_sk_serialization_is_canonical L H R r =
     (let Suite = DhKem (X25519 L H R); (generated, r') = k_generate Suite r
      in try_bind (unwrap generated) (\<lambda>(sk_gen, _).
         let bytes_gen = k_sk_to_bytes Suite sk_gen in
         try_bind (assert_clamped bytes_gen) (\<lambda>_.
         try_bind (unwrap (k_derive_key_pair Suite (ascii ''hpke-ng x25519 canonical test'')))
           (\<lambda>(sk_drv, _).
         let bytes_drv = k_sk_to_bytes Suite sk_drv in
         try_bind (assert_clamped bytes_drv) (\<lambda>_.
         try_bind (unwrap (k_sk_from_bytes Suite bytes_gen)) (\<lambda>reloaded_gen.
         try_bind (assert_that (bytes_gen = k_sk_to_bytes Suite reloaded_gen)) (\<lambda>_.
         try_bind (unwrap (k_sk_from_bytes Suite bytes_drv)) (\<lambda>reloaded_drv.
           assert_that (bytes_drv = k_sk_to_bytes Suite reloaded_drv)))))))))"

section \<open>Derivation and exchange\<close>

definition extract_and_expand_pieces_matches_concat ::
    "'s x25519_lib \<Rightarrow> ('x, 'h) hkdf_lib \<Rightarrow> 'r rng \<Rightarrow> unit res" where
  "extract_and_expand_pieces_matches_concat L H R =
     (let D = X25519 L H R; dh1 = replicate 32 0x01; dh2 = replicate 32 0x02;
          dh_concat = dh1 @ dh2; kem_context = [ascii ''enc_bytes'', ascii ''pk_recipient'']
      in try_bind (unwrap (extract_and_expand D dh_concat kem_context)) (\<lambda>single.
         try_bind (unwrap (extract_and_expand_pieces D [dh1, dh2] kem_context)) (\<lambda>pieces.
           assert_that (single = pieces))))"

definition x25519_auth_encap_decap_roundtrip ::
    "'s x25519_lib \<Rightarrow> ('x, 'h) hkdf_lib \<Rightarrow> 'r rng \<Rightarrow> unit res" where
  "x25519_auth_encap_decap_roundtrip L H R =
     (let D = X25519 L H R; Suite = DhKem D
      in try_bind (unwrap (k_derive_key_pair Suite (ascii ''auth-test-recipient-ikm''))) (\<lambda>(sk_r, pk_r).
         try_bind (unwrap (k_derive_key_pair Suite (ascii ''auth-test-sender-ikm''))) (\<lambda>(sk_s, pk_s).
         try_bind (unwrap (auth_encap_with_ikm D pk_r sk_s (ascii ''auth-test-ephemeral-ikm'')))
           (\<lambda>(ss_enc, enc).
         try_bind (unwrap (k_auth_decap Suite enc sk_r pk_s)) (\<lambda>ss_dec.
           assert_that (k_ss_as_ref Suite ss_enc = k_ss_as_ref Suite ss_dec))))))"

text \<open>
  The macro \<open>sk_roundtrip_test!\<close> of \<open>pq.rs\<close>, over a KEM and the length of its seed,
  and the one of \<open>dh.rs\<close>, which takes a group and the length from the KEM.
\<close>

definition sk_roundtrip_test ::
    "('r, 'pk, 'sk, 'enc, 'ss, 'z) kem_scheme \<Rightarrow> nat \<Rightarrow> 'r \<Rightarrow> unit res" where
  "sk_roundtrip_test K seed_len r =
     (let (generated, r1) = k_generate K r
      in try_bind (unwrap generated) (\<lambda>(sk_r, pk_r).
         let sk_bytes = k_sk_to_bytes K sk_r in
         try_bind (assert_that (length sk_bytes = seed_len)) (\<lambda>_.
         try_bind (unwrap (k_sk_from_bytes K sk_bytes)) (\<lambda>sk_loaded.
         let (encapped, r2) = k_encap K r1 pk_r in
         try_bind (unwrap encapped) (\<lambda>(ss_e, enc).
         try_bind (unwrap (k_decap K enc sk_loaded)) (\<lambda>ss_d.
           assert_that (k_ss_as_ref K ss_e = k_ss_as_ref K ss_d)))))))"

definition dh_sk_roundtrip_test ::
    "('r, 'pk, 'sk, ('pk, 'sk, 'z) dh_ext) dh_core_scheme \<Rightarrow> 'r \<Rightarrow> unit res" where
  "dh_sk_roundtrip_test D r =
     (let Suite = DhKem D in sk_roundtrip_test Suite (k_PRIVATE_KEY_LEN Suite) r)"

section \<open>Parsing public keys on the SEC1 groups\<close>

text \<open>
  \<open>pk_rejection_test!\<close>; the compressed form \<open>to_sec1_point(true)\<close> of the curve crates
  is a parameter, its documented length an argument of the macro.
\<close>

definition pk_rejection_test ::
    "('r, 'p nist_pk, 'sk, 'z) dh_core_scheme \<Rightarrow> ('p \<Rightarrow> bytes) \<Rightarrow> nat \<Rightarrow> 'r \<Rightarrow> unit res" where
  "pk_rejection_test D to_sec1_compressed clen r =
     (let ((sk, pk), r') = d_generate D r; compressed = to_sec1_compressed (nist_pk_point pk)
      in in_order
        [assert_that (length compressed = clen),
         assert_that (case d_pk_from_bytes D compressed of Err InvalidPublicKey \<Rightarrow> True | _ \<Rightarrow> False)])"

definition p256_pk_from_bytes_rejects_wrong_length_and_tag ::
    "('r, 's, 'p) ec_lib \<Rightarrow> ('x, 'h) hkdf_lib \<Rightarrow> 'r \<Rightarrow> unit res" where
  "p256_pk_from_bytes_rejects_wrong_length_and_tag L H r =
     (let D = P256 L H;
          rejects = (\<lambda>b. assert_that (case d_pk_from_bytes D b of Err InvalidPublicKey \<Rightarrow> True | _ \<Rightarrow> False))
      in try_bind (in_order (map rejects [[], [0], replicate 64 0, replicate 66 0])) (\<lambda>_.
           let ((sk, pk), r') = d_generate D r;
               uncompressed = ec_to_sec1_uncompressed L (nist_pk_point pk)
           in in_order (map (\<lambda>tag. try_bind (modify_at 0 (\<lambda>_. tag) uncompressed) rejects) [0x06, 0x07])))"

section \<open>Post-quantum keys\<close>

definition xwing_derive_key_pair_roundtrip ::
    "('r, 'dk, 'ek) x_wing_lib \<Rightarrow> ('h, 'x) shake_lib \<Rightarrow> 'r rng \<Rightarrow> 'r \<Rightarrow> unit res" where
  "xwing_derive_key_pair_roundtrip L S R r =
     (let K = XWingDraft06 L S R
      in try_bind (unwrap (k_derive_key_pair K (ascii ''x-wing test ikm''))) (\<lambda>(sk_r, pk_r).
         let (encapped, r') = k_encap K r pk_r in
         try_bind (unwrap encapped) (\<lambda>(ss_e, enc).
         try_bind (unwrap (k_decap K enc sk_r)) (\<lambda>ss.
           assert_that (k_ss_as_ref K ss = k_ss_as_ref K ss_e)))))"

text \<open>The loop over the lengths, with the vector \<open>seen\<close> of the keys before.\<close>

fun distinct_lengths ::
    "('r, 'pk, 'sk, 'enc, 'ss, 'z) kem_scheme \<Rightarrow> bytes list \<Rightarrow> nat list \<Rightarrow> unit res" where
  "distinct_lengths K seen [] = Ok ()"
| "distinct_lengths K seen (len # lens) =
     try_bind (unwrap (k_derive_key_pair K (replicate len 0))) (\<lambda>(_, pk).
       let pk_vec = k_pk_as_ref K pk
       in try_bind (assert_that (pk_vec \<notin> set seen)) (\<lambda>_. distinct_lengths K (seen @ [pk_vec]) lens))"

definition ml_kem_derive_seed_test ::
    "('r, 'ek MlKemPublicKey, 'dk MlKemPrivateKey, 'enc, 'ss, 'z) kem_scheme \<Rightarrow> unit res" where
  "ml_kem_derive_seed_test K =
     (let ikm = map word_of_nat [0..<64]
      in try_bind (unwrap (k_derive_key_pair K ikm)) (\<lambda>(sk1, pk1).
         try_bind (unwrap (k_derive_key_pair K ikm)) (\<lambda>(_, pk2).
         try_bind (assert_that (k_pk_as_ref K pk1 = k_pk_as_ref K pk2)) (\<lambda>_.
         try_bind (assert_that (mk_seed sk1 \<noteq> ikm)) (\<lambda>_.
           distinct_lengths K [] [0, 1, 32, 63, 64, 65, 200])))))"

text \<open>\<open>zeroize_disables_decap_test!\<close>; \<open>seed\<close> is the field of the private key.\<close>

definition zeroize_disables_decap_test ::
    "('r, 'pk, 'sk, 'enc, 'ss, 'z) kem_scheme \<Rightarrow> ('sk \<Rightarrow> bytes) \<Rightarrow> 'r \<Rightarrow> unit res" where
  "zeroize_disables_decap_test K seed r =
     (let (generated, r1) = k_generate K r
      in try_bind (unwrap generated) (\<lambda>(sk_r, pk_r).
         let (encapped, r2) = k_encap K r1 pk_r in
         try_bind (unwrap encapped) (\<lambda>(_, enc).
         try_bind (k_sk_zeroize K sk_r) (\<lambda>sk_r.
         try_bind (assert_that (list_all (\<lambda>b. b = 0) (seed sk_r))) (\<lambda>_.
           assert_that (case k_decap K enc sk_r of Err DecapError \<Rightarrow> True | _ \<Rightarrow> False))))))"

section \<open>They pass: Diffie-Hellman\<close>

text \<open>
  The small-order test needs what RFC 7748 says of the point zero: every multiple of it is zero.
\<close>

lemma x25519_rejects_small_order_zero_pk_passes:
  assumes "x25519_lib_ok L" and "\<And>s. xs_diffie_hellman L s (replicate 32 0) = replicate 32 0"
  shows "x25519_rejects_small_order_zero_pk L H R r = Ok ()"
proof -
  have "d_pk_from_bytes (X25519 L H R) (replicate 32 0) = Ok (X25519PublicKeyWrap (replicate 32 0))"
    by (simp add: X25519_simps X25519_pk_from_bytes_def)
  moreover have "d_dh (X25519 L H R) sk (X25519PublicKeyWrap (replicate 32 0)) = Err EncapError" for sk
    by (simp add: X25519_simps X25519_dh_def Let_def x25519_lib_okD [OF assms(1)] assms(2))
  ultimately show ?thesis
    by (simp add: x25519_rejects_small_order_zero_pk_def Let_def DhKem_pk_from_bytes_def
        DhKem_encap_def encap_with_def split: prod.splits)
qed

text \<open>Both loads give the same clamped scalar, so only the exchange itself can fail the test.\<close>

lemma x448_clamps_iff:
  "x448_sk_from_bytes_clamps_per_rfc7748 L H R r =
     assert_that (is_ok (X448_dh L
       (X448PrivateKeyWrap (x448_clamp ((replicate 56 0x55)[0 := 0xFF, 55 := 0x55])))
       (snd (fst (X448_generate L R r)))))"
proof -
  define u :: bytes where "u = (replicate 56 0x55)[0 := 0xFF, 55 := 0x55]"
  let ?sk = "X448PrivateKeyWrap (x448_clamp u)"
  obtain sk pk r' where g: "X448_generate L R r = ((sk, pk), r')"
    by (metis prod.exhaust)
  have "length u = 56" by (simp add: u_def)
  then have load: "X448_sk_from_bytes u = Ok ?sk" "X448_sk_from_bytes (x448_clamp u) = Ok ?sk"
    by (simp_all add: X448_sk_from_bytes_def x448_clamp_idem)
  have clamped: "u[0 := u ! 0 AND 0xFC, 55 := u[0 := u ! 0 AND 0xFC] ! 55 OR 0x80] = x448_clamp u"
    by (simp add: x448_clamp_def Let_def)
  show ?thesis
    using g X448_failures(2) [of L ?sk pk]
    unfolding x448_sk_from_bytes_clamps_per_rfc7748_def Let_def u_def [symmetric] clamped X448_simps
    by (cases "X448_dh L ?sk pk") (simp_all add: load)
qed

lemma x25519_masks_high_bit_passes:
  assumes "x25519_lib_ok L"
  shows "x25519_pk_from_bytes_masks_high_bit L H R r = Ok ()"
proof -
  obtain s r' where "X25519_generate L R r =
      ((X25519PrivateKeyWrap s, X25519PublicKeyWrap (xp_from L s)), r')"
    by (cases "fill_bytes R r 32") (simp add: X25519_generate_def Let_def)
  moreover have "(b OR 0x80) AND 0x7F = b AND (0x7F :: u8)" for b
    by (simp add: bit.conj_disj_distrib2)
  ultimately show ?thesis
    using x25519_lib_okD(2,3) [OF assms, of s]
    by (simp add: x25519_pk_from_bytes_masks_high_bit_def Let_def X25519_simps modify_at_def
        copy_into_def splice_def X25519_pk_from_bytes_def)
qed

lemma assert_clamped_clamp: "length b = 32 \<Longrightarrow> assert_clamped (x25519_clamp b) = Ok ()"
  by (simp add: assert_clamped_def x25519_clamp_bits)

lemma x25519_canonical_passes:
  assumes "x25519_lib_ok L" and "hkdf_lib_ok H 32" and "rng_ok R"
  shows "x25519_sk_serialization_is_canonical L H R r = Ok ()"
proof -
  let ?D = "X25519 L H R"
  obtain bs r' where "fill_bytes R r 32 = (bs, r')" and len: "length bs = 32"
    using assms(3) by (metis rng_ok_def prod.collapse)
  then have gen: "d_generate ?D r = ((X25519PrivateKeyWrap (xs_from L (x25519_clamp bs)),
      X25519PublicKeyWrap (xp_from L (xs_from L (x25519_clamp bs)))), r')"
    by (simp add: X25519_simps X25519_generate_def Let_def)
  obtain ds where dlen: "length ds = 32" and drv: "d_derive ?D (ascii ''hpke-ng x25519 canonical test'')
      = Ok (X25519PrivateKeyWrap (xs_from L (x25519_clamp ds)),
          X25519PublicKeyWrap (xp_from L (xs_from L (x25519_clamp ds))))"
    using X25519_derive_ok [OF assms(2), of L R "ascii ''hpke-ng x25519 canonical test''"]
    by (auto simp: X25519_simps)
  have load: "d_sk_from_bytes ?D (x25519_clamp b) = Ok (X25519PrivateKeyWrap (xs_from L (x25519_clamp b)))"
    if "length b = 32" for b
    using that by (simp add: X25519_simps X25519_sk_from_bytes_def x25519_clamp_idem)
  have bytes: "d_sk_to_bytes ?D (X25519PrivateKeyWrap (xs_from L (x25519_clamp b))) = x25519_clamp b"
    if "length b = 32" for b
    using that by (simp add: X25519_simps x25519_lib_okD [OF assms(1)])
  show ?thesis
    by (simp add: x25519_sk_serialization_is_canonical_def Let_def DhKem_generate_def gen from_pair_def
        DhKem_derive_key_pair_def drv DhKem_sk_to_bytes_def DhKem_sk_from_bytes_def from_sk_def
        bytes load len dlen assert_clamped_clamp)
qed

lemma extract_and_expand_pieces_test_passes:
  assumes "x25519_lib_ok L" and "hkdf_lib_ok H 32" and "rng_ok R"
  shows "extract_and_expand_pieces_matches_concat L H R = Ok ()"
proof -
  note D = x25519_contract_True [OF assms]
  let ?ctx = "[ascii ''enc_bytes'', ascii ''pk_recipient'']"
  obtain ss where "extract_and_expand (X25519 L H R) (replicate 32 1 @ replicate 32 2) ?ctx = Ok ss"
    using dh_contract.extract_and_expand_ok [OF D TrueI, of ?ctx "replicate 32 1 @ replicate 32 2"] by auto
  moreover have "extract_and_expand_pieces (X25519 L H R) [replicate 32 1, replicate 32 2] ?ctx
      = extract_and_expand (X25519 L H R) (replicate 32 1 @ replicate 32 2) ?ctx"
    using dh_contract.extract_and_expand_pieces_eq [OF D TrueI, of "[replicate 32 1, replicate 32 2]" ?ctx]
    by simp
  ultimately show ?thesis
    by (simp add: extract_and_expand_pieces_matches_concat_def Let_def)
qed

text \<open>The authenticated exchange of two derived keys passes exactly if the sender's half succeeds.\<close>

lemma x25519_auth_roundtrip_iff:
  assumes "x25519_lib_ok L" and "hkdf_lib_ok H 32" and "rng_ok R"
  shows "\<exists>sk_r pk_r sk_s pk_s.
     DhKem_derive_key_pair (X25519 L H R) (ascii ''auth-test-recipient-ikm'') = Ok (sk_r, pk_r)
   \<and> DhKem_derive_key_pair (X25519 L H R) (ascii ''auth-test-sender-ikm'') = Ok (sk_s, pk_s)
   \<and> x25519_auth_encap_decap_roundtrip L H R = assert_that
       (is_ok (auth_encap_with_ikm (X25519 L H R) pk_r sk_s (ascii ''auth-test-ephemeral-ikm'')))"
proof -
  let ?D = "X25519 L H R" and ?e = "ascii ''auth-test-ephemeral-ikm''"
  note D = x25519_contract_True [OF assms]
  have derive: "\<exists>sk pk. DhKem_derive_key_pair ?D ikm = Ok (sk, pk)" for ikm
    using X25519_derive_ok [OF assms(2), of L R ikm]
    by (auto simp: DhKem_derive_key_pair_def X25519_simps)
  obtain sk_r pk_r where r: "DhKem_derive_key_pair ?D (ascii ''auth-test-recipient-ikm'') = Ok (sk_r, pk_r)"
    using derive by blast
  obtain sk_s pk_s where s: "DhKem_derive_key_pair ?D (ascii ''auth-test-sender-ikm'') = Ok (sk_s, pk_s)"
    using derive by blast
  have "dh_contract.key_pair ?D (x25519_pair L) sk_r pk_r" "dh_contract.key_pair ?D (x25519_pair L) sk_s pk_s"
    using dh_contract.made_key_pair [OF D TrueI] r s by blast+
  from dh_contract.ikm_exchange_outcome [OF D TrueI this, of ?e]
  have "\<exists>kp. d_derive ?D ?e = Ok kp \<Longrightarrow> kem_exchange_ok ?D (auth_encap_with_ikm ?D pk_r sk_s ?e)
      (\<lambda>enc. DhKem_auth_decap ?D enc sk_r pk_s)"
    by (auto simp: ikm_exchange_ok_def)
  moreover have "\<exists>kp. d_derive ?D ?e = Ok kp"
    using X25519_derive_ok [OF assms(2), of L R ?e] by (auto simp: X25519_simps)
  ultimately have "x25519_auth_encap_decap_roundtrip L H R
      = assert_that (is_ok (auth_encap_with_ikm ?D pk_r sk_s ?e))"
    using r s by (cases "auth_encap_with_ikm ?D pk_r sk_s ?e")
      (auto simp: x25519_auth_encap_decap_roundtrip_def Let_def kem_exchange_ok_def)
  with r s show ?thesis by blast
qed

section \<open>They pass: the round trip of private keys\<close>

text \<open>
  The macro over any KEM that keeps its contract and reloads its private keys: it passes exactly
  if the encapsulation does.
\<close>

context kem_contract
begin

lemma sk_roundtrip_test_iff:
  assumes "lawful" and gen: "k_generate K r = (Ok (sk, pk), r1)"
    and "length (k_sk_to_bytes K sk) = n" and "k_sk_from_bytes K (k_sk_to_bytes K sk) = Ok sk"
  shows "sk_roundtrip_test K n r = assert_that (is_ok (fst (k_encap K r1 pk)))"
proof (cases "k_encap K r1 pk")
  case (Pair e r2)
  with gen assms(3,4) decap_encap [OF assms(1) generate_pair [OF assms(1) gen], of r1] show ?thesis
    by (cases e) (auto simp: sk_roundtrip_test_def Let_def)
qed

end

lemma dh_sk_roundtrip_test_iff:
  assumes "dh_contract D True pair"
    and gen: "DhKem_generate D r = (Ok (sk, pk), r1)"
    and "\<And>s p. pair s p \<Longrightarrow> length (d_sk_to_bytes D s) = d_PRIVATE_KEY_LEN D"
  shows "dh_sk_roundtrip_test D r = assert_that (is_ok (fst (DhKem_encap D r1 pk)))"
proof -
  have kem: "kem_contract (DhKem D) (DhKem_pair D pair) True"
    using dhkem_auth_kem_contract [OF assms(1)] by (simp add: auth_kem_contract_def)
  have kp: "dh_contract.key_pair D pair sk pk"
    using dh_contract.made_key_pair [OF assms(1) TrueI] gen by blast
  then have "pair (dh_sk sk) (dh_pk pk)"
    by (simp add: dh_contract.key_pair_def [OF assms(1)])
  moreover have "k_sk_from_bytes (DhKem D) (k_sk_to_bytes (DhKem D) sk) = Ok sk"
    using dh_contract.sk_roundtrip [OF assms(1) TrueI kp] by simp
  ultimately show ?thesis
    using kem_contract.sk_roundtrip_test_iff [OF kem TrueI, of r sk pk r1 "d_PRIVATE_KEY_LEN D"] gen assms(3)
    by (simp add: dh_sk_roundtrip_test_def Let_def DhKem_sk_to_bytes_def)
qed

text \<open>The six instances of the macro, on every state of the generator.\<close>

definition sk_roundtrips ::
    "('r, 'pk, 'sk, ('pk, 'sk, 'z) dh_ext) dh_core_scheme \<Rightarrow> 'r \<Rightarrow> bool" where
  "sk_roundtrips D r \<longleftrightarrow> (\<exists>sk pk r1. DhKem_generate D r = (Ok (sk, pk), r1)
     \<and> dh_sk_roundtrip_test D r = assert_that (is_ok (fst (DhKem_encap D r1 pk))))"

lemma sk_roundtripsI:
  assumes "dh_contract D True pair"
    and "\<And>s p. pair s p \<Longrightarrow> length (d_sk_to_bytes D s) = d_PRIVATE_KEY_LEN D"
  shows "sk_roundtrips D r"
proof -
  obtain sk pk r1 where "DhKem_generate D r = (Ok (sk, pk), r1)"
    using DhKem_generate_total [of D r] by blast
  moreover from assms(1) this
  have "dh_sk_roundtrip_test D r = assert_that (is_ok (fst (DhKem_encap D r1 pk)))"
    by (rule dh_sk_roundtrip_test_iff) (rule assms(2))
  ultimately show ?thesis
    unfolding sk_roundtrips_def by blast
qed

lemma nist_sk_roundtrips:
  assumes "D \<in> registered_nist L H" and "ec_lib_ok L (d_PRIVATE_KEY_LEN D)"
    and "hkdf_lib_ok H (f_HASH_LEN (d_Kdf D))"
  shows "sk_roundtrips D r"
proof (rule sk_roundtripsI [OF registered_nist_contract [OF assms]])
  obtain P where D: "D = nist_curve L P"
    using assms(1) unfolding registered_nist_def P256_def P384_def P521_def K256_def by blast
  show "length (d_sk_to_bytes D s) = d_PRIVATE_KEY_LEN D" for s
    using ec_lib_okD(5) [OF assms(2)] by (simp add: D nist_simps)
qed

lemma montgomery_sk_roundtrips:
  assumes "rng_ok R"
  shows "x25519_lib_ok L \<Longrightarrow> hkdf_lib_ok H 32 \<Longrightarrow> sk_roundtrips (X25519 L H R) r"
    and "x448_lib_ok M \<Longrightarrow> hkdf_lib_ok G 64 \<Longrightarrow> sk_roundtrips (X448 M G R) r"
proof -
  assume L: "x25519_lib_ok L" and H: "hkdf_lib_ok H 32"
  show "sk_roundtrips (X25519 L H R) r"
    by (rule sk_roundtripsI [OF x25519_contract_True [OF L H assms]])
      (auto simp: X25519_simps x25519_pair_def x25519_lib_okD [OF L])
next
  assume M: "x448_lib_ok M" and G: "hkdf_lib_ok G 64"
  show "sk_roundtrips (X448 M G R) r"
    by (rule sk_roundtripsI [OF x448_contract_True [OF M G assms]])
      (simp add: X448_simps x448_pair_def)
qed

section \<open>They pass: parsing on the SEC1 groups\<close>

lemma pk_rejection_test_passes:
  assumes "D \<in> registered_nist L H" and "\<And>p. length (to_sec1_compressed p) = clen"
    and "clen \<noteq> d_PUBLIC_KEY_LEN D"
  shows "pk_rejection_test D to_sec1_compressed clen r = Ok ()"
proof -
  obtain P where D: "D = nist_curve L P"
    using assms(1) unfolding registered_nist_def P256_def P384_def P521_def K256_def by blast
  show ?thesis
    using assms(2,3)
    by (simp add: pk_rejection_test_def Let_def D nist_simps nist_pk_from_bytes_def split: prod.split)
qed

lemma p256_rejects_passes:
  assumes "ec_lib_ok L 32"
  shows "p256_pk_from_bytes_rejects_wrong_length_and_tag L H r = Ok ()"
proof -
  have "ec_to_sec1_uncompressed L p \<noteq> []" for p
    using ec_lib_okD(2) [OF assms, of p] by auto
  then show ?thesis
    by (simp add: p256_pk_from_bytes_rejects_wrong_length_and_tag_def Let_def P256_def nist_simps
        nist_pk_from_bytes_def modify_at_def split: prod.split)
qed

section \<open>They pass: post-quantum\<close>

text \<open>Selectors of the two dictionaries that the tests call.\<close>

lemmas pq_test_simps = XWingDraft06_def ml_kem_variant_def

lemma xwing_sk_roundtrip_passes:
  assumes "x_wing_lib_ok L" and "shake_lib_ok S" and "rng_ok R"
  shows "sk_roundtrip_test (XWingDraft06 L S R) 32 r = Ok ()"
proof -
  let ?K = "XWingDraft06 L S R"
  obtain sk pk r1 where gen: "k_generate ?K r = (Ok (sk, pk), r1)" and p: "XWing_pair L sk pk"
    using XWing_generate_pair [OF assms(3), of L r] by (auto simp: pq_test_simps)
  obtain ss enc r2 where "k_encap ?K r1 pk = (Ok (ss, enc), r2)"
    using pq_encap_total(1) [OF assms(1), of r1 pk] by (auto simp: pq_test_simps)
  moreover have "length (k_sk_to_bytes ?K sk) = 32" "k_sk_from_bytes ?K (k_sk_to_bytes ?K sk) = Ok sk"
    using p XWing_sk_roundtrip(1) [OF assms(1) p] by (simp_all add: pq_test_simps XWing_pair_def)
  ultimately show ?thesis
    using xwing.sk_roundtrip_test_iff [OF _ gen] assms by simp
qed

lemma ml_kem_sk_roundtrip_passes:
  assumes "ml_kem_lib_ok L (mp_nenc P) (mp_npk P)" and "shake_lib_ok S" and "rng_ok R"
  shows "sk_roundtrip_test (ml_kem_variant L P S R) 64 r = Ok ()"
proof -
  let ?K = "ml_kem_variant L P S R"
  obtain sk pk r1 where gen: "k_generate ?K r = (Ok (sk, pk), r1)" and p: "ml_kem_pair L sk pk"
    using ml_kem_generate_pair [OF assms(3), of L r] by (auto simp: pq_test_simps)
  obtain ss enc r2 where "k_encap ?K r1 pk = (Ok (ss, enc), r2)"
    using pq_encap_total(2) [OF assms(1), of r1 pk] by (auto simp: pq_test_simps)
  moreover have "length (k_sk_to_bytes ?K sk) = 64" "k_sk_from_bytes ?K (k_sk_to_bytes ?K sk) = Ok sk"
    using p ml_kem_key_roundtrip(1) [OF assms(1) p] by (simp_all add: pq_test_simps ml_kem_pair_def)
  ultimately show ?thesis
    using kem_contract.sk_roundtrip_test_iff [OF ml_kem_variant_contract _ gen] assms by simp
qed

lemma xwing_derive_key_pair_roundtrip_passes:
  assumes "x_wing_lib_ok L" and "shake_lib_ok S"
  shows "xwing_derive_key_pair_roundtrip L S R r = Ok ()"
proof -
  let ?K = "XWingDraft06 L S R"
  obtain sk pk where d: "XWing_derive_key_pair L S (ascii ''x-wing test ikm'') = Ok (sk, pk)"
      and p: "XWing_pair L sk pk"
    using XWing_pair_keypair [of _ L]
    by (auto simp: XWing_derive_key_pair_def derive_label_eq [OF assms(2)] length_SHAKE256 [OF assms(2)])
      (metis assms(2) length_SHAKE256 surj_pair)
  obtain ss enc r' where e: "XWing_encap L r pk = (Ok (ss, enc), r')"
    using pq_encap_total(1) [OF assms(1)] by blast
  from d e XWing_decap_encap(1) [OF assms(1) p e] show ?thesis
    by (simp add: xwing_derive_key_pair_roundtrip_def Let_def pq_test_simps)
qed

text \<open>The loop over the lengths is a test that the derived keys are distinct.\<close>

lemma distinct_lengths_eq:
  assumes "\<And>ikm. k_derive_key_pair K ikm = Ok (f ikm)" and "distinct seen"
  shows "distinct_lengths K seen lens =
     assert_that (distinct (seen @ map (\<lambda>n. k_pk_as_ref K (snd (f (replicate n 0)))) lens))"
  using assms(2)
proof (induction lens arbitrary: seen)
  case Nil
  then show ?case by simp
next
  case (Cons n lens)
  let ?pk = "k_pk_as_ref K (snd (f (replicate n 0)))"
  show ?case
  proof (cases "?pk \<in> set seen")
    case True
    then show ?thesis by (simp add: assms(1) Let_def split_beta)
  next
    case False
    with Cons.prems Cons.IH [of "seen @ [?pk]"] show ?thesis
      by (simp add: assms(1) Let_def split_beta)
  qed
qed

lemma ml_kem_derive_seed_test_iff:
  assumes "shake_lib_ok S" and K: "K = ml_kem_variant L P S R" and ikm: "ikm = map word_of_nat [0..<64]"
  shows "\<exists>f. (\<forall>ikm. k_derive_key_pair K ikm = Ok (f ikm))
     \<and> ml_kem_derive_seed_test K = assert_that (mk_seed (fst (f ikm)) \<noteq> ikm
          \<and> distinct (map (\<lambda>n. k_pk_as_ref K (snd (f (replicate n 0)))) [0, 1, 32, 63, 64, 65, 200]))"
proof -
  define f where "f = (\<lambda>ikm. ml_kem_from_seed L (SHAKE256 S
      (labeled_ikm (kem_suite_id (mp_id P)) DERIVE_KEY_PAIR_LABEL ikm 64) 64))"
  have f: "k_derive_key_pair K ikm = Ok (f ikm)" for ikm
    by (simp add: K ml_kem_variant_def ml_kem_derive_key_pair_def derive_label_eq [OF assms(1)] f_def)
  have "ml_kem_derive_seed_test K = assert_that (mk_seed (fst (f ikm)) \<noteq> ikm
          \<and> distinct (map (\<lambda>n. k_pk_as_ref K (snd (f (replicate n 0)))) [0, 1, 32, 63, 64, 65, 200]))"
    unfolding ml_kem_derive_seed_test_def Let_def ikm [symmetric] f
      distinct_lengths_eq [OF f distinct.simps(1) [THEN iffD2, OF TrueI]]
    by (cases "mk_seed (fst (f ikm)) = ikm") (simp_all add: split_beta del: list.map distinct.simps)
  with f show ?thesis by blast
qed

text \<open>A scrubbed key is blank and no longer decapsulates.\<close>

lemma zeroize_tests_pass:
  assumes "rng_ok R"
  shows "x_wing_lib_ok L \<Longrightarrow> zeroize_disables_decap_test (XWingDraft06 L S R) xw_seed r = Ok ()"
    and "ml_kem_lib_ok M (mp_nenc P) (mp_npk P) \<Longrightarrow>
      zeroize_disables_decap_test (ml_kem_variant M P S R) mk_seed r = Ok ()"
proof -
  obtain sk pk r1 where gen: "XWing_generate L R r = (Ok (sk, pk), r1)"
    using XWing_generate_pair [OF assms] by blast
  assume "x_wing_lib_ok L"
  then obtain ss enc r2 where "XWing_encap L r1 pk = (Ok (ss, enc), r2)"
    using pq_encap_total(1) [of L r1 pk] by auto
  with gen show "zeroize_disables_decap_test (XWingDraft06 L S R) xw_seed r = Ok ()"
    by (simp add: zeroize_disables_decap_test_def Let_def pq_test_simps XWingPrivateKey_zeroize_def
        XWing_decap_def list_all_iff)
next
  obtain sk pk r1 where gen: "ml_kem_generate M R r = (Ok (sk, pk), r1)"
    using ml_kem_generate_pair [OF assms] by blast
  assume "ml_kem_lib_ok M (mp_nenc P) (mp_npk P)"
  then obtain ss enc r2 where "ml_kem_encap M r1 pk = (Ok (ss, enc), r2)"
    using pq_encap_total(2) [of M "mp_nenc P" "mp_npk P" r1 pk] by auto
  with gen show "zeroize_disables_decap_test (ml_kem_variant M P S R) mk_seed r = Ok ()"
    by (simp add: zeroize_disables_decap_test_def Let_def pq_test_simps MlKemPrivateKey_zeroize_def
        ml_kem_decap_def list_all_iff)
qed

text \<open>Both parameter sets derive from the same input; the test returns exactly if the keys differ.\<close>

definition ml_kem_768_and_1024_derive_distinct_keys_from_same_ikm ::
    "('r, 'dk, 'ek, 'ct, 'k) ml_kem_lib \<Rightarrow> ('r, 'dk2, 'ek2, 'ct2, 'k2) ml_kem_lib \<Rightarrow>
     ('h, 'x) shake_lib \<Rightarrow> 'r rng \<Rightarrow> unit res" where
  "ml_kem_768_and_1024_derive_distinct_keys_from_same_ikm M768 M1024 S R =
     (let K768 = MlKem768 M768 S R; K1024 = MlKem1024 M1024 S R; ikm = replicate 64 0x5A
      in try_bind (unwrap (k_derive_key_pair K768 ikm)) (\<lambda>(_, pk_768).
         try_bind (unwrap (k_derive_key_pair K1024 ikm)) (\<lambda>(_, pk_1024).
         let n = min (length (k_pk_as_ref K768 pk_768)) (length (k_pk_as_ref K1024 pk_1024)) in
         try_bind (slice_to n (k_pk_as_ref K768 pk_768)) (\<lambda>a.
         try_bind (slice_to n (k_pk_as_ref K1024 pk_1024)) (\<lambda>b. assert_that (a \<noteq> b))))))"

lemma distinct_parameter_sets_iff:
  assumes "shake_lib_ok S"
  shows "\<exists>a b. map_ok (k_pk_as_ref (MlKem768 M768 S R) \<circ> snd)
        (k_derive_key_pair (MlKem768 M768 S R) (replicate 64 0x5A)) = Ok a
     \<and> map_ok (k_pk_as_ref (MlKem1024 M1024 S R) \<circ> snd)
        (k_derive_key_pair (MlKem1024 M1024 S R) (replicate 64 0x5A)) = Ok b
     \<and> ml_kem_768_and_1024_derive_distinct_keys_from_same_ikm M768 M1024 S R =
         assert_that (take (min (length a) (length b)) a \<noteq> take (min (length a) (length b)) b)"
proof -
  have "\<exists>p. k_derive_key_pair (ml_kem_variant L P S R) ikm = Ok p" for L P ikm
    by (simp add: ml_kem_variant_def ml_kem_derive_key_pair_def derive_label_eq [OF assms])
  then obtain sk pk sk' pk' where
    "k_derive_key_pair (MlKem768 M768 S R) (replicate 64 0x5A) = Ok (sk, pk)"
    "k_derive_key_pair (MlKem1024 M1024 S R) (replicate 64 0x5A) = Ok (sk', pk')"
    unfolding MlKem768_def MlKem1024_def by (metis surj_pair)
  then show ?thesis
    by (simp add: ml_kem_768_and_1024_derive_distinct_keys_from_same_ikm_def Let_def slice_to_def)
qed


end
