(* ===== verification/Spec2Isabelle.thy ===== *)
theory Spec2Isabelle
  imports Hpke_Every_Channel Hpke_Every_Kem Hpke_Kat Hpke_Kem_Tests
begin

text \<open>
  A model of the Rust crate \<open>hpke-ng\<close>, an implementation of Hybrid Public Key Encryption
  (RFC 9180) with post-quantum KEMs, and the theorems that make it correct. File names below are
  relative to the crate, function names are those of the source.

  \<^bold>\<open>The program.\<close> \<open>Hpke<K, F, A>\<close> (\<open>src/lib.rs\<close>) combines a KEM, a KDF and
  an AEAD. A setup method runs the KEM (\<open>src/kem/\<close>), feeds its shared secret to the key
  schedule (\<open>key_schedule_psk_free\<close>, \<open>key_schedule_psk\<close>), which derives a key, a base
  nonce and an exporter secret with the labelled functions of \<open>src/kdf.rs\<close>, and returns a
  context (\<open>src/context.rs\<close>). The context seals or opens messages with the cipher of
  \<open>src/aead.rs\<close> under nonces made from the base nonce and a 64-bit counter, and exports
  secrets. \<open>src/psk.rs\<close> validates pre-shared keys, \<open>src/error.rs\<close> names the errors.

  \<^bold>\<open>How the model corresponds to it.\<close> A trait is a record of its constants and functions and an
  implementation is a value of the record, so generic code takes the records of its type
  parameters. A \<open>Result\<close> is an \<open>outcome\<close>: \<open>Ok\<close>, \<open>Err\<close>, or \<open>Panic\<close> for an
  execution that panics. \<open>&mut\<close> arguments are passed in and returned. Bytes, identifiers and
  the counter are words of their width; lengths (\<open>usize\<close>) are natural numbers.

  \<^item> \<open>Hpke_Prelude\<close>: words, outcomes, slices, big-endian encodings.
  \<^item> \<open>Hpke_Error\<close>: \<open>src/error.rs\<close>. \<open>Hpke_Psk\<close>: \<open>src/psk.rs\<close>.
  \<^item> \<open>Hpke_Kdf\<close>: \<open>src/kdf.rs\<close>, with the locale \<open>kdf_contract\<close>.
  \<^item> \<open>Hpke_Aead\<close>: \<open>src/aead.rs\<close>, with \<open>aead_contract\<close> and
    \<open>sealing_aead_contract\<close>.
  \<^item> \<open>Hpke_Kem\<close>: \<open>src/kem/mod.rs\<close>, with \<open>kem_contract\<close> and
    \<open>auth_kem_contract\<close>.
  \<^item> \<open>Hpke_Context\<close>: \<open>src/context.rs\<close> and \<open>ciphersuite\<close>.
    \<open>Hpke_Key_Schedule\<close>: modes and key schedules. \<open>Hpke_Setup\<close>: the twenty-four
    methods of \<open>Hpke<K, F, A>\<close>.
  \<^item> \<open>Hpke_Dh\<close>: the generic part of \<open>src/kem/dh.rs\<close>; \<open>Hpke_Dhkem\<close>: its
    correctness, once for every group that keeps \<open>dh_contract\<close>; \<open>Hpke_Montgomery\<close> and
    \<open>Hpke_Nist\<close>: X25519 and X448, and the macro \<open>nist_curve!\<close> with P-256, P-384,
    P-521 and secp256k1.
  \<^item> \<open>Hpke_Pq\<close> and \<open>Hpke_Mlkem\<close>: \<open>src/kem/pq.rs\<close>, X-Wing and ML-KEM.
  \<^item> \<open>Hpke_Fuzz\<close>: the drivers of \<open>fuzz/fuzz_targets/\<close>, and the parsers on arbitrary bytes.
  \<^item> \<open>Hpke_Rfc9180\<close>: the pseudo-code of the RFC, the abstract specification.
  \<^item> \<open>Hpke_Channel\<close>: runs of a sender and a receiver, and the step relation of a session on
    a network that delivers what it likes. \<open>Hpke_Modes\<close> and \<open>Hpke_Suites\<close>: the
    contracts put together, for each mode and for each KEM.
  \<^item> \<open>Hpke_Instances\<close>: an executable instance of every third-party interface.
  \<^item> \<open>Hpke_Unit_Tests\<close>, \<open>Hpke_Context_Tests\<close> and \<open>Hpke_Kem_Tests\<close>: the unit
    tests inside the source files, as functions that return or panic. Each is shown to return for
    every third-party crate that behaves as documented and every generator; the ones that unwrap
    an exchange, compare two hashes or check a published vector, exactly when that exchange or
    comparison succeeds.
  \<^item> \<open>Hpke_Channel_Theorems\<close> (C1 to C4, C6, C8), \<open>Hpke_Kem_Theorems\<close> (C13, C20, C21),
    \<open>Hpke_Input_Theorems\<close> (C29, C38, C39) and this theory (C23, C25 to C28): the properties of
    contexts, of the KEMs, of untrusted input and of the key schedule, each after a text that
    states it.
  \<^item> \<open>Hpke_Channel_Spec\<close> (C7, C19, C22): a reliable channel as an abstract transition
    system, \<open>channel_step\<close>, and the simulation between it and the step relation of a session, in
    both directions; what a session does to the state of its contexts. \<open>Hpke_Every_Channel\<close> (C5):
    what setup returns, in every suite and mode, is the two ends of that channel.
  \<^item> \<open>Hpke_Every_Kem\<close> (C12, C14 to C18, C40): wire formats, derivation, the exact outcomes
    of decapsulation, exchanges of the post-quantum KEMs and deterministic encapsulation, for all
    the KEMs or groups at once.
  \<^item> \<open>Hpke_Binding\<close> (C31, C32) and \<open>Hpke_Transcript\<close> (C33, C34): what an agreed
    secret says about the inputs it was derived from. \<open>recording_kdf\<close> shows the bytes that are
    hashed; a collision is a predicate on explicit inputs of the hash, never an assumption.
  \<^item> \<open>Hpke_Mode_Theorems\<close> (C30, C35 to C37): the end-to-end properties, for each of the nine
    KEMs with any KDF, any cipher and every mode the KEM supports; exports also with
    \<open>ExportOnly\<close>, under which sealing and opening do not type-check.
  \<^item> \<open>Hpke_Rfc_Kem\<close> (C9 to C11): the pseudo-code of DHKEM and of setup in sections 4.1 and
    5.1 of the RFC, and that the code computes it.
  \<^item> \<open>Hpke_Suite_Tests\<close>: the tests of \<open>tests/roundtrip.rs\<close> and \<open>tests/negative.rs\<close>
    that are generic in the suite or follow a context through a sequence of calls, as functions
    that return or panic.
  \<^item> \<open>Hpke_Kat\<close> (C24): the known-answer tests of \<open>tests/kat.rs\<close>, and that they pass exactly on
    the vectors that the pseudo-code of the RFC computes.

  \<^bold>\<open>What is shown.\<close> Contexts: every ciphertext of a session is made by the
  cipher under a nonce of its own, whatever succeeds or fails, the nonce is the one of the RFC,
  the counter moves by one on success only and stops at \<open>u64::MAX\<close>, streams open to
  what was sealed, rejected deliveries do no harm. A session refines a reliable ordered channel
  unless a forgery occurs, and every behaviour of that channel is a session. KEMs: decapsulation
  inverts encapsulation for every group and parameter set, with and without sender authentication;
  derivation returns the first candidate the parser accepts; keys survive serialisation; the
  errors of decapsulation, of parsing and of derivation are exact; cached public bytes are
  coherent; scrubbed keys are independent of the secret. Key schedule: it refines the
  \<open>KeySchedule\<close> of the RFC, always succeeds, and its identifiers are distinct. Setup
  and DHKEM compute the pseudo-code of the RFC on every input, errors included. Binding: labelled
  hash inputs are domain separated, and equal secrets come from equal transcripts unless two
  inputs of the hash collide. End to end, for every suite: the four modes open what they seal and
  export equal secrets, with \<open>ExportOnly\<close> as with the ciphers, setup opens the two
  ends of a reliable channel that carries any stream within its limits, and opening arbitrary
  bytes returns an error or a plaintext, never a panic. The known-answer tests accept the vectors
  of the RFC and no others.

  \<^bold>\<open>Third-party code.\<close> The crates \<open>hkdf\<close> with \<open>sha2\<close>, the three cipher crates,
  the elliptic-curve crates, \<open>x25519_dalek\<close>, \<open>ed448_goldilocks\<close>, \<open>x_wing\<close>,
  \<open>ml_kem\<close>, \<open>shake\<close>, the comparison of \<open>subtle\<close> and the caller's generator are not
  part of the source. They are parameters (\<open>hkdf_lib\<close>, \<open>aead_lib\<close>, \<open>ec_lib\<close>,
  \<open>x25519_lib\<close>, \<open>x448_lib\<close>, \<open>x_wing_lib\<close>, \<open>ml_kem_lib\<close>,
  \<open>shake_lib\<close>, \<open>rng\<close>, \<open>hex\<close>) with their documented behaviour as the hypotheses
  \<open>..._lib_ok\<close> and \<open>rng_ok\<close>: lengths, streaming, round trips, commutativity of an
  exchange, symmetry of encryption. The decapsulation failure of ML-KEM and X-Wing, of probability
  below 2 to the power -164, is taken not to happen. No secrecy or hardness assumption is used;
  what is shown is functional. \<open>Hpke_Instances\<close> satisfies every hypothesis, and the
  witnesses of the properties run on it.

  \<^bold>\<open>Bounds.\<close> Every loop of the source is bounded and is structural recursion here (the pieces
  of a hash input, 256 candidates), so no fuel is needed. The limits are the code's: 255 times the
  hash length for an expansion, 5 and 12 pieces for the slot arrays of the labelled functions, the
  last value of the counter. \<open>p_max\<close> is the longest message and associated data the
  cipher promises to seal.

  \<^bold>\<open>Not modelled.\<close> When memory is scrubbed: the effect of \<open>zeroize\<close> and of each
  \<open>Drop\<close> implementation on the value is modelled, the moment of dropping and the scrubbing of
  temporaries (\<open>Zeroizing\<close>) are not observable in a functional model. Timing:
  \<open>ct_eq\<close> is equality. The marker trait \<open>Sealed\<close>, derived \<open>Clone\<close> and
  \<open>Debug\<close> implementations and re-exports, which have no behaviour of their own; that the
  contexts are not \<open>Clone\<close> shows in the session relation, which uses each context once. The
  unit tests that only have to compile, the two macros of \<open>tests/negative.rs\<close> that assert
  what only the ciphers and curves decide, the X-Wing vectors, the differential tests against other
  implementations, and the benchmarks.
\<close>

section \<open>The key schedule\<close>

text \<open>
  Without a pre-shared key the key schedule is that of RFC 9180. In the modes Base and
  Auth, for every registered KDF and AEAD, the context the code derives abstracts to the one
  that \<open>KeySchedule\<close> of section 5.1 returns for an empty PSK, with the same failures.
\<close>

theorem key_schedule_psk_free_refines_rfc:
  assumes "F \<in> registered_kdfs G" and "hkdf_lib_ok G (f_HASH_LEN F)"
    and "A \<in> registered_aeads C" and "aead_lib_ok C (a_KEY_LEN A) p_max"
  shows "map_ok (abs_context A) (key_schedule_psk_free M K F A ss info) =
     rfc_KeySchedule F (ciphersuite K F A) (a_KEY_LEN A) (a_NONCE_LEN A)
       (psk_free_abs M) ss info [] []"
  by (rule key_schedule_suite.key_schedule_psk_free_rfc
      [OF key_schedule_registered [OF assms] TrueI])

theorem key_schedule_psk_free_refines_rfc_witness:
  "map_ok (abs_context demo_aead)
     (key_schedule_psk_free BaseModeTag (DhKem demo_p256) demo_kdf demo_aead [1, 2] [3]) =
   rfc_KeySchedule demo_kdf (ciphersuite (DhKem demo_p256) demo_kdf demo_aead) (a_KEY_LEN demo_aead)
     (a_NONCE_LEN demo_aead) (psk_free_abs BaseModeTag) [1, 2] [3] [] []"
  by (rule key_schedule_psk_free_refines_rfc [OF demo_suite])

text \<open>
  With a pre-shared key the key schedule is that of RFC 9180. In the modes PSK and
  AuthPSK, for every \<open>Psk\<close> that \<open>Psk::new\<close> accepts, the derived context abstracts
  to the result of \<open>KeySchedule\<close>, whose check of the PSK inputs passes.
\<close>

theorem key_schedule_psk_refines_rfc:
  assumes "F \<in> registered_kdfs G" and "hkdf_lib_ok G (f_HASH_LEN F)"
    and "A \<in> registered_aeads C" and "aead_lib_ok C (a_KEY_LEN A) p_max"
    and "Psk_new secret pid = Ok psk"
  shows "map_ok (abs_context A) (key_schedule_psk M K F A ss info psk) =
     rfc_KeySchedule F (ciphersuite K F A) (a_KEY_LEN A) (a_NONCE_LEN A)
       (psk_abs M) ss info secret pid"
  using key_schedule_suite.key_schedule_psk_rfc
      [OF key_schedule_registered [OF assms(1-4)] TrueI Psk_new_valid [OF assms(5)]] assms(5)
  by (auto simp: Psk_new_Ok_iff)

theorem key_schedule_psk_refines_rfc_witness:
  "map_ok (abs_context demo_aead) (key_schedule_psk PskModeTag (DhKem demo_p256) demo_kdf demo_aead
      [1, 2] [3] \<lparr> psk_secret = replicate 32 7, psk_id = [9] \<rparr>) =
   rfc_KeySchedule demo_kdf (ciphersuite (DhKem demo_p256) demo_kdf demo_aead) (a_KEY_LEN demo_aead)
     (a_NONCE_LEN demo_aead) (psk_abs PskModeTag) [1, 2] [3] (replicate 32 7) [9]"
  by (rule key_schedule_psk_refines_rfc [OF demo_suite]) (simp add: Psk_new_def MIN_PSK_LEN_def)

text \<open>
  C23: the key schedule is that of RFC 9180. In each of the four modes, for every registered KDF
  and AEAD, \<open>ExportOnly\<close> included, the context the code derives abstracts to the one that
  \<open>KeySchedule\<close> of section 5.1 returns, with the same failures: for an empty PSK in the modes Base
  and Auth, and in the modes PSK and AuthPSK for every PSK that \<open>Psk::new\<close> accepts, whose inputs
  \<open>VerifyPSKInputs\<close> passes.
\<close>

theorem key_schedule_refines_rfc:
  assumes "F \<in> registered_kdfs G" and "hkdf_lib_ok G (f_HASH_LEN F)"
    and "A \<in> registered_aeads C" and "aead_lib_ok C (a_KEY_LEN A) p_max"
    and "Psk_new secret pid = Ok psk"
  shows "map_ok (abs_context A) (key_schedule_psk_free M K F A ss info) =
       rfc_KeySchedule F (ciphersuite K F A) (a_KEY_LEN A) (a_NONCE_LEN A) (psk_free_abs M) ss info [] []
   \<and> map_ok (abs_context A) (key_schedule_psk N K F A ss info psk) =
       rfc_KeySchedule F (ciphersuite K F A) (a_KEY_LEN A) (a_NONCE_LEN A) (psk_abs N) ss info secret pid
   \<and> map_ok (abs_context ExportOnly) (key_schedule_psk_free M K F ExportOnly ss info) =
       rfc_KeySchedule F (ciphersuite K F ExportOnly) 0 0 (psk_free_abs M) ss info [] []
   \<and> map_ok (abs_context ExportOnly) (key_schedule_psk N K F ExportOnly ss info psk) =
       rfc_KeySchedule F (ciphersuite K F ExportOnly) 0 0 (psk_abs N) ss info secret pid
   \<and> rfc_VerifyPSKInputs (psk_abs N) secret pid"
proof -
  have psk: "psk_valid psk" "psk_secret psk = secret" "psk_id psk = pid"
    using Psk_new_valid [OF assms(5)] assms(5) by (auto simp: Psk_new_Ok_iff)
  note only = key_schedule_export_only [OF assms(1,2)]
  note export_only = key_schedule_suite.key_schedule_psk_free_rfc [OF only TrueI, of M K ss info]
    key_schedule_suite.key_schedule_psk_rfc [OF only TrueI psk(1), of N K ss info]
  show ?thesis
    using key_schedule_psk_free_refines_rfc [OF assms(1-4), where M = M and K = K and ss = ss and info = info]
      key_schedule_psk_refines_rfc [OF assms, where M = N and K = K and ss = ss and info = info]
      export_only verify_psk [OF psk(1)] by (simp add: psk const_simps)
qed

theorem key_schedule_refines_rfc_witness:
  "map_ok (abs_context demo_aead) (key_schedule_psk AuthPskModeTag (DhKem demo_p256) demo_kdf demo_aead
      [1, 2] [3] \<lparr> psk_secret = replicate 32 7, psk_id = [9] \<rparr>) =
   rfc_KeySchedule demo_kdf (ciphersuite (DhKem demo_p256) demo_kdf demo_aead) (a_KEY_LEN demo_aead)
     (a_NONCE_LEN demo_aead) (psk_abs AuthPskModeTag) [1, 2] [3] (replicate 32 7) [9]"
proof -
  have "Psk_new (replicate 32 7) [9] = Ok \<lparr> psk_secret = replicate 32 7, psk_id = [9] \<rparr>"
    by (simp add: Psk_new_def MIN_PSK_LEN_def)
  from key_schedule_refines_rfc [OF demo_suite this] show ?thesis by blast
qed

text \<open>
  C25: the key schedule never fails. For every mode, every shared secret and every info, both
  schedules return a context that is ready to use: counter zero, and key, nonce and exporter
  secret of the lengths of the suite. With \<open>ExportOnly\<close> key and nonce are empty.
\<close>

theorem key_schedule_total:
  assumes "F \<in> registered_kdfs G" and "hkdf_lib_ok G (f_HASH_LEN F)"
    and "A \<in> registered_aeads C" and "aead_lib_ok C (a_KEY_LEN A) p_max"
  shows "(\<exists>ctx. key_schedule_psk_free M K F A ss info = Ok ctx \<and> context_wf ctx \<and> seq ctx = 0
        \<and> length (raw_key ctx) = a_KEY_LEN A \<and> length (Context_nonce A ctx) = a_NONCE_LEN A
        \<and> length (exporter_secret ctx) = f_HASH_LEN F)
     \<and> (\<exists>ctx. key_schedule_psk N K F A ss info psk = Ok ctx \<and> context_wf ctx \<and> seq ctx = 0
        \<and> length (raw_key ctx) = a_KEY_LEN A \<and> length (Context_nonce A ctx) = a_NONCE_LEN A
        \<and> length (exporter_secret ctx) = f_HASH_LEN F)
     \<and> (\<exists>ctx. key_schedule_psk_free M K F ExportOnly ss info = Ok ctx \<and> context_wf ctx \<and> seq ctx = 0
        \<and> raw_key ctx = [] \<and> Context_nonce ExportOnly ctx = []
        \<and> length (exporter_secret ctx) = f_HASH_LEN F)
     \<and> (\<exists>ctx. key_schedule_psk N K F ExportOnly ss info psk = Ok ctx \<and> context_wf ctx \<and> seq ctx = 0
        \<and> raw_key ctx = [] \<and> Context_nonce ExportOnly ctx = []
        \<and> length (exporter_secret ctx) = f_HASH_LEN F)"
  using key_schedule_suite.key_schedule_psk_free_total [OF key_schedule_registered [OF assms] TrueI]
    key_schedule_suite.key_schedule_psk_total [OF key_schedule_registered [OF assms] TrueI]
    key_schedule_suite.key_schedule_psk_free_total
      [OF key_schedule_export_only [OF assms(1,2)] TrueI, unfolded const_simps length_0_conv]
    key_schedule_suite.key_schedule_psk_total
      [OF key_schedule_export_only [OF assms(1,2)] TrueI, unfolded const_simps length_0_conv]
  by blast

theorem key_schedule_total_witness:
  "\<exists>ctx. key_schedule_psk_free AuthModeTag (DhKem demo_p256) demo_kdf demo_aead [] [] = Ok ctx
     \<and> length (raw_key ctx) = 32"
  using key_schedule_total [OF demo_suite, of AuthModeTag "DhKem demo_p256" "[]" "[]"]
  by (auto simp: demo_aead_def const_simps)

section \<open>Identifiers and labelled derivations\<close>

text \<open>
  C26: suite identifiers identify the suite. The KEM suite identifier determines the KEM, the
  ciphersuite determines KEM, KDF and AEAD, no KEM suite identifier equals a ciphersuite, and the
  identifiers of the nine KEMs, three KDFs and four AEADs of the crate are pairwise distinct.
\<close>

theorem suite_identifiers_distinct:
  "(kem_suite_id i = kem_suite_id j \<longleftrightarrow> i = j)
   \<and> (ciphersuite K F A = ciphersuite K' F' A' \<longleftrightarrow>
        k_ID K = k_ID K' \<and> f_ID F = f_ID F' \<and> a_ID A = a_ID A')
   \<and> kem_suite_id i \<noteq> ciphersuite K F A
   \<and> distinct [k_ID (DhKem (P256 E H)), k_ID (DhKem (P384 E H)), k_ID (DhKem (P521 E H)),
        k_ID (DhKem (K256 E H)), k_ID (DhKem (X25519 X H R)), k_ID (DhKem (X448 Y H R)),
        k_ID (XWingDraft06 W S R), k_ID (MlKem768 Q S R), k_ID (MlKem1024 Q S R)]
   \<and> distinct [f_ID (HkdfSha256 H), f_ID (HkdfSha384 H), f_ID (HkdfSha512 H)]
   \<and> distinct [a_ID (ChaCha20Poly1305 C), a_ID (Aes128Gcm C), a_ID (Aes256Gcm C)]
   \<and> a_ID ExportOnly \<notin> {a_ID (ChaCha20Poly1305 C), a_ID (Aes128Gcm C), a_ID (Aes256Gcm C)}"
proof (intro conjI)
  show "kem_suite_id i \<noteq> ciphersuite K F A"
    by (metis length_kem_suite_id length_ciphersuite num.distinct numeral_eq_iff)
  show "distinct [k_ID (DhKem (P256 E H)), k_ID (DhKem (P384 E H)), k_ID (DhKem (P521 E H)),
        k_ID (DhKem (K256 E H)), k_ID (DhKem (X25519 X H R)), k_ID (DhKem (X448 Y H R)),
        k_ID (XWingDraft06 W S R), k_ID (MlKem768 Q S R), k_ID (MlKem1024 Q S R)]"
    by (simp add: P256_def P384_def P521_def K256_def nist_simps X25519_simps X448_simps
        XWingDraft06_def XWing_ID_def MlKem768_def MlKem1024_def ml_kem_variant_def
        params_768_def params_1024_def)
qed (simp_all add: kem_suite_id_inj ciphersuite_eq const_simps)

text \<open>
  C27: hashing in pieces is hashing the concatenation. The stack-allocated piece arrays of
  \<open>labeled_extract_pieces\<close> and \<open>labeled_expand_pieces\<close> change nothing within their
  budgets of five and twelve caller pieces, and one piece more is a panic, never a silently
  truncated input.
\<close>

theorem labeled_pieces_are_concatenation:
  assumes "F \<in> registered_kdfs G" and "hkdf_lib_ok G (f_HASH_LEN F)"
  shows "labeled_extract_pieces F salt suite label ps =
       (if length ps \<le> 5 then Ok (labeled_extract F salt suite label (concat ps)) else Panic)
     \<and> labeled_expand_pieces F prk suite label qs n =
       (if 65535 < n then Err ExportLengthExceeded
        else if length qs \<le> 12 then labeled_expand F prk suite label (concat qs) n else Panic)"
proof -
  note kdf = registered_kdf_contract [OF assms]
  have "labeled_extract_pieces F salt suite label ps =
      (if length ps \<le> 5 then Ok (labeled_extract F salt suite label (concat ps)) else Panic)"
    using kdf_contract.labeled_extract_pieces_concat [OF kdf TrueI]
    by (cases "length ps \<le> 5") (simp_all add: labeled_extract_pieces_eq)
  moreover have "labeled_expand_pieces F prk suite label qs n = labeled_expand F prk suite label (concat qs) n"
    if "length qs \<le> 12"
    using kdf_contract.labeled_expand_pieces_concat [OF kdf TrueI that] .
  moreover have "labeled_expand F prk suite label (concat qs) n = Err ExportLengthExceeded"
    if "65535 < n"
    using that by (simp add: labeled_expand_def u16_try_from_def)
  moreover have "labeled_expand_pieces F prk suite label qs n =
      (if 65535 < n then Err ExportLengthExceeded else Panic)" if "\<not> length qs \<le> 12"
    using that by (simp add: labeled_expand_pieces_eq u16_try_from_def)
  ultimately show ?thesis by (cases "length qs \<le> 12") simp_all
qed

theorem labeled_pieces_are_concatenation_witness:
  "labeled_expand_pieces demo_kdf [1] [2] [3] (replicate 13 []) 32 = Panic
   \<and> labeled_extract_pieces demo_kdf [1] [2] [3] [[4], [5]] = Ok (labeled_extract demo_kdf [1] [2] [3] [4, 5])"
  using labeled_pieces_are_concatenation [OF demo_kdf_registered demo_kdf_lib, where salt = "[1]"
      and prk = "[1]" and suite = "[2]" and label = "[3]" and ps = "[[4], [5]]"
      and qs = "replicate 13 []" and n = 32] by simp

section \<open>Pre-shared keys\<close>

text \<open>
  C28: \<open>Psk::new\<close> accepts exactly the pairs that \<open>VerifyPSKInputs\<close> of RFC 9180
  accepts in the PSK modes and whose secret has the 32 bytes of section 9.5, keeps both inputs,
  and names the reason otherwise: \<open>MissingPsk\<close> when both are empty,
  \<open>InconsistentPsk\<close> when one is, \<open>InsecurePsk\<close> when the secret is short.
\<close>

theorem Psk_new_is_VerifyPSKInputs:
  "(Psk_new secret pid = Ok p \<longleftrightarrow>
      rfc_VerifyPSKInputs (psk_abs M) secret pid \<and> 32 \<le> length secret
      \<and> p = \<lparr> psk_secret = secret, psk_id = pid \<rparr>)
   \<and> (Psk_new secret pid = Err MissingPsk \<longleftrightarrow> secret = [] \<and> pid = [])
   \<and> (Psk_new secret pid = Err InconsistentPsk \<longleftrightarrow> (secret = []) \<noteq> (pid = []))
   \<and> (Psk_new secret pid = Err InsecurePsk \<longleftrightarrow>
        rfc_VerifyPSKInputs (psk_abs M) secret pid \<and> length secret < 32)
   \<and> Psk_new secret pid \<noteq> Panic"
  by (cases M) (auto simp: Psk_new_def MIN_PSK_LEN_def rfc_VerifyPSKInputs_def psk_abs_def)

text \<open>
  The debug form of a PSK does not depend on its secret. Two pre-shared keys with the same
  identifier and secrets of the same length print the same.
\<close>

theorem Psk_fmt_hides_secret:
  assumes "Psk_new s pid = Ok p" and "Psk_new s' pid = Ok p'" and "length s = length s'"
  shows "Psk_fmt p = Psk_fmt p'"
  using assms by (intro Psk_fmt_redacts) (auto simp: Psk_new_Ok_iff)

theorem Psk_fmt_hides_secret_witness:
  "Psk_fmt \<lparr> psk_secret = replicate 32 1, psk_id = [1] \<rparr>
     = Psk_fmt \<lparr> psk_secret = replicate 32 2, psk_id = [1] \<rparr>"
  by (rule Psk_fmt_hides_secret [of "replicate 32 1" "[1]" _ "replicate 32 2"])
    (simp_all add: Psk_new_def MIN_PSK_LEN_def)

section \<open>The four modes, end to end\<close>

text \<open>
  Base mode over the SEC1 groups. For a recipient key pair of the crate, any registered KDF
  and AEAD, and any info, associated data and plaintext: when \<open>seal_base\<close> returns, the
  recipient's \<open>open_base\<close> gives the plaintext back and the ciphertext is longer by the tag;
  when it fails, encapsulation failed or the message exceeds the limit of the cipher; it never
  panics.
\<close>

theorem nist_base_roundtrip:
  assumes "D \<in> registered_nist L H" and "ec_lib_ok L (d_PRIVATE_KEY_LEN D)"
    and "hkdf_lib_ok H (f_HASH_LEN (d_Kdf D))"
    and "F \<in> registered_kdfs G" and "hkdf_lib_ok G (f_HASH_LEN F)"
    and "A \<in> registered_aeads C" and "aead_lib_ok C (a_KEY_LEN A) p_max"
    and "DhKem_generate D r0 = (Ok (sk, pk), r1) \<or> DhKem_derive_key_pair D ikm = Ok (sk, pk)"
  shows "seal_open_ok (DhKem_encap D r pk) p_max (a_TAG_LEN A) aad pt
     (seal_base (DhKem D) F A r pk info aad pt)
     (\<lambda>enc ct. open_base (DhKem D) F A enc sk info aad ct)"
proof -
  note contract = registered_nist_contract [OF assms(1-3)]
  note suite = hpke_auth_sealing_suite.axioms(2) [OF dhkem_suite [OF contract assms(4-7)]]
  from hpke_sealing_suite.seal_open_base [OF suite TrueI dhkem_made_pair [OF contract assms(8)]]
  show ?thesis unfolding DhKem_simps .
qed

theorem nist_base_roundtrip_witness:
  "\<exists>enc ct. fst (seal_base (DhKem demo_p256) demo_kdf demo_aead 1 (demo_p256_pk 1) [8] [9] [1, 2])
       = Ok (enc, ct)
     \<and> open_base (DhKem demo_p256) demo_kdf demo_aead enc (demo_p256_sk 1) [8] [9] ct = Ok [1, 2]"
proof -
  have "DhKem_generate demo_p256 0 = (Ok (demo_p256_sk 1, demo_p256_pk 1), Suc 0)"
    using demo_p256_generate [of 0] by simp
  from seal_open_okD [OF nist_base_roundtrip [OF demo_p256_suite disjI1 [OF this]] demo_p256_encap]
  show ?thesis by simp
qed

text \<open>
  PSK mode over X25519. The statement is that of Base mode, with the same \<open>Psk\<close> on both
  sides.
\<close>

theorem x25519_psk_roundtrip:
  assumes "x25519_lib_ok L" and "hkdf_lib_ok H 32" and "rng_ok R"
    and "F \<in> registered_kdfs G" and "hkdf_lib_ok G (f_HASH_LEN F)"
    and "A \<in> registered_aeads C" and "aead_lib_ok C (a_KEY_LEN A) p_max"
    and "DhKem_generate (X25519 L H R) r0 = (Ok (sk, pk), r1)
       \<or> DhKem_derive_key_pair (X25519 L H R) ikm = Ok (sk, pk)"
  shows "seal_open_ok (DhKem_encap (X25519 L H R) r pk) p_max (a_TAG_LEN A) aad pt
     (seal_psk (DhKem (X25519 L H R)) F A r pk info aad pt psk)
     (\<lambda>enc ct. open_psk (DhKem (X25519 L H R)) F A enc sk info aad ct psk)"
proof -
  note contract = x25519_contract_True [OF assms(1-3)]
  note suite = hpke_auth_sealing_suite.axioms(2) [OF dhkem_suite [OF contract assms(4-7)]]
  from hpke_sealing_suite.seal_open_psk [OF suite TrueI dhkem_made_pair [OF contract assms(8)]]
  show ?thesis unfolding DhKem_simps .
qed

definition demo_x25519 :: "(nat, X25519PublicKeyWrap, bytes X25519PrivateKeyWrap) dh" where
  "demo_x25519 = X25519 toy_x25519 (toy_hkdf 32) toy_rng"

theorem x25519_psk_roundtrip_witness:
  "\<exists>sk pk. seal_open_ok (DhKem_encap demo_x25519 5 pk) 100 16 [9] [1, 2]
     (seal_psk (DhKem demo_x25519) demo_kdf demo_aead 5 pk [8] [9] [1, 2]
        \<lparr> psk_secret = replicate 32 7, psk_id = [9] \<rparr>)
     (\<lambda>enc ct. open_psk (DhKem demo_x25519) demo_kdf demo_aead enc sk [8] [9] ct
        \<lparr> psk_secret = replicate 32 7, psk_id = [9] \<rparr>)"
proof -
  obtain sk pk r1 where "DhKem_generate demo_x25519 0 = (Ok (sk, pk), r1)"
    using DhKem_generate_total [of demo_x25519 0] by blast
  from x25519_psk_roundtrip [OF toy_x25519_ok toy_hkdf_ok toy_rng_ok demo_kdf_registered demo_kdf_lib
      demo_registered demo_limit disjI1 [OF this [unfolded demo_x25519_def]]]
  show ?thesis
    unfolding demo_x25519_def [symmetric] conjunct2 [OF registered_aead_nonce [OF demo_registered]]
    by blast
qed

text \<open>
  Auth mode over the SEC1 groups, with a key pair of the crate for the sender as well.
\<close>

theorem nist_auth_roundtrip:
  assumes "D \<in> registered_nist L H" and "ec_lib_ok L (d_PRIVATE_KEY_LEN D)"
    and "hkdf_lib_ok H (f_HASH_LEN (d_Kdf D))"
    and "F \<in> registered_kdfs G" and "hkdf_lib_ok G (f_HASH_LEN F)"
    and "A \<in> registered_aeads C" and "aead_lib_ok C (a_KEY_LEN A) p_max"
    and "DhKem_generate D r0 = (Ok (sk_r, pk_r), r1) \<or> DhKem_derive_key_pair D ikm = Ok (sk_r, pk_r)"
    and "DhKem_generate D r2 = (Ok (sk_s, pk_s), r3) \<or> DhKem_derive_key_pair D ikm' = Ok (sk_s, pk_s)"
  shows "seal_open_ok (DhKem_auth_encap D r pk_r sk_s) p_max (a_TAG_LEN A) aad pt
     (seal_auth (DhKem D) F A r pk_r info aad pt sk_s)
     (\<lambda>enc ct. open_auth (DhKem D) F A enc sk_r info aad ct pk_s)"
proof -
  note contract = registered_nist_contract [OF assms(1-3)]
  from hpke_auth_sealing_suite.seal_open_auth [OF dhkem_suite [OF contract assms(4-7)] TrueI
      dhkem_made_pair [OF contract assms(8)] dhkem_made_pair [OF contract assms(9)]]
  show ?thesis unfolding DhKem_simps .
qed

theorem nist_auth_roundtrip_witness:
  "\<exists>enc ct. fst (seal_auth (DhKem demo_p256) demo_kdf demo_aead 2 (demo_p256_pk 1) [8] [9] [1, 2]
        (demo_p256_sk 3)) = Ok (enc, ct)
     \<and> open_auth (DhKem demo_p256) demo_kdf demo_aead enc (demo_p256_sk 1) [8] [9] ct (demo_p256_pk 3)
       = Ok [1, 2]"
proof -
  have "DhKem_generate demo_p256 0 = (Ok (demo_p256_sk 1, demo_p256_pk 1), Suc 0)"
    and "DhKem_generate demo_p256 1 = (Ok (demo_p256_sk 3, demo_p256_pk 3), Suc 1)"
    using demo_p256_generate [of 0] demo_p256_generate [of 1] by simp_all
  from seal_open_okD [OF nist_auth_roundtrip [OF demo_p256_suite disjI1 [OF this(1)]
      disjI1 [OF this(2)]] demo_p256_auth_encap]
  show ?thesis by simp
qed

text \<open>
  AuthPSK mode over X448: a sender key pair and a pre-shared key together.
\<close>

theorem x448_auth_psk_roundtrip:
  assumes "x448_lib_ok L" and "hkdf_lib_ok H 64" and "rng_ok R"
    and "F \<in> registered_kdfs G" and "hkdf_lib_ok G (f_HASH_LEN F)"
    and "A \<in> registered_aeads C" and "aead_lib_ok C (a_KEY_LEN A) p_max"
    and "DhKem_generate (X448 L H R) r0 = (Ok (sk_r, pk_r), r1)"
    and "DhKem_generate (X448 L H R) r2 = (Ok (sk_s, pk_s), r3)"
  shows "seal_open_ok (DhKem_auth_encap (X448 L H R) r pk_r sk_s) p_max (a_TAG_LEN A) aad pt
     (seal_auth_psk (DhKem (X448 L H R)) F A r pk_r info aad pt psk sk_s)
     (\<lambda>enc ct. open_auth_psk (DhKem (X448 L H R)) F A enc sk_r info aad ct psk pk_s)"
proof -
  note contract = x448_contract_True [OF assms(1-3)]
  from hpke_auth_sealing_suite.seal_open_auth_psk [OF dhkem_suite [OF contract assms(4-7)] TrueI
      dhkem_made_pair [OF contract disjI1 [OF assms(8)]]
      dhkem_made_pair [OF contract disjI1 [OF assms(9)]]]
  show ?thesis unfolding DhKem_simps .
qed

definition demo_x448 :: "(nat, X448PublicKeyWrap, X448PrivateKeyWrap) dh" where
  "demo_x448 = X448 toy_x448 (toy_hkdf 64) toy_rng"

theorem x448_auth_psk_roundtrip_witness:
  "\<exists>sk pk. seal_open_ok (DhKem_auth_encap demo_x448 5 pk sk) 100 16 [9] [1, 2]
     (seal_auth_psk (DhKem demo_x448) demo_kdf demo_aead 5 pk [8] [9] [1, 2]
        \<lparr> psk_secret = replicate 32 7, psk_id = [9] \<rparr> sk)
     (\<lambda>enc ct. open_auth_psk (DhKem demo_x448) demo_kdf demo_aead enc sk [8] [9] ct
        \<lparr> psk_secret = replicate 32 7, psk_id = [9] \<rparr> pk)"
proof -
  obtain sk pk r1 where g: "DhKem_generate demo_x448 0 = (Ok (sk, pk), r1)"
    using DhKem_generate_total [of demo_x448 0] by blast
  from x448_auth_psk_roundtrip [OF toy_x448_ok toy_hkdf_ok toy_rng_ok demo_kdf_registered demo_kdf_lib
      demo_registered demo_limit g [unfolded demo_x448_def] g [unfolded demo_x448_def]]
  show ?thesis
    unfolding demo_x448_def [symmetric] conjunct2 [OF registered_aead_nonce [OF demo_registered]]
    by blast
qed

text \<open>
  Base and PSK mode over the post-quantum KEMs. With a recipient key pair of the crate for
  X-Wing or either ML-KEM parameter set, a message within the limit of the cipher is always
  sealed and always opens to the plaintext; encapsulation has no failure to report.
\<close>

theorem pq_roundtrip:
  assumes "x_wing_lib_ok L" and "P \<in> registered_ml_kems"
    and "ml_kem_lib_ok L' (mp_nenc P) (mp_npk P)" and "shake_lib_ok S" and "rng_ok R"
    and "F \<in> registered_kdfs G" and "hkdf_lib_ok G (f_HASH_LEN F)"
    and "A \<in> registered_aeads C" and "aead_lib_ok C (a_KEY_LEN A) p_max"
    and "XWing_generate L R r0 = (Ok (sk, pk), r1)" and "ml_kem_generate L' R r0 = (Ok (sk', pk'), r1')"
    and "length pt \<le> p_max" and "length aad \<le> p_max"
  shows "(\<exists>enc ct. fst (seal_base (XWingDraft06 L S R) F A r pk info aad pt) = Ok (enc, ct)
        \<and> open_base (XWingDraft06 L S R) F A enc sk info aad ct = Ok pt)
     \<and> (\<exists>enc ct. fst (seal_psk (ml_kem_variant L' P S R) F A r pk' info aad pt psk) = Ok (enc, ct)
        \<and> open_psk (ml_kem_variant L' P S R) F A enc sk' info aad ct psk = Ok pt)"
proof -
  have lx: "x_wing_lib_ok L \<and> shake_lib_ok S \<and> rng_ok R"
    and lm: "ml_kem_lib_ok L' (mp_nenc P) (mp_npk P) \<and> shake_lib_ok S \<and> rng_ok R"
    using assms by simp_all
  note sx = kem_suite [OF xwing.kem_contract_axioms lx assms(6-9)]
  note sm = kem_suite [OF ml_kem_variant_contract lm assms(6-9)]
  have px: "XWing_pair L sk pk"
    using xwing.generate_pair [OF lx, of r0 sk pk r1] assms(10) by (simp add: XWingDraft06_def)
  have pm: "ml_kem_pair L' sk' pk'"
    using kem_contract.generate_pair [OF ml_kem_variant_contract lm, of r0 sk' pk' r1'] assms(11)
    by (simp add: ml_kem_variant_def)
  obtain ct s r' where "xw_encapsulate_with_rng L (xw_parsed pk) r = ((ct, s), r')" by (metis surj_pair)
  then have ex: "is_ok (fst (k_encap (XWingDraft06 L S R) r pk))"
    using XWing_encap_Ok [OF assms(1)] by (simp add: XWingDraft06_def)
  obtain ct s r' where "mk_encapsulate_with_rng L' (mk_parsed pk') r = ((ct, s), r')" by (metis surj_pair)
  then have em: "is_ok (fst (k_encap (ml_kem_variant L' P S R) r pk'))"
    using ml_kem_encap_Ok [OF assms(3)] by (simp add: ml_kem_variant_def)
  show ?thesis
    using seal_open_okD [OF hpke_sealing_suite.seal_open_base [OF sx TrueI px] ex assms(12,13)]
      seal_open_okD [OF hpke_sealing_suite.seal_open_psk [OF sm TrueI pm] em assms(12,13)]
    by blast
qed

theorem pq_roundtrip_witness:
  "\<exists>sk pk enc ct. fst (XWing_generate toy_x_wing toy_rng 3) = Ok (sk, pk)
     \<and> fst (seal_base (XWingDraft06 toy_x_wing toy_shake toy_rng) demo_kdf demo_aead 4 pk [8] [9] [1, 2])
       = Ok (enc, ct)
     \<and> open_base (XWingDraft06 toy_x_wing toy_shake toy_rng) demo_kdf demo_aead enc sk [8] [9] ct
       = Ok [1, 2]"
proof -
  have P: "params_768 \<in> registered_ml_kems"
      "ml_kem_lib_ok (toy_ml_kem 1088 1184) (mp_nenc params_768) (mp_npk params_768)"
    by (simp_all add: registered_ml_kems_def params_768_def toy_ml_kem_ok)
  obtain sk pk where g: "XWing_generate toy_x_wing toy_rng 3 = (Ok (sk, pk), Suc 3)"
    by (simp add: XWing_generate_def toy_rng_def keypair_from_seed_def Let_def)
  obtain sk' pk' where g': "ml_kem_generate (toy_ml_kem 1088 1184) toy_rng 3 = (Ok (sk', pk'), Suc 3)"
    by (simp add: ml_kem_generate_def toy_rng_def ml_kem_from_seed_def Let_def)
  from pq_roundtrip [OF toy_x_wing_ok P toy_shake_ok toy_rng_ok demo_kdf_registered demo_kdf_lib
      demo_registered demo_limit g g', of "[1, 2]" "[9]"] g
  show ?thesis by auto
qed

text \<open>
  Exported secrets agree in all four modes. Over the SEC1 groups, when the sender's
  single-shot export returns, the recipient's export gives the same bytes, exactly as many as
  asked for; it fails only when encapsulation does or above \<open>255 * Nh\<close> bytes, and never
  panics.
\<close>

theorem nist_export_agreement:
  assumes "D \<in> registered_nist L H" and "ec_lib_ok L (d_PRIVATE_KEY_LEN D)"
    and "hkdf_lib_ok H (f_HASH_LEN (d_Kdf D))"
    and "F \<in> registered_kdfs G" and "hkdf_lib_ok G (f_HASH_LEN F)"
    and "A \<in> registered_aeads C" and "aead_lib_ok C (a_KEY_LEN A) p_max"
    and "DhKem_generate D r0 = (Ok (sk_r, pk_r), r1) \<or> DhKem_derive_key_pair D ikm = Ok (sk_r, pk_r)"
    and "DhKem_generate D r2 = (Ok (sk_s, pk_s), r3) \<or> DhKem_derive_key_pair D ikm' = Ok (sk_s, pk_s)"
  shows "export_ok (DhKem_encap D r pk_r) (f_HASH_LEN F) n
        (send_export_base (DhKem D) F A r pk_r info ectx n)
        (\<lambda>enc. receiver_export_base (DhKem D) F A enc sk_r info ectx n)
     \<and> export_ok (DhKem_encap D r pk_r) (f_HASH_LEN F) n
        (send_export_psk (DhKem D) F A r pk_r info psk ectx n)
        (\<lambda>enc. receiver_export_psk (DhKem D) F A enc sk_r info psk ectx n)
     \<and> export_ok (DhKem_auth_encap D r pk_r sk_s) (f_HASH_LEN F) n
        (send_export_auth (DhKem D) F A r pk_r info sk_s ectx n)
        (\<lambda>enc. receiver_export_auth (DhKem D) F A enc sk_r info pk_s ectx n)
     \<and> export_ok (DhKem_auth_encap D r pk_r sk_s) (f_HASH_LEN F) n
        (send_export_auth_psk (DhKem D) F A r pk_r info psk sk_s ectx n)
        (\<lambda>enc. receiver_export_auth_psk (DhKem D) F A enc sk_r info psk pk_s ectx n)"
proof -
  note contract = registered_nist_contract [OF assms(1-3)]
  note asuite = hpke_auth_sealing_suite.axioms(1) [OF dhkem_suite [OF contract assms(4-7)]]
  note suite = hpke_auth_suite.axioms(1) [OF asuite]
  note pr = dhkem_made_pair [OF contract assms(8)] and ps = dhkem_made_pair [OF contract assms(9)]
  show ?thesis
    using hpke_suite.export_base [OF suite TrueI pr] hpke_suite.export_psk [OF suite TrueI pr]
      hpke_auth_suite.export_auth [OF asuite TrueI pr ps]
      hpke_auth_suite.export_auth_psk [OF asuite TrueI pr ps]
    unfolding DhKem_simps by blast
qed

theorem nist_export_agreement_witness:
  "\<exists>enc out. fst (send_export_base (DhKem demo_p256) demo_kdf demo_aead 1 (demo_p256_pk 1) [8] [9] 100)
       = Ok (enc, out)
     \<and> receiver_export_base (DhKem demo_p256) demo_kdf demo_aead enc (demo_p256_sk 1) [8] [9] 100 = Ok out
     \<and> length out = 100"
proof -
  have g: "DhKem_generate demo_p256 0 = (Ok (demo_p256_sk 1, demo_p256_pk 1), Suc 0)"
    using demo_p256_generate [of 0] by simp
  have "(100 :: nat) \<le> 255 * f_HASH_LEN demo_kdf" by (simp add: demo_kdf_def const_simps)
  from export_okD [OF conjunct1 [OF nist_export_agreement [OF demo_p256_suite disjI1 [OF g]
      disjI1 [OF g]]] demo_p256_encap this]
  show ?thesis .
qed

text \<open>
  A channel set up over X25519 carries a stream. After \<open>setup_sender_base\<close> returns an
  encapsulated key and a context, any list of fewer than 2 to the power 64 messages within the
  limit of the cipher seals to ciphertexts; \<open>setup_receiver_base\<close> on the encapsulated key
  succeeds, and the context it returns opens the ciphertexts to the messages, in order.
\<close>

theorem x25519_channel_stream:
  assumes "x25519_lib_ok L" and "hkdf_lib_ok H 32" and "rng_ok R"
    and "F \<in> registered_kdfs G" and "hkdf_lib_ok G (f_HASH_LEN F)"
    and "A \<in> registered_aeads C" and "aead_lib_ok C (a_KEY_LEN A) p_max"
    and "DhKem_generate (X25519 L H R) r0 = (Ok (sk, pk), r1)"
    and "setup_sender_base (DhKem (X25519 L H R)) F A r pk info = (Ok (enc, tx), r')"
    and "\<forall>m \<in> set ms. length (fst m) \<le> p_max \<and> length (snd m) \<le> p_max"
    and "length ms < 2 ^ 64"
  shows "\<exists>cts rx tx' rx'. seal_run A tx ms = (map Ok cts, tx')
     \<and> setup_receiver_base (DhKem (X25519 L H R)) F A enc sk info = Ok rx
     \<and> open_run A rx (zip (map fst ms) cts) = (map (Ok \<circ> snd) ms, rx')"
proof -
  note contract = x25519_contract_True [OF assms(1-3)]
  note suite = hpke_auth_sealing_suite.axioms(2) [OF dhkem_suite [OF contract assms(4-7)]]
  note pair = dhkem_made_pair [OF contract disjI1 [OF assms(8)]]
  have "length aad \<le> p_max \<and> length pt \<le> p_max" if "(aad, pt) \<in> set ms" for aad pt
    using bspec [OF assms(10) that] by simp
  from hpke_sealing_suite.stream_base [OF suite TrueI pair assms(9) this assms(11)]
  show ?thesis by blast
qed

definition demo_x25519_bytes :: bytes where
  "demo_x25519_bytes = (replicate 32 0)[31 := 0x40]"

lemma demo_x25519_generate:
  "DhKem_generate demo_x25519 0 =
     (Ok (\<lparr> dh_sk = X25519PrivateKeyWrap demo_x25519_bytes, pk_bytes = demo_x25519_bytes \<rparr>,
          DhPublicKey (X25519PublicKeyWrap demo_x25519_bytes)), 1)"
  by code_simp

lemma demo_x25519_dh:
  "is_ok (d_dh demo_x25519 (fst (fst (d_generate demo_x25519 1))) (X25519PublicKeyWrap demo_x25519_bytes))"
  by code_simp

theorem x25519_channel_stream_witness:
  "\<exists>enc tx r'. setup_sender_base (DhKem demo_x25519) demo_kdf demo_aead 1
        (DhPublicKey (X25519PublicKeyWrap demo_x25519_bytes)) [8] = (Ok (enc, tx), r')
     \<and> (\<exists>cts rx tx' rx'. seal_run demo_aead tx [([1], [7, 8]), ([], [9])] = (map Ok cts, tx')
        \<and> setup_receiver_base (DhKem demo_x25519) demo_kdf demo_aead enc
            \<lparr> dh_sk = X25519PrivateKeyWrap demo_x25519_bytes, pk_bytes = demo_x25519_bytes \<rparr> [8] = Ok rx
        \<and> open_run demo_aead rx (zip [[1], []] cts) = ([Ok [7, 8], Ok [9]], rx'))"
proof -
  let ?pk = "DhPublicKey (X25519PublicKeyWrap demo_x25519_bytes)"
  note contract = x25519_contract_True [OF toy_x25519_ok toy_hkdf_ok toy_rng_ok]
  note ks = key_schedule_registered [OF demo_kdf_registered demo_kdf_lib demo_registered demo_limit]
  have encap: "is_ok (fst (k_encap (DhKem demo_x25519) 1 ?pk))"
    using demo_x25519_dh
    by (simp add: demo_x25519_def dh_contract.encap_ok_iff [OF contract TrueI])
  have total: "\<exists>ctx. key_schedule_psk_free BaseModeTag (DhKem demo_x25519) demo_kdf demo_aead s [8] = Ok ctx
      \<and> True" for s
    using key_schedule_suite.key_schedule_psk_free_total [OF ks TrueI] by blast
  have np: "fst (k_encap (DhKem demo_x25519) 1 ?pk) \<noteq> Panic" using encap by auto
  obtain enc tx r' where su: "setup_sender_base (DhKem demo_x25519) demo_kdf demo_aead 1 ?pk [8]
      = (Ok (enc, tx), r')"
    unfolding setup_base_eq
    by (rule sender_setup_cases [OF total np, where K = "DhKem demo_x25519"]) (use encap in auto)
  from x25519_channel_stream [OF toy_x25519_ok toy_hkdf_ok toy_rng_ok demo_kdf_registered demo_kdf_lib
      demo_registered demo_limit demo_x25519_generate [unfolded demo_x25519_def]
      su [unfolded demo_x25519_def], of "[([1], [7, 8]), ([], [9])]"] su
  show ?thesis unfolding demo_x25519_def by simp
qed

end
